(* ===== verification/Prelude.thy ===== *)
theory Prelude
  imports Complex_Main "HOL-Library.Multiset"
begin

text \<open>
  Shared vocabulary of the development.

  Every string of the console is an Isabelle \<^typ>\<open>string\<close> holding the UTF-8 bytes of the
  JavaScript string: this is what the console sends over the wire, ASCII literals read as they
  do in the source, and the ASCII delimiters the code searches for (slash, dot, ...) never
  occur inside a multi-byte character.  Chinese literals are written as \<open>zh [...]\<close>, the UTF-8
  encoding of a list of code points.  JavaScript numbers are \<^typ>\<open>int\<close> where the code keeps
  integers (all of them far below \<open>2 ^ 53\<close>) and \<^typ>\<open>rat\<close> where it divides; an optional field
  (\<open>undefined\<close>) is an \<^typ>\<open>'a option\<close>.

  The theory holds the string and number functions of the JavaScript library that the source
  uses, the comparator sort, the generic transition system with its invariant rule, and the
  collections \<open>js_eval\<close> (definitions to evaluate on concrete inputs), \<open>view_simps\<close> (rendering
  functions) and \<open>step_defs\<close> (handlers of the state machines).
\<close>

named_theorems js_eval
named_theorems view_simps
named_theorems step_defs

section \<open>Strings\<close>

definition js_startsWith :: "string \<Rightarrow> string \<Rightarrow> bool" where
  "js_startsWith s p \<longleftrightarrow> take (length p) s = p"

definition js_endsWith :: "string \<Rightarrow> string \<Rightarrow> bool" where
  "js_endsWith s p \<longleftrightarrow> length p \<le> length s \<and> drop (length s - length p) s = p"

fun js_includes :: "string \<Rightarrow> string \<Rightarrow> bool" where
  "js_includes [] p = (p = [])"
| "js_includes (c # s) p = (js_startsWith (c # s) p \<or> js_includes s p)"

text \<open>\<open>s.split(c)\<close> for a one-character separator: never an empty list.\<close>

fun js_split :: "char \<Rightarrow> string \<Rightarrow> string list" where
  "js_split c [] = [[]]"
| "js_split c (x # s) =
     (if x = c then [] # js_split c s
      else case js_split c s of [] \<Rightarrow> [[x]] | p # ps \<Rightarrow> (x # p) # ps)"

fun js_join :: "string \<Rightarrow> string list \<Rightarrow> string" where
  "js_join sep [] = []"
| "js_join sep [p] = p"
| "js_join sep (p # q # ps) = p @ sep @ js_join sep (q # ps)"

text \<open>\<open>s.slice(s.lastIndexOf(c) + 1)\<close> and \<open>s.slice(0, s.lastIndexOf(c))\<close>; without an
  occurrence the index is -1, so the first is all of \<open>s\<close> and the second drops the last
  character.\<close>

fun js_lastIndexOf :: "string \<Rightarrow> char \<Rightarrow> int" where
  "js_lastIndexOf [] c = -1"
| "js_lastIndexOf (x # s) c =
     (let i = js_lastIndexOf s c in if i \<ge> 0 then i + 1 else if x = c then 0 else -1)"

text \<open>\<open>s.slice(a, b)\<close> with JavaScript's rule for negative bounds.\<close>

definition js_bound :: "int \<Rightarrow> 'a list \<Rightarrow> nat" where
  "js_bound i s = (if i < 0 then nat (int (length s) + i) else min (nat i) (length s))"

definition js_slice :: "'a list \<Rightarrow> int \<Rightarrow> int \<Rightarrow> 'a list" where
  "js_slice s a b = drop (js_bound a s) (take (js_bound b s) s)"

definition js_slice_from :: "'a list \<Rightarrow> int \<Rightarrow> 'a list" where
  "js_slice_from s a = drop (js_bound a s) s"

definition char_lower :: "char \<Rightarrow> char" where
  "char_lower c = (if 65 \<le> (of_char c :: nat) \<and> (of_char c :: nat) \<le> 90
                   then char_of ((of_char c :: nat) + 32) else c)"

definition js_toLowerCase :: "string \<Rightarrow> string" where
  "js_toLowerCase s = map char_lower s"

text \<open>Strings are UTF-8, and the white space here is that of ASCII; JavaScript's other white space (U+00A0,
  U+FEFF and the separators of Unicode) takes several bytes and is not stripped.\<close>

definition js_space :: "char \<Rightarrow> bool" where
  "js_space c \<longleftrightarrow> (of_char c :: nat) = 32 \<or> (9 \<le> (of_char c :: nat) \<and> (of_char c :: nat) \<le> 13)"

definition js_trim :: "string \<Rightarrow> string" where
  "js_trim s = rev (dropWhile js_space (rev (dropWhile js_space s)))"

text \<open>\<open>s.split(/\s+/)\<close>.\<close>

fun js_words_aux :: "bool \<Rightarrow> string \<Rightarrow> string list" where
  "js_words_aux insp [] = [[]]"
| "js_words_aux insp (x # s) =
     (if js_space x then (if insp then js_words_aux True s else [] # js_words_aux True s)
      else case js_words_aux False s of [] \<Rightarrow> [[x]] | p # ps \<Rightarrow> (x # p) # ps)"

definition js_words :: "string \<Rightarrow> string list" where
  "js_words s = js_words_aux False s"

section \<open>Numbers\<close>

fun nat_digits :: "nat \<Rightarrow> string" where
  "nat_digits n = (if n < 10 then [char_of (48 + n)]
                   else nat_digits (n div 10) @ [char_of (48 + n mod 10)])"

declare nat_digits.simps [simp del]

definition js_num :: "int \<Rightarrow> string" where
  "js_num i = (if i < 0 then CHR ''-'' # nat_digits (nat (- i)) else nat_digits (nat i))"

text \<open>\<open>Number(s)\<close> on the digit strings the console's numeric inputs produce; the empty string
  is 0, anything else is \<open>NaN\<close> (here \<open>None\<close>).\<close>

definition is_digit :: "char \<Rightarrow> bool" where
  "is_digit c \<longleftrightarrow> 48 \<le> (of_char c :: nat) \<and> (of_char c :: nat) \<le> 57"

definition digits_val :: "string \<Rightarrow> int" where
  "digits_val s = foldl (\<lambda>n c. 10 * n + (int (of_char c) - 48)) 0 s"

definition js_Number :: "string \<Rightarrow> int option" where
  "js_Number s = (if list_all is_digit s then Some (digits_val s) else None)"

definition pad_left :: "nat \<Rightarrow> string \<Rightarrow> string" where
  "pad_left n s = replicate (n - length s) (CHR ''0'') @ s"

text \<open>\<open>x.toFixed(d)\<close>: the integer closest to \<open>x * 10 ^ d\<close>, the larger one on a tie, for a
  non-negative \<open>x\<close>; a negative one is the minus sign and the result for its opposite.\<close>

definition toFixed_nat :: "rat \<Rightarrow> nat \<Rightarrow> string" where
  "toFixed_nat x d =
     (let n = nat \<lfloor>x * 10 ^ d + 1 / 2\<rfloor>
      in if d = 0 then nat_digits n
         else nat_digits (n div 10 ^ d) @ ''.'' @ pad_left d (nat_digits (n mod 10 ^ d)))"

definition toFixed :: "rat \<Rightarrow> nat \<Rightarrow> string" where
  "toFixed x d = (if x < 0 then CHR ''-'' # toFixed_nat (- x) d else toFixed_nat x d)"

text \<open>\<open>Math.round\<close>: halves go up.\<close>

definition js_round :: "rat \<Rightarrow> int" where
  "js_round x = \<lfloor>x + 1 / 2\<rfloor>"

section \<open>UTF-8 literals\<close>

definition utf8_char :: "nat \<Rightarrow> string" where
  "utf8_char n =
     (if n < 128 then [char_of n]
      else if n < 2048 then [char_of (192 + n div 64), char_of (128 + n mod 64)]
      else if n < 65536 then
        [char_of (224 + n div 4096), char_of (128 + n div 64 mod 64), char_of (128 + n mod 64)]
      else [char_of (240 + n div 262144), char_of (128 + n div 4096 mod 64),
            char_of (128 + n div 64 mod 64), char_of (128 + n mod 64)])"

definition zh :: "nat list \<Rightarrow> string" where
  "zh ns = concat (map utf8_char ns)"

section \<open>Dates\<close>

text \<open>\<open>new Date(iso).getTime()\<close> on the RFC 3339 time stamps the Go server writes:
  milliseconds since the epoch, \<open>None\<close> for a string that does not parse (\<open>NaN\<close>).\<close>

definition days_from_civil :: "int \<Rightarrow> int \<Rightarrow> int \<Rightarrow> int" where
  "days_from_civil y m d =
     (let y' = (if m \<le> 2 then y - 1 else y);
          era = y' div 400; yoe = y' - era * 400;
          doy = (153 * (m + (if m > 2 then -3 else 9)) + 2) div 5 + d - 1;
          doe = yoe * 365 + yoe div 4 - yoe div 100 + doy
      in era * 146097 + doe - 719468)"

definition digits_opt :: "nat \<Rightarrow> string \<Rightarrow> int option" where
  "digits_opt n s = (if length s = n \<and> list_all is_digit s then Some (digits_val s) else None)"

definition date_zone :: "string \<Rightarrow> int option" where
  "date_zone s =
     (if s = ''Z'' then Some 0
      else case s of
        c # rest \<Rightarrow>
          (if (c = CHR ''+'' \<or> c = CHR ''-'') \<and> length rest = 5 \<and> rest ! 2 = CHR '':''
           then case (digits_opt 2 (take 2 rest), digits_opt 2 (drop 3 rest)) of
                  (Some h, Some m) \<Rightarrow>
                    Some ((if c = CHR ''-'' then -1 else 1) * (h * 60 + m) * 60000)
                | _ \<Rightarrow> None
           else None)
      | [] \<Rightarrow> None)"

definition date_fraction :: "string \<Rightarrow> (int \<times> string) option" where
  "date_fraction s =
     (case s of
        c # rest \<Rightarrow>
          (if c = CHR ''.'' then
             (let ds = takeWhile is_digit rest
              in if ds = [] then None
                 else Some (digits_val (take 3 (ds @ ''00'')), dropWhile is_digit rest))
           else Some (0, s))
      | [] \<Rightarrow> Some (0, []))"

definition date_ms :: "string \<Rightarrow> int option" where
  "date_ms s =
     (if length s < 19 \<or> s ! 4 \<noteq> CHR ''-'' \<or> s ! 7 \<noteq> CHR ''-'' \<or> s ! 10 \<noteq> CHR ''T''
         \<or> s ! 13 \<noteq> CHR '':'' \<or> s ! 16 \<noteq> CHR '':'' then None
      else case (digits_opt 4 (take 4 s), digits_opt 2 (take 2 (drop 5 s)),
                 digits_opt 2 (take 2 (drop 8 s)), digits_opt 2 (take 2 (drop 11 s)),
                 digits_opt 2 (take 2 (drop 14 s)), digits_opt 2 (take 2 (drop 17 s)),
                 date_fraction (drop 19 s)) of
        (Some y, Some mo, Some d, Some h, Some mi, Some sec, Some (ms, rest)) \<Rightarrow>
          (case date_zone rest of
             Some off \<Rightarrow>
               if 1 \<le> mo \<and> mo \<le> 12 \<and> 1 \<le> d \<and> d \<le> 31 \<and> h \<le> 23 \<and> mi \<le> 59 \<and> sec \<le> 59
               then Some (days_from_civil y mo d * 86400000 + h * 3600000 + mi * 60000
                          + sec * 1000 + ms - off)
               else None
           | None \<Rightarrow> None)
      | _ \<Rightarrow> None)"

section \<open>Comparator sort\<close>

text \<open>\<open>Array.prototype.sort\<close> is stable; on a consistent comparator its result is determined.
  Insertion from the right keeps equal elements in their order.\<close>

fun js_insert :: "('a \<Rightarrow> 'a \<Rightarrow> rat) \<Rightarrow> 'a \<Rightarrow> 'a list \<Rightarrow> 'a list" where
  "js_insert cmp x [] = [x]"
| "js_insert cmp x (y # ys) = (if cmp x y \<le> 0 then x # y # ys else y # js_insert cmp x ys)"

definition js_sort :: "('a \<Rightarrow> 'a \<Rightarrow> rat) \<Rightarrow> 'a list \<Rightarrow> 'a list" where
  "js_sort cmp xs = foldr (js_insert cmp) xs []"

section \<open>Transition systems\<close>

text \<open>The states a component can reach from its initial ones by its steps.\<close>

inductive reach :: "('s \<Rightarrow> bool) \<Rightarrow> ('s \<Rightarrow> 'e \<Rightarrow> 's \<Rightarrow> bool) \<Rightarrow> 's \<Rightarrow> bool"
  for init :: "'s \<Rightarrow> bool" and step :: "'s \<Rightarrow> 'e \<Rightarrow> 's \<Rightarrow> bool" where
  reach_init: "init s \<Longrightarrow> reach init step s"
| reach_step: "reach init step s \<Longrightarrow> step s e t \<Longrightarrow> reach init step t"

text \<open>The contract a stateful component offers its clients: an invariant that holds initially
  and that every step keeps.  Interpreted once per component on the component's own steps.\<close>

locale transition_system =
  fixes init :: "'s \<Rightarrow> bool"
    and step :: "'s \<Rightarrow> 'e \<Rightarrow> 's \<Rightarrow> bool"
    and inv :: "'s \<Rightarrow> bool"
  assumes inv_init: "init s \<Longrightarrow> inv s"
    and inv_step: "inv s \<Longrightarrow> step s e t \<Longrightarrow> inv t"
begin

lemma reach_inv: "reach init step s \<Longrightarrow> inv s"
  by (induction rule: reach.induct) (auto intro: inv_init inv_step)

lemma reach_step_inv:
  assumes "reach init step s" and "step s e t"
  shows "inv s \<and> inv t"
  using assms reach_inv inv_step by blast

end

text \<open>A deterministic machine (handlers as functions) is the special case whose step is the
  graph of the handler.\<close>

definition run_step :: "('s \<Rightarrow> 'e \<Rightarrow> 's) \<Rightarrow> 's \<Rightarrow> 'e \<Rightarrow> 's \<Rightarrow> bool" where
  "run_step f s e t \<longleftrightarrow> t = f s e"

locale deterministic_machine =
  fixes start :: 's
    and handle :: "'s \<Rightarrow> 'e \<Rightarrow> 's"
    and minv :: "'s \<Rightarrow> bool"
  assumes minv_start: "minv start"
    and minv_handle: "minv s \<Longrightarrow> minv (handle s e)"
begin

sublocale transition_system "\<lambda>s. s = start" "run_step handle" minv
  by unfold_locales (auto simp: run_step_def minv_start minv_handle)

lemma run_inv: "minv (foldl handle start es)"
  by (induction es rule: rev_induct) (auto simp: minv_start minv_handle)

lemma run_reach: "reach (\<lambda>s. s = start) (run_step handle) (foldl handle start es)"
proof (induction es rule: rev_induct)
  case Nil
  then show ?case by (simp add: reach_init)
next
  case (snoc e es)
  then show ?case by (auto intro: reach_step simp: run_step_def)
qed

end

section \<open>Facts about the library functions\<close>

lemma js_startsWith_append [simp]: "js_startsWith (p @ s) p"
  by (simp add: js_startsWith_def)

lemma js_startsWith_iff: "js_startsWith s p \<longleftrightarrow> (\<exists>r. s = p @ r)"
  unfolding js_startsWith_def
  by (metis append_eq_conv_conj append_take_drop_id)

lemma js_startsWith_Nil [simp]: "js_startsWith s []"
  by (simp add: js_startsWith_def)

lemma js_startsWith_Cons [simp]:
  "js_startsWith s (c # p) \<longleftrightarrow> (case s of [] \<Rightarrow> False | x # r \<Rightarrow> x = c \<and> js_startsWith r p)"
  by (auto simp: js_startsWith_def split: list.splits)

lemma js_endsWith_iff: "js_endsWith s p \<longleftrightarrow> (\<exists>r. s = r @ p)"
proof
  assume "js_endsWith s p"
  then have "s = take (length s - length p) s @ p"
    unfolding js_endsWith_def by (metis append_take_drop_id)
  then show "\<exists>r. s = r @ p" ..
qed (auto simp: js_endsWith_def)

lemma js_split_nonempty [simp]: "js_split c s \<noteq> []"
  by (induction s) (auto split: list.splits)

lemma js_split_no_sep: "\<forall>p \<in> set (js_split c s). c \<notin> set p"
  by (induction s) (auto split: list.splits)

lemma js_split_plain: "c \<notin> set s \<Longrightarrow> js_split c s = [s]"
  by (induction s) auto

lemma js_split_append_sep: "js_split c (a @ c # b) = js_split c a @ js_split c b"
  by (induction a) (auto split: list.splits)

lemma js_join_split: "js_join [c] (js_split c s) = s"
proof (induction s)
  case (Cons x s)
  then show ?case by (cases "js_split c s" rule: list.exhaust; cases "tl (js_split c s)")
      (auto simp: neq_Nil_conv)
qed simp

lemma js_split_join:
  "ps \<noteq> [] \<Longrightarrow> \<forall>p \<in> set ps. c \<notin> set p \<Longrightarrow> js_split c (js_join [c] ps) = ps"
proof (induction ps rule: induct_list012)
  case (3 p q ps)
  then show ?case by (simp add: js_split_append_sep js_split_plain)
qed (auto simp: js_split_plain)

lemma js_lastIndexOf_bounds: "-1 \<le> js_lastIndexOf s c \<and> js_lastIndexOf s c < int (length s)"
  by (induction s) (auto simp: Let_def)

lemma js_lastIndexOf_none: "c \<notin> set s \<Longrightarrow> js_lastIndexOf s c = -1"
  by (induction s) (auto simp: Let_def)

lemma js_lastIndexOf_last: "c \<notin> set b \<Longrightarrow> js_lastIndexOf (a @ c # b) c = int (length a)"
  by (induction a) (auto simp: Let_def js_lastIndexOf_none)

lemma js_slice_from_last: "c \<notin> set b \<Longrightarrow>
  js_slice_from (a @ c # b) (js_lastIndexOf (a @ c # b) c + 1) = b"
  by (simp add: js_lastIndexOf_last js_slice_from_def js_bound_def nat_add_distrib)

lemma js_slice_to_last: "c \<notin> set b \<Longrightarrow>
  js_slice (a @ c # b) 0 (js_lastIndexOf (a @ c # b) c) = a"
  by (simp add: js_lastIndexOf_last js_slice_def js_bound_def)

lemma js_slice_take: "0 \<le> n \<Longrightarrow> js_slice s 0 n = take (nat n) s"
  by (simp add: js_slice_def js_bound_def min_def)

lemma js_slice_length_le: "0 \<le> n \<Longrightarrow> length (js_slice s 0 n) \<le> nat n"
  by (simp add: js_slice_take)

lemma nat_digits_nonempty [simp]: "nat_digits n \<noteq> []"
  by (subst nat_digits.simps) simp

lemma digits_val_snoc: "digits_val (s @ [c]) = 10 * digits_val s + (int (of_char c) - 48)"
  by (simp add: digits_val_def)

lemma of_char_digit [simp]: "d < 10 \<Longrightarrow> of_char (char_of (48 + d) :: char) = (48 + d :: nat)"
  by simp

lemma nat_digits_val: "digits_val (nat_digits n) = int n"
proof (induction n rule: nat_digits.induct)
  case (1 n)
  show ?case
  proof (cases "n < 10")
    case True
    then show ?thesis by (simp add: nat_digits.simps [of n] digits_val_def)
  next
    case False
    with 1 show ?thesis
      by (simp add: nat_digits.simps [of n] digits_val_snoc zdiv_int zmod_int
               del: of_char_of)
  qed
qed

lemma nat_digits_digits: "list_all is_digit (nat_digits n)"
proof (induction n rule: nat_digits.induct)
  case (1 n)
  then show ?case
    by (cases "n < 10") (simp_all add: nat_digits.simps [of n] is_digit_def del: of_char_of)
qed

text \<open>\<open>Number(String(n))\<close> is \<open>n\<close> for a non-negative integer.\<close>

lemma js_Number_num: "0 \<le> i \<Longrightarrow> js_Number (js_num i) = Some i"
  by (simp add: js_Number_def js_num_def nat_digits_digits nat_digits_val)

text \<open>Evaluation of the number formatters on numerals.\<close>

lemma digit_chars [js_eval]:
  "char_of (48 :: nat) = CHR ''0''" "char_of (49 :: nat) = CHR ''1''"
  "char_of (50 :: nat) = CHR ''2''" "char_of (51 :: nat) = CHR ''3''"
  "char_of (52 :: nat) = CHR ''4''" "char_of (53 :: nat) = CHR ''5''"
  "char_of (54 :: nat) = CHR ''6''" "char_of (55 :: nat) = CHR ''7''"
  "char_of (56 :: nat) = CHR ''8''" "char_of (57 :: nat) = CHR ''9''"
  by code_simp+

lemma floor_numeral_div [js_eval]:
  "\<lfloor>numeral a / numeral b :: rat\<rfloor> = numeral a div numeral b"
  "\<lfloor>1 / numeral b :: rat\<rfloor> = 1 div numeral b"
  by (metis floor_divide_of_int_eq of_int_numeral, metis floor_divide_of_int_eq of_int_1 of_int_numeral)

declare Let_def [js_eval] toFixed_def [js_eval] toFixed_nat_def [js_eval] pad_left_def [js_eval]
  js_num_def [js_eval]

lemma nat_digits_numeral [js_eval]:
  "nat_digits 0 = ''0''" "nat_digits (Suc 0) = ''1''"
  "nat_digits (numeral k) =
     (if numeral k < (10 :: nat) then [char_of (48 + numeral k :: nat)]
      else nat_digits (numeral k div 10) @ [char_of (48 + numeral k mod 10 :: nat)])"
  by (simp_all add: nat_digits.simps [of 0] nat_digits.simps [of "Suc 0"]
      nat_digits.simps [of "numeral k"] digit_chars)

lemma js_insert_mset [simp]: "mset (js_insert cmp x xs) = add_mset x (mset xs)"
  by (induction xs) auto

lemma js_sort_mset [simp]: "mset (js_sort cmp xs) = mset xs"
  by (induction xs) (auto simp: js_sort_def)

lemma js_sort_set [simp]: "set (js_sort cmp xs) = set xs"
  by (metis js_sort_mset set_mset_mset)

lemma js_sort_length [simp]: "length (js_sort cmp xs) = length xs"
  by (metis js_sort_mset size_mset)

text \<open>With the comparator \<open>key a - key b\<close> the sort is the library's stable key sort.\<close>

lemma js_insert_key: "js_insert (\<lambda>a b. key a - key b) x xs = insort_key key x xs"
  by (induction xs) auto

lemma js_sort_key: "js_sort (\<lambda>a b. key a - key b) xs = sort_key key xs"
  by (induction xs) (simp_all add: js_sort_def js_insert_key)

end
