(* ===== verification/Types.thy ===== *)
theory Types
  imports Prelude
begin

text \<open>
  The wire types of the console (\<open>web/src/api/types.ts\<close>): one datatype per string union, one
  record per interface, in the order of the source.  A required field has its type, a field
  marked \<open>?\<close> is an option.  Time stamps stay strings (RFC 3339) and are read by \<open>date_ms\<close>.
  Field names carry a prefix per interface, because record selectors are global.
\<close>

datatype SandboxState =
    PENDING | STARTING | RUNNING | PAUSING | PAUSED_HOT | PAUSED_WARM | ARCHIVED_COLD
  | RESUMING | STOPPING | STOPPED | RECYCLED | FAILED

text \<open>The text of a state on the wire: the source tests it with \<open>startsWith\<close> and regular
  expressions.\<close>

fun state_text :: "SandboxState \<Rightarrow> string" where
  "state_text PENDING = ''PENDING''"
| "state_text STARTING = ''STARTING''"
| "state_text RUNNING = ''RUNNING''"
| "state_text PAUSING = ''PAUSING''"
| "state_text PAUSED_HOT = ''PAUSED_HOT''"
| "state_text PAUSED_WARM = ''PAUSED_WARM''"
| "state_text ARCHIVED_COLD = ''ARCHIVED_COLD''"
| "state_text RESUMING = ''RESUMING''"
| "state_text STOPPING = ''STOPPING''"
| "state_text STOPPED = ''STOPPED''"
| "state_text RECYCLED = ''RECYCLED''"
| "state_text FAILED = ''FAILED''"

definition all_states :: "SandboxState list" where
  "all_states = [PENDING, STARTING, RUNNING, PAUSING, PAUSED_HOT, PAUSED_WARM, ARCHIVED_COLD,
     RESUMING, STOPPING, STOPPED, RECYCLED, FAILED]"

record Sandbox =
  sb_id :: string
  sb_template_id :: string
  sb_state :: SandboxState
  sb_vcpus :: int
  sb_memory_mib :: int
  sb_data_disk_gib :: int
  sb_netns :: "string option"
  sb_owner :: "string option"
  sb_error :: "string option"
  sb_created_at :: string
  sb_updated_at :: string
  sb_paused_at :: "string option"
  sb_node_id :: "string option"
  sb_parent_id :: "string option"
  sb_forked_from :: "string option"
  sb_max_memory_mib :: "int option"
  sb_max_vcpus :: "int option"
  sb_base_memory_mib :: "int option"
  sb_base_vcpus :: "int option"
  sb_autoscale :: "bool option"

datatype Egress = Nat | NoEgress

record CreateSandboxRequest =
  cr_template_id :: string
  cr_vcpus :: "int option"
  cr_memory_mib :: "int option"
  cr_data_disk_gib :: "int option"
  cr_max_memory_mib :: "int option"
  cr_max_vcpus :: "int option"
  cr_autoscale :: "bool option"
  cr_egress :: "Egress option"

datatype TemplateState = BUILDING | READY | ERROR

record Template =
  tpl_id :: string
  tpl_name :: string
  tpl_image :: string
  tpl_state :: TemplateState
  tpl_error :: "string option"
  tpl_created_at :: string
  tpl_ready_at :: "string option"

datatype NodeState = Up | Down

record NodeView =
  nd_id :: string
  nd_addr :: "string option"
  nd_state :: NodeState
  nd_capacity_mib :: int
  nd_cpu_cores :: "int option"
  nd_last_seen :: string
  nd_used_mib :: int
  nd_used_vcpus :: int
  nd_active_sandboxes :: int
  nd_base_mib :: "int option"
  nd_base_vcpus :: "int option"
  nd_ceiling_mib :: "int option"
  nd_ceiling_vcpus :: "int option"
  nd_mem_budget_mib :: "int option"
  nd_vcpu_budget :: "int option"

text \<open>\<open>sandbox_events.detail\<close> is an open JSON object; the console reads it through
  \<open>ResourceEventDetail\<close> or looks for an \<open>error\<close> string.  The kind is what the runtime check
  \<open>typeof d.kind !== "string"\<close> sees: absent, of another type, or a string.\<close>

datatype detail_kind = NoKind | NonStringKind | Kind string

record ResourceEventDetail =
  rd_kind :: detail_kind
  rd_actor :: "string option"
  rd_reason :: "string option"
  rd_memory_mib :: "(int \<times> int) option"
  rd_vcpus :: "(int \<times> int) option"
  rd_from_node :: "string option"
  rd_to_node :: "string option"
  rd_psi_mem :: "rat option"
  rd_avail_pct :: "rat option"
  rd_enabled :: "bool option"
  rd_error :: "string option"

record Checkpoint =
  cp_tag :: string
  cp_layer :: string
  cp_seq :: int
  cp_created_at :: string

record ExecResponse =
  ex_exit_code :: int
  ex_stdout :: "string option"
  ex_stderr :: "string option"
  ex_timed_out :: "bool option"
  ex_truncated :: "bool option"
  ex_duration_ms :: int
  ex_checkpoint :: "string option"

datatype Tier = TierHot | TierWarm | TierCold | TierRecycled | TierNone

record StorageReport =
  sr_sandbox_id :: string
  sr_state :: string
  sr_tier :: Tier
  sr_logical_bytes :: int
  sr_stored_bytes :: int
  sr_chunk_count :: int
  sr_stored_ratio :: rat
  sr_artifact_bytes :: "int option"
  sr_layers :: int

record StorageReportAll =
  sa_sandboxes :: "StorageReport list"
  sa_total_logical_bytes :: int
  sa_total_stored_bytes :: int
  sa_total_artifact_bytes :: int
  sa_total_chunks :: int

record SandboxHealth =
  h_state :: SandboxState
  h_ok :: bool
  h_seq :: "int option"
  h_pid :: "int option"
  h_version :: "string option"
  h_resumes :: "int option"
  h_mem_total_kib :: "int option"
  h_mem_available_kib :: "int option"
  h_psi_mem_some10 :: "rat option"
  h_psi_cpu_some10 :: "rat option"

record DirEntry =
  de_name :: string
  de_size :: int
  de_mode :: string
  de_mtime :: string
  de_is_dir :: bool
  de_symlink :: "string option"

record ListDirResponse =
  ld_path :: string
  ld_entries :: "DirEntry list option"
  ld_truncated :: "bool option"

record SandboxEvent =
  ev_id :: int
  ev_sandbox_id :: string
  ev_from_state :: "SandboxState option"
  ev_to_state :: SandboxState
  ev_at :: string
  ev_detail :: "ResourceEventDetail option"

record SandboxEvents =
  evs_events :: "SandboxEvent list option"
  evs_next_before :: "int option"

definition TERM_SUBPROTOCOL :: string where
  "TERM_SUBPROTOCOL = ''embervm-term.v1''"

text \<open>A text frame of the terminal protocol: a \<open>TermControl\<close> object, or text that is not one.\<close>

datatype TermControl = CtlResize "int option" "int option" | CtlExit "int option" | CtlOther

section \<open>Nullish and truthy reads\<close>

text \<open>\<open>a ?? d\<close> on an optional field, and \<open>a || d\<close> on an optional number or string: the
  second also replaces 0 and the empty string.\<close>

definition nullish :: "'a option \<Rightarrow> 'a \<Rightarrow> 'a" where
  "nullish a d = (case a of None \<Rightarrow> d | Some v \<Rightarrow> v)"

definition or_num :: "int option \<Rightarrow> int \<Rightarrow> int" where
  "or_num a d = (case a of None \<Rightarrow> d | Some v \<Rightarrow> if v = 0 then d else v)"

definition or_str :: "string option \<Rightarrow> string \<Rightarrow> string" where
  "or_str a d = (case a of None \<Rightarrow> d | Some v \<Rightarrow> if v = [] then d else v)"

definition truthy_bool :: "bool option \<Rightarrow> bool" where
  "truthy_bool b \<longleftrightarrow> b = Some True"

definition truthy_num :: "int option \<Rightarrow> bool" where
  "truthy_num n = (case n of None \<Rightarrow> False | Some v \<Rightarrow> v \<noteq> 0)"

definition truthy_str :: "string option \<Rightarrow> bool" where
  "truthy_str s = (case s of None \<Rightarrow> False | Some v \<Rightarrow> v \<noteq> [])"

lemma nullish_simps [simp]: "nullish None d = d" "nullish (Some v) d = v"
  by (simp_all add: nullish_def)

lemma or_num_simps [simp]: "or_num None d = d" "or_num (Some v) d = (if v = 0 then d else v)"
  by (simp_all add: or_num_def)

lemma or_str_simps [simp]: "or_str None d = d" "or_str (Some v) d = (if v = [] then d else v)"
  by (simp_all add: or_str_def)

lemma truthy_bool_simps [simp]: "truthy_bool None = False" "truthy_bool (Some b) = b"
  by (simp_all add: truthy_bool_def)

lemma truthy_num_simps [simp]:
  "truthy_num None = False" "truthy_num (Some v) = (v \<noteq> 0)"
  by (simp_all add: truthy_num_def)

lemma truthy_str_simps [simp]:
  "truthy_str None = False" "truthy_str (Some v) = (v \<noteq> [])"
  by (simp_all add: truthy_str_def)

section \<open>States as a finite, ordered type\<close>

lemma all_states_complete [simp]: "s \<in> set all_states"
  by (cases s) (simp_all add: all_states_def)

lemma all_states_distinct: "distinct all_states"
  by (simp add: all_states_def)

instance SandboxState :: finite
proof
  have "(UNIV :: SandboxState set) = set all_states"
    using all_states_complete by blast
  then show "finite (UNIV :: SandboxState set)"
    by (metis List.finite_set)
qed

lemma state_text_inject [simp]: "state_text a = state_text b \<longleftrightarrow> a = b"
  by (cases a; cases b) simp_all

text \<open>The order of \<open>SandboxState\<close> is the order of the union in the source.\<close>

instantiation SandboxState :: linorder
begin

definition state_index :: "SandboxState \<Rightarrow> nat" where
  "state_index s = length (takeWhile (\<lambda>x. x \<noteq> s) all_states)"

definition less_eq_SandboxState :: "SandboxState \<Rightarrow> SandboxState \<Rightarrow> bool" where
  "less_eq_SandboxState a b \<longleftrightarrow> state_index a \<le> state_index b"

definition less_SandboxState :: "SandboxState \<Rightarrow> SandboxState \<Rightarrow> bool" where
  "less_SandboxState a b \<longleftrightarrow> state_index a < state_index b"

lemma state_index_inject: "state_index a = state_index b \<longleftrightarrow> a = b"
  by (cases a; cases b) (simp_all add: state_index_def all_states_def)

instance
  by standard (auto simp: less_eq_SandboxState_def less_SandboxState_def state_index_inject)

end

end
