(* ===== verification/Browser.thy ===== *)
theory Browser
  imports Types
begin

text \<open>
  The browser services the console's modules share: \<open>localStorage\<close> and events on \<open>window\<close>.
  The laws the modules rely on (a key reads back what was last written, other keys are left
  alone) are the locale \<open>kv_store\<close>, interpreted on the map that models \<open>localStorage\<close>.
  \<open>listener_store\<close> is the contract of the module-level stores that React components subscribe
  to through \<open>useSyncExternalStore\<close>.
\<close>

type_synonym local_storage = "string \<rightharpoonup> string"

definition ls_get :: "string \<Rightarrow> local_storage \<Rightarrow> string option" where
  "ls_get k m = m k"

definition ls_set :: "string \<Rightarrow> string \<Rightarrow> local_storage \<Rightarrow> local_storage" where
  "ls_set k v m = m(k \<mapsto> v)"

definition ls_remove :: "string \<Rightarrow> local_storage \<Rightarrow> local_storage" where
  "ls_remove k m = m(k := None)"

text \<open>A key-value store as its users see it.\<close>

locale kv_store =
  fixes get :: "'k \<Rightarrow> 'm \<Rightarrow> 'v option"
    and put :: "'k \<Rightarrow> 'v \<Rightarrow> 'm \<Rightarrow> 'm"
    and del :: "'k \<Rightarrow> 'm \<Rightarrow> 'm"
  assumes get_put: "get k (put k' v m) = (if k = k' then Some v else get k m)"
    and get_del: "get k (del k' m) = (if k = k' then None else get k m)"
begin

lemma get_put_same: "get k (put k v m) = Some v"
  by (simp add: get_put)

lemma get_put_other: "k \<noteq> k' \<Longrightarrow> get k (put k' v m) = get k m"
  by (simp add: get_put)

lemma get_del_same: "get k (del k m) = None"
  by (simp add: get_del)

lemma get_del_other: "k \<noteq> k' \<Longrightarrow> get k (del k' m) = get k m"
  by (simp add: get_del)

lemma put_put_get: "get k (put k2 v2 (put k1 v1 m)) =
    (if k = k2 then Some v2 else if k = k1 then Some v1 else get k m)"
  by (simp add: get_put)

end

interpretation ls: kv_store ls_get ls_set ls_remove
  by unfold_locales (auto simp: ls_get_def ls_set_def ls_remove_def)

text \<open>A store with a set of listeners: adding and removing a listener changes the listeners
  only, and a listener that left is not notified.  A JavaScript \<open>Set\<close> keeps insertion order and
  holds an element once.\<close>

definition set_add :: "'a \<Rightarrow> 'a list \<Rightarrow> 'a list" where
  "set_add x xs = (if x \<in> set xs then xs else xs @ [x])"

definition set_delete :: "'a \<Rightarrow> 'a list \<Rightarrow> 'a list" where
  "set_delete x xs = filter (\<lambda>y. y \<noteq> x) xs"

locale listener_store =
  fixes listeners :: "'s \<Rightarrow> 'l list"
    and snapshot :: "'s \<Rightarrow> 'v"
    and on :: "'l \<Rightarrow> 's \<Rightarrow> 's"
    and off :: "'l \<Rightarrow> 's \<Rightarrow> 's"
  assumes listeners_on: "listeners (on l s) = set_add l (listeners s)"
    and listeners_off: "listeners (off l s) = set_delete l (listeners s)"
    and snapshot_on: "snapshot (on l s) = snapshot s"
    and snapshot_off: "snapshot (off l s) = snapshot s"
begin

lemma subscribed: "l \<in> set (listeners (on l s))"
  by (simp add: listeners_on set_add_def)

lemma unsubscribed: "l \<notin> set (listeners (off l s))"
  by (simp add: listeners_off set_delete_def)

lemma others_kept: "l \<noteq> k \<Longrightarrow> k \<in> set (listeners (off l s)) \<longleftrightarrow> k \<in> set (listeners s)"
  by (auto simp: listeners_off set_delete_def)

lemma distinct_on: "distinct (listeners s) \<Longrightarrow> distinct (listeners (on l s))"
  by (simp add: listeners_on set_add_def)

lemma distinct_off: "distinct (listeners s) \<Longrightarrow> distinct (listeners (off l s))"
  by (simp add: listeners_off set_delete_def)

lemma on_off: "l \<notin> set (listeners s) \<Longrightarrow> listeners (off l (on l s)) = listeners s"
  by (simp add: listeners_on listeners_off set_add_def set_delete_def)
     (metis (mono_tags, lifting) filter_True)

end

lemma set_set_add [simp]: "set (set_add x xs) = insert x (set xs)"
  by (auto simp: set_add_def)

lemma set_set_delete [simp]: "set (set_delete x xs) = set xs - {x}"
  by (auto simp: set_delete_def)

section \<open>Events on window\<close>

text \<open>The events the modules dispatch to each other.\<close>

datatype window_event = Unauthorized | FocusResize

end
