(* ===== verification/Client.thy ===== *)
theory Client
  imports Browser
begin

text \<open>
  The REST client (\<open>web/src/api/client.ts\<close>): the bearer token in \<open>localStorage\<close>, the two
  request functions split at their \<open>await\<close> into the request they send and what they do with
  the outcome of \<open>fetch\<close>, the base64 helpers, and the formatters.

  A response body is what \<open>resp.text()\<close> followed by \<open>JSON.parse\<close> gives: no text, text that
  is not JSON, a JSON value, or a failed read.
\<close>

section \<open>The token\<close>

definition TOKEN_KEY :: string where
  "TOKEN_KEY = ''embervm.token''"

definition getToken :: "local_storage \<Rightarrow> string option" where
  "getToken m = ls_get TOKEN_KEY m"

definition setToken :: "string \<Rightarrow> local_storage \<Rightarrow> local_storage" where
  "setToken token m = ls_set TOKEN_KEY token m"

definition clearToken :: "local_storage \<Rightarrow> local_storage" where
  "clearToken m = ls_remove TOKEN_KEY m"

section \<open>Requests and responses\<close>

datatype json =
    JNull | JBool bool | JNum int | JStr string | JArr "json list" | JObj "(string \<times> json) list"

text \<open>\<open>String(v)\<close> of a JSON value.\<close>

fun js_String :: "json \<Rightarrow> string" where
  "js_String JNull = ''null''"
| "js_String (JBool b) = (if b then ''true'' else ''false'')"
| "js_String (JNum n) = js_num n"
| "js_String (JStr s) = s"
| "js_String (JArr vs) =
     js_join '','' (map (\<lambda>v. if v = JNull then [] else js_String v) vs)"
| "js_String (JObj kvs) = ''[object Object]''"

text \<open>An error a promise rejects with: the client's own class, or one of the platform's.\<close>

datatype js_error = ApiError int string | PlatformError string

fun message :: "js_error \<Rightarrow> string" where
  "message (ApiError status msg) = msg"
| "message (PlatformError msg) = msg"

datatype body_init = NoBody | JsonBody json | BytesBody string

record request =
  rq_method :: string
  rq_url :: string
  rq_headers :: "(string \<times> string) list"
  rq_body :: body_init

datatype body_text = EmptyText | NotJson | JsonText json | ReadFails string

record response =
  rs_status :: int
  rs_body :: body_text
  rs_bytes :: string

definition rs_ok :: "response \<Rightarrow> bool" where
  "rs_ok r \<longleftrightarrow> 200 \<le> rs_status r \<and> rs_status r \<le> 299"

datatype fetch_outcome = NetworkError string | Responded response

text \<open>What a request leaves behind besides its result: the storage and the events dispatched
  on \<open>window\<close>, in order.\<close>

record world =
  w_storage :: local_storage
  w_events :: "window_event list"

definition dispatch_unauthorized :: "world \<Rightarrow> world" where
  "dispatch_unauthorized w =
     w\<lparr>w_storage := clearToken (w_storage w), w_events := w_events w @ [Unauthorized]\<rparr>"

definition auth_header :: "local_storage \<Rightarrow> string \<times> string" where
  "auth_header m = (''Authorization'', ''Bearer '' @ nullish (getToken m) [])"

text \<open>\<open>api\<close>, up to the \<open>await\<close>.\<close>

definition api_request :: "local_storage \<Rightarrow> string \<Rightarrow> string \<Rightarrow> json option \<Rightarrow> request" where
  "api_request m method path body =
     \<lparr>rq_method = method,
      rq_url = ''/v0'' @ path,
      rq_headers = auth_header m #
        (case body of None \<Rightarrow> [] | Some _ \<Rightarrow> [(''Content-Type'', ''application/json'')]),
      rq_body = (case body of None \<Rightarrow> NoBody | Some v \<Rightarrow> JsonBody v)\<rparr>"

definition error_text :: "int \<Rightarrow> json option \<Rightarrow> string" where
  "error_text status data =
     (case data of
        Some (JObj kvs) \<Rightarrow>
          (case map_of kvs ''error'' of
             Some e \<Rightarrow> js_String e
           | None \<Rightarrow> ''HTTP '' @ js_num status)
      | _ \<Rightarrow> ''HTTP '' @ js_num status)"

text \<open>\<open>api\<close>, from the outcome of \<open>fetch\<close> on: \<open>Inr None\<close> is a promise that resolves to
  \<open>undefined\<close>.\<close>

definition api :: "world \<Rightarrow> fetch_outcome \<Rightarrow> world \<times> (js_error + json option)" where
  "api w out =
     (case out of
        NetworkError msg \<Rightarrow> (w, Inl (PlatformError msg))
      | Responded resp \<Rightarrow>
          if rs_status resp = 401 then
            (dispatch_unauthorized w, Inl (ApiError 401 ''invalid or expired token''))
          else if rs_status resp = 204 then (w, Inr None)
          else case rs_body resp of
            ReadFails msg \<Rightarrow> (w, Inl (PlatformError msg))
          | text \<Rightarrow>
              let data = (case text of JsonText v \<Rightarrow> Some v | _ \<Rightarrow> None)
              in if \<not> rs_ok resp
                 then (w, Inl (ApiError (rs_status resp) (error_text (rs_status resp) data)))
                 else (w, Inr data))"

definition apiRaw_request ::
  "local_storage \<Rightarrow> string \<Rightarrow> string \<Rightarrow> string option \<Rightarrow> string option \<Rightarrow> request" where
  "apiRaw_request m method path body contentType =
     \<lparr>rq_method = method,
      rq_url = ''/v0'' @ path,
      rq_headers = auth_header m #
        (if truthy_str contentType then [(''Content-Type'', the contentType)] else []),
      rq_body = (case body of None \<Rightarrow> NoBody | Some b \<Rightarrow> BytesBody b)\<rparr>"

text \<open>\<open>data \&\& data.error\<close> of the JSON error body: the error member counts when it is truthy.\<close>

fun json_truthy :: "json \<Rightarrow> bool" where
  "json_truthy JNull = False"
| "json_truthy (JBool b) = b"
| "json_truthy (JNum n) = (n \<noteq> 0)"
| "json_truthy (JStr s) = (s \<noteq> [])"
| "json_truthy (JArr vs) = True"
| "json_truthy (JObj kvs) = True"

definition raw_error_text :: "int \<Rightarrow> body_text \<Rightarrow> string" where
  "raw_error_text status body =
     (case body of
        JsonText (JObj kvs) \<Rightarrow>
          (case map_of kvs ''error'' of
             Some e \<Rightarrow> if json_truthy e then js_String e else ''HTTP '' @ js_num status
           | None \<Rightarrow> ''HTTP '' @ js_num status)
      | _ \<Rightarrow> ''HTTP '' @ js_num status)"

definition apiRaw :: "world \<Rightarrow> fetch_outcome \<Rightarrow> world \<times> (js_error + response)" where
  "apiRaw w out =
     (case out of
        NetworkError msg \<Rightarrow> (w, Inl (PlatformError msg))
      | Responded resp \<Rightarrow>
          if rs_status resp = 401 then
            (dispatch_unauthorized w, Inl (ApiError 401 ''invalid or expired token''))
          else if \<not> rs_ok resp then
            (w, Inl (ApiError (rs_status resp) (raw_error_text (rs_status resp) (rs_body resp))))
          else (w, Inr resp))"

section \<open>Base64 and text\<close>

definition b64_alphabet :: string where
  "b64_alphabet = ''ABCDEFGHIJKLMNOPQRSTUVWXYZabcdefghijklmnopqrstuvwxyz0123456789+/''"

definition b64_char :: "nat \<Rightarrow> char" where
  "b64_char n = b64_alphabet ! (n mod 64)"

fun b64_encode :: "nat list \<Rightarrow> string" where
  "b64_encode [] = []"
| "b64_encode [a] = [b64_char (a div 4), b64_char (a mod 4 * 16), CHR ''='', CHR ''='']"
| "b64_encode [a, b] =
     [b64_char (a div 4), b64_char (a mod 4 * 16 + b div 16), b64_char (b mod 16 * 4), CHR ''='']"
| "b64_encode (a # b # c # rest) =
     [b64_char (a div 4), b64_char (a mod 4 * 16 + b div 16),
      b64_char (b mod 16 * 4 + c div 64), b64_char (c mod 64)] @ b64_encode rest"

text \<open>\<open>btoa\<close> on a binary string.\<close>

definition btoa :: "string \<Rightarrow> string" where
  "btoa s = b64_encode (map of_char s)"

fun strip_trailing :: "char \<Rightarrow> string \<Rightarrow> string" where
  "strip_trailing c s = rev (dropWhile (\<lambda>x. x = c) (rev s))"

definition url_char :: "char \<Rightarrow> char" where
  "url_char c = (if c = CHR ''+'' then CHR ''-'' else if c = CHR ''/'' then CHR ''_'' else c)"

text \<open>\<open>TextEncoder\<close> is the identity on the byte representation of strings.\<close>

definition b64url :: "string \<Rightarrow> string" where
  "b64url s = strip_trailing (CHR ''='') (map url_char (btoa s))"

fun b64_index :: "string \<Rightarrow> char \<Rightarrow> nat option" where
  "b64_index [] c = None"
| "b64_index (x # xs) c = (if x = c then Some 0 else map_option Suc (b64_index xs c))"

fun b64_indices :: "string \<Rightarrow> nat list option" where
  "b64_indices [] = Some []"
| "b64_indices (c # s) =
     (case (b64_index b64_alphabet c, b64_indices s) of
        (Some n, Some ns) \<Rightarrow> Some (n # ns)
      | _ \<Rightarrow> None)"

fun b64_decode :: "nat list \<Rightarrow> nat list" where
  "b64_decode (p # q # r # s # rest) =
     [p * 4 + q div 16, q mod 16 * 16 + r div 4, r mod 4 * 64 + s] @ b64_decode rest"
| "b64_decode [p, q, r] = [p * 4 + q div 16, q mod 16 * 16 + r div 4]"
| "b64_decode [p, q] = [p * 4 + q div 16]"
| "b64_decode _ = []"

text \<open>\<open>atob\<close>, the forgiving decoder: ASCII white space is dropped, at most two padding
  characters of a text whose length is a multiple of 4 are dropped, and a remainder of length 1
  modulo 4 or a foreign character is an error.\<close>

definition ascii_space :: "char \<Rightarrow> bool" where
  "ascii_space c \<longleftrightarrow> of_char c \<in> {9, 10, 12, 13, 32 :: nat}"

definition drop_padding :: "string \<Rightarrow> string" where
  "drop_padding s =
     (if length s mod 4 = 0 then
        (if js_endsWith s ''=='' then take (length s - 2) s
         else if js_endsWith s ''='' then take (length s - 1) s else s)
      else s)"

definition atob :: "string \<Rightarrow> string option" where
  "atob s =
     (let t = drop_padding (filter (\<lambda>c. \<not> ascii_space c) s)
      in if length t mod 4 = 1 then None
         else case b64_indices t of
           None \<Rightarrow> None
         | Some ns \<Rightarrow> Some (map char_of (b64_decode ns)))"

text \<open>\<open>TextDecoder().decode\<close>: ill-formed sequences become U+FFFD (one per maximal subpart), a
  leading byte order mark is dropped.  The arguments are the continuation bytes still needed,
  the bounds of the next one, and the bytes of the character so far.\<close>

definition utf8_replacement :: "nat list" where
  "utf8_replacement = [239, 191, 189]"

function utf8_go :: "nat \<Rightarrow> nat \<Rightarrow> nat \<Rightarrow> nat list \<Rightarrow> nat list \<Rightarrow> nat list" where
  "utf8_go 0 lo hi pend [] = []"
| "utf8_go (Suc n) lo hi pend [] = utf8_replacement"
| "utf8_go 0 lo hi pend (b # bs) =
     (if b < 128 then b # utf8_go 0 0 0 [] bs
      else if 194 \<le> b \<and> b \<le> 223 then utf8_go 1 128 191 [b] bs
      else if b = 224 then utf8_go 2 160 191 [b] bs
      else if b = 237 then utf8_go 2 128 159 [b] bs
      else if 225 \<le> b \<and> b \<le> 239 then utf8_go 2 128 191 [b] bs
      else if b = 240 then utf8_go 3 144 191 [b] bs
      else if b = 244 then utf8_go 3 128 143 [b] bs
      else if 241 \<le> b \<and> b \<le> 243 then utf8_go 3 128 191 [b] bs
      else utf8_replacement @ utf8_go 0 0 0 [] bs)"
| "utf8_go (Suc n) lo hi pend (b # bs) =
     (if lo \<le> b \<and> b \<le> hi then
        (if n = 0 then pend @ [b] @ utf8_go 0 0 0 [] bs
         else utf8_go n 128 191 (pend @ [b]) bs)
      else utf8_replacement @ utf8_go 0 0 0 [] (b # bs))"
  by pat_completeness auto
termination
  by (relation "measures [\<lambda>(n, lo, hi, pend, bs). length bs, \<lambda>(n, lo, hi, pend, bs). n]") auto

definition utf8_bytes :: "nat list \<Rightarrow> nat list" where
  "utf8_bytes bs =
     utf8_go 0 0 0 [] (if take 3 bs = [239, 187, 191] then drop 3 bs else bs)"

definition TextDecoder :: "string \<Rightarrow> string" where
  "TextDecoder s = map char_of (utf8_bytes (map of_char s))"

definition decodeBytes :: "string option \<Rightarrow> string" where
  "decodeBytes b64 =
     (if \<not> truthy_str b64 then []
      else case atob (the b64) of
        Some bytes \<Rightarrow> TextDecoder bytes
      | None \<Rightarrow> the b64)"

section \<open>Formatters\<close>

definition fmtMiB :: "int \<Rightarrow> string" where
  "fmtMiB mib =
     (if mib \<ge> 1024 \<and> mib mod 256 = 0
      then toFixed (of_int mib / 1024) (if mib mod 1024 = 0 then 0 else 2) @ '' GiB''
      else js_num mib @ '' MiB'')"

definition byte_units :: "string list" where
  "byte_units = [''B'', ''KiB'', ''MiB'', ''GiB'', ''TiB'']"

text \<open>\<open>Math.floor(Math.log2(n) / 10)\<close> for a positive integer (lemma \<open>log2_10_floor\<close>).\<close>

fun log2_10 :: "nat \<Rightarrow> nat" where
  "log2_10 n = (if n < 1024 then 0 else Suc (log2_10 (n div 1024)))"

declare log2_10.simps [simp del]

definition byte_unit :: "int \<Rightarrow> nat" where
  "byte_unit n = min (length byte_units - 1) (log2_10 (nat n))"

definition byte_value :: "int \<Rightarrow> rat" where
  "byte_value n = of_int n / 2 ^ (10 * byte_unit n)"

definition fmtBytes :: "int \<Rightarrow> string" where
  "fmtBytes n =
     (if n \<le> 0 then ''0 B''
      else let v = byte_value n
           in (if v \<ge> 100 then toFixed v 0 else toFixed v 1) @ '' '' @ byte_units ! byte_unit n)"

text \<open>The age is computed in milliseconds; \<open>None\<close> is the \<open>NaN\<close> of a string that is no date,
  on which every comparison is false.\<close>

definition fmtAge :: "int \<Rightarrow> string \<Rightarrow> string" where
  "fmtAge now iso_at =
     (case date_ms iso_at of
        None \<Rightarrow> ''NaNd''
      | Some t \<Rightarrow>
          let ms = max 0 (now - t)
          in if ms < 60000 then js_num (ms div 1000) @ ''s''
             else if ms < 3600000 then js_num (ms div 60000) @ ''m''
             else if ms < 86400000 then js_num (ms div 3600000) @ ''h''
             else js_num (ms div 86400000) @ ''d'')"

definition fmtKiB :: "int \<Rightarrow> string" where
  "fmtKiB kib = fmtBytes (kib * 1024)"

definition fmtPct :: "rat \<Rightarrow> string" where
  "fmtPct fraction =
     (let pct = fraction * 100
      in (if pct \<ge> 10 then toFixed pct 0 else toFixed pct 1) @ ''%'')"

section \<open>Facts about the client\<close>

lemma api_world: "fst (api w out) =
    (case out of Responded r \<Rightarrow> if rs_status r = 401 then dispatch_unauthorized w else w
     | NetworkError _ \<Rightarrow> w)"
  by (auto simp: api_def Let_def split: fetch_outcome.splits body_text.splits)

lemma apiRaw_world: "fst (apiRaw w out) = fst (api w out)"
  by (auto simp: api_world apiRaw_def split: fetch_outcome.splits)

lemma log2_10_bounds: "0 < n \<Longrightarrow> 1024 ^ log2_10 n \<le> n \<and> n < 1024 ^ Suc (log2_10 n)"
proof (induction n rule: log2_10.induct)
  case (1 n)
  show ?case
  proof (cases "n < 1024")
    case True
    with 1 show ?thesis by (simp add: log2_10.simps [of n])
  next
    case False
    then have "0 < n div 1024" by (simp add: div_greater_zero_iff)
    with False 1 have IH: "1024 ^ log2_10 (n div 1024) \<le> n div 1024 \<and> n div 1024 < 1024 ^ Suc (log2_10 (n div 1024))"
      by blast
    have "1024 * 1024 ^ log2_10 (n div 1024) \<le> n"
      using IH by (metis div_times_less_eq_dividend dual_order.trans mult.commute mult_le_mono1)
    moreover have "n < 1024 * 1024 ^ Suc (log2_10 (n div 1024))"
      using IH by (metis div_less_iff_less_mult mult.commute zero_less_numeral)
    ultimately show ?thesis using False by (simp add: log2_10.simps [of n])
  qed
qed

lemma log2_10_floor: "0 < n \<Longrightarrow> int (log2_10 n) = \<lfloor>log 2 (real n) / 10\<rfloor>"
proof -
  assume n: "0 < n"
  let ?k = "log2_10 n"
  have lo: "(1024 :: real) ^ ?k \<le> real n" and hi: "real n < 1024 ^ Suc ?k"
    using log2_10_bounds [OF n] by (metis of_nat_le_iff of_nat_numeral of_nat_power, metis of_nat_less_iff of_nat_numeral of_nat_power)
  have p: "log 2 ((1024 :: real) ^ m) = 10 * real m" for m
  proof -
    have "(1024 :: real) = 2 ^ 10" by simp
    then have "(1024 :: real) ^ m = 2 ^ (10 * m)" by (simp only: power_mult)
    then show ?thesis by (simp add: log_pow_cancel)
  qed
  have "10 * real ?k \<le> log 2 (real n)"
    using lo n p [of ?k] by (metis log_le_cancel_iff less_eq_real_def of_nat_0_less_iff one_less_numeral_iff semiring_norm(76) zero_less_numeral zero_less_power)
  moreover have "log 2 (real n) < 10 * real (Suc ?k)"
    using hi n p [of "Suc ?k"] by (metis log_less_cancel_iff of_nat_0_less_iff one_less_numeral_iff semiring_norm(76) zero_less_numeral zero_less_power)
  ultimately show ?thesis
    by (intro floor_unique [symmetric]) (simp_all add: field_simps)
qed

fun b64_digits :: "nat list \<Rightarrow> nat list" where
  "b64_digits [] = []"
| "b64_digits [a] = [a div 4, a mod 4 * 16]"
| "b64_digits [a, b] = [a div 4, a mod 4 * 16 + b div 16, b mod 16 * 4]"
| "b64_digits (a # b # c # rest) =
     [a div 4, a mod 4 * 16 + b div 16, b mod 16 * 4 + c div 64, c mod 64] @ b64_digits rest"

definition b64_padding :: "nat \<Rightarrow> string" where
  "b64_padding n = (if n mod 3 = 0 then [] else if n mod 3 = 1 then ''=='' else ''='')"

lemma b64_encode_digits:
  "b64_encode bs = map b64_char (b64_digits bs) @ b64_padding (length bs)"
  by (induction bs rule: b64_encode.induct) (simp_all add: b64_padding_def)

lemma b64_digits_bound: "\<forall>b \<in> set bs. b < 256 \<Longrightarrow> \<forall>d \<in> set (b64_digits bs). d < 64"
proof (induction bs rule: b64_digits.induct)
  case (4 a b c rest)
  then show ?case by auto
qed auto

lemma b64_decode_digits: "\<forall>b \<in> set bs. b < 256 \<Longrightarrow> b64_decode (b64_digits bs) = bs"
proof (induction bs rule: b64_digits.induct)
  case (4 a b c rest)
  then have "b < 256" "c < 256" "b64_decode (b64_digits rest) = rest" by auto
  then show ?case by simp
qed auto

lemma b64_table: "list_all (\<lambda>n. b64_index b64_alphabet (b64_alphabet ! n) = Some n
    \<and> \<not> ascii_space (b64_alphabet ! n) \<and> b64_alphabet ! n \<noteq> CHR ''='') [0..<64]"
  by code_simp

lemma b64_char_index: "n < 64 \<Longrightarrow> b64_index b64_alphabet (b64_char n) = Some n"
  using b64_table by (simp add: list_all_iff b64_char_def)

lemma b64_char_clean: "\<not> ascii_space (b64_char n) \<and> b64_char n \<noteq> CHR ''=''"
  using b64_table by (simp add: list_all_iff b64_char_def)

lemma b64_indices_chars: "\<forall>d \<in> set ds. d < 64 \<Longrightarrow> b64_indices (map b64_char ds) = Some ds"
  by (induction ds) (simp_all add: b64_char_index)

lemma b64_digits_length: "length (b64_digits bs) mod 4 = (case length bs mod 3 of 0 \<Rightarrow> 0 | Suc k \<Rightarrow> k + 2)"
  by (induction bs rule: b64_digits.induct) simp_all

lemma of_char_bytes: "\<forall>b \<in> set (map of_char s). (b :: nat) < 256"
  by auto

lemma js_endsWith_not:
  "(\<forall>c \<in> set s. c \<noteq> d) \<Longrightarrow> \<not> js_endsWith s [d]" "(\<forall>c \<in> set s. c \<noteq> d) \<Longrightarrow> \<not> js_endsWith s [e, d]"
  by (auto simp: js_endsWith_iff)

lemma drop_padding_encode: "drop_padding (b64_encode bs) = map b64_char (b64_digits bs)"
proof -
  let ?cs = "map b64_char (b64_digits bs)"
  have clean: "\<forall>c \<in> set ?cs. c \<noteq> CHR ''=''" using b64_char_clean by auto
  have len: "length (b64_encode bs) mod 4 = 0"
    by (induction bs rule: b64_encode.induct) simp_all
  consider "length bs mod 3 = 0" | "length bs mod 3 = 1" | "length bs mod 3 = 2" by linarith
  then show ?thesis
  proof cases
    case 1
    then have "b64_encode bs = ?cs" by (simp add: b64_encode_digits b64_padding_def)
    then show ?thesis using len js_endsWith_not [OF clean] by (simp add: drop_padding_def)
  next
    case 2
    then have "b64_encode bs = ?cs @ ''==''" by (simp add: b64_encode_digits b64_padding_def)
    then show ?thesis using len by (auto simp: drop_padding_def js_endsWith_iff)
  next
    case 3
    then have e: "b64_encode bs = ?cs @ ''=''" by (simp add: b64_encode_digits b64_padding_def)
    have "\<not> js_endsWith (?cs @ ''='') ''==''"
    proof
      assume "js_endsWith (?cs @ ''='') ''==''"
      then obtain r where "?cs @ ''='' = r @ ''==''" by (auto simp: js_endsWith_iff)
      then have "?cs = r @ ''=''" by (metis append_assoc append_Cons append_Nil append1_eq_conv)
      with clean show False by (metis in_set_conv_decomp)
    qed
    then show ?thesis using len e by (auto simp: drop_padding_def js_endsWith_iff)
  qed
qed

lemma b64_padding_chars: "set (b64_padding n) \<subseteq> {CHR ''=''}"
  by (auto simp: b64_padding_def)

lemma no_space_encode: "filter (\<lambda>c. \<not> ascii_space c) (b64_encode bs) = b64_encode bs"
proof (rule filter_True, rule ballI)
  fix c assume "c \<in> set (b64_encode bs)"
  then have "c \<in> set (map b64_char (b64_digits bs)) \<or> c = CHR ''=''"
    using b64_padding_chars [of "length bs"] by (auto simp: b64_encode_digits)
  then show "\<not> ascii_space c" using b64_char_clean by (auto simp: ascii_space_def)
qed

lemma atob_btoa: "atob (btoa s) = Some s"
proof -
  let ?bs = "map of_char s :: nat list"
  have "length (b64_digits ?bs) mod 4 \<noteq> 1"
    by (simp add: b64_digits_length split: nat.splits)
  then show ?thesis
    by (simp add: atob_def btoa_def no_space_encode drop_padding_encode
        b64_indices_chars [OF b64_digits_bound] b64_decode_digits comp_def)
qed

text \<open>The encodings of Unicode scalar values are exactly the sequences the decoder passes through.\<close>

definition scalar_value :: "nat \<Rightarrow> bool" where
  "scalar_value n \<longleftrightarrow> n < 1114112 \<and> \<not> (55296 \<le> n \<and> n \<le> 57343)"

lemma utf8_go_need:
  "utf8_go 1 lo hi pend (b # bs) =
     (if lo \<le> b \<and> b \<le> hi then pend @ [b] @ utf8_go 0 0 0 [] bs
      else utf8_replacement @ utf8_go 0 0 0 [] (b # bs))"
  "utf8_go 2 lo hi pend (b # bs) =
     (if lo \<le> b \<and> b \<le> hi then utf8_go 1 128 191 (pend @ [b]) bs
      else utf8_replacement @ utf8_go 0 0 0 [] (b # bs))"
  "utf8_go 3 lo hi pend (b # bs) =
     (if lo \<le> b \<and> b \<le> hi then utf8_go 2 128 191 (pend @ [b]) bs
      else utf8_replacement @ utf8_go 0 0 0 [] (b # bs))"
  unfolding One_nat_def numeral_2_eq_2 numeral_3_eq_3 by (simp_all only: utf8_go.simps if_True if_False nat.distinct refl)

lemma second_byte_3:
  fixes m :: nat
  assumes "32 \<le> m" "m < 1024" "\<not> (864 \<le> m \<and> m \<le> 895)"
  shows "m div 64 < 16" "m div 64 = 0 \<longrightarrow> 32 \<le> m mod 64" "m div 64 = 13 \<longrightarrow> m mod 64 < 32"
  using assms mult_div_mod_eq [of 64 m] by linarith+

lemma second_byte_4:
  fixes m :: nat
  assumes "16 \<le> m" "m < 272"
  shows "m div 64 \<le> 4" "m div 64 = 0 \<longrightarrow> 16 \<le> m mod 64" "m div 64 = 4 \<longrightarrow> m mod 64 < 16"
  using assms mult_div_mod_eq [of 64 m] by linarith+

lemma utf8_go_three:
  assumes "a < 16" "a = 0 \<longrightarrow> 32 \<le> c" "a = 13 \<longrightarrow> c < 32" "c < 64" "d < 64"
  shows "utf8_go 0 0 0 [] ((224 + a) # (128 + c) # (128 + d) # rest) =
    (224 + a) # (128 + c) # (128 + d) # utf8_go 0 0 0 [] rest"
  using assms by (auto simp: utf8_go_need simp del: One_nat_def)

lemma utf8_go_four:
  assumes "a \<le> 4" "a = 0 \<longrightarrow> 16 \<le> c" "a = 4 \<longrightarrow> c < 16" "c < 64" "d < 64" "e < 64"
  shows "utf8_go 0 0 0 [] ((240 + a) # (128 + c) # (128 + d) # (128 + e) # rest) =
    (240 + a) # (128 + c) # (128 + d) # (128 + e) # utf8_go 0 0 0 [] rest"
  using assms by (auto simp: utf8_go_need simp del: One_nat_def)

lemma utf8_go_char:
  assumes "scalar_value n"
  shows "utf8_go 0 0 0 [] (map of_char (utf8_char n) @ rest) =
    map of_char (utf8_char n) @ utf8_go 0 0 0 [] rest"
proof -
  consider "n < 128" | "128 \<le> n" "n < 2048" | "2048 \<le> n" "n < 65536" | "65536 \<le> n" "n < 1114112"
    using assms by (fastforce simp: scalar_value_def)
  then show ?thesis
  proof cases
    case 1
    then show ?thesis by (simp add: utf8_char_def)
  next
    case 2
    then have "2 \<le> n div 64" "n div 64 < 32" "n mod 64 \<le> 63" by linarith+
    with 2 show ?thesis by (simp add: utf8_char_def)
  next
    case 3
    let ?m = "n div 64"
    have m: "32 \<le> ?m" "?m < 1024" "\<not> (864 \<le> ?m \<and> ?m \<le> 895)"
      using 3 assms unfolding scalar_value_def by linarith+
    have q: "n div 4096 = ?m div 64" by (simp flip: div_mult2_eq)
    from second_byte_3 [OF m] have
      "utf8_go 0 0 0 [] ((224 + ?m div 64) # (128 + ?m mod 64) # (128 + n mod 64) # rest) =
       (224 + ?m div 64) # (128 + ?m mod 64) # (128 + n mod 64) # utf8_go 0 0 0 [] rest"
      by (intro utf8_go_three) simp_all
    moreover have "?m div 64 < 16" by (rule second_byte_3 [OF m])
    ultimately show ?thesis using 3 by (simp add: utf8_char_def q)
  next
    case 4
    let ?m = "n div 4096"
    have m: "16 \<le> ?m" "?m < 272" using 4 by linarith+
    have q: "n div 262144 = ?m div 64" by (simp flip: div_mult2_eq)
    from second_byte_4 [OF m] have
      "utf8_go 0 0 0 [] ((240 + ?m div 64) # (128 + ?m mod 64) # (128 + n div 64 mod 64) # (128 + n mod 64) # rest) =
       (240 + ?m div 64) # (128 + ?m mod 64) # (128 + n div 64 mod 64) # (128 + n mod 64) # utf8_go 0 0 0 [] rest"
      by (intro utf8_go_four) simp_all
    moreover have "?m div 64 \<le> 4" by (rule second_byte_4 [OF m])
    ultimately show ?thesis using 4 by (simp add: utf8_char_def q)
  qed
qed

lemma utf8_go_zh: "list_all scalar_value ns \<Longrightarrow>
  utf8_go 0 0 0 [] (map of_char (zh ns)) = map of_char (zh ns)"
  by (induction ns) (auto simp: zh_def utf8_go_char)

lemma TextDecoder_zh:
  assumes "list_all scalar_value ns" and "\<not> js_startsWith (zh ns) (zh [65279])"
  shows "TextDecoder (zh ns) = zh ns"
proof -
  have "take 3 (map of_char (zh ns)) \<noteq> ([239, 187, 191] :: nat list)"
  proof
    assume "take 3 (map of_char (zh ns)) = ([239, 187, 191] :: nat list)"
    then have "map char_of (map of_char (take 3 (zh ns)) :: nat list) = map char_of ([239, 187, 191] :: nat list)"
      by (simp add: take_map)
    then have "take 3 (zh ns) = zh [65279]"
      by (simp add: comp_def zh_def utf8_char_def)
    moreover have "length (zh [65279]) = 3" by (simp add: zh_def utf8_char_def)
    ultimately show False using assms(2) by (simp add: js_startsWith_def)
  qed
  then show ?thesis
    by (simp add: TextDecoder_def utf8_bytes_def utf8_go_zh [OF assms(1)] comp_def)
qed


lemma b64_url_table: "distinct (map (\<lambda>n. url_char (b64_alphabet ! n)) [0..<64]) \<and>
  list_all (\<lambda>n. url_char (b64_alphabet ! n) \<notin> {CHR ''='', CHR ''+'', CHR ''/''}) [0..<64]"
  by code_simp

lemma url_char_inj: "m < 64 \<Longrightarrow> n < 64 \<Longrightarrow>
  url_char (b64_char m) = url_char (b64_char n) \<Longrightarrow> m = n"
  using b64_url_table by (simp add: distinct_map inj_on_def b64_char_def)

lemma url_char_safe: "url_char (b64_char n) \<notin> {CHR ''='', CHR ''+'', CHR ''/''}"
  using b64_url_table by (simp add: list_all_iff b64_char_def)

lemma b64url_digits: "b64url s = map (\<lambda>d. url_char (b64_char d)) (b64_digits (map of_char s))"
proof -
  let ?xs = "map (\<lambda>d. url_char (b64_char d)) (b64_digits (map of_char s))"
  have pad: "map url_char (b64_padding n) = b64_padding n" for n
    by (simp add: b64_padding_def url_char_def)
  have "dropWhile (\<lambda>x. x = CHR ''='') (rev (b64_padding n) @ rev ?xs) = rev ?xs" for n
  proof -
    have "dropWhile (\<lambda>x. x = CHR ''='') (rev ?xs) = rev ?xs"
      using url_char_safe by (cases "rev ?xs") (auto simp: rev_eq_Cons_iff map_eq_append_conv)
    moreover have "dropWhile (\<lambda>x. x = CHR ''='') (rev (b64_padding n) @ rev ?xs)
        = dropWhile (\<lambda>x. x = CHR ''='') (rev ?xs)"
      by (rule dropWhile_append2) (use b64_padding_chars in auto)
    ultimately show ?thesis by simp
  qed
  then show ?thesis by (simp add: b64url_def btoa_def b64_encode_digits pad comp_def)
qed

section \<open>Properties\<close>

text \<open>C23: Both request functions treat the bearer token alike: a 401 answer removes the token from
  storage and announces it with one event on \<open>window\<close>; any other outcome, a network failure
  included, leaves storage and events as they were.\<close>

theorem api_token_discipline:
  "fst (api w out) =
     (if \<exists>r. out = Responded r \<and> rs_status r = 401
      then w\<lparr>w_storage := (w_storage w)(TOKEN_KEY := None),
             w_events := w_events w @ [Unauthorized]\<rparr>
      else w) \<and>
   fst (apiRaw w out) = fst (api w out)"
  by (auto simp: apiRaw_world api_world dispatch_unauthorized_def clearToken_def ls_remove_def
      split: fetch_outcome.splits)

text \<open>\<open>api\<close> resolves exactly when the server answered with a 2xx status whose body (unless
  the status is 204) could be read; every other outcome rejects.\<close>

theorem api_resolves_iff:
  "(\<exists>v. snd (api w out) = Inr v) \<longleftrightarrow>
     (\<exists>r. out = Responded r \<and> rs_ok r \<and>
        (rs_status r = 204 \<or> (\<forall>m. rs_body r \<noteq> ReadFails m)))"
  by (auto simp: api_def rs_ok_def Let_def split: fetch_outcome.splits body_text.splits)

text \<open>The token encoding for the WebSocket subprotocol is lossless and uses none of the
  characters \<open>=\<close>, \<open>+\<close> and \<open>/\<close>.\<close>

theorem b64url_lossless:
  "(b64url a = b64url b \<longleftrightarrow> a = b) \<and> set (b64url a) \<inter> {CHR ''='', CHR ''+'', CHR ''/''} = {}"
proof
  let ?d = "\<lambda>s :: string. b64_digits (map of_char s)"
  have dec: "map char_of (b64_decode (?d s)) = s" for s :: string
    by (simp add: b64_decode_digits comp_def)
  have "map (\<lambda>d. url_char (b64_char d)) (?d a) = map (\<lambda>d. url_char (b64_char d)) (?d b) \<Longrightarrow> ?d a = ?d b"
  proof (rule inj_on_map_eq_map [THEN iffD1])
    show "inj_on (\<lambda>d. url_char (b64_char d)) (set (?d a) \<union> set (?d b))"
      using b64_digits_bound [OF of_char_bytes] url_char_inj unfolding inj_on_def by blast
  qed
  then show "b64url a = b64url b \<longleftrightarrow> a = b" unfolding b64url_digits by (metis dec)
  show "set (b64url a) \<inter> {CHR ''='', CHR ''+'', CHR ''/''} = {}"
  proof -
    have "c \<notin> {CHR ''='', CHR ''+'', CHR ''/''}" if "c \<in> set (b64url a)" for c
      using that url_char_safe by (fastforce simp: b64url_digits simp del: insert_iff)
    then show ?thesis by blast
  qed
qed

text \<open>A Go \<open>[]byte\<close> field that holds UTF-8 text, base64-encoded by the server, is displayed as
  that text: any sequence of Unicode scalar values that does not start with a byte order mark.\<close>

theorem decodeBytes_btoa:
  assumes "list_all scalar_value ns" and "ns \<noteq> []" and "\<not> js_startsWith (zh ns) (zh [65279])"
  shows "decodeBytes (Some (btoa (zh ns))) = zh ns"
proof -
  have "btoa (zh ns) \<noteq> []"
  proof
    assume "btoa (zh ns) = []"
    then have "zh ns = []" using atob_btoa [of "zh ns"] by (simp add: atob_def drop_padding_def js_endsWith_def)
    then show False using assms(2) by (cases ns) (auto simp: zh_def utf8_char_def split: if_splits)
  qed
  then show ?thesis by (simp add: decodeBytes_def atob_btoa TextDecoder_zh [OF assms(1,3)])
qed

theorem decodeBytes_btoa_witness:
  "decodeBytes (Some (btoa (zh [104, 105, 32, 19990]))) = zh [104, 105, 32, 19990]"
proof (rule decodeBytes_btoa)
  show "list_all scalar_value [104, 105, 32, 19990]" by (simp add: scalar_value_def)
  show "\<not> js_startsWith (zh [104, 105, 32, 19990]) (zh [65279])"
    by (simp add: zh_def utf8_char_def char_of_eq_iff)
qed simp

text \<open>\<open>fmtBytes\<close> picks the right binary unit: the scaled value is at least 1 and, below the
  last unit (TiB), less than 1024, and the unit index is \<open>floor(log2(n) / 10)\<close> capped at TiB.\<close>

theorem fmtBytes_unit:
  assumes "0 < n"
  shows "1 \<le> byte_value n \<and> (byte_unit n < 4 \<longrightarrow> byte_value n < 1024) \<and>
    int (byte_unit n) = min 4 \<lfloor>log 2 (real_of_int n) / 10\<rfloor>"
proof -
  have b: "1024 ^ log2_10 (nat n) \<le> nat n" "nat n < 1024 ^ Suc (log2_10 (nat n))"
    using log2_10_bounds [of "nat n"] assms by auto
  have pow: "(2 :: rat) ^ (10 * k) = of_nat (1024 ^ k)" for k
    by (simp add: power_mult)
  have u: "byte_unit n = min 4 (log2_10 (nat n))" by (simp add: byte_unit_def byte_units_def)
  have n: "(of_int n :: rat) = of_nat (nat n)" using assms by simp
  have "(1024 :: nat) ^ byte_unit n \<le> 1024 ^ log2_10 (nat n)" by (rule power_increasing) (simp_all add: u)
  then have "1024 ^ byte_unit n \<le> nat n" using b by linarith
  then have "1 \<le> byte_value n"
    unfolding byte_value_def pow n by (simp add: le_divide_eq del: of_nat_power of_nat_nat)
  moreover have "byte_value n < 1024" if "byte_unit n < 4"
  proof -
    have "byte_unit n = log2_10 (nat n)" using that u by linarith
    then have "nat n < 1024 * 1024 ^ byte_unit n" using b(2) by simp
    then have "of_nat (nat n) < (of_nat (1024 * 1024 ^ byte_unit n) :: rat)" by (rule of_nat_less_iff [THEN iffD2])
    then show ?thesis unfolding byte_value_def pow n by (simp add: divide_less_eq del: of_nat_nat)
  qed
  moreover have "\<lfloor>log 2 (real_of_int n) / 10\<rfloor> = int (log2_10 (nat n))"
    using log2_10_floor [of "nat n"] assms by simp
  then have "int (byte_unit n) = min 4 \<lfloor>log 2 (real_of_int n) / 10\<rfloor>"
    unfolding u by (simp only: of_nat_min of_nat_numeral)
  ultimately show ?thesis by blast
qed

theorem fmtBytes_unit_witness: "1 \<le> byte_value 1536 \<and> byte_unit 1536 = 1"
  using fmtBytes_unit [of 1536] by (simp add: byte_unit_def byte_units_def log2_10.simps)

end
