(* ===== verification/I18n.thy ===== *)
theory I18n
  imports Client
begin

text \<open>
  The locale store (\<open>web/src/lib/i18n.ts\<close>) and the language switch of the sidebar
  (\<open>web/src/components/langToggle.tsx\<close>).  The module's state is the current locale, the storage
  it persists to, the \<open>lang\<close> attribute of the document and the listeners; \<open>notified\<close> records
  the listeners called, in order.
\<close>

datatype Locale = En | Zh

type_synonym TFn = "string \<Rightarrow> string \<Rightarrow> string"

definition STORAGE_KEY :: string where
  "STORAGE_KEY = ''embervm.locale''"

definition locale_text :: "Locale \<Rightarrow> string" where
  "locale_text l = (case l of En \<Rightarrow> ''en'' | Zh \<Rightarrow> ''zh'')"

definition html_lang :: "Locale \<Rightarrow> string" where
  "html_lang l = (if l = Zh then ''zh-CN'' else ''en'')"

text \<open>The second argument is \<open>navigator.language\<close>, which may be undefined.\<close>

definition initialLocale :: "local_storage \<Rightarrow> string option \<Rightarrow> Locale" where
  "initialLocale m language =
     (let saved = ls_get STORAGE_KEY m
      in if saved = Some ''en'' then En
         else if saved = Some ''zh'' then Zh
         else case language of
           None \<Rightarrow> En
         | Some l \<Rightarrow> if js_startsWith (js_toLowerCase l) ''zh'' then Zh else En)"

record i18n_state =
  i_locale :: Locale
  i_storage :: local_storage
  i_html_lang :: string
  i_listeners :: "nat list"
  i_notified :: "nat list"

text \<open>Module load: read the locale and set \<open>lang\<close> before the first paint.\<close>

definition i18n_load :: "local_storage \<Rightarrow> string option \<Rightarrow> i18n_state" where
  "i18n_load m language =
     (let l = initialLocale m language
      in \<lparr>i_locale = l, i_storage = m, i_html_lang = html_lang l, i_listeners = [],
          i_notified = []\<rparr>)"

definition getLocale :: "i18n_state \<Rightarrow> Locale" where
  "getLocale s = i_locale s"

definition setLocale :: "Locale \<Rightarrow> i18n_state \<Rightarrow> i18n_state" where
  "setLocale next s =
     (if next = i_locale s then s
      else s\<lparr>i_locale := next,
             i_storage := ls_set STORAGE_KEY (locale_text next) (i_storage s),
             i_html_lang := html_lang next,
             i_notified := i_notified s @ i_listeners s\<rparr>)"

definition i18n_subscribe :: "nat \<Rightarrow> i18n_state \<Rightarrow> i18n_state" where
  "i18n_subscribe fn s = s\<lparr>i_listeners := set_add fn (i_listeners s)\<rparr>"

definition i18n_unsubscribe :: "nat \<Rightarrow> i18n_state \<Rightarrow> i18n_state" where
  "i18n_unsubscribe fn s = s\<lparr>i_listeners := set_delete fn (i_listeners s)\<rparr>"

text \<open>\<open>useI18n().t\<close>, bound to a locale.\<close>

definition tr :: "Locale \<Rightarrow> TFn" where
  "tr current en zh_text = (if current = Zh then zh_text else en)"

text \<open>The switch in the sidebar: value, label and whether the option is pressed.\<close>

definition LangToggle :: "Locale \<Rightarrow> (Locale \<times> string \<times> bool) list" where
  "LangToggle current =
     map (\<lambda>(v, label). (v, label, current = v)) [(En, ''EN''), (Zh, zh [0x4E2D])]"

section \<open>The store's contract\<close>

interpretation i18n: listener_store i_listeners getLocale i18n_subscribe i18n_unsubscribe
  by unfold_locales (simp_all add: i18n_subscribe_def i18n_unsubscribe_def getLocale_def)

lemma tr_simps [simp]: "tr En en z = en" "tr Zh en z = z"
  by (simp_all add: tr_def)

text \<open>A reload of the page finds the locale that was set last, whatever the browser's
  language.\<close>

lemma initialLocale_setLocale:
  "getLocale s \<noteq> l \<Longrightarrow> initialLocale (i_storage (setLocale l s)) language = l"
  by (cases l) (simp_all add: initialLocale_def setLocale_def getLocale_def locale_text_def
      ls.get_put_same)

lemma setLocale_lang: "i_html_lang s = html_lang (i_locale s) \<Longrightarrow>
  i_html_lang (setLocale l s) = html_lang (i_locale (setLocale l s))"
  by (simp add: setLocale_def)

section \<open>Properties\<close>

text \<open>Switching the language takes effect once and completely: the store holds the new locale,
  the document's \<open>lang\<close> matches it, a reload with any browser language comes back to it, other
  storage keys are untouched, and each subscribed component is notified exactly once.\<close>

theorem setLocale_complete:
  assumes "getLocale s \<noteq> l"
  shows "getLocale (setLocale l s) = l \<and> i_html_lang (setLocale l s) = html_lang l \<and>
    getLocale (i18n_load (i_storage (setLocale l s)) language) = l \<and>
    (\<forall>k. k \<noteq> STORAGE_KEY \<longrightarrow> ls_get k (i_storage (setLocale l s)) = ls_get k (i_storage s)) \<and>
    i_notified (setLocale l s) = i_notified s @ i_listeners s"
  using assms initialLocale_setLocale [OF assms, of language]
  by (auto simp: setLocale_def getLocale_def i18n_load_def Let_def ls.get_put_other)

theorem setLocale_complete_witness:
  "getLocale (i18n_load (i_storage (setLocale Zh (i18n_subscribe 1 (i18n_load Map.empty (Some ''en-US''))))) (Some ''fr''))
     = Zh"
proof -
  have "getLocale (i18n_subscribe 1 (i18n_load Map.empty (Some ''en-US''))) \<noteq> Zh"
    by (simp add: getLocale_def i18n_subscribe_def i18n_load_def initialLocale_def ls_get_def
        js_toLowerCase_def char_lower_def)
  then show ?thesis using setLocale_complete by blast
qed

end
