(* ===== verification/Geometry.thy ===== *)
theory Geometry
  imports I18n
begin

text \<open>
  Sandbox geometry: the console's rules (\<open>web/src/lib/geometry.ts\<close>) beside the control plane's
  (\<open>pkg/controlplane/server.go\<close> and \<open>defaults.go\<close>), which they are meant to mirror.  The server
  side is the geometry part of \<open>createSandbox\<close>: bounds, the resolution of defaults, ceilings,
  the autoscale rule and the slot rounding of the stored ceiling.
\<close>

section \<open>The console\<close>

definition HOTPLUG_SLOT_MIB :: int where
  "HOTPLUG_SLOT_MIB = 128"

definition MAX_VCPUS :: int where
  "MAX_VCPUS = 64"

definition MAX_MEMORY_MIB :: int where
  "MAX_MEMORY_MIB = 1048576"

definition MAX_DISK_GIB :: int where
  "MAX_DISK_GIB = 4096"

record base_geometry =
  g_vcpus :: int
  g_memory_mib :: int

definition DEFAULT_BASE :: base_geometry where
  "DEFAULT_BASE = \<lparr>g_vcpus = 1, g_memory_mib = 256\<rparr>"

definition DEFAULT_CEILING :: base_geometry where
  "DEFAULT_CEILING = \<lparr>g_vcpus = 4, g_memory_mib = 4096\<rparr>"

definition roundUpToSlot :: "int \<Rightarrow> int" where
  "roundUpToSlot n = \<lceil>(of_int n :: rat) / of_int HOTPLUG_SLOT_MIB\<rceil> * HOTPLUG_SLOT_MIB"

definition effectiveCeiling :: "int \<Rightarrow> int \<Rightarrow> int" where
  "effectiveCeiling baseMiB maxMiB =
     (if maxMiB \<le> baseMiB then baseMiB else baseMiB + roundUpToSlot (maxMiB - baseMiB))"

record ElasticPreset =
  ep_key :: string
  ep_label :: string
  ep_zh :: string
  ep_max_memory_mib :: "int option"
  ep_max_vcpus :: "int option"

definition ELASTIC_PRESETS :: "ElasticPreset list" where
  "ELASTIC_PRESETS =
     [\<lparr>ep_key = ''standard'', ep_label = ''Standard'', ep_zh = zh [0x6807, 0x51C6],
       ep_max_memory_mib = None, ep_max_vcpus = None\<rparr>,
      \<lparr>ep_key = ''small'', ep_label = ''Small'', ep_zh = zh [0x5C0F, 0x578B],
       ep_max_memory_mib = Some 1024, ep_max_vcpus = Some 1\<rparr>,
      \<lparr>ep_key = ''large'', ep_label = ''Large'', ep_zh = zh [0x5927, 0x578B],
       ep_max_memory_mib = Some 8192, ep_max_vcpus = Some 8\<rparr>]"

record GeometryInput =
  gi_vcpus :: "int option"
  gi_memory_mib :: "int option"
  gi_data_disk_gib :: "int option"
  gi_max_vcpus :: "int option"
  gi_max_memory_mib :: "int option"
  gi_autoscale :: "bool option"

definition validateGeometry :: "GeometryInput \<Rightarrow> TFn \<Rightarrow> string option" where
  "validateGeometry g t =
     (let vcpus = nullish (gi_vcpus g) 0;
          memory_mib = nullish (gi_memory_mib g) 0;
          data_disk_gib = nullish (gi_data_disk_gib g) 0;
          max_vcpus = nullish (gi_max_vcpus g) 0;
          max_memory_mib = nullish (gi_max_memory_mib g) 0;
          baseGiven = (vcpus > 0 \<or> memory_mib > 0);
          maxGiven = (max_vcpus > 0 \<or> max_memory_mib > 0)
      in if vcpus < 0 \<or> vcpus > MAX_VCPUS then
           Some (t (''vCPUs must be within 1'' @ zh [0x2013] @ js_num MAX_VCPUS)
                   ((''vCPU '' @ zh [0x987B, 0x5728] @ '' 1'' @ zh [0x2013]) @ js_num MAX_VCPUS @ ('' '' @ zh [0x4E4B, 0x95F4])))
         else if memory_mib < 0 \<or> memory_mib > MAX_MEMORY_MIB then
           Some (t ((''Memory must be within 1 MiB '' @ zh [0x2013] @ '' 1 TiB'')) ((zh [0x5185, 0x5B58, 0x987B, 0x5728] @ '' 1 MiB '' @ zh [0x2013] @ '' 1 TiB '' @ zh [0x4E4B, 0x95F4])))
         else if data_disk_gib < 0 \<or> data_disk_gib > MAX_DISK_GIB then
           Some (t (''Disk must be within 1'' @ zh [0x2013] @ js_num MAX_DISK_GIB @ '' GiB'')
                   ((zh [0x78C1, 0x76D8, 0x987B, 0x5728] @ '' 1'' @ zh [0x2013]) @ js_num MAX_DISK_GIB @ ('' GiB '' @ zh [0x4E4B, 0x95F4])))
         else if max_memory_mib \<noteq> 0 \<and> memory_mib \<noteq> 0 \<and> max_memory_mib < memory_mib then
           Some (t ((''Memory ceiling must be '' @ zh [0x2265] @ '' base memory'')) (zh [0x5185, 0x5B58, 0x4E0A, 0x9650, 0x987B, 0x4E0D, 0x4F4E, 0x4E8E, 0x57FA, 0x7840, 0x5185, 0x5B58]))
         else if max_memory_mib \<noteq> 0 \<and> max_memory_mib > MAX_MEMORY_MIB then
           Some (t ''Memory ceiling exceeds 1 TiB'' ((zh [0x5185, 0x5B58, 0x4E0A, 0x9650, 0x8D85, 0x8FC7] @ '' 1 TiB'')))
         else if max_vcpus \<noteq> 0 \<and> vcpus \<noteq> 0 \<and> max_vcpus < vcpus then
           Some (t ((''vCPU ceiling must be '' @ zh [0x2265] @ '' base vCPUs'')) ((''vCPU '' @ zh [0x4E0A, 0x9650, 0x987B, 0x4E0D, 0x4F4E, 0x4E8E, 0x57FA, 0x7840] @ '' vCPU'')))
         else if max_vcpus \<noteq> 0 \<and> max_vcpus > MAX_VCPUS then
           Some (t (''vCPU ceiling exceeds '' @ js_num MAX_VCPUS)
                   ((''vCPU '' @ zh [0x4E0A, 0x9650, 0x8D85, 0x8FC7] @ '' '') @ js_num MAX_VCPUS))
         else if truthy_bool (gi_autoscale g) \<and> baseGiven \<and> \<not> maxGiven then
           Some (t ((''Autoscale needs a ceiling '' @ zh [0x2014] @ '' set max memory/vCPUs, or leave the base empty for the platform default''))
                   ((zh [0x81EA, 0x52A8, 0x4F38, 0x7F29, 0x9700, 0x8981, 0x4E0A, 0x9650, 0x2014, 0x2014, 0x8BF7, 0x8BBE, 0x7F6E, 0x5185, 0x5B58] @ ''/vCPU '' @ zh [0x4E0A, 0x9650, 0xFF0C, 0x6216, 0x4E0D, 0x586B, 0x57FA, 0x7840, 0x89C4, 0x683C, 0x4EE5, 0x4F7F, 0x7528, 0x5E73, 0x53F0, 0x9ED8, 0x8BA4])))
         else None)"

definition slotRoundingHint :: "int \<Rightarrow> int \<Rightarrow> TFn \<Rightarrow> string option" where
  "slotRoundingHint baseMiB maxMiB t =
     (if maxMiB \<le> baseMiB then None
      else let eff = effectiveCeiling baseMiB maxMiB
           in if eff = maxMiB then None
              else Some (t (''Ceiling rounds up to '' @ js_num eff @ '' MiB (128 MiB slots)'')
                           ((zh [0x4E0A, 0x9650, 0x5C06, 0x53D6, 0x6574, 0x5230] @ '' '') @ js_num eff @ ('' MiB'' @ zh [0xFF08] @ ''128 MiB '' @ zh [0x7C92, 0x5EA6, 0xFF09]))))"

section \<open>The control plane\<close>

record createSandboxBody =
  b_TemplateID :: string
  b_VCPUs :: int
  b_MemoryMiB :: int
  b_DataDiskGiB :: int
  b_ArtifactPaths :: "string list"
  b_Egress :: string
  b_MaxMemoryMiB :: int
  b_MaxVCPUs :: int
  b_Autoscale :: "bool option"

record ElasticDefaults =
  d_Disabled :: bool
  d_BaseVCPUs :: int
  d_BaseMemoryMiB :: int
  d_DataDiskGiB :: int
  d_MaxVCPUs :: int
  d_MaxMemoryMiB :: int

definition withDefaults :: "ElasticDefaults \<Rightarrow> ElasticDefaults" where
  "withDefaults d0 =
     (let d1 = (if d_BaseVCPUs d0 \<le> 0 then d0\<lparr>d_BaseVCPUs := 1\<rparr> else d0);
          d2 = (if d_BaseMemoryMiB d1 \<le> 0 then d1\<lparr>d_BaseMemoryMiB := 256\<rparr> else d1);
          d3 = (if d_DataDiskGiB d2 \<le> 0 then d2\<lparr>d_DataDiskGiB := 15\<rparr> else d2);
          d4 = (if d_MaxVCPUs d3 \<le> 0 then d3\<lparr>d_MaxVCPUs := 4\<rparr> else d3);
          d5 = (if d_MaxMemoryMiB d4 \<le> 0 then d4\<lparr>d_MaxMemoryMiB := 4096\<rparr> else d4);
          d6 = (if d_MaxVCPUs d5 < d_BaseVCPUs d5 then d5\<lparr>d_MaxVCPUs := d_BaseVCPUs d5\<rparr> else d5)
      in if d_MaxMemoryMiB d6 < d_BaseMemoryMiB d6
         then d6\<lparr>d_MaxMemoryMiB := d_BaseMemoryMiB d6\<rparr> else d6)"

text \<open>The errors of the Go functions, with the values their messages carry.\<close>

datatype geometry_error =
    VCPUsRange int | MemoryRange int | DiskRange int
  | MaxMemoryNeedsBase | MaxMemoryRange int int | MaxVCPUsNeedsBase | MaxVCPUsRange int int
  | AutoscaleNeedsCeiling

definition srv_validateGeometry :: "int \<Rightarrow> int \<Rightarrow> int \<Rightarrow> geometry_error option" where
  "srv_validateGeometry vcpus memoryMiB dataDiskGiB =
     (if vcpus < 0 \<or> vcpus > 64 then Some (VCPUsRange vcpus)
      else if memoryMiB < 0 \<or> memoryMiB > 2 ^ 20 then Some (MemoryRange memoryMiB)
      else if dataDiskGiB < 0 \<or> dataDiskGiB > 4096 then Some (DiskRange dataDiskGiB)
      else None)"

definition srv_validateCeilings :: "int \<Rightarrow> int \<Rightarrow> int \<Rightarrow> int \<Rightarrow> geometry_error option" where
  "srv_validateCeilings vcpus memoryMiB maxVCPUs maxMemoryMiB =
     (if maxMemoryMiB \<noteq> 0 \<and> memoryMiB = 0 then Some MaxMemoryNeedsBase
      else if maxMemoryMiB \<noteq> 0 \<and> (maxMemoryMiB < memoryMiB \<or> maxMemoryMiB > 2 ^ 20)
        then Some (MaxMemoryRange maxMemoryMiB memoryMiB)
      else if maxVCPUs \<noteq> 0 \<and> vcpus = 0 then Some MaxVCPUsNeedsBase
      else if maxVCPUs \<noteq> 0 \<and> (maxVCPUs < vcpus \<or> maxVCPUs > 64)
        then Some (MaxVCPUsRange maxVCPUs vcpus)
      else None)"

text \<open>Go's \<open>/\<close> truncates towards zero.\<close>

definition go_quot :: "int \<Rightarrow> int \<Rightarrow> int" where
  "go_quot a b = sgn a * sgn b * (\<bar>a\<bar> div \<bar>b\<bar>)"

definition srv_roundUpToSlot :: "int \<Rightarrow> int" where
  "srv_roundUpToSlot n = go_quot (n + 128 - 1) 128 * 128"

definition resolveGeometry ::
  "createSandboxBody \<Rightarrow> ElasticDefaults \<Rightarrow> geometry_error + createSandboxBody" where
  "resolveGeometry b d0 =
     (let d = withDefaults d0;
          baseGiven = (b_VCPUs b > 0 \<or> b_MemoryMiB b > 0);
          maxGiven = (b_MaxVCPUs b > 0 \<or> b_MaxMemoryMiB b > 0);
          fill_disk = (\<lambda>b. if b_DataDiskGiB b = 0 then b\<lparr>b_DataDiskGiB := d_DataDiskGiB d\<rparr> else b)
      in if d_Disabled d then Inr b
         else if \<not> baseGiven then
           (let b1 = b\<lparr>b_VCPUs := d_BaseVCPUs d, b_MemoryMiB := d_BaseMemoryMiB d\<rparr>;
                b2 = (if \<not> maxGiven
                      then b1\<lparr>b_MaxVCPUs := d_MaxVCPUs d, b_MaxMemoryMiB := d_MaxMemoryMiB d\<rparr>
                      else b1);
                b3 = (if b_Autoscale b2 = None then b2\<lparr>b_Autoscale := Some True\<rparr> else b2)
            in Inr (fill_disk b3))
         else if \<not> maxGiven then
           (if b_Autoscale b = Some True then Inl AutoscaleNeedsCeiling
            else let b1 = (if b_VCPUs b = 0 then b\<lparr>b_VCPUs := d_BaseVCPUs d\<rparr> else b);
                     b2 = (if b_MemoryMiB b1 = 0 then b1\<lparr>b_MemoryMiB := d_BaseMemoryMiB d\<rparr> else b1)
                 in Inr (fill_disk b2))
         else Inr (fill_disk b))"

text \<open>The geometry part of \<open>createSandbox\<close>, after the check that a template is named: what is stored,
  or the 400 answer.\<close>

definition create_geometry ::
  "ElasticDefaults \<Rightarrow> createSandboxBody \<Rightarrow> geometry_error + createSandboxBody" where
  "create_geometry d body0 =
     (case srv_validateGeometry (b_VCPUs body0) (b_MemoryMiB body0) (b_DataDiskGiB body0) of
        Some e \<Rightarrow> Inl e
      | None \<Rightarrow>
          (case resolveGeometry body0 d of
             Inl e \<Rightarrow> Inl e
           | Inr body \<Rightarrow>
               (case srv_validateCeilings (b_VCPUs body) (b_MemoryMiB body) (b_MaxVCPUs body)
                       (b_MaxMemoryMiB body) of
                  Some e \<Rightarrow> Inl e
                | None \<Rightarrow>
                    if b_Autoscale body = Some True \<and> b_MaxMemoryMiB body = 0 \<and> b_MaxVCPUs body = 0
                    then Inl AutoscaleNeedsCeiling
                    else Inr (if b_MaxMemoryMiB body > b_MemoryMiB body
                              then body\<lparr>b_MaxMemoryMiB := b_MemoryMiB body
                                     + srv_roundUpToSlot (b_MaxMemoryMiB body - b_MemoryMiB body)\<rparr>
                              else body))))"

text \<open>The body a geometry input becomes on the wire: absent numbers decode to 0.\<close>

definition wire_body :: "string \<Rightarrow> GeometryInput \<Rightarrow> createSandboxBody" where
  "wire_body tid g =
     \<lparr>b_TemplateID = tid, b_VCPUs = nullish (gi_vcpus g) 0,
      b_MemoryMiB = nullish (gi_memory_mib g) 0, b_DataDiskGiB = nullish (gi_data_disk_gib g) 0,
      b_ArtifactPaths = [], b_Egress = '''', b_MaxMemoryMiB = nullish (gi_max_memory_mib g) 0, b_MaxVCPUs = nullish (gi_max_vcpus g) 0,
      b_Autoscale = gi_autoscale g\<rparr>"

section \<open>Facts about rounding\<close>

lemmas geometry_consts = HOTPLUG_SLOT_MIB_def MAX_VCPUS_def MAX_MEMORY_MIB_def MAX_DISK_GIB_def

lemma roundUpToSlot_div: "roundUpToSlot n = (n + 127) div 128 * 128"
proof -
  have "- ((of_int n :: rat) / 128) = of_int (- n) / of_int 128" by simp
  then have "\<lceil>(of_int n :: rat) / 128\<rceil> = - (- n div 128)"
    unfolding ceiling_def by (simp only: floor_divide_of_int_eq)
  also have "- (- n div 128) = (n + 127) div 128" by linarith
  finally show ?thesis by (simp add: roundUpToSlot_def geometry_consts)
qed

lemma srv_roundUpToSlot_eq: "0 \<le> n \<Longrightarrow> srv_roundUpToSlot n = roundUpToSlot n"
  by (simp add: srv_roundUpToSlot_def go_quot_def roundUpToSlot_div sgn_if)

lemma roundUpToSlot_bounds: "n \<le> roundUpToSlot n \<and> roundUpToSlot n < n + 128 \<and> roundUpToSlot n mod 128 = 0"
  unfolding roundUpToSlot_div by (simp, presburger)

lemma withDefaults_pos:
  "0 < d_BaseVCPUs (withDefaults d)" "0 < d_BaseMemoryMiB (withDefaults d)"
  "d_BaseVCPUs (withDefaults d) \<le> d_MaxVCPUs (withDefaults d)"
  "d_BaseMemoryMiB (withDefaults d) \<le> d_MaxMemoryMiB (withDefaults d)"
  "d_Disabled (withDefaults d) = d_Disabled d"
  by (simp_all add: withDefaults_def Let_def)

lemma effectiveCeiling_server:
  "maxMiB > baseMiB \<Longrightarrow>
   baseMiB + srv_roundUpToSlot (maxMiB - baseMiB) = effectiveCeiling baseMiB maxMiB"
  by (simp add: effectiveCeiling_def srv_roundUpToSlot_eq)

lemma effectiveCeiling_self [simp]: "effectiveCeiling b b = b"
  by (simp add: effectiveCeiling_def)

lemmas server_rules = create_geometry_def srv_validateGeometry_def resolveGeometry_def
  srv_validateCeilings_def wire_body_def

text \<open>Both checks as conditions on the five numbers and the autoscale flag.\<close>

definition geometry_bounds :: "int \<Rightarrow> int \<Rightarrow> int \<Rightarrow> bool" where
  "geometry_bounds v m dk \<longleftrightarrow> 0 \<le> v \<and> v \<le> 64 \<and> 0 \<le> m \<and> m \<le> 1048576 \<and> 0 \<le> dk \<and> dk \<le> 4096"

definition client_ceilings :: "int \<Rightarrow> int \<Rightarrow> int \<Rightarrow> int \<Rightarrow> bool" where
  "client_ceilings v m V M \<longleftrightarrow> (M \<noteq> 0 \<and> m \<noteq> 0 \<longrightarrow> m \<le> M) \<and> M \<le> 1048576 \<and>
     (V \<noteq> 0 \<and> v \<noteq> 0 \<longrightarrow> v \<le> V) \<and> V \<le> 64"

lemma if_Some_None: "(if P then Some x else y) = None \<longleftrightarrow> \<not> P \<and> y = None"
  by simp

lemma validateGeometry_None:
  "validateGeometry \<lparr>gi_vcpus = vo, gi_memory_mib = mo, gi_data_disk_gib = dko, gi_max_vcpus = Vo,
       gi_max_memory_mib = Mo, gi_autoscale = a\<rparr> t = None \<longleftrightarrow>
     geometry_bounds (nullish vo 0) (nullish mo 0) (nullish dko 0) \<and>
     client_ceilings (nullish vo 0) (nullish mo 0) (nullish Vo 0) (nullish Mo 0) \<and>
     \<not> (truthy_bool a \<and> (nullish vo 0 > 0 \<or> nullish mo 0 > 0) \<and>
        \<not> (nullish Vo 0 > 0 \<or> nullish Mo 0 > 0))"
  unfolding validateGeometry_def geometry_bounds_def client_ceilings_def Let_def geometry_consts
    GeometryInput.select_convs
  by (simp only: if_Some_None simp_thms not_less not_le de_Morgan_disj de_Morgan_conj) auto

lemma srv_validateGeometry_None: "srv_validateGeometry v m dk = None \<longleftrightarrow> geometry_bounds v m dk"
  by (auto simp: srv_validateGeometry_def geometry_bounds_def)

lemma srv_validateCeilings_None: "srv_validateCeilings v m V M = None \<longleftrightarrow>
  (M = 0 \<or> m \<noteq> 0 \<and> m \<le> M \<and> M \<le> 1048576) \<and> (V = 0 \<or> v \<noteq> 0 \<and> v \<le> V \<and> V \<le> 64)"
  by (auto simp: srv_validateCeilings_def)

text \<open>A request with an explicit base in both dimensions passes through the resolution of
  defaults with its geometry unchanged.\<close>

lemma resolveGeometry_explicit:
  assumes "0 < b_VCPUs b" "0 < b_MemoryMiB b" "resolveGeometry b d = Inr b'"
  shows "b_VCPUs b' = b_VCPUs b \<and> b_MemoryMiB b' = b_MemoryMiB b \<and> b_MaxVCPUs b' = b_MaxVCPUs b \<and>
    b_MaxMemoryMiB b' = b_MaxMemoryMiB b \<and> b_Autoscale b' = b_Autoscale b \<and>
    b_DataDiskGiB b' = (if b_DataDiskGiB b = 0 \<and> \<not> d_Disabled d then d_DataDiskGiB (withDefaults d) else b_DataDiskGiB b)"
  using assms withDefaults_pos(5) [of d] by (auto simp: resolveGeometry_def Let_def split: if_splits)

lemma resolveGeometry_explicit_error:
  assumes "0 < b_VCPUs b" "0 < b_MemoryMiB b"
  shows "(\<exists>e. resolveGeometry b d = Inl e) \<longleftrightarrow>
    \<not> d_Disabled d \<and> b_Autoscale b = Some True \<and> \<not> (b_MaxVCPUs b > 0 \<or> b_MaxMemoryMiB b > 0)"
  using assms by (auto simp: resolveGeometry_def Let_def withDefaults_pos)

lemma wire_body_sel [simp]:
  "b_VCPUs (wire_body tid g) = nullish (gi_vcpus g) 0"
  "b_MemoryMiB (wire_body tid g) = nullish (gi_memory_mib g) 0"
  "b_DataDiskGiB (wire_body tid g) = nullish (gi_data_disk_gib g) 0"
  "b_MaxVCPUs (wire_body tid g) = nullish (gi_max_vcpus g) 0"
  "b_MaxMemoryMiB (wire_body tid g) = nullish (gi_max_memory_mib g) 0"
  "b_Autoscale (wire_body tid g) = gi_autoscale g"
  by (simp_all add: wire_body_def)

lemma validateGeometry_None':
  "validateGeometry g t = None \<longleftrightarrow>
     (let b = wire_body [] g in
      geometry_bounds (b_VCPUs b) (b_MemoryMiB b) (b_DataDiskGiB b) \<and>
      client_ceilings (b_VCPUs b) (b_MemoryMiB b) (b_MaxVCPUs b) (b_MaxMemoryMiB b) \<and>
      \<not> (b_Autoscale b = Some True \<and> (b_VCPUs b > 0 \<or> b_MemoryMiB b > 0) \<and>
         \<not> (b_MaxVCPUs b > 0 \<or> b_MaxMemoryMiB b > 0)))"
  by (cases g) (simp add: validateGeometry_None truthy_bool_def)

text \<open>Acceptance by the server, as a condition on the resolved body.\<close>

lemma create_geometry_accepts:
  "(\<exists>b'. create_geometry d b = Inr b') \<longleftrightarrow>
     geometry_bounds (b_VCPUs b) (b_MemoryMiB b) (b_DataDiskGiB b) \<and>
     (\<exists>r. resolveGeometry b d = Inr r \<and>
        srv_validateCeilings (b_VCPUs r) (b_MemoryMiB r) (b_MaxVCPUs r) (b_MaxMemoryMiB r) = None \<and>
        \<not> (b_Autoscale r = Some True \<and> b_MaxMemoryMiB r = 0 \<and> b_MaxVCPUs r = 0))"
  by (auto simp: create_geometry_def simp flip: srv_validateGeometry_None
      split: option.splits sum.splits)

lemma create_geometry_ceiling:
  assumes "create_geometry d b = Inr b'" and "0 < b_VCPUs b" and "0 < b_MemoryMiB b"
    and "b_MemoryMiB b \<le> b_MaxMemoryMiB b"
  shows "b_MaxMemoryMiB b' = effectiveCeiling (b_MemoryMiB b) (b_MaxMemoryMiB b)"
proof -
  from assms(1) obtain r where r: "resolveGeometry b d = Inr r"
    and b': "b' = (if b_MaxMemoryMiB r > b_MemoryMiB r
              then r\<lparr>b_MaxMemoryMiB := b_MemoryMiB r + srv_roundUpToSlot (b_MaxMemoryMiB r - b_MemoryMiB r)\<rparr>
              else r)"
    by (auto simp: create_geometry_def split: option.splits sum.splits if_splits)
  from resolveGeometry_explicit [OF assms(2,3) r] b' assms(4) show ?thesis
    by (auto simp: effectiveCeiling_server)
qed

lemma create_geometry_carries:
  "create_geometry d b = Inr c \<Longrightarrow> b_TemplateID c = b_TemplateID b \<and> b_Egress c = b_Egress b"
  by (auto simp: create_geometry_def resolveGeometry_def Let_def split: option.splits sum.splits if_splits)

text \<open>The resolution keeps a violated ceiling rule violated.\<close>

lemma resolve_keeps_violation:
  assumes "\<not> d_Disabled d" and "geometry_bounds (b_VCPUs b) (b_MemoryMiB b) (b_DataDiskGiB b)"
    and "\<not> client_ceilings (b_VCPUs b) (b_MemoryMiB b) (b_MaxVCPUs b) (b_MaxMemoryMiB b)"
    and "resolveGeometry b d = Inr r"
  shows "srv_validateCeilings (b_VCPUs r) (b_MemoryMiB r) (b_MaxVCPUs r) (b_MaxMemoryMiB r) \<noteq> None"
proof -
  consider (fresh) "b_VCPUs b = 0" "b_MemoryMiB b = 0"
    | (nomax) "b_VCPUs b > 0 \<or> b_MemoryMiB b > 0" "b_MaxVCPUs b \<le> 0" "b_MaxMemoryMiB b \<le> 0"
    | (both) "b_VCPUs b > 0 \<or> b_MemoryMiB b > 0" "b_MaxVCPUs b > 0 \<or> b_MaxMemoryMiB b > 0"
    using assms(2) by (fastforce simp: geometry_bounds_def)
  then show ?thesis
  proof cases
    case fresh
    with assms(3) have "b_MaxMemoryMiB b > 1048576 \<or> b_MaxVCPUs b > 64"
      by (auto simp: client_ceilings_def)
    with fresh assms(1,4) show ?thesis
      by (auto simp: resolveGeometry_def Let_def withDefaults_pos srv_validateCeilings_None split: if_splits)
  next
    case nomax
    with assms(2,3) have "(b_MaxMemoryMiB b < 0 \<and> b_MemoryMiB b > 0) \<or> (b_MaxVCPUs b < 0 \<and> b_VCPUs b > 0)"
      by (auto simp: client_ceilings_def geometry_bounds_def)
    with nomax assms(1,2,4) show ?thesis
      by (auto simp: resolveGeometry_def Let_def withDefaults_pos srv_validateCeilings_None
          geometry_bounds_def split: if_splits)
  next
    case both
    then have "b_VCPUs r = b_VCPUs b" "b_MemoryMiB r = b_MemoryMiB b" "b_MaxVCPUs r = b_MaxVCPUs b"
      "b_MaxMemoryMiB r = b_MaxMemoryMiB b"
      using assms(1,4) by (auto simp: resolveGeometry_def Let_def withDefaults_pos split: if_splits)
    with assms(3) show ?thesis by (auto simp: srv_validateCeilings_None client_ceilings_def)
  qed
qed

section \<open>Properties\<close>

text \<open>The ceiling the console announces is the smallest one on the slot grid above the base
  that covers the requested maximum.\<close>

theorem effectiveCeiling_least:
  assumes "baseMiB \<le> maxMiB"
  shows "maxMiB \<le> effectiveCeiling baseMiB maxMiB \<and>
    effectiveCeiling baseMiB maxMiB < maxMiB + HOTPLUG_SLOT_MIB \<and>
    HOTPLUG_SLOT_MIB dvd effectiveCeiling baseMiB maxMiB - baseMiB"
  using assms roundUpToSlot_bounds [of "maxMiB - baseMiB"]
  by (auto simp: effectiveCeiling_def geometry_consts mod_eq_0_iff_dvd)

theorem effectiveCeiling_least_witness: "effectiveCeiling 256 1000 = 1024 \<and> 1000 \<le> effectiveCeiling 256 1000"
  using effectiveCeiling_least [of 256 1000] by (simp add: effectiveCeiling_def roundUpToSlot_div)

text \<open>C32: No false alarms: whatever the console's geometry check rejects, a control plane with
  default-elastic geometry enabled rejects too, in every locale.\<close>

theorem validateGeometry_sound:
  assumes "validateGeometry g t \<noteq> None" and "\<not> d_Disabled d"
  shows "\<exists>e. create_geometry d (wire_body tid g) = Inl e"
proof (rule ccontr)
  let ?b = "wire_body tid g"
  assume "\<not> (\<exists>e. create_geometry d ?b = Inl e)"
  then have "\<exists>b'. create_geometry d ?b = Inr b'" by (cases "create_geometry d ?b") auto
  then obtain r where ok: "geometry_bounds (b_VCPUs ?b) (b_MemoryMiB ?b) (b_DataDiskGiB ?b)"
    "resolveGeometry ?b d = Inr r"
    "srv_validateCeilings (b_VCPUs r) (b_MemoryMiB r) (b_MaxVCPUs r) (b_MaxMemoryMiB r) = None"
    unfolding create_geometry_accepts by blast
  with assms resolve_keeps_violation [OF assms(2) ok(1) _ ok(2)]
  have "gi_autoscale g = Some True" "b_VCPUs ?b > 0 \<or> b_MemoryMiB ?b > 0"
    "\<not> (b_MaxVCPUs ?b > 0 \<or> b_MaxMemoryMiB ?b > 0)"
    by (auto simp: validateGeometry_None' Let_def)
  with ok(2) assms(2) show False
    by (auto simp: resolveGeometry_def Let_def withDefaults_pos split: if_splits)
qed

theorem validateGeometry_sound_witness:
  "\<exists>e. create_geometry
      \<lparr>d_Disabled = False, d_BaseVCPUs = 0, d_BaseMemoryMiB = 0, d_DataDiskGiB = 0, d_MaxVCPUs = 0,
       d_MaxMemoryMiB = 0\<rparr>
      (wire_body ''tpl'' \<lparr>gi_vcpus = Some 65, gi_memory_mib = None, gi_data_disk_gib = None,
         gi_max_vcpus = None, gi_max_memory_mib = None, gi_autoscale = None\<rparr>) = Inl e"
  by (rule validateGeometry_sound [where t = "tr En"])
     (simp_all add: validateGeometry_None geometry_bounds_def)

text \<open>C33: With an explicit base in both dimensions (the advanced and fixed forms) the console's check
  and the control plane's agree exactly, whatever the server's elastic defaults, and an accepted
  ceiling is stored as the rounded value the console announces.\<close>

theorem validateGeometry_complete:
  assumes "0 < nullish (gi_vcpus g) 0" and "0 < nullish (gi_memory_mib g) 0"
  shows "(validateGeometry g t = None \<longleftrightarrow> (\<exists>b. create_geometry d (wire_body tid g) = Inr b)) \<and>
    (\<forall>b M. create_geometry d (wire_body tid g) = Inr b \<longrightarrow> gi_max_memory_mib g = Some M \<longrightarrow> M \<noteq> 0 \<longrightarrow>
       b_MaxMemoryMiB b = effectiveCeiling (nullish (gi_memory_mib g) 0) M)"
proof (intro conjI allI impI)
  let ?b = "wire_body tid g"
  have pos: "0 < b_VCPUs ?b" "0 < b_MemoryMiB ?b" using assms by simp_all
  have acc: "(\<exists>b. create_geometry d ?b = Inr b) \<longleftrightarrow>
     geometry_bounds (b_VCPUs ?b) (b_MemoryMiB ?b) (b_DataDiskGiB ?b) \<and>
     (\<exists>r. resolveGeometry ?b d = Inr r) \<and>
     srv_validateCeilings (b_VCPUs ?b) (b_MemoryMiB ?b) (b_MaxVCPUs ?b) (b_MaxMemoryMiB ?b) = None \<and>
     \<not> (gi_autoscale g = Some True \<and> b_MaxMemoryMiB ?b = 0 \<and> b_MaxVCPUs ?b = 0)"
    unfolding create_geometry_accepts using resolveGeometry_explicit [OF pos, of d] by force
  have res: "(\<exists>r. resolveGeometry ?b d = Inr r) \<longleftrightarrow> \<not> (\<not> d_Disabled d \<and> gi_autoscale g = Some True \<and>
      \<not> (b_MaxVCPUs ?b > 0 \<or> b_MaxMemoryMiB ?b > 0))"
    using resolveGeometry_explicit_error [OF pos, of d] by (cases "resolveGeometry ?b d") auto
  show "validateGeometry g t = None \<longleftrightarrow> (\<exists>b. create_geometry d ?b = Inr b)"
    unfolding acc res srv_validateCeilings_None validateGeometry_None' Let_def client_ceilings_def
    using assms by auto
  fix b M
  assume c: "create_geometry d ?b = Inr b" and M: "gi_max_memory_mib g = Some M" "M \<noteq> 0"
  then have "b_MemoryMiB ?b \<le> b_MaxMemoryMiB ?b"
    using acc by (auto simp: srv_validateCeilings_None)
  from create_geometry_ceiling [OF c pos this] M
  show "b_MaxMemoryMiB b = effectiveCeiling (nullish (gi_memory_mib g) 0) M" by simp
qed

theorem validateGeometry_complete_witness:
  "\<exists>b. create_geometry
      \<lparr>d_Disabled = True, d_BaseVCPUs = 0, d_BaseMemoryMiB = 0, d_DataDiskGiB = 0, d_MaxVCPUs = 0,
       d_MaxMemoryMiB = 0\<rparr>
      (wire_body ''tpl'' \<lparr>gi_vcpus = Some 1, gi_memory_mib = Some 256, gi_data_disk_gib = None,
         gi_max_vcpus = Some 4, gi_max_memory_mib = Some 1000, gi_autoscale = Some True\<rparr>) = Inr b"
proof -
  let ?g = "\<lparr>gi_vcpus = Some 1, gi_memory_mib = Some 256, gi_data_disk_gib = None,
         gi_max_vcpus = Some 4, gi_max_memory_mib = Some 1000, gi_autoscale = Some True\<rparr>"
  have "validateGeometry ?g (tr En) = None"
    by (simp add: validateGeometry_None geometry_bounds_def client_ceilings_def)
  with validateGeometry_complete [of ?g "tr En"] show ?thesis by simp
qed

text \<open>Outside that case the mirror is not exact: a base given in one dimension and a ceiling in the
  other passes the console's check and is refused by a default-elastic control plane.\<close>

theorem validateGeometry_gap:
  "\<exists>g. validateGeometry g t = None \<and>
     (\<forall>d tid. \<not> d_Disabled d \<longrightarrow> create_geometry d (wire_body tid g) = Inl MaxMemoryNeedsBase)"
proof -
  let ?g = "\<lparr>gi_vcpus = Some 2, gi_memory_mib = Some 0, gi_data_disk_gib = Some 15,
         gi_max_vcpus = Some 4, gi_max_memory_mib = Some 1024, gi_autoscale = Some True\<rparr>"
  have "validateGeometry ?g t = None"
    by (simp add: validateGeometry_None geometry_bounds_def client_ceilings_def)
  moreover have "create_geometry d (wire_body tid ?g) = Inl MaxMemoryNeedsBase" if "\<not> d_Disabled d" for d tid
    using that by (simp add: server_rules Let_def withDefaults_pos)
  ultimately show ?thesis by blast
qed

theorem validateGeometry_gap_witness:
  "\<exists>g. validateGeometry g (tr Zh) = None \<and>
     create_geometry
      \<lparr>d_Disabled = False, d_BaseVCPUs = 0, d_BaseMemoryMiB = 0, d_DataDiskGiB = 0, d_MaxVCPUs = 0,
       d_MaxMemoryMiB = 0\<rparr> (wire_body ''tpl'' g) = Inl MaxMemoryNeedsBase"
  using validateGeometry_gap [of "tr Zh"] by fastforce

text \<open>Slot rounding happens after the bounds check, so an accepted request can be stored with a
  ceiling above the 1 TiB bound that was just enforced.\<close>

theorem ceiling_overshoots_bound:
  "create_geometry d
     (wire_body tid \<lparr>gi_vcpus = Some 1, gi_memory_mib = Some 1, gi_data_disk_gib = Some 15,
        gi_max_vcpus = Some 1, gi_max_memory_mib = Some MAX_MEMORY_MIB, gi_autoscale = None\<rparr>)
   = Inr \<lparr>b_TemplateID = tid, b_VCPUs = 1, b_MemoryMiB = 1, b_DataDiskGiB = 15,
         b_ArtifactPaths = [], b_Egress = '''', b_MaxMemoryMiB = MAX_MEMORY_MIB + 1, b_MaxVCPUs = 1, b_Autoscale = None\<rparr>"
  by (simp add: server_rules geometry_consts Let_def srv_roundUpToSlot_def go_quot_def)

end
