(* ===== verification/Toasts.thy ===== *)
theory Toasts
  imports I18n
begin

text \<open>
  The toast store (\<open>web/src/lib/toast.ts\<close>) and what its viewport shows
  (\<open>web/src/components/toast.tsx\<close>).  The state holds the queue, the id counter, the pending
  timers (one \<open>setTimeout\<close> per toast, never cancelled) and the listeners; \<open>ts_published\<close> counts
  the rounds of notifications.
\<close>

datatype ToastKind = Success | Error | Info

record Toast =
  to_id :: nat
  to_kind :: ToastKind
  to_title :: string
  to_detail :: "string option"
  to_action :: "(string \<times> nat) option"

definition MAX_VISIBLE :: int where
  "MAX_VISIBLE = 3"

definition TTL_MS :: int where
  "TTL_MS = 5000"

definition ERROR_TTL_MS :: int where
  "ERROR_TTL_MS = 8000"

record toast_state =
  ts_queue :: "Toast list"
  ts_nextID :: nat
  ts_timers :: "(nat \<times> int) list"
  ts_listeners :: "nat list"
  ts_published :: nat

definition toast_init :: toast_state where
  "toast_init = \<lparr>ts_queue = [], ts_nextID = 1, ts_timers = [], ts_listeners = [], ts_published = 0\<rparr>"

definition toast_publish :: "toast_state \<Rightarrow> toast_state" where
  "toast_publish s = s\<lparr>ts_published := Suc (ts_published s)\<rparr>"

definition push :: "ToastKind \<Rightarrow> string \<Rightarrow> string option \<Rightarrow> (string \<times> nat) option \<Rightarrow>
  toast_state \<Rightarrow> toast_state" where
  "push kind title detail action s =
     (let i = ts_nextID s;
          toast = \<lparr>to_id = i, to_kind = kind, to_title = title, to_detail = detail,
                   to_action = action\<rparr>;
          ttl = (if kind = Error then ERROR_TTL_MS else TTL_MS);
          s1 = toast_publish (s\<lparr>ts_nextID := Suc i,
                 ts_queue := js_slice_from (ts_queue s) (- (MAX_VISIBLE - 1)) @ [toast]\<rparr>)
      in s1\<lparr>ts_timers := ts_timers s1 @ [(i, ttl)]\<rparr>)"

definition dismiss :: "nat \<Rightarrow> toast_state \<Rightarrow> toast_state" where
  "dismiss i s =
     (let q = filter (\<lambda>t. to_id t \<noteq> i) (ts_queue s);
          s1 = s\<lparr>ts_queue := q\<rparr>
      in if length q \<noteq> length (ts_queue s) then toast_publish s1 else s1)"

definition toast_success :: "string \<Rightarrow> string option \<Rightarrow> toast_state \<Rightarrow> toast_state" where
  "toast_success title detail = push Success title detail None"

definition toast_error :: "string \<Rightarrow> string option \<Rightarrow> toast_state \<Rightarrow> toast_state" where
  "toast_error title detail = push Error title detail None"

definition toast_info :: "string \<Rightarrow> string option \<Rightarrow> toast_state \<Rightarrow> toast_state" where
  "toast_info title detail = push Info title detail None"

definition toast_action :: "ToastKind \<Rightarrow> string \<Rightarrow> string \<Rightarrow> nat \<Rightarrow> toast_state \<Rightarrow> toast_state" where
  "toast_action kind title label onClick = push kind title None (Some (label, onClick))"

definition toastError :: "string \<Rightarrow> js_error \<Rightarrow> toast_state \<Rightarrow> toast_state" where
  "toastError prefix err = toast_error prefix (Some (message err))"

definition toast_subscribe :: "nat \<Rightarrow> toast_state \<Rightarrow> toast_state" where
  "toast_subscribe l s = s\<lparr>ts_listeners := set_add l (ts_listeners s)\<rparr>"

definition toast_unsubscribe :: "nat \<Rightarrow> toast_state \<Rightarrow> toast_state" where
  "toast_unsubscribe l s = s\<lparr>ts_listeners := set_delete l (ts_listeners s)\<rparr>"

definition useToasts :: "toast_state \<Rightarrow> Toast list" where
  "useToasts s = ts_queue s"

text \<open>A timer that goes off is spent and dismisses its toast.\<close>

definition toast_fire :: "nat \<Rightarrow> toast_state \<Rightarrow> toast_state" where
  "toast_fire i s =
     (if i \<in> fst ` set (ts_timers s)
      then dismiss i (s\<lparr>ts_timers := filter (\<lambda>(j, _). j \<noteq> i) (ts_timers s)\<rparr>)
      else s)"

datatype toast_event =
    Push ToastKind string "string option" "(string \<times> nat) option"
  | Dismiss nat
  | Fire nat
  | Subscribe nat
  | Unsubscribe nat

fun toast_handle :: "toast_state \<Rightarrow> toast_event \<Rightarrow> toast_state" where
  "toast_handle s (Push kind title detail action) = push kind title detail action s"
| "toast_handle s (Dismiss i) = dismiss i s"
| "toast_handle s (Fire i) = toast_fire i s"
| "toast_handle s (Subscribe l) = toast_subscribe l s"
| "toast_handle s (Unsubscribe l) = toast_unsubscribe l s"

section \<open>The viewport\<close>

definition KIND_META :: "ToastKind \<Rightarrow> string \<times> string" where
  "KIND_META k = (case k of
     Success \<Rightarrow> (''var(--color-ok)'', ''IconCheck'')
   | Error \<Rightarrow> (''var(--color-danger)'', ''IconWarn'')
   | Info \<Rightarrow> (''var(--color-cold)'', ''IconInfo''))"

record toast_view =
  tv_key :: nat
  tv_color :: string
  tv_icon :: string
  tv_title :: string
  tv_description :: "string option"
  tv_button :: "string option"

definition ToastViewport :: "toast_state \<Rightarrow> toast_view list" where
  "ToastViewport s =
     map (\<lambda>item. \<lparr>tv_key = to_id item, tv_color = fst (KIND_META (to_kind item)),
                  tv_icon = snd (KIND_META (to_kind item)), tv_title = to_title item,
                  tv_description = (if truthy_str (to_detail item) then to_detail item else None),
                  tv_button = map_option fst (to_action item)\<rparr>) (useToasts s)"

text \<open>Clicking the action button runs its callback, then dismisses the toast; the result is the
  callback that ran.\<close>

definition toast_click :: "Toast \<Rightarrow> toast_state \<Rightarrow> nat option \<times> toast_state" where
  "toast_click item s = (map_option snd (to_action item), dismiss (to_id item) s)"

section \<open>The store's contract\<close>

interpretation toasts: listener_store ts_listeners useToasts toast_subscribe toast_unsubscribe
  by unfold_locales (simp_all add: toast_subscribe_def toast_unsubscribe_def useToasts_def)

definition toast_inv :: "toast_state \<Rightarrow> bool" where
  "toast_inv s \<longleftrightarrow>
     length (ts_queue s) \<le> nat MAX_VISIBLE \<and>
     sorted_wrt (<) (map to_id (ts_queue s)) \<and>
     (\<forall>t \<in> set (ts_queue s). to_id t < ts_nextID s \<and> to_id t \<in> fst ` set (ts_timers s)) \<and>
     (\<forall>(i, ttl) \<in> set (ts_timers s). i < ts_nextID s)"

lemma js_slice_last2: "js_slice_from xs (- 2) = drop (length xs - 2) xs"
  by (simp add: js_slice_from_def js_bound_def nat_diff_distrib')

lemma toast_inv_init: "toast_inv toast_init"
  by (simp add: toast_inv_def toast_init_def)

lemma dismiss_sel [simp]:
  "ts_queue (dismiss i s) = filter (\<lambda>t. to_id t \<noteq> i) (ts_queue s)"
  "ts_timers (dismiss i s) = ts_timers s"
  "ts_nextID (dismiss i s) = ts_nextID s"
  by (simp_all add: dismiss_def Let_def toast_publish_def)

lemma push_sel [simp]:
  "ts_queue (push kind title detail action s) = drop (length (ts_queue s) - 2) (ts_queue s) @
     [\<lparr>to_id = ts_nextID s, to_kind = kind, to_title = title, to_detail = detail, to_action = action\<rparr>]"
  "ts_timers (push kind title detail action s) =
     ts_timers s @ [(ts_nextID s, if kind = Error then ERROR_TTL_MS else TTL_MS)]"
  "ts_nextID (push kind title detail action s) = Suc (ts_nextID s)"
  by (simp_all add: push_def Let_def toast_publish_def MAX_VISIBLE_def js_slice_last2)

lemma toast_inv_push:
  assumes "toast_inv s"
  shows "toast_inv (push kind title detail action s)"
proof -
  let ?q = "drop (length (ts_queue s) - 2) (ts_queue s)"
  have q: "\<forall>t \<in> set ?q. to_id t < ts_nextID s \<and> to_id t \<in> fst ` set (ts_timers s)"
    using assms set_drop_subset unfolding toast_inv_def by fast
  have "sorted_wrt (<) (map to_id ?q)"
    using assms by (simp add: toast_inv_def drop_map [symmetric] sorted_wrt_drop)
  moreover have "length ?q \<le> 2" by simp
  ultimately show ?thesis using q assms
    unfolding toast_inv_def push_sel MAX_VISIBLE_def
    by (auto simp: sorted_wrt_append)
qed

lemma toast_inv_dismiss:
  assumes "toast_inv s"
  shows "toast_inv (dismiss i s)"
proof -
  have "length (filter (\<lambda>t. to_id t \<noteq> i) (ts_queue s)) \<le> nat MAX_VISIBLE"
    using assms unfolding toast_inv_def by (meson length_filter_le order.trans)
  with assms show ?thesis by (auto simp: toast_inv_def sorted_wrt_map sorted_wrt_filter)
qed

lemma toast_inv_fire:
  assumes "toast_inv s"
  shows "toast_inv (toast_fire i s)"
proof (cases "i \<in> fst ` set (ts_timers s)")
  case True
  have "toast_inv (dismiss i s)" by (rule toast_inv_dismiss [OF assms])
  moreover have "to_id t \<in> fst ` set (filter (\<lambda>(j, _). j \<noteq> i) (ts_timers s))"
    if "t \<in> set (ts_queue (dismiss i s))" for t
    using that \<open>toast_inv (dismiss i s)\<close> by (force simp: toast_inv_def)
  ultimately show ?thesis using True by (auto simp: toast_inv_def toast_fire_def)
qed (simp add: toast_fire_def assms)

lemma toast_inv_handle: "toast_inv s \<Longrightarrow> toast_inv (toast_handle s e)"
  by (cases e) (simp_all add: toast_inv_push toast_inv_dismiss toast_inv_fire,
      simp_all add: toast_inv_def toast_subscribe_def toast_unsubscribe_def)

interpretation toast_machine: deterministic_machine toast_init toast_handle toast_inv
  by unfold_locales (simp_all add: toast_inv_init toast_inv_handle)

lemma fire_dismisses: "toast_inv s \<Longrightarrow> t \<in> set (ts_queue (toast_fire i s)) \<Longrightarrow>
  t \<in> set (ts_queue s) \<and> to_id t \<noteq> i"
  by (auto simp: toast_fire_def toast_inv_def split: if_splits)

lemma fire_all_queue: "toast_inv s \<Longrightarrow> t \<in> set (ts_queue (foldl toast_handle s (map Fire ids))) \<Longrightarrow>
  t \<in> set (ts_queue s) \<and> to_id t \<notin> set ids"
proof (induction ids arbitrary: s)
  case (Cons i ids)
  have "toast_inv (toast_fire i s)" by (rule toast_inv_fire [OF Cons.prems(1)])
  from Cons.IH [OF this] Cons.prems fire_dismisses show ?case by fastforce
qed simp

section \<open>Properties\<close>

text \<open>C39: Whatever sequence of pushes, dismissals, timer expiries and subscriptions the console
  performs, at most three toasts are visible, their ids are pairwise distinct and in order of
  arrival, and every visible toast has a timer still pending, so none can stay for ever.\<close>

theorem toasts_bounded:
  "toast_inv (foldl toast_handle toast_init es) \<and>
   length (ToastViewport (foldl toast_handle toast_init es)) \<le> 3 \<and>
   distinct (map tv_key (ToastViewport (foldl toast_handle toast_init es)))"
proof -
  have inv: "toast_inv (foldl toast_handle toast_init es)" by (rule toast_machine.run_inv)
  then have "sorted_wrt (<) (map to_id (ts_queue (foldl toast_handle toast_init es)))"
    by (simp add: toast_inv_def)
  then have "distinct (map to_id (ts_queue (foldl toast_handle toast_init es)))"
    using strict_sorted_iff by blast
  with inv show ?thesis
    by (simp add: toast_inv_def ToastViewport_def useToasts_def MAX_VISIBLE_def comp_def)
qed

text \<open>Once the pending timers of a reachable state have gone off, no toast is left on screen.\<close>

theorem toasts_expire:
  assumes "s = foldl toast_handle toast_init es"
  shows "ts_queue (foldl toast_handle s (map Fire (map fst (ts_timers s)))) = []"
proof (rule ccontr)
  let ?s' = "foldl toast_handle s (map Fire (map fst (ts_timers s)))"
  assume "ts_queue ?s' \<noteq> []"
  then obtain t where t: "t \<in> set (ts_queue ?s')" by (meson last_in_set)
  have inv: "toast_inv s" unfolding assms by (rule toast_machine.run_inv)
  from fire_all_queue [OF inv t] inv show False by (auto simp: toast_inv_def)
qed

theorem toasts_expire_witness:
  "ts_queue (foldl toast_handle
      (foldl toast_handle toast_init [Push Error ''x'' None None, Push Info ''y'' None None])
      (map Fire (map fst (ts_timers
        (foldl toast_handle toast_init [Push Error ''x'' None None, Push Info ''y'' None None]))))) = []"
  by (rule toasts_expire) (rule refl)

end
