(* ===== verification/Files.thy ===== *)
theory Files
  imports Client
begin

text \<open>
  File-browser support (\<open>web/src/lib/files.ts\<close>): guest path helpers, the editor's guards, the
  language table and the raw file calls.  \<open>for\<close> loops are recursions over the same sequence;
  the table lookup of \<open>languageOf\<close> also finds what a JavaScript object inherits, so its value is
  a string or an inherited object.
\<close>

section \<open>Paths\<close>

text \<open>The loop over the parts: \<open>out.pop()\<close> of an empty array does nothing.\<close>

fun normalize_loop :: "string list \<Rightarrow> string list \<Rightarrow> string list" where
  "normalize_loop [] out = out"
| "normalize_loop (part # parts) out =
     (if part = '''' \<or> part = ''.'' then normalize_loop parts out
      else if part = ''..'' then normalize_loop parts (butlast out)
      else normalize_loop parts (out @ [part]))"

definition normalizePath :: "string \<Rightarrow> string" where
  "normalizePath p = ''/'' @ js_join ''/'' (normalize_loop (js_split (CHR ''/'') p) [])"

definition joinPath :: "string \<Rightarrow> string \<Rightarrow> string" where
  "joinPath dir name =
     normalizePath (if js_endsWith dir ''/'' then dir @ name else dir @ ''/'' @ name)"

definition parentPath :: "string \<Rightarrow> string" where
  "parentPath p =
     (let n = normalizePath p
      in if n = ''/'' then ''/''
         else let d = js_slice n 0 (js_lastIndexOf n (CHR ''/'')) in if d = [] then ''/'' else d)"

definition baseName :: "string \<Rightarrow> string" where
  "baseName p =
     (let n = normalizePath p in js_slice_from n (js_lastIndexOf n (CHR ''/'') + 1))"

section \<open>Editor guards\<close>

definition EDIT_WARN_BYTES :: int where
  "EDIT_WARN_BYTES = 2 * 1024 * 1024"

definition EDIT_MAX_BYTES :: int where
  "EDIT_MAX_BYTES = 8 * 1024 * 1024"

text \<open>The scan: \<open>n\<close> bytes are still to be looked at.\<close>

fun nul_scan :: "nat \<Rightarrow> string \<Rightarrow> bool" where
  "nul_scan (Suc n) (b # bytes) = (if (of_char b :: nat) = 0 then True else nul_scan n bytes)"
| "nul_scan _ _ = False"

definition looksBinary :: "string \<Rightarrow> bool" where
  "looksBinary bytes = nul_scan (min (length bytes) 8192) bytes"

section \<open>Languages\<close>

datatype table_value = Lang string | InheritedObject

text \<open>\<open>map[ext]\<close>: own properties first, then the members of \<open>Object.prototype\<close>; of its names
  only these two are all lower case, and the extension has been lowered.\<close>

definition language_table :: "(string \<times> string) list" where
  "language_table =
     [(''js'', ''javascript''), (''mjs'', ''javascript''), (''cjs'', ''javascript''),
      (''jsx'', ''javascript''), (''ts'', ''javascript''), (''tsx'', ''javascript''),
      (''py'', ''python''), (''json'', ''json''), (''md'', ''markdown''),
      (''markdown'', ''markdown''), (''html'', ''html''), (''htm'', ''html''), (''css'', ''css''),
      (''yaml'', ''yaml''), (''yml'', ''yaml''), (''sh'', ''shell''), (''bash'', ''shell''),
      (''zsh'', ''shell''), (''env'', ''shell''), (''go'', ''go''), (''toml'', ''toml''),
      (''txt'', ''''), (''log'', ''''), (''conf'', ''''), (''ini'', '''')]"

definition language_lookup :: "string \<Rightarrow> table_value option" where
  "language_lookup ext =
     (case map_of language_table ext of
        Some l \<Rightarrow> Some (Lang l)
      | None \<Rightarrow> if ext = ''constructor'' \<or> ext = ''__proto__'' then Some InheritedObject else None)"

definition file_ext :: "string \<Rightarrow> string" where
  "file_ext base =
     (if js_includes base ''.'' then js_slice_from base (js_lastIndexOf base (CHR ''.'') + 1) else '''')"

definition languageOf :: "string \<Rightarrow> table_value" where
  "languageOf name =
     (let base = js_toLowerCase name
      in if base = ''dockerfile'' \<or> js_startsWith base ''dockerfile.'' then Lang ''dockerfile''
         else if base = ''makefile'' then Lang ''shell''
         else nullish (language_lookup (file_ext base)) (Lang ''''))"

section \<open>File calls\<close>

definition uri_unreserved :: "char \<Rightarrow> bool" where
  "uri_unreserved c \<longleftrightarrow>
     (let n = of_char c :: nat
      in 48 \<le> n \<and> n \<le> 57 \<or> 65 \<le> n \<and> n \<le> 90 \<or> 97 \<le> n \<and> n \<le> 122
         \<or> c \<in> set ''-_.!~*()'' \<or> n = 39)"

definition hex_digit :: "nat \<Rightarrow> char" where
  "hex_digit n = ''0123456789ABCDEF'' ! n"

definition uri_char :: "char \<Rightarrow> string" where
  "uri_char c =
     (if uri_unreserved c then [c]
      else [CHR ''%'', hex_digit (of_char c div 16), hex_digit (of_char c mod 16)])"

definition encodeURIComponent :: "string \<Rightarrow> string" where
  "encodeURIComponent s = concat (map uri_char s)"

definition file_url :: "string \<Rightarrow> string \<Rightarrow> string" where
  "file_url sandboxId path =
     ''/sandboxes/'' @ sandboxId @ ''/files?path='' @ encodeURIComponent path"

definition readGuestFile_request :: "local_storage \<Rightarrow> string \<Rightarrow> string \<Rightarrow> request" where
  "readGuestFile_request m sandboxId path =
     apiRaw_request m ''GET'' (file_url sandboxId path) None None"

definition readGuestFile :: "world \<Rightarrow> fetch_outcome \<Rightarrow> world \<times> (js_error + string)" where
  "readGuestFile w out =
     (case apiRaw w out of
        (w', Inl e) \<Rightarrow> (w', Inl e)
      | (w', Inr resp) \<Rightarrow>
          (case rs_body resp of
             ReadFails msg \<Rightarrow> (w', Inl (PlatformError msg))
           | _ \<Rightarrow> (w', Inr (rs_bytes resp))))"

definition writeGuestFile_request :: "local_storage \<Rightarrow> string \<Rightarrow> string \<Rightarrow> string \<Rightarrow> request" where
  "writeGuestFile_request m sandboxId path content =
     apiRaw_request m ''PUT'' (file_url sandboxId path) (Some content)
       (Some ''application/octet-stream'')"

definition writeGuestFile :: "world \<Rightarrow> fetch_outcome \<Rightarrow> world \<times> (js_error + unit)" where
  "writeGuestFile w out =
     (case apiRaw w out of (w', Inl e) \<Rightarrow> (w', Inl e) | (w', Inr _) \<Rightarrow> (w', Inr ()))"

text \<open>What the download does to the page: the object URL is the browser's choice.\<close>

datatype download_effect =
    CreateObjectURL string | ClickLink string string | RevokeObjectURL string

definition downloadGuestFile ::
  "string \<Rightarrow> world \<Rightarrow> string \<Rightarrow> fetch_outcome \<Rightarrow> world \<times> (js_error + download_effect list)" where
  "downloadGuestFile url w path out =
     (case readGuestFile w out of
        (w', Inl e) \<Rightarrow> (w', Inl e)
      | (w', Inr bytes) \<Rightarrow>
          (w', Inr [CreateObjectURL bytes, ClickLink url (baseName path), RevokeObjectURL url]))"

text \<open>The control plane reads the path with Go's \<open>url.QueryUnescape\<close>.\<close>

definition hex_val :: "char \<Rightarrow> nat option" where
  "hex_val c =
     (let n = of_char c :: nat
      in if 48 \<le> n \<and> n \<le> 57 then Some (n - 48)
         else if 65 \<le> n \<and> n \<le> 70 then Some (n - 55)
         else if 97 \<le> n \<and> n \<le> 102 then Some (n - 87) else None)"

fun query_unescape :: "string \<Rightarrow> string option" where
  "query_unescape [] = Some []"
| "query_unescape (c # s) =
     (if c = CHR ''%'' then
        (case s of
           a # b # rest \<Rightarrow>
             (case (hex_val a, hex_val b) of
                (Some x, Some y) \<Rightarrow> map_option (\<lambda>r. char_of (16 * x + y) # r) (query_unescape rest)
              | _ \<Rightarrow> None)
         | _ \<Rightarrow> None)
      else map_option (\<lambda>r. (if c = CHR ''+'' then CHR '' '' else c) # r) (query_unescape s))"

section \<open>Facts about paths\<close>

text \<open>A name a directory entry can have, and the canonical absolute paths.\<close>

definition plain_name :: "string \<Rightarrow> bool" where
  "plain_name n \<longleftrightarrow> n \<noteq> '''' \<and> n \<noteq> ''.'' \<and> n \<noteq> ''..'' \<and> CHR ''/'' \<notin> set n"

definition canonical :: "string \<Rightarrow> bool" where
  "canonical p = (case p of [] \<Rightarrow> False
     | c # r \<Rightarrow> c = CHR ''/'' \<and> (r = [] \<or> list_all plain_name (js_split (CHR ''/'') r)))"

definition path_parts :: "string \<Rightarrow> string list" where
  "path_parts p = normalize_loop (js_split (CHR ''/'') p) []"

abbreviation (input) path_of :: "string list \<Rightarrow> string" where
  "path_of ps \<equiv> CHR ''/'' # js_join ''/'' ps"

lemma normalize_loop_append:
  "normalize_loop (ps @ qs) out = normalize_loop qs (normalize_loop ps out)"
  by (induction ps arbitrary: out) auto

lemma normalize_loop_plain: "list_all plain_name ps \<Longrightarrow> normalize_loop ps out = out @ ps"
  by (induction ps arbitrary: out) (auto simp: plain_name_def)

lemma normalize_loop_keeps:
  "list_all plain_name out \<Longrightarrow> \<forall>p \<in> set ps. CHR ''/'' \<notin> set p \<Longrightarrow>
   list_all plain_name (normalize_loop ps out)"
proof (induction ps arbitrary: out)
  case (Cons p ps)
  have "list_all plain_name (butlast out)"
    using Cons.prems(1) by (auto simp: list_all_iff dest: in_set_butlastD)
  with Cons show ?case by (simp add: plain_name_def [of p])
qed simp

lemma path_parts_plain: "list_all plain_name (path_parts p)"
  unfolding path_parts_def by (rule normalize_loop_keeps) (auto simp: js_split_no_sep)

lemma normalizePath_parts: "normalizePath p = path_of (path_parts p)"
  by (simp add: normalizePath_def path_parts_def)

lemma plain_no_slash: "list_all plain_name ps \<Longrightarrow> \<forall>p \<in> set ps. CHR ''/'' \<notin> set p"
  by (auto simp: list_all_iff plain_name_def)

lemma path_parts_path_of [simp]: "list_all plain_name ps \<Longrightarrow> path_parts (path_of ps) = ps"
  by (cases "ps = []") (auto simp: path_parts_def normalize_loop_plain js_split_join plain_no_slash)

lemma canonical_path_of: "list_all plain_name ps \<Longrightarrow> canonical (path_of ps)"
  by (cases "ps = []") (auto simp: canonical_def js_split_join plain_no_slash)

lemma canonical_iff: "canonical p \<longleftrightarrow> (\<exists>ps. list_all plain_name ps \<and> p = path_of ps)"
proof
  assume "canonical p"
  then obtain r where p: "p = CHR ''/'' # r" and
    r: "r = [] \<or> list_all plain_name (js_split (CHR ''/'') r)"
    by (auto simp: canonical_def split: list.splits)
  show "\<exists>ps. list_all plain_name ps \<and> p = path_of ps"
  proof (cases "r = []")
    case True
    with p show ?thesis by (intro exI [of _ "[]"]) simp
  next
    case False
    with p r show ?thesis
      by (intro exI [of _ "js_split (CHR ''/'') r"]) (simp add: js_join_split)
  qed
qed (auto simp: canonical_path_of)

lemma path_of_snoc: "path_of (ps @ [n]) = (if ps = [] then [] else path_of ps) @ CHR ''/'' # n"
  by (induction ps rule: induct_list012) auto

lemma path_parts_join:
  assumes n: "plain_name n"
  shows "path_parts (if js_endsWith d ''/'' then d @ n else d @ ''/'' @ n) = path_parts d @ [n]"
proof -
  have split_n: "js_split (CHR ''/'') n = [n]" and loop_n: "\<And>out. normalize_loop [n] out = out @ [n]"
    using n by (auto simp: plain_name_def js_split_plain)
  show ?thesis
  proof (cases "js_endsWith d ''/''")
    case True
    then obtain r where "d = r @ ''/''" by (auto simp: js_endsWith_iff)
    then show ?thesis
      using loop_n by (simp add: js_endsWith_iff path_parts_def js_split_append_sep split_n normalize_loop_append)
  next
    case False
    then show ?thesis
      using loop_n by (simp add: path_parts_def js_split_append_sep split_n normalize_loop_append)
  qed
qed

lemma joinPath_parts: "plain_name n \<Longrightarrow> joinPath d n = path_of (path_parts d @ [n])"
  unfolding joinPath_def normalizePath_parts by (subst path_parts_join) simp_all

lemma last_slash:
  assumes "plain_name n"
  shows "js_slice (path_of (ps @ [n])) 0 (js_lastIndexOf (path_of (ps @ [n])) (CHR ''/'')) =
           (if ps = [] then [] else path_of ps)"
    and "js_slice_from (path_of (ps @ [n])) (js_lastIndexOf (path_of (ps @ [n])) (CHR ''/'') + 1) = n"
proof -
  have n: "CHR ''/'' \<notin> set n" using assms by (simp add: plain_name_def)
  show "js_slice (path_of (ps @ [n])) 0 (js_lastIndexOf (path_of (ps @ [n])) (CHR ''/'')) =
           (if ps = [] then [] else path_of ps)"
    unfolding path_of_snoc by (rule js_slice_to_last [OF n])
  show "js_slice_from (path_of (ps @ [n])) (js_lastIndexOf (path_of (ps @ [n])) (CHR ''/'') + 1) = n"
    unfolding path_of_snoc by (rule js_slice_from_last [OF n])
qed

lemma parent_base_parts:
  assumes "path_parts p = ps @ [n]"
  shows "parentPath p = path_of ps" and "baseName p = n"
proof -
  have n: "plain_name n" using path_parts_plain [of p] assms by simp
  note ls = last_slash [OF n, of ps]
  have "path_of (ps @ [n]) \<noteq> ''/''" unfolding path_of_snoc using n
    by (cases "ps = []") (auto simp: plain_name_def)
  then show "parentPath p = path_of ps"
    unfolding parentPath_def normalizePath_parts assms Let_def ls(1) by simp
  show "baseName p = n" unfolding baseName_def normalizePath_parts assms Let_def ls(2) ..
qed

lemma nul_scan_iff: "nul_scan n bytes \<longleftrightarrow> (\<exists>b \<in> set (take n bytes). (of_char b :: nat) = 0)"
  by (induction n bytes rule: nul_scan.induct) auto

lemma looksBinary_iff: "looksBinary bytes \<longleftrightarrow> (\<exists>b \<in> set (take 8192 bytes). (of_char b :: nat) = 0)"
proof -
  have "nul_scan (min (length bytes) n) bytes \<longleftrightarrow> (\<exists>b \<in> set (take n bytes). (of_char b :: nat) = 0)" for n
    by (cases "length bytes \<le> n") (simp_all add: nul_scan_iff min_def)
  then show ?thesis by (simp add: looksBinary_def)
qed

section \<open>Facts about the file calls\<close>

definition query_specials :: "char set" where
  "query_specials = {CHR ''&'', CHR ''#'', CHR ''+'', CHR ''='', CHR ''?'', CHR '' '', CHR ''/''}"

lemma hex_digits:
  assumes "n < 16"
  shows "hex_val (hex_digit n) = Some n \<and> hex_digit n \<notin> query_specials"
proof -
  have "\<forall>m \<in> set [0..<16]. hex_val (hex_digit m) = Some m \<and> hex_digit m \<notin> query_specials"
    by (simp add: upt_rec hex_digit_def hex_val_def query_specials_def)
  with assms show ?thesis by simp
qed

lemma hex_round: "n < 16 \<Longrightarrow> hex_val (hex_digit n) = Some n"
  using hex_digits by simp

lemma query_unescape_uri_char:
  "query_unescape (uri_char c @ s) = map_option (\<lambda>r. c # r) (query_unescape s)"
proof (cases "uri_unreserved c")
  case True
  then have "c \<noteq> CHR ''%'' \<and> c \<noteq> CHR ''+''" by (auto simp: uri_unreserved_def Let_def)
  with True show ?thesis by (simp add: uri_char_def)
next
  case False
  have "(of_char c :: nat) < 256" by simp
  then have "(of_char c :: nat) div 16 < 16" by linarith
  with False show ?thesis by (simp add: uri_char_def hex_round)
qed

lemma query_unescape_encode: "query_unescape (encodeURIComponent s) = Some s"
proof (induction s)
  case (Cons c s)
  then show ?case using query_unescape_uri_char [of c "encodeURIComponent s"]
    by (simp add: encodeURIComponent_def)
qed (simp add: encodeURIComponent_def)

lemma uri_char_safe: "set (uri_char c) \<inter> query_specials = {}"
proof (cases "uri_unreserved c")
  case False
  have "(of_char c :: nat) < 256" by simp
  then have "(of_char c :: nat) div 16 < 16" "(of_char c :: nat) mod 16 < 16" by linarith+
  moreover have "hex_digit n \<notin> query_specials" if "n < 16" for n
    using that hex_digits by simp
  ultimately show ?thesis using False by (auto simp: uri_char_def) (simp_all add: query_specials_def)
qed (auto simp: uri_char_def uri_unreserved_def Let_def query_specials_def)

text \<open>Where a path leads in a tree of directories without links: \<open>down n x\<close> is the entry \<open>n\<close> of \<open>x\<close> and
  \<open>up x\<close> its parent.\<close>

definition path_step :: "('d \<Rightarrow> 'd) \<Rightarrow> (string \<Rightarrow> 'd \<Rightarrow> 'd) \<Rightarrow> 'd \<Rightarrow> string \<Rightarrow> 'd" where
  "path_step up down x part =
     (if part = '''' \<or> part = ''.'' then x else if part = ''..'' then up x else down part x)"

definition path_walk :: "('d \<Rightarrow> 'd) \<Rightarrow> (string \<Rightarrow> 'd \<Rightarrow> 'd) \<Rightarrow> 'd \<Rightarrow> string \<Rightarrow> 'd" where
  "path_walk up down base p = foldl (path_step up down) base (js_split (CHR ''/'') p)"

definition step_name :: "string \<Rightarrow> bool" where
  "step_name n \<longleftrightarrow> n \<noteq> '''' \<and> n \<noteq> ''.'' \<and> n \<noteq> ''..''"

lemma walk_loop:
  assumes "\<And>n x. up (down n x) = x" and "up base = base"
  shows "list_all step_name out \<Longrightarrow> foldl (path_step up down) base (normalize_loop ps out) =
    foldl (path_step up down) (foldl (path_step up down) base out) ps"
proof (induction ps arbitrary: out)
  case (Cons p ps)
  have pop: "list_all step_name (butlast out)" using Cons.prems by (cases out rule: rev_cases) simp_all
  have up: "foldl (path_step up down) base (butlast out) = up (foldl (path_step up down) base out)"
    using Cons.prems assms by (cases out rule: rev_cases) (simp_all add: path_step_def step_name_def)
  consider "p = '''' \<or> p = ''.''" | "p = ''..''" | "step_name p" by (auto simp: step_name_def)
  then show ?case
  proof cases
    case 1
    then show ?thesis using Cons.IH [OF Cons.prems] by (auto simp: path_step_def)
  next
    case 2
    then have "path_step up down x p = up x" for x by (simp add: path_step_def)
    then show ?thesis using 2 Cons.IH [OF pop] by (simp add: up)
  next
    case 3
    then have "normalize_loop (p # ps) out = normalize_loop ps (out @ [p])" by (simp add: step_name_def)
    moreover have "list_all step_name (out @ [p])" using 3 Cons.prems by simp
    ultimately show ?thesis using Cons.IH [of "out @ [p]"] by simp
  qed
qed simp

lemma walk_normal:
  assumes "\<And>n x. up (down n x) = x" and "up base = base"
  shows "path_walk up down base (normalizePath p) = path_walk up down base p"
proof -
  have "path_walk up down base (path_of ps) = foldl (path_step up down) base ps" if "list_all plain_name ps" for ps
    using that by (cases "ps = []") (auto simp: path_walk_def path_step_def js_split_join plain_no_slash)
  from this [OF path_parts_plain, of p] show ?thesis
    unfolding normalizePath_parts using walk_loop [where out = "[]" and ps = "js_split (CHR ''/'') p", OF assms]
    by (simp add: path_walk_def path_parts_def)
qed

section \<open>Properties\<close>

text \<open>C28: \<open>normalizePath\<close> returns a canonical absolute path (one leading slash, no empty part, no
  \<open>.\<close> and no \<open>..\<close>) that leads to the same place as its argument in every tree of directories, where
  \<open>..\<close> goes back to the parent and stays at the root; and the canonical paths are exactly its fixed
  points.\<close>

theorem normalizePath_canonical:
  assumes "\<And>n x. up (down n x) = x" and "up base = base"
  shows "canonical (normalizePath p) \<and> path_walk up down base (normalizePath p) = path_walk up down base p \<and>
    (canonical q \<longleftrightarrow> normalizePath q = q)"
proof -
  have c: "canonical (normalizePath p)" for p
    unfolding normalizePath_parts by (rule canonical_path_of) (rule path_parts_plain)
  have "normalizePath q = q" if "canonical q" for q
    using that by (auto simp: canonical_iff normalizePath_parts)
  then have "canonical q \<longleftrightarrow> normalizePath q = q" using c [of q] by auto
  then show ?thesis by (intro conjI c walk_normal [where p = p, OF assms])
qed

text \<open>The tree of all names, in which a directory is the list of the names that lead to it.\<close>

theorem normalizePath_canonical_witness:
  "path_walk butlast (\<lambda>n x. x @ [n]) [] (normalizePath ''/a/b/../c//d/.'') = [''a'', ''c'', ''d'']"
proof -
  have "path_walk butlast (\<lambda>n x. x @ [n]) [] ''/a/b/../c//d/.'' = [''a'', ''c'', ''d'']" by code_simp
  with normalizePath_canonical [where up = butlast and down = "\<lambda>n x. x @ [n]" and base = "[]" and p = "''/a/b/../c//d/.''"]
  show ?thesis by simp
qed

text \<open>Entering a directory entry and going back up are inverse: the parent of \<open>joinPath d n\<close> is
  \<open>d\<close> normalised and its base name is \<open>n\<close>, for every entry name; and a canonical path other
  than the root is the join of its parent and its base name.\<close>

theorem joinPath_parent_base:
  "(plain_name n \<longrightarrow> parentPath (joinPath d n) = normalizePath d \<and> baseName (joinPath d n) = n) \<and>
   (canonical p \<longrightarrow> p \<noteq> ''/'' \<longrightarrow> joinPath (parentPath p) (baseName p) = p)"
proof (intro conjI impI)
  assume n: "plain_name n"
  have parts: "path_parts (joinPath d n) = path_parts d @ [n]"
    unfolding joinPath_parts [OF n] using n path_parts_plain [of d]
    by (intro path_parts_path_of) simp
  show "parentPath (joinPath d n) = normalizePath d"
    unfolding parent_base_parts(1) [OF parts] normalizePath_parts ..
  show "baseName (joinPath d n) = n" by (rule parent_base_parts(2) [OF parts])
next
  assume "canonical p" and "p \<noteq> ''/''"
  then obtain ps where ps: "list_all plain_name ps" "p = path_of ps" by (auto simp: canonical_iff)
  with \<open>p \<noteq> ''/''\<close> have "ps \<noteq> []" by auto
  then obtain qs n where qs: "ps = qs @ [n]" by (cases ps rule: rev_cases) auto
  have parts: "path_parts p = qs @ [n]" using ps qs by (metis path_parts_path_of)
  have "plain_name n" "list_all plain_name qs" using ps(1) qs by simp_all
  then show "joinPath (parentPath p) (baseName p) = p"
    unfolding parent_base_parts [OF parts] using joinPath_parts path_parts_path_of ps(2) qs by metis
qed

theorem joinPath_parent_base_witness:
  "parentPath (joinPath ''/home/user'' ''a.txt'') = ''/home/user'' \<and>
   joinPath (parentPath ''/etc/hosts'') (baseName ''/etc/hosts'') = ''/etc/hosts''"
proof -
  have "plain_name ''a.txt''" "canonical ''/etc/hosts''" "normalizePath ''/home/user'' = ''/home/user''"
    by code_simp+
  then show ?thesis
    using joinPath_parent_base [of "''a.txt''" "''/home/user''" "''/etc/hosts''"] by simp
qed

text \<open>C29: The path of a file call survives the trip: the control plane's query decoder reads back
  exactly the path the console asked for, and the encoded path cannot end the query parameter
  early.\<close>

theorem file_url_roundtrip:
  "\<exists>q. file_url sid path = ''/sandboxes/'' @ sid @ ''/files?path='' @ q \<and>
     query_unescape q = Some path \<and> set q \<inter> query_specials = {}"
proof (intro exI conjI)
  show "file_url sid path = ''/sandboxes/'' @ sid @ ''/files?path='' @ encodeURIComponent path"
    by (simp add: file_url_def)
  show "query_unescape (encodeURIComponent path) = Some path" by (rule query_unescape_encode)
  show "set (encodeURIComponent path) \<inter> query_specials = {}"
    using uri_char_safe unfolding encodeURIComponent_def by fastforce
qed

text \<open>\<open>languageOf\<close> names a language for every file name but those whose last extension is a
  member every JavaScript object inherits: there the table lookup returns that member, not a
  string.\<close>

theorem languageOf_string:
  "languageOf name = InheritedObject \<longleftrightarrow>
     \<not> js_startsWith (js_toLowerCase name) ''dockerfile.'' \<and>
     file_ext (js_toLowerCase name) \<in> {''constructor'', ''__proto__''}"
proof -
  have "file_ext ''dockerfile'' = ''''" "file_ext ''makefile'' = ''''" by code_simp+
  then show ?thesis
    by (auto simp: languageOf_def Let_def language_lookup_def nullish_def language_table_def
        simp del: js_startsWith_Cons split: option.splits if_splits)
qed

end
