(* ===== verification/ResourceEvents.thy ===== *)
theory ResourceEvents
  imports I18n
begin

text \<open>
  The parser and formatter of resource events (\<open>web/src/lib/resourceEvents.ts\<close>): which events of
  a sandbox's history are resizes, migrations and autoscale switches, and the one-line text, icon
  and tone the three surfaces of the console show for them.
\<close>

definition RESOURCE_EVENT_KINDS :: "string list" where
  "RESOURCE_EVENT_KINDS = [''resize'', ''migrate'', ''autoscale_config'']"

definition parseResourceEvent :: "SandboxEvent \<Rightarrow> ResourceEventDetail option" where
  "parseResourceEvent ev =
     (case ev_detail ev of
        None \<Rightarrow> None
      | Some d \<Rightarrow>
          (case rd_kind d of
             Kind k \<Rightarrow> if k \<in> set RESOURCE_EVENT_KINDS then Some d else None
           | _ \<Rightarrow> None))"

datatype event_icon = IconGrow | IconShrink | IconMigrate | IconConfig | IconDeferred
datatype event_tone = ToneOk | ToneWarn

record ResourceEventView =
  rv_icon :: event_icon
  rv_text :: string
  rv_tone :: event_tone
  rv_actor :: "string option"

definition arrow :: string where
  "arrow = ('' '' @ zh [0x2192] @ '' '')"

definition pairText :: "(int \<times> int) option \<Rightarrow> (int \<Rightarrow> string) \<Rightarrow> string option" where
  "pairText pair fmt = (case pair of None \<Rightarrow> None | Some (a, b) \<Rightarrow> Some (fmt a @ arrow @ fmt b))"

text \<open>\<open>[mem, cpu].filter(Boolean)\<close>: neither text is empty when present.\<close>

definition filter_Boolean :: "string option list \<Rightarrow> string list" where
  "filter_Boolean xs = map the (filter truthy_str xs)"

definition pair_grew :: "(int \<times> int) option \<Rightarrow> bool" where
  "pair_grew pair = (case pair of None \<Rightarrow> False | Some (a, b) \<Rightarrow> b > a)"

definition kind_text :: "ResourceEventDetail \<Rightarrow> string" where
  "kind_text d = (case rd_kind d of Kind k \<Rightarrow> k | _ \<Rightarrow> '''')"

definition describe_resize ::
  "ResourceEventDetail \<Rightarrow> TFn \<Rightarrow> string option \<Rightarrow> ResourceEventView" where
  "describe_resize d t actor =
     (if rd_reason d = Some ''deferred'' then
        \<lparr>rv_icon = IconDeferred,
         rv_text = t (''Growth deferred '' @ zh [0x2014] @
             '' the node is out of budget; retrying, or migrate to a roomier node'')
           (zh [0x6269, 0x5BB9, 0x88AB, 0x63A8, 0x8FDF, 0x2014, 0x2014, 0x8282, 0x70B9, 0x9884, 0x7B97, 0x5DF2, 0x6EE1, 0xFF1B, 0x5C06, 0x81EA, 0x52A8, 0x91CD, 0x8BD5, 0xFF0C, 0x6216, 0x8FC1, 0x79FB, 0x5230, 0x66F4, 0x5BBD, 0x88D5, 0x7684, 0x8282, 0x70B9]),
         rv_tone = ToneWarn, rv_actor = actor\<rparr>
      else
        let mem = pairText (rd_memory_mib d) fmtMiB;
            cpu = pairText (rd_vcpus d) (\<lambda>n. js_num n @ '' vCPU'');
            moved = js_join (('' '' @ zh [0xB7] @ '' '')) (filter_Boolean [mem, cpu]);
            grew = (pair_grew (rd_memory_mib d) \<or> pair_grew (rd_vcpus d))
        in \<lparr>rv_icon = (if grew then IconGrow else IconShrink),
            rv_text = (if grew then t ''Grew'' (zh [0x6269, 0x5BB9]) else t ''Shrank'' (zh [0x7F29, 0x5BB9])) @
              (if moved \<noteq> '''' then '' '' @ moved else ''''),
            rv_tone = ToneOk, rv_actor = actor\<rparr>)"

definition describeResourceEvent :: "ResourceEventDetail \<Rightarrow> TFn \<Rightarrow> ResourceEventView" where
  "describeResourceEvent d t =
     (let actor = (if rd_actor d = Some ''autoscale'' then Some (t ''autoscale'' (zh [0x81EA, 0x52A8, 0x4F38, 0x7F29]))
                   else if rd_actor d = Some ''user'' then Some (t ''user'' (zh [0x7528, 0x6237]))
                   else rd_actor d);
          kind = kind_text d
      in if kind = ''resize'' then describe_resize d t actor
         else if kind = ''migrate'' then
           \<lparr>rv_icon = IconMigrate,
            rv_text = t ''Migrated'' (zh [0x8FC1, 0x79FB]) @ '' '' @ nullish (rd_from_node d) ''?'' @ arrow @
              nullish (rd_to_node d) ''?'',
            rv_tone = ToneOk, rv_actor = actor\<rparr>
         else if kind = ''autoscale_config'' then
           \<lparr>rv_icon = IconConfig,
            rv_text = (if truthy_bool (rd_enabled d)
                       then t ''Autoscale turned on'' (zh [0x81EA, 0x52A8, 0x4F38, 0x7F29, 0x5DF2, 0x5F00, 0x542F])
                       else t ''Autoscale turned off'' (zh [0x81EA, 0x52A8, 0x4F38, 0x7F29, 0x5DF2, 0x5173, 0x95ED])),
            rv_tone = ToneOk, rv_actor = actor\<rparr>
         else \<lparr>rv_icon = IconConfig, rv_text = kind, rv_tone = ToneOk, rv_actor = actor\<rparr>)"

section \<open>Properties\<close>

lemma describe_resize_sel [simp]:
  "rv_icon (describe_resize d t actor) =
     (if rd_reason d = Some ''deferred'' then IconDeferred
      else if pair_grew (rd_memory_mib d) \<or> pair_grew (rd_vcpus d) then IconGrow else IconShrink)"
  "rv_tone (describe_resize d t actor) =
     (if rd_reason d = Some ''deferred'' then ToneWarn else ToneOk)"
  by (simp_all add: describe_resize_def Let_def)

lemma describe_sel:
  "rv_icon (describeResourceEvent d t) =
     (if kind_text d = ''resize'' then rv_icon (describe_resize d t None)
      else if kind_text d = ''migrate'' then IconMigrate else IconConfig)"
  "rv_tone (describeResourceEvent d t) =
     (if kind_text d = ''resize'' then rv_tone (describe_resize d t None) else ToneOk)"
  by (simp_all add: describeResourceEvent_def Let_def)

lemma parse_Some: "parseResourceEvent ev = Some d \<longleftrightarrow>
  ev_detail ev = Some d \<and> (\<exists>k. rd_kind d = Kind k \<and> k \<in> set RESOURCE_EVENT_KINDS)"
  by (auto simp: parseResourceEvent_def split: option.splits detail_kind.splits)

text \<open>Every event the parser accepts is one of the three resource kinds, and the icon tells
  which: the grow icon is shown exactly for a resize, not deferred, that raised memory or vCPUs;
  the warning tone exactly for a deferred growth; the migrate icon exactly for a migration.  Icon
  and tone are the same in every language.\<close>

theorem describe_parsed:
  assumes "parseResourceEvent ev = Some d"
  shows "ev_detail ev = Some d \<and>
    kind_text d \<in> {''resize'', ''migrate'', ''autoscale_config''} \<and>
    (rv_icon (describeResourceEvent d t) = IconGrow \<longleftrightarrow>
      kind_text d = ''resize'' \<and> rd_reason d \<noteq> Some ''deferred'' \<and>
      (\<exists>a b. a < b \<and> (rd_memory_mib d = Some (a, b) \<or> rd_vcpus d = Some (a, b)))) \<and>
    (rv_tone (describeResourceEvent d t) = ToneWarn \<longleftrightarrow>
      kind_text d = ''resize'' \<and> rd_reason d = Some ''deferred'') \<and>
    (rv_icon (describeResourceEvent d t) = IconMigrate \<longleftrightarrow> kind_text d = ''migrate'') \<and>
    rv_icon (describeResourceEvent d t) = rv_icon (describeResourceEvent d t') \<and>
    rv_tone (describeResourceEvent d t) = rv_tone (describeResourceEvent d t')"
  using assms
  by (auto simp: parse_Some kind_text_def RESOURCE_EVENT_KINDS_def describe_sel pair_grew_def
      split: option.splits)

theorem describe_parsed_witness:
  "rv_icon (describeResourceEvent
      \<lparr>rd_kind = Kind ''resize'', rd_actor = Some ''autoscale'', rd_reason = None,
       rd_memory_mib = Some (256, 512), rd_vcpus = None, rd_from_node = None, rd_to_node = None,
       rd_psi_mem = None, rd_avail_pct = None, rd_enabled = None, rd_error = None\<rparr> (tr En)) = IconGrow"
proof -
  let ?d = "\<lparr>rd_kind = Kind ''resize'', rd_actor = Some ''autoscale'', rd_reason = None,
       rd_memory_mib = Some (256, 512), rd_vcpus = None, rd_from_node = None, rd_to_node = None,
       rd_psi_mem = None, rd_avail_pct = None, rd_enabled = None, rd_error = None\<rparr>"
  let ?ev = "\<lparr>ev_id = 1, ev_sandbox_id = ''a'', ev_from_state = Some RUNNING, ev_to_state = RUNNING,
       ev_at = ''2026-01-01T00:00:00Z'', ev_detail = Some ?d\<rparr>"
  have "parseResourceEvent ?ev = Some ?d" by (simp add: parseResourceEvent_def RESOURCE_EVENT_KINDS_def)
  from describe_parsed [OF this, of "tr En"] show ?thesis by (simp add: kind_text_def)
qed

end
