(* ===== verification/Proxy.thy ===== *)
theory Proxy
  imports Client
begin

text \<open>
  The guest-proxy session (\<open>web/src/lib/proxy.ts\<close>).  \<open>sessionPromise\<close> is the module's variable:
  the number of the mint whose promise it holds.  A mint is one \<open>POST /proxy-session\<close> in flight;
  its \<open>catch\<close> handler runs when it fails and clears the variable, whichever promise the variable
  holds by then.  \<open>px_requests\<close> lists the requests sent, in order.
\<close>

datatype proxy_request = MintSession nat | EndSession

record proxy_state =
  px_session :: "nat option"
  px_next :: nat
  px_pending :: "nat list"
  px_requests :: "proxy_request list"

definition proxy_init :: proxy_state where
  "proxy_init = \<lparr>px_session = None, px_next = 0, px_pending = [], px_requests = []\<rparr>"

text \<open>The result is the promise the caller awaits.\<close>

definition ensureProxySession :: "proxy_state \<Rightarrow> nat \<times> proxy_state" where
  "ensureProxySession s =
     (case px_session s of
        Some p \<Rightarrow> (p, s)
      | None \<Rightarrow>
          (px_next s,
           s\<lparr>px_session := Some (px_next s), px_next := Suc (px_next s),
             px_pending := px_pending s @ [px_next s],
             px_requests := px_requests s @ [MintSession (px_next s)]\<rparr>))"

definition endProxySession :: "proxy_state \<Rightarrow> proxy_state" where
  "endProxySession s =
     s\<lparr>px_session := None, px_requests := px_requests s @ [EndSession]\<rparr>"

definition mint_resolves :: "nat \<Rightarrow> proxy_state \<Rightarrow> proxy_state" where
  "mint_resolves p s =
     (if p \<in> set (px_pending s) then s\<lparr>px_pending := filter (\<lambda>q. q \<noteq> p) (px_pending s)\<rparr> else s)"

definition mint_rejects :: "nat \<Rightarrow> proxy_state \<Rightarrow> proxy_state" where
  "mint_rejects p s =
     (if p \<in> set (px_pending s)
      then s\<lparr>px_pending := filter (\<lambda>q. q \<noteq> p) (px_pending s), px_session := None\<rparr> else s)"

definition proxy_unauthorized :: "proxy_state \<Rightarrow> proxy_state" where
  "proxy_unauthorized s = s\<lparr>px_session := None\<rparr>"

definition proxyURL :: "string \<Rightarrow> int \<Rightarrow> string \<Rightarrow> string" where
  "proxyURL sandboxId port path =
     (let p = (if js_startsWith path ''/'' then path else ''/'' @ path)
      in ''/v0/sandboxes/'' @ sandboxId @ ''/proxy/'' @ js_num port @ p)"

datatype proxy_event = Ensure | EndIt | Resolves nat | Rejects nat | Unauth

fun proxy_handle :: "proxy_state \<Rightarrow> proxy_event \<Rightarrow> proxy_state" where
  "proxy_handle s Ensure = snd (ensureProxySession s)"
| "proxy_handle s EndIt = endProxySession s"
| "proxy_handle s (Resolves p) = mint_resolves p s"
| "proxy_handle s (Rejects p) = mint_rejects p s"
| "proxy_handle s Unauth = proxy_unauthorized s"

section \<open>The session's contract\<close>

text \<open>Mints are numbered in order, each is requested once, and the variable holds a mint that was
  requested and has not been rejected since.\<close>

definition mints :: "proxy_request list \<Rightarrow> nat list" where
  "mints rs = concat (map (\<lambda>r. case r of MintSession p \<Rightarrow> [p] | EndSession \<Rightarrow> []) rs)"

definition proxy_inv :: "proxy_state \<Rightarrow> bool" where
  "proxy_inv s \<longleftrightarrow>
     mints (px_requests s) = [0..<px_next s] \<and>
     (\<forall>p \<in> set (px_pending s). p < px_next s) \<and>
     distinct (px_pending s) \<and>
     (\<forall>p. px_session s = Some p \<longrightarrow> Suc p = px_next s)"

lemma mints_snoc [simp]:
  "mints (rs @ [MintSession p]) = mints rs @ [p]" "mints (rs @ [EndSession]) = mints rs"
  by (simp_all add: mints_def)

lemmas proxy_defs = ensureProxySession_def endProxySession_def mint_resolves_def mint_rejects_def
  proxy_unauthorized_def

lemma proxy_inv_handle: "proxy_inv s \<Longrightarrow> proxy_inv (proxy_handle s e)"
  by (cases e) (auto simp: proxy_inv_def proxy_defs split: option.splits)

interpretation proxy_machine: deterministic_machine proxy_init proxy_handle proxy_inv
  by unfold_locales (simp_all add: proxy_inv_handle, simp add: proxy_inv_def proxy_init_def mints_def)

lemma ensure_again: "ensureProxySession (snd (ensureProxySession s)) =
  (fst (ensureProxySession s), snd (ensureProxySession s))"
  by (simp add: ensureProxySession_def split: option.splits)

lemma ensure_many: "foldl proxy_handle s (replicate (Suc n) Ensure) = snd (ensureProxySession s)"
proof (induction n arbitrary: s)
  case (Suc n)
  have "foldl proxy_handle s (replicate (Suc (Suc n)) Ensure) =
     foldl proxy_handle (snd (ensureProxySession s)) (replicate (Suc n) Ensure)" by simp
  also have "\<dots> = snd (ensureProxySession (snd (ensureProxySession s)))" by (rule Suc.IH)
  finally show ?case by (simp add: ensure_again)
qed simp

section \<open>Properties\<close>

text \<open>C27: However the calls and answers interleave, the promise in the variable is always the latest
  mint, any number of calls in a row send one request and share one promise, and after a failed
  mint the next call mints again.\<close>

theorem proxy_session_shared:
  assumes "s = foldl proxy_handle proxy_init es"
  shows "(\<forall>p. px_session s = Some p \<longrightarrow> Suc p = px_next s) \<and>
    length (mints (px_requests (foldl proxy_handle s (replicate (Suc n) Ensure)))) =
      length (mints (px_requests s)) + (if px_session s = None then 1 else 0) \<and>
    fst (ensureProxySession (foldl proxy_handle s (replicate (Suc n) Ensure))) =
      fst (ensureProxySession s) \<and>
    (\<forall>p \<in> set (px_pending s). fst (ensureProxySession (mint_rejects p s)) = px_next s)"
proof -
  have "proxy_inv s" unfolding assms by (rule proxy_machine.run_inv)
  then show ?thesis
    unfolding ensure_many ensure_again
    by (auto simp: proxy_inv_def mint_rejects_def ensureProxySession_def split: option.splits)
qed

theorem proxy_session_shared_witness:
  "length (mints (px_requests (foldl proxy_handle (foldl proxy_handle proxy_init [])
     (replicate (Suc 4) Ensure)))) = 1"
  using proxy_session_shared [OF refl, of "[]" 4] by (simp add: proxy_init_def mints_def)

text \<open>The failure of a mint that was abandoned (the session ended, or a 401 arrived) also drops
  the session minted since: the next caller sends a request although that newer mint is still in
  flight.\<close>

theorem stale_mint_drops_session:
  "let s = foldl proxy_handle proxy_init [Ensure, EndIt, Ensure, Rejects 0]
   in px_session s = None \<and> px_pending s = [1] \<and>
      px_requests (proxy_handle s Ensure) =
        [MintSession 0, EndSession, MintSession 1, MintSession 2]"
  by (simp add: proxy_init_def proxy_defs)

end
