(* ===== verification/Shortcuts.thy ===== *)
theory Shortcuts
  imports Browser
begin

text \<open>
  Global keyboard shortcuts (\<open>web/src/lib/shortcuts.ts\<close>): the listener map, the \<open>g\<close>-then-key
  sequence with its timer, and the key handler.  A handler returns what it did to the page: whether
  the default action was prevented and which subscribers were called, in order.
\<close>

record element =
  el_tagName :: string
  el_isContentEditable :: bool
  el_in_xterm :: bool
  el_in_cm_editor :: bool

text \<open>A key press; the target is \<open>None\<close> when it is not an \<open>HTMLElement\<close>.\<close>

record key_event =
  ke_key :: string
  ke_metaKey :: bool
  ke_ctrlKey :: bool
  ke_altKey :: bool
  ke_target :: "element option"

record shortcut_state =
  sc_listeners :: "string \<rightharpoonup> nat list"
  sc_goArmed :: bool
  sc_goTimer :: "nat option"
  sc_timers :: "nat list"
  sc_nextTimer :: nat

definition shortcut_init :: shortcut_state where
  "shortcut_init = \<lparr>sc_listeners = Map.empty, sc_goArmed = False, sc_goTimer = None,
     sc_timers = [], sc_nextTimer = 0\<rparr>"

definition onShortcut :: "string \<Rightarrow> nat \<Rightarrow> shortcut_state \<Rightarrow> shortcut_state" where
  "onShortcut event fn s =
     s\<lparr>sc_listeners := (sc_listeners s)(event \<mapsto> set_add fn (nullish (sc_listeners s event) []))\<rparr>"

definition offShortcut :: "string \<Rightarrow> nat \<Rightarrow> shortcut_state \<Rightarrow> shortcut_state" where
  "offShortcut event fn s =
     s\<lparr>sc_listeners := (sc_listeners s)(event \<mapsto> set_delete fn (nullish (sc_listeners s event) []))\<rparr>"

definition emit :: "string \<Rightarrow> shortcut_state \<Rightarrow> nat list" where
  "emit event s = nullish (sc_listeners s event) []"

definition inEditable :: "element option \<Rightarrow> bool" where
  "inEditable el =
     (case el of
        None \<Rightarrow> False
      | Some e \<Rightarrow> el_tagName e = ''INPUT'' \<or> el_tagName e = ''TEXTAREA'' \<or> el_tagName e = ''SELECT''
          \<or> el_isContentEditable e \<or> el_in_xterm e \<or> el_in_cm_editor e)"

definition GO_MAP :: "string \<rightharpoonup> string" where
  "GO_MAP = map_of [(''o'', ''go:overview''), (''s'', ''go:sandboxes''), (''n'', ''go:nodes''),
     (''t'', ''go:templates''), (''g'', ''go:storage'')]"

text \<open>\<open>clearTimeout\<close> and \<open>setTimeout\<close> of the sequence timer.\<close>

definition clear_timer :: "nat option \<Rightarrow> shortcut_state \<Rightarrow> shortcut_state" where
  "clear_timer t s =
     (case t of None \<Rightarrow> s | Some i \<Rightarrow> s\<lparr>sc_timers := filter (\<lambda>j. j \<noteq> i) (sc_timers s)\<rparr>)"

definition arm_go :: "shortcut_state \<Rightarrow> shortcut_state" where
  "arm_go s =
     s\<lparr>sc_goArmed := True, sc_goTimer := Some (sc_nextTimer s),
       sc_timers := sc_timers s @ [sc_nextTimer s], sc_nextTimer := Suc (sc_nextTimer s)\<rparr>"

definition onKey :: "key_event \<Rightarrow> shortcut_state \<Rightarrow> shortcut_state \<times> bool \<times> nat list" where
  "onKey e s =
     (if (ke_metaKey e \<or> ke_ctrlKey e) \<and> js_toLowerCase (ke_key e) = ''k''
        then (s, True, emit ''palette:open'' s)
      else if ke_metaKey e \<or> ke_ctrlKey e \<or> ke_altKey e then (s, False, [])
      else if inEditable (ke_target e) then (s, False, [])
      else if sc_goArmed s then
        (let s1 = clear_timer (sc_goTimer s) (s\<lparr>sc_goArmed := False\<rparr>)
         in case GO_MAP (js_toLowerCase (ke_key e)) of
              Some ev \<Rightarrow> (s1, True, emit ev s1)
            | None \<Rightarrow> (s1, False, []))
      else if ke_key e = ''g'' then (arm_go s, False, [])
      else if ke_key e = ''?'' then (s, True, emit ''help:open'' s)
      else (s, False, []))"

definition go_timeout :: "nat \<Rightarrow> shortcut_state \<Rightarrow> shortcut_state" where
  "go_timeout i s =
     (if i \<in> set (sc_timers s)
      then s\<lparr>sc_timers := filter (\<lambda>j. j \<noteq> i) (sc_timers s), sc_goArmed := False\<rparr> else s)"

datatype shortcut_event = KeyDown key_event | GoTimeout nat | On string nat | Off string nat

fun shortcut_handle :: "shortcut_state \<Rightarrow> shortcut_event \<Rightarrow> shortcut_state" where
  "shortcut_handle s (KeyDown e) = fst (onKey e s)"
| "shortcut_handle s (GoTimeout i) = go_timeout i s"
| "shortcut_handle s (On event fn) = onShortcut event fn s"
| "shortcut_handle s (Off event fn) = offShortcut event fn s"

section \<open>The sequence is armed exactly while its timer runs\<close>

definition shortcut_inv :: "shortcut_state \<Rightarrow> bool" where
  "shortcut_inv s \<longleftrightarrow>
     (if sc_goArmed s then \<exists>t. sc_goTimer s = Some t \<and> sc_timers s = [t] else sc_timers s = [])"

lemma shortcut_inv_key: "shortcut_inv s \<Longrightarrow> shortcut_inv (fst (onKey e s))"
  by (auto simp: onKey_def shortcut_inv_def clear_timer_def arm_go_def Let_def
      split: option.splits if_splits)

lemma shortcut_inv_handle: "shortcut_inv s \<Longrightarrow> shortcut_inv (shortcut_handle s e)"
  by (cases e) (simp_all add: shortcut_inv_key,
      auto simp: shortcut_inv_def go_timeout_def onShortcut_def offShortcut_def split: if_splits)

interpretation shortcuts: deterministic_machine shortcut_init shortcut_handle shortcut_inv
  by unfold_locales (simp_all add: shortcut_inv_handle, simp add: shortcut_inv_def shortcut_init_def)

interpretation shortcut_bus: listener_store "\<lambda>s. nullish (sc_listeners s ev) []" sc_goArmed
    "onShortcut ev" "offShortcut ev"
  by unfold_locales (simp_all add: onShortcut_def offShortcut_def)

text \<open>A plain key: no modifier, not typed into a field.\<close>

definition plain_key :: "key_event \<Rightarrow> bool" where
  "plain_key e \<longleftrightarrow> \<not> ke_metaKey e \<and> \<not> ke_ctrlKey e \<and> \<not> ke_altKey e \<and> \<not> inEditable (ke_target e)"

lemma onKey_armed: "plain_key e \<Longrightarrow> sc_goArmed s \<Longrightarrow>
  snd (snd (onKey e s)) = (case GO_MAP (js_toLowerCase (ke_key e)) of Some ev \<Rightarrow> emit ev s | None \<Rightarrow> [])
  \<and> \<not> sc_goArmed (fst (onKey e s))"
  by (auto simp: onKey_def plain_key_def emit_def clear_timer_def Let_def split: option.splits)

lemma onKey_g: "plain_key e \<Longrightarrow> \<not> sc_goArmed s \<Longrightarrow> ke_key e = ''g'' \<Longrightarrow> onKey e s = (arm_go s, False, [])"
  by (simp add: onKey_def plain_key_def)

lemma arm_go_sel [simp]: "sc_goArmed (arm_go s)" "sc_listeners (arm_go s) = sc_listeners s"
  "sc_timers (arm_go s) = sc_timers s @ [sc_nextTimer s]" "emit ev (arm_go s) = emit ev s"
  by (simp_all add: arm_go_def emit_def)

section \<open>Properties\<close>

text \<open>After any history, \<open>g\<close> followed by a plain key calls the subscribers of the page that key
  stands for, and nothing else, whether or not the second key is upper case; once the timer has
  gone off the same key calls none of them; and while the user types in a field, in the editor or in
  the terminal, keys without the command modifier do nothing at all.\<close>

theorem go_sequence:
  assumes "s = foldl shortcut_handle shortcut_init es" and "\<not> sc_goArmed s"
    and "plain_key g" and "ke_key g = ''g''" and "plain_key e"
  shows "snd (snd (onKey e (fst (onKey g s)))) =
      (case GO_MAP (js_toLowerCase (ke_key e)) of Some ev \<Rightarrow> emit ev s | None \<Rightarrow> []) \<and>
    sc_timers (fst (onKey g s)) = [sc_nextTimer s] \<and>
    \<not> sc_goArmed (go_timeout (sc_nextTimer s) (fst (onKey g s))) \<and>
    (\<forall>k u. inEditable (ke_target k) \<longrightarrow> \<not> ke_metaKey k \<longrightarrow> \<not> ke_ctrlKey k \<longrightarrow>
       onKey k u = (u, False, []))"
proof -
  have "shortcut_inv s" unfolding assms(1) by (rule shortcuts.run_inv)
  with assms(2) have "sc_timers s = []" by (simp add: shortcut_inv_def)
  moreover have "onKey g s = (arm_go s, False, [])" using assms by (simp add: onKey_g)
  moreover have "onKey k u = (u, False, [])"
    if "inEditable (ke_target k)" "\<not> ke_metaKey k" "\<not> ke_ctrlKey k" for k u
    using that by (simp add: onKey_def)
  ultimately show ?thesis using onKey_armed [OF assms(5), of "arm_go s"]
    by (simp add: go_timeout_def cong: option.case_cong)
qed

theorem go_sequence_witness:
  "snd (snd (onKey \<lparr>ke_key = ''s'', ke_metaKey = False, ke_ctrlKey = False, ke_altKey = False, ke_target = None\<rparr>
     (fst (onKey \<lparr>ke_key = ''g'', ke_metaKey = False, ke_ctrlKey = False, ke_altKey = False, ke_target = None\<rparr>
       (foldl shortcut_handle shortcut_init [On ''go:sandboxes'' 7]))))) = [7]"
proof -
  let ?s = "foldl shortcut_handle shortcut_init [On ''go:sandboxes'' 7]"
  have 1: "\<not> sc_goArmed ?s" "emit ''go:sandboxes'' ?s = [7]"
    by (simp_all add: shortcut_init_def onShortcut_def emit_def set_add_def)
  have 2: "js_toLowerCase ''s'' = ''s''" "GO_MAP ''s'' = Some ''go:sandboxes''" by code_simp+
  show ?thesis
    by (subst go_sequence [OF refl 1(1), THEN conjunct1])
      (simp_all add: plain_key_def inEditable_def 2 1(2) del: foldl.simps)
qed

end
