(* ===== verification/Health.thy ===== *)
theory Health
  imports Client
begin

text \<open>
  The guest-health store (\<open>web/src/lib/health.ts\<close>).  The entries are objects that closures keep
  alive after the map has dropped them, so they live in a heap of addresses: the map, the interval
  timers, the garbage-collection timers, the polls in flight and the unsubscribe closures refer to
  an entry by its address.  An event of the machine is one turn of the event loop.
\<close>

record HealthSample =
  hs_at :: int
  hs_health :: SandboxHealth

record HealthSeries =
  hv_samples :: "HealthSample list"
  hv_latest :: "HealthSample option"
  hv_unreachable :: bool

definition POLL_MS :: int where
  "POLL_MS = 2500"

definition CAPACITY :: int where
  "CAPACITY = 240"

definition GC_AFTER_MS :: int where
  "GC_AFTER_MS = 60000"

definition EMPTY :: HealthSeries where
  "EMPTY = \<lparr>hv_samples = [], hv_latest = None, hv_unreachable = False\<rparr>"

record health_entry =
  he_samples :: "HealthSample list"
  he_unreachable :: bool
  he_snapshot :: HealthSeries
  he_listeners :: "nat list"
  he_timer :: "nat option"
  he_gcTimer :: "nat option"
  he_inFlight :: bool

record health_state =
  hp_heap :: "health_entry list"
  hp_entries :: "(string \<times> nat) list"
  hp_intervals :: "(nat \<times> string \<times> nat) list"
  hp_timeouts :: "(nat \<times> string \<times> nat) list"
  hp_nextTimer :: nat
  hp_polls :: "(string \<times> nat) list"
  hp_notified :: "nat list"
  hp_closures :: "(string \<times> nat \<times> nat) list"

definition health_init :: health_state where
  "health_init = \<lparr>hp_heap = [], hp_entries = [], hp_intervals = [], hp_timeouts = [],
     hp_nextTimer = 0, hp_polls = [], hp_notified = [], hp_closures = []\<rparr>"

definition new_entry :: health_entry where
  "new_entry = \<lparr>he_samples = [], he_unreachable = False, he_snapshot = EMPTY, he_listeners = [],
     he_timer = None, he_gcTimer = None, he_inFlight = False\<rparr>"

abbreviation entry_at :: "health_state \<Rightarrow> nat \<Rightarrow> health_entry" where
  "entry_at s a \<equiv> hp_heap s ! a"

definition set_entry :: "nat \<Rightarrow> health_entry \<Rightarrow> health_state \<Rightarrow> health_state" where
  "set_entry a e s = s\<lparr>hp_heap := (hp_heap s)[a := e]\<rparr>"

definition entryFor :: "string \<Rightarrow> health_state \<Rightarrow> nat \<times> health_state" where
  "entryFor sid s =
     (case map_of (hp_entries s) sid of
        Some a \<Rightarrow> (a, s)
      | None \<Rightarrow> (length (hp_heap s),
                 s\<lparr>hp_heap := hp_heap s @ [new_entry],
                   hp_entries := hp_entries s @ [(sid, length (hp_heap s))]\<rparr>))"

definition snapshot_of :: "health_entry \<Rightarrow> HealthSeries" where
  "snapshot_of e =
     \<lparr>hv_samples = he_samples e,
      hv_latest = (if he_samples e = [] then None else Some (last (he_samples e))),
      hv_unreachable = he_unreachable e\<rparr>"

definition publish :: "nat \<Rightarrow> health_state \<Rightarrow> health_state" where
  "publish a s =
     (let e = entry_at s a
      in (set_entry a (e\<lparr>he_snapshot := snapshot_of e\<rparr>) s)
           \<lparr>hp_notified := hp_notified s @ he_listeners e\<rparr>)"

text \<open>\<open>poll\<close> up to its \<open>await\<close>, and from the answer on.\<close>

definition poll_start :: "bool \<Rightarrow> string \<Rightarrow> nat \<Rightarrow> health_state \<Rightarrow> health_state" where
  "poll_start hidden sid a s =
     (if he_inFlight (entry_at s a) \<or> hidden then s
      else (set_entry a ((entry_at s a)\<lparr>he_inFlight := True\<rparr>) s)\<lparr>hp_polls := hp_polls s @ [(sid, a)]\<rparr>)"

definition poll_answer :: "int \<Rightarrow> js_error + SandboxHealth \<Rightarrow> health_entry \<Rightarrow> health_entry" where
  "poll_answer now res e =
     (case res of
        Inl err \<Rightarrow> e\<lparr>he_unreachable := True, he_inFlight := False\<rparr>
      | Inr health \<Rightarrow>
          e\<lparr>he_samples := js_slice_from (he_samples e) (max 0 (int (length (he_samples e)) - CAPACITY + 1))
              @ [\<lparr>hs_at = now, hs_health = health\<rparr>],
            he_unreachable := False, he_inFlight := False\<rparr>)"

definition poll_settles ::
  "int \<Rightarrow> js_error + SandboxHealth \<Rightarrow> string \<Rightarrow> nat \<Rightarrow> health_state \<Rightarrow> health_state" where
  "poll_settles now res sid a s =
     (if (sid, a) \<in> set (hp_polls s)
      then publish a (set_entry a (poll_answer now res (entry_at s a))
             (s\<lparr>hp_polls := remove1 (sid, a) (hp_polls s)\<rparr>))
      else s)"

definition clear_timeout :: "nat option \<Rightarrow> health_state \<Rightarrow> health_state" where
  "clear_timeout t s =
     s\<lparr>hp_timeouts := filter (\<lambda>(i, _). t \<noteq> Some i) (hp_timeouts s)\<rparr>"

definition clear_interval :: "nat option \<Rightarrow> health_state \<Rightarrow> health_state" where
  "clear_interval t s =
     s\<lparr>hp_intervals := filter (\<lambda>(i, _). t \<noteq> Some i) (hp_intervals s)\<rparr>"

definition start_interval :: "string \<Rightarrow> nat \<Rightarrow> health_state \<Rightarrow> health_state" where
  "start_interval sid a s =
     (set_entry a ((entry_at s a)\<lparr>he_timer := Some (hp_nextTimer s)\<rparr>) s)
       \<lparr>hp_intervals := hp_intervals s @ [(hp_nextTimer s, sid, a)],
        hp_nextTimer := Suc (hp_nextTimer s)\<rparr>"

text \<open>\<open>subscribe\<close> on the entry it found or made, and the whole: the result is the entry the
  unsubscribe closure captures.\<close>

definition attach :: "bool \<Rightarrow> string \<Rightarrow> nat \<Rightarrow> nat \<Rightarrow> health_state \<Rightarrow> health_state" where
  "attach hidden sid listener a s =
     (let e = entry_at s a;
          s2 = clear_timeout (he_gcTimer e)
                 (set_entry a (e\<lparr>he_listeners := set_add listener (he_listeners e),
                                 he_gcTimer := None\<rparr>) s)
      in if he_timer e = None then start_interval sid a (poll_start hidden sid a s2) else s2)"

definition subscribe :: "bool \<Rightarrow> string \<Rightarrow> nat \<Rightarrow> health_state \<Rightarrow> nat \<times> health_state" where
  "subscribe hidden sid listener s =
     (let (a, s1) = entryFor sid s in (a, attach hidden sid listener a s1))"

definition unsubscribe :: "string \<Rightarrow> nat \<Rightarrow> nat \<Rightarrow> health_state \<Rightarrow> health_state" where
  "unsubscribe sid a listener s =
     (let e = entry_at s a; ls = set_delete listener (he_listeners e)
      in if ls \<noteq> [] then set_entry a (e\<lparr>he_listeners := ls\<rparr>) s
         else (clear_interval (he_timer e)
                (set_entry a (e\<lparr>he_listeners := ls, he_timer := None,
                                he_gcTimer := Some (hp_nextTimer s)\<rparr>) s))
              \<lparr>hp_timeouts := hp_timeouts s @ [(hp_nextTimer s, sid, a)],
               hp_nextTimer := Suc (hp_nextTimer s)\<rparr>)"

definition gc_fires :: "nat \<Rightarrow> string \<Rightarrow> nat \<Rightarrow> health_state \<Rightarrow> health_state" where
  "gc_fires t sid a s =
     (if (t, sid, a) \<in> set (hp_timeouts s)
      then let s1 = s\<lparr>hp_timeouts := filter (\<lambda>(i, _). i \<noteq> t) (hp_timeouts s)\<rparr>
           in if he_listeners (entry_at s a) = [] then s1\<lparr>hp_entries := filter (\<lambda>(k, _). k \<noteq> sid) (hp_entries s)\<rparr>
              else s1
      else s)"

definition tick :: "bool \<Rightarrow> nat \<Rightarrow> string \<Rightarrow> nat \<Rightarrow> health_state \<Rightarrow> health_state" where
  "tick hidden t sid a s =
     (if (t, sid, a) \<in> set (hp_intervals s) then poll_start hidden sid a s else s)"

definition useSandboxHealth :: "string \<Rightarrow> health_state \<Rightarrow> HealthSeries" where
  "useSandboxHealth sid s =
     (case map_of (hp_entries s) sid of None \<Rightarrow> EMPTY | Some a \<Rightarrow> he_snapshot (entry_at s a))"

text \<open>Clears the timers of the entries in the map; the entries themselves keep their fields.\<close>

definition resetHealthStore :: "health_state \<Rightarrow> health_state" where
  "resetHealthStore s =
     (let live = map (\<lambda>(_, a). entry_at s a) (hp_entries s)
      in s\<lparr>hp_intervals := filter (\<lambda>(t, _). Some t \<notin> set (map he_timer live)) (hp_intervals s),
           hp_timeouts := filter (\<lambda>(t, _). Some t \<notin> set (map he_gcTimer live)) (hp_timeouts s),
           hp_entries := []\<rparr>)"

text \<open>The turns of the event loop.  React calls an unsubscribe closure it was handed, once;
  \<open>hp_closures\<close> lists the closures it still holds.\<close>

datatype health_event =
    HSubscribe bool string nat
  | HUnsubscribe string nat nat
  | HTick bool nat string nat
  | HSettle int "js_error + SandboxHealth" string nat
  | HGc nat string nat
  | HReset

fun health_handle :: "health_state \<Rightarrow> health_event \<Rightarrow> health_state" where
  "health_handle s (HSubscribe hidden sid l) =
     (let (a, s') = subscribe hidden sid l s in s'\<lparr>hp_closures := hp_closures s' @ [(sid, a, l)]\<rparr>)"
| "health_handle s (HUnsubscribe sid a l) =
     (if (sid, a, l) \<in> set (hp_closures s)
      then unsubscribe sid a l (s\<lparr>hp_closures := remove1 (sid, a, l) (hp_closures s)\<rparr>) else s)"
| "health_handle s (HTick hidden t sid a) = tick hidden t sid a s"
| "health_handle s (HSettle now res sid a) = poll_settles now res sid a s"
| "health_handle s (HGc t sid a) = gc_fires t sid a s"
| "health_handle s HReset = resetHealthStore s"

section \<open>The store's invariant\<close>

definition entry_ok :: "health_entry \<Rightarrow> bool" where
  "entry_ok e \<longleftrightarrow>
     length (he_samples e) \<le> nat CAPACITY \<and> he_snapshot e = snapshot_of e \<and>
     (he_timer e = None \<longleftrightarrow> he_listeners e = [])"

definition polls_ok :: "health_state \<Rightarrow> bool" where
  "polls_ok s \<longleftrightarrow> distinct (map snd (hp_polls s)) \<and>
     (\<forall>a. a \<in> snd ` set (hp_polls s) \<longleftrightarrow> a < length (hp_heap s) \<and> he_inFlight (entry_at s a))"

definition intervals_ok :: "health_state \<Rightarrow> bool" where
  "intervals_ok s \<longleftrightarrow> distinct (map fst (hp_intervals s)) \<and>
     (\<forall>(t, i, a) \<in> set (hp_intervals s).
        a < length (hp_heap s) \<and> he_timer (entry_at s a) = Some t \<and> t < hp_nextTimer s)"

definition entries_ok :: "health_state \<Rightarrow> bool" where
  "entries_ok s \<longleftrightarrow>
     (\<forall>(i, a) \<in> set (hp_entries s). a < length (hp_heap s) \<and>
        (\<forall>t. he_timer (entry_at s a) = Some t \<longrightarrow> (\<exists>j. (t, j, a) \<in> set (hp_intervals s))))"

definition refs_ok :: "health_state \<Rightarrow> bool" where
  "refs_ok s \<longleftrightarrow>
     (\<forall>(t, i, a) \<in> set (hp_timeouts s). a < length (hp_heap s)) \<and>
     (\<forall>(i, a, l) \<in> set (hp_closures s). a < length (hp_heap s))"

definition timer_uniq :: "nat option list \<Rightarrow> nat \<Rightarrow> bool" where
  "timer_uniq ts n \<longleftrightarrow> (\<forall>t. Some t \<in> set ts \<longrightarrow> t < n) \<and>
     (\<forall>i < length ts. \<forall>j < length ts. ts ! i \<noteq> None \<longrightarrow> ts ! i = ts ! j \<longrightarrow> i = j)"

definition timers_ok :: "health_state \<Rightarrow> bool" where
  "timers_ok s \<longleftrightarrow> timer_uniq (map he_timer (hp_heap s)) (hp_nextTimer s)"

definition health_inv :: "health_state \<Rightarrow> bool" where
  "health_inv s \<longleftrightarrow> (\<forall>a < length (hp_heap s). entry_ok (entry_at s a)) \<and> polls_ok s \<and>
     intervals_ok s \<and> entries_ok s \<and> refs_ok s \<and> timers_ok s"

lemma timer_uniq_add: "timer_uniq ts n \<Longrightarrow> timer_uniq (ts @ [None]) n"
  by (auto simp: timer_uniq_def nth_append)

lemma timer_uniq_clear:
  assumes "timer_uniq ts n"
  shows "timer_uniq (ts[a := None]) n"
proof -
  have nth: "ts[a := None] ! i = (if i = a then None else ts ! i)" if "i < length ts" for i
    using that by (auto simp: nth_list_update)
  have "t < n" if "Some t \<in> set (ts[a := None])" for t
    using assms that set_update_subset_insert [of ts a None] by (auto simp: timer_uniq_def)
  with assms show ?thesis unfolding timer_uniq_def by (auto simp: nth split: if_splits)
qed

lemma timer_uniq_mono: "timer_uniq ts n \<Longrightarrow> timer_uniq ts (Suc n)"
  by (auto simp: timer_uniq_def less_Suc_eq)

lemma timer_uniq_start:
  assumes "timer_uniq ts n"
  shows "timer_uniq (ts[a := Some n]) (Suc n)"
proof -
  have old: "ts ! i \<noteq> Some n" if "i < length ts" for i
    using assms nth_mem [OF that] unfolding timer_uniq_def by (metis less_irrefl)
  have "t < Suc n" if "Some t \<in> set (ts[a := Some n])" for t
    using assms that set_update_subset_insert [of ts a "Some n"] by (fastforce simp: timer_uniq_def)
  moreover have "i = j" if "i < length ts" "j < length ts" "ts[a := Some n] ! i \<noteq> None"
    "ts[a := Some n] ! i = ts[a := Some n] ! j" for i j
  proof (cases "i = a \<or> j = a")
    case True
    then show ?thesis using that old [of i] old [of j] by (auto simp: nth_list_update split: if_splits)
  next
    case False
    then show ?thesis using that assms unfolding timer_uniq_def by (metis nth_list_update_neq)
  qed
  ultimately show ?thesis unfolding timer_uniq_def length_list_update by blast
qed

lemma timers_unique: "timers_ok s \<Longrightarrow> a < length (hp_heap s) \<Longrightarrow> b < length (hp_heap s) \<Longrightarrow>
  he_timer (entry_at s a) = Some t \<Longrightarrow> he_timer (entry_at s b) = Some t \<Longrightarrow> a = b"
  by (auto simp: timers_ok_def timer_uniq_def)

lemma map_timer_same: "a < length h \<Longrightarrow> he_timer e = he_timer (h ! a) \<Longrightarrow>
  map he_timer (h[a := e]) = map he_timer h"
  by (simp add: map_update list_update_same_conv)

lemma snapshot_of_cong [simp]:
  "snapshot_of (e\<lparr>he_snapshot := v\<rparr>) = snapshot_of e"
  "snapshot_of (e\<lparr>he_listeners := ls\<rparr>) = snapshot_of e"
  "snapshot_of (e\<lparr>he_timer := t\<rparr>) = snapshot_of e"
  "snapshot_of (e\<lparr>he_gcTimer := g\<rparr>) = snapshot_of e"
  "snapshot_of (e\<lparr>he_inFlight := b\<rparr>) = snapshot_of e"
  by (simp_all add: snapshot_of_def)

lemma entry_ok_new: "entry_ok new_entry"
  by (simp add: entry_ok_def new_entry_def snapshot_of_def EMPTY_def)

lemma slice_capacity: "length (js_slice_from xs (max 0 (int (length xs) - CAPACITY + 1))) < nat CAPACITY"
  by (simp add: js_slice_from_def js_bound_def CAPACITY_def)

lemma nth_append_new: "a < length h \<Longrightarrow> (h @ [x]) ! a = h ! a"
  by (simp add: nth_append)

lemma health_inv_entryFor:
  assumes "health_inv s"
  shows "health_inv (snd (entryFor sid s)) \<and> fst (entryFor sid s) < length (hp_heap (snd (entryFor sid s)))"
proof (cases "map_of (hp_entries s) sid")
  case None
  have "(\<forall>a < Suc (length (hp_heap s)). entry_ok ((hp_heap s @ [new_entry]) ! a))"
    using assms entry_ok_new by (auto simp: health_inv_def nth_append less_Suc_eq)
  moreover have "polls_ok (snd (entryFor sid s))"
    using assms None
    by (auto simp: health_inv_def polls_ok_def entryFor_def nth_append less_Suc_eq new_entry_def)
  moreover have "intervals_ok (snd (entryFor sid s))"
    using assms None by (auto simp: health_inv_def intervals_ok_def entryFor_def nth_append_new)
  moreover have "entries_ok (snd (entryFor sid s))"
    using assms None by (auto simp: health_inv_def entries_ok_def entryFor_def nth_append new_entry_def)
  moreover have "refs_ok (snd (entryFor sid s))"
    using assms None by (auto simp: health_inv_def refs_ok_def entryFor_def)
  moreover have "timers_ok (snd (entryFor sid s))"
    using assms None by (simp add: health_inv_def timers_ok_def entryFor_def timer_uniq_add new_entry_def)
  ultimately show ?thesis using None by (simp add: health_inv_def entryFor_def)
next
  case (Some a)
  then have "a < length (hp_heap s)"
    using assms map_of_SomeD [OF Some] by (auto simp: health_inv_def entries_ok_def)
  with Some assms show ?thesis by (simp add: entryFor_def)
qed

lemma heap_update: "\<forall>b < length h. P (h ! b) \<Longrightarrow> P e \<Longrightarrow> \<forall>b < length (h[a := e]). P (h[a := e] ! b)"
  by (cases "a < length h") (auto simp: nth_list_update)

lemma health_inv_poll_start:
  assumes "health_inv s" and "a < length (hp_heap s)"
  shows "health_inv (poll_start hidden sid a s)"
proof (cases "he_inFlight (entry_at s a) \<or> hidden")
  case False
  let ?s = "poll_start hidden sid a s"
  have "\<forall>b < length (hp_heap ?s). entry_ok (entry_at ?s b)"
    using assms by (auto simp: health_inv_def poll_start_def set_entry_def nth_list_update entry_ok_def)
  moreover have "polls_ok ?s"
    using assms False by (auto simp: health_inv_def polls_ok_def poll_start_def set_entry_def nth_list_update)
  moreover have "intervals_ok ?s"
    using assms False by (auto simp: health_inv_def intervals_ok_def poll_start_def set_entry_def nth_list_update)
  moreover have "entries_ok ?s"
    using assms False by (auto simp: health_inv_def entries_ok_def poll_start_def set_entry_def nth_list_update)
  moreover have "refs_ok ?s"
    using assms False by (auto simp: health_inv_def refs_ok_def poll_start_def set_entry_def)
  moreover have "timers_ok ?s"
    using assms False by (simp add: health_inv_def timers_ok_def poll_start_def set_entry_def map_timer_same)
  ultimately show ?thesis by (simp add: health_inv_def)
qed (simp add: poll_start_def assms)

lemma poll_answer_sel [simp]:
  "he_listeners (poll_answer now res e) = he_listeners e"
  "he_timer (poll_answer now res e) = he_timer e"
  "\<not> he_inFlight (poll_answer now res e)"
  by (simp_all add: poll_answer_def split: sum.splits)

lemma poll_answer_capacity: "length (he_samples e) \<le> nat CAPACITY \<Longrightarrow>
  length (he_samples (poll_answer now res e)) \<le> nat CAPACITY"
  using slice_capacity [of "he_samples e"] by (auto simp: poll_answer_def Suc_le_eq split: sum.splits)

lemma settles_heap:
  assumes "(sid, a) \<in> set (hp_polls s)" and "a < length (hp_heap s)"
  shows "hp_heap (poll_settles now res sid a s) =
    (hp_heap s)[a := (let e = poll_answer now res (entry_at s a) in e\<lparr>he_snapshot := snapshot_of e\<rparr>)]"
  using assms by (simp add: poll_settles_def publish_def set_entry_def Let_def)

lemma settles_other:
  "(sid, a) \<in> set (hp_polls s) \<Longrightarrow> hp_polls (poll_settles now res sid a s) = remove1 (sid, a) (hp_polls s)"
  "hp_intervals (poll_settles now res sid a s) = hp_intervals s"
  "hp_entries (poll_settles now res sid a s) = hp_entries s"
  "hp_timeouts (poll_settles now res sid a s) = hp_timeouts s"
  "hp_closures (poll_settles now res sid a s) = hp_closures s"
  "hp_nextTimer (poll_settles now res sid a s) = hp_nextTimer s"
  by (simp_all add: poll_settles_def publish_def set_entry_def Let_def)

lemma remove1_snd: "distinct (map snd ps) \<Longrightarrow> (i, a) \<in> set ps \<Longrightarrow>
  distinct (map snd (remove1 (i, a) ps)) \<and> snd ` set (remove1 (i, a) ps) = snd ` set ps - {a}"
proof (induction ps)
  case (Cons p ps)
  show ?case
  proof (cases "p = (i, a)")
    case False
    with Cons.prems have m: "(i, a) \<in> set ps" by simp
    then have "a \<in> snd ` set ps" by force
    with Cons.prems have "snd p \<noteq> a" by auto
    with Cons False m show ?thesis by auto
  qed (use Cons.prems in auto)
qed simp

lemma health_inv_settles:
  assumes "health_inv s"
  shows "health_inv (poll_settles now res sid a s)"
proof (cases "(sid, a) \<in> set (hp_polls s)")
  case True
  let ?s = "poll_settles now res sid a s"
  have a: "a < length (hp_heap s)" using assms True by (force simp: health_inv_def polls_ok_def)
  note heap = settles_heap [OF True a, of now res]
  have ok: "\<forall>b < length (hp_heap s). entry_ok (entry_at s b)" using assms by (simp add: health_inv_def)
  then have "entry_ok (entry_at s a)" using a by simp
  then have "\<forall>b < length (hp_heap ?s). entry_ok (entry_at ?s b)"
    unfolding heap by (intro heap_update [OF ok])
      (simp add: entry_ok_def Let_def poll_answer_capacity)
  moreover have "polls_ok ?s"
    using assms True a remove1_snd [of "hp_polls s" sid a]
    by (auto simp: health_inv_def polls_ok_def heap settles_other nth_list_update Let_def)
  moreover have "intervals_ok ?s"
    using assms a by (auto simp: health_inv_def intervals_ok_def heap settles_other nth_list_update Let_def)
  moreover have "entries_ok ?s"
    using assms a by (auto simp: health_inv_def entries_ok_def heap settles_other nth_list_update Let_def)
  moreover have "refs_ok ?s" using assms by (simp add: health_inv_def refs_ok_def heap settles_other)
  moreover have "timers_ok ?s"
    using assms a by (simp add: health_inv_def timers_ok_def heap settles_other map_timer_same Let_def)
  ultimately show ?thesis by (simp add: health_inv_def)
qed (simp add: poll_settles_def assms)

lemma fst_image_filter: "distinct (map fst xs) \<Longrightarrow> distinct (map fst (filter P xs))"
  by (simp add: distinct_map inj_on_def)

lemma health_inv_frame:
  assumes "health_inv s" and "hp_heap s' = hp_heap s" and "hp_polls s' = hp_polls s"
    and "hp_nextTimer s' = hp_nextTimer s" and "set (hp_timeouts s') \<subseteq> set (hp_timeouts s)"
    and "hp_closures s' = hp_closures s" and "intervals_ok s'" and "entries_ok s'"
  shows "health_inv s'"
proof -
  have "polls_ok s'" "timers_ok s'" using assms by (simp_all add: health_inv_def polls_ok_def timers_ok_def)
  moreover have "refs_ok s'" using assms subsetD [OF assms(5)]
    by (auto simp: health_inv_def refs_ok_def)
  ultimately show ?thesis using assms by (simp add: health_inv_def)
qed

lemma gc_sel [simp]:
  "hp_heap (gc_fires t sid a s) = hp_heap s" "hp_intervals (gc_fires t sid a s) = hp_intervals s"
  "hp_polls (gc_fires t sid a s) = hp_polls s" "hp_nextTimer (gc_fires t sid a s) = hp_nextTimer s"
  "hp_closures (gc_fires t sid a s) = hp_closures s"
  by (simp_all add: gc_fires_def Let_def)

lemma gc_subsets:
  "set (hp_entries (gc_fires t sid a s)) \<subseteq> set (hp_entries s)"
  "set (hp_timeouts (gc_fires t sid a s)) \<subseteq> set (hp_timeouts s)"
  by (auto simp: gc_fires_def Let_def split: if_splits)

lemma health_inv_gc:
  assumes "health_inv s"
  shows "health_inv (gc_fires t sid a s)"
proof -
  have "intervals_ok (gc_fires t sid a s)" using assms by (simp add: health_inv_def intervals_ok_def)
  moreover have "entries_ok (gc_fires t sid a s)"
    using assms subsetD [OF gc_subsets(1)] unfolding health_inv_def entries_ok_def gc_sel by blast
  ultimately show ?thesis by (intro health_inv_frame [OF assms]) (simp_all add: gc_subsets)
qed

lemma health_inv_reset:
  assumes "health_inv s"
  shows "health_inv (resetHealthStore s)"
proof -
  have "intervals_ok (resetHealthStore s)"
    using assms by (auto simp: health_inv_def intervals_ok_def resetHealthStore_def Let_def fst_image_filter)
  moreover have "entries_ok (resetHealthStore s)" by (simp add: entries_ok_def resetHealthStore_def Let_def)
  ultimately show ?thesis
    by (intro health_inv_frame [OF assms]) (auto simp: resetHealthStore_def Let_def)
qed

text \<open>After \<open>subscribe\<close> the entry has the listener and a timer; other entries are as before.\<close>

definition attached :: "bool \<Rightarrow> nat \<Rightarrow> nat \<Rightarrow> health_entry \<Rightarrow> health_entry" where
  "attached hidden listener t e =
     (let e' = e\<lparr>he_listeners := set_add listener (he_listeners e), he_gcTimer := None\<rparr>
      in if he_timer e = None
         then (if he_inFlight e \<or> hidden then e' else e'\<lparr>he_inFlight := True\<rparr>)\<lparr>he_timer := Some t\<rparr>
         else e')"

lemma set_add_nonempty [simp]: "set_add l ls \<noteq> []"
  by (simp add: set_add_def) force

lemma attach_sel:
  assumes "a < length (hp_heap s)"
  shows "hp_heap (attach hidden sid l a s) = (hp_heap s)[a := attached hidden l (hp_nextTimer s) (entry_at s a)]"
    and "hp_intervals (attach hidden sid l a s) = hp_intervals s @
      (if he_timer (entry_at s a) = None then [(hp_nextTimer s, sid, a)] else [])"
    and "hp_polls (attach hidden sid l a s) = hp_polls s @
      (if he_timer (entry_at s a) = None \<and> \<not> he_inFlight (entry_at s a) \<and> \<not> hidden then [(sid, a)] else [])"
    and "hp_nextTimer (attach hidden sid l a s) =
      (if he_timer (entry_at s a) = None then Suc (hp_nextTimer s) else hp_nextTimer s)"
    and "set (hp_timeouts (attach hidden sid l a s)) \<subseteq> set (hp_timeouts s)"
    and "hp_entries (attach hidden sid l a s) = hp_entries s"
    and "hp_closures (attach hidden sid l a s) = hp_closures s"
  using assms by (auto simp: attach_def attached_def Let_def clear_timeout_def set_entry_def
      start_interval_def poll_start_def)

lemma health_inv_attach:
  assumes inv: "health_inv s" and a: "a < length (hp_heap s)"
  shows "health_inv (attach hidden sid l a s)"
proof -
  let ?s = "attach hidden sid l a s"
  have ok: "\<forall>b < length (hp_heap s). entry_ok (entry_at s b)" using inv by (simp add: health_inv_def)
  have "entry_ok (attached hidden l (hp_nextTimer s) (entry_at s a))"
    using ok a by (simp add: entry_ok_def attached_def Let_def)
  then have "\<forall>b < length (hp_heap ?s). entry_ok (entry_at ?s b)"
    unfolding attach_sel(1) [OF a] by (intro heap_update [OF ok])
  moreover have "polls_ok ?s" using inv a
    by (auto simp: health_inv_def polls_ok_def attach_sel nth_list_update attached_def Let_def)
  moreover have "intervals_ok ?s" using inv a
    by (fastforce simp: health_inv_def intervals_ok_def attach_sel nth_list_update attached_def Let_def)
  moreover have "entries_ok ?s" using inv a
    by (fastforce simp: health_inv_def entries_ok_def attach_sel nth_list_update attached_def Let_def)
  moreover have "refs_ok ?s" using inv subsetD [OF attach_sel(5) [OF a, of hidden sid l]]
    by (auto simp: health_inv_def refs_ok_def attach_sel(1,7) [OF a])
  moreover have "timers_ok ?s"
  proof (cases "he_timer (entry_at s a) = None")
    case True
    then show ?thesis using inv a
      by (simp add: health_inv_def timers_ok_def attach_sel attached_def Let_def map_update timer_uniq_start)
  next
    case False
    then show ?thesis using inv a
      by (auto simp: health_inv_def timers_ok_def attach_sel attached_def Let_def map_timer_same)
  qed
  ultimately show ?thesis by (simp add: health_inv_def)
qed

lemma set_delete_Nil [simp]: "set_delete l [] = []"
  by (simp add: set_delete_def)

lemma health_inv_unsubscribe:
  assumes inv: "health_inv s" and a: "a < length (hp_heap s)"
    and l: "he_listeners (entry_at s a) \<noteq> []"
  shows "health_inv (unsubscribe sid a l s)"
proof -
  let ?e = "entry_at s a" and ?s = "unsubscribe sid a l s"
  obtain t where t: "he_timer ?e = Some t" using inv a l by (auto simp: health_inv_def entry_ok_def)
  have ok: "\<forall>b < length (hp_heap s). entry_ok (entry_at s b)" using inv by (simp add: health_inv_def)
  then have e: "entry_ok ?e" using a by simp
  show ?thesis
  proof (cases "set_delete l (he_listeners ?e) = []")
    case False
    then have s: "?s = set_entry a (?e\<lparr>he_listeners := set_delete l (he_listeners ?e)\<rparr>) s"
      by (simp add: unsubscribe_def Let_def)
    have "entry_ok (?e\<lparr>he_listeners := set_delete l (he_listeners ?e)\<rparr>)"
      using e False t by (simp add: entry_ok_def)
    then have "\<forall>b < length (hp_heap ?s). entry_ok (entry_at ?s b)"
      using heap_update [OF ok] by (simp add: s set_entry_def)
    moreover have "polls_ok ?s" using inv a
      by (auto simp: s health_inv_def polls_ok_def set_entry_def nth_list_update)
    moreover have "intervals_ok ?s" using inv a
      by (auto simp: s health_inv_def intervals_ok_def set_entry_def nth_list_update)
    moreover have "entries_ok ?s" using inv a
      by (auto simp: s health_inv_def entries_ok_def set_entry_def nth_list_update)
    moreover have "refs_ok ?s" using inv by (simp add: s health_inv_def refs_ok_def set_entry_def)
    moreover have "timers_ok ?s"
      using inv a by (simp add: s health_inv_def timers_ok_def set_entry_def map_timer_same)
    ultimately show ?thesis by (simp add: health_inv_def)
  next
    case True
    let ?e' = "?e\<lparr>he_listeners := [], he_timer := None, he_gcTimer := Some (hp_nextTimer s)\<rparr>"
    have s: "?s = s\<lparr>hp_heap := (hp_heap s)[a := ?e'],
        hp_intervals := filter (\<lambda>(i, _). t \<noteq> i) (hp_intervals s),
        hp_timeouts := hp_timeouts s @ [(hp_nextTimer s, sid, a)], hp_nextTimer := Suc (hp_nextTimer s)\<rparr>"
      using True t by (simp add: unsubscribe_def Let_def clear_interval_def set_entry_def)
    have "\<forall>b < length (hp_heap ?s). entry_ok (entry_at ?s b)"
      using heap_update [OF ok, of ?e' a] e by (simp add: s entry_ok_def)
    moreover have "polls_ok ?s" using inv a by (auto simp: s health_inv_def polls_ok_def nth_list_update)
    moreover have "intervals_ok ?s" using inv a t
      by (fastforce simp: s health_inv_def intervals_ok_def nth_list_update fst_image_filter)
    moreover have "refs_ok ?s" using inv a by (auto simp: s health_inv_def refs_ok_def)
    moreover have "timers_ok ?s" using inv a t
      by (simp add: s health_inv_def timers_ok_def map_update timer_uniq_clear timer_uniq_mono)
    moreover have "entries_ok ?s" unfolding entries_ok_def
    proof (clarify, intro conjI allI impI)
      fix i b assume "(i, b) \<in> set (hp_entries ?s)"
      then have b: "b < length (hp_heap s)"
        and old: "\<And>u. he_timer (entry_at s b) = Some u \<Longrightarrow> \<exists>j. (u, j, b) \<in> set (hp_intervals s)"
        using inv by (auto simp: s health_inv_def entries_ok_def)
      then show "b < length (hp_heap ?s)" by (simp add: s)
      fix u assume u: "he_timer (entry_at ?s b) = Some u"
      then have "b \<noteq> a" using a by (auto simp: s)
      with u have "he_timer (entry_at s b) = Some u" by (simp add: s)
      moreover from this have "u \<noteq> t" using inv a b t \<open>b \<noteq> a\<close> timers_unique by (auto simp: health_inv_def)
      ultimately show "\<exists>j. (u, j, b) \<in> set (hp_intervals ?s)" using old by (auto simp: s)
    qed
    ultimately show ?thesis by (simp add: health_inv_def)
  qed
qed

lemma unsubscribe_any:
  assumes "health_inv s" and "a < length (hp_heap s)" and "he_listeners (entry_at s a) = []"
  shows "health_inv (unsubscribe sid a l s)"
proof -
  let ?e = "entry_at s a" and ?s = "unsubscribe sid a l s"
  have t: "he_timer ?e = None" and ok: "\<forall>b < length (hp_heap s). entry_ok (entry_at s b)"
    using assms by (auto simp: health_inv_def entry_ok_def)
  let ?e' = "?e\<lparr>he_listeners := [], he_timer := None, he_gcTimer := Some (hp_nextTimer s)\<rparr>"
  have s: "?s = s\<lparr>hp_heap := (hp_heap s)[a := ?e'], hp_intervals := hp_intervals s,
      hp_timeouts := hp_timeouts s @ [(hp_nextTimer s, sid, a)], hp_nextTimer := Suc (hp_nextTimer s)\<rparr>"
    using assms(3) t by (simp add: unsubscribe_def Let_def clear_interval_def set_entry_def case_prod_unfold)
  have "entry_ok ?e'" using ok assms(2) by (simp add: entry_ok_def)
  then have "\<forall>b < length (hp_heap ?s). entry_ok (entry_at ?s b)" using heap_update [OF ok] by (simp add: s)
  moreover have "polls_ok ?s" using assms by (auto simp: s health_inv_def polls_ok_def nth_list_update)
  moreover have "intervals_ok ?s" using assms t
    by (fastforce simp: s health_inv_def intervals_ok_def nth_list_update)
  moreover have "entries_ok ?s" using assms t by (fastforce simp: s health_inv_def entries_ok_def nth_list_update)
  moreover have "refs_ok ?s" using assms by (auto simp: s health_inv_def refs_ok_def)
  moreover have "timers_ok ?s" using assms t
    by (simp add: s health_inv_def timers_ok_def map_timer_same timer_uniq_mono)
  ultimately show ?thesis by (simp add: health_inv_def)
qed

lemma health_inv_closures:
  assumes "health_inv s" and "\<forall>(i, a, l) \<in> set cs. a < length (hp_heap s)"
  shows "health_inv (s\<lparr>hp_closures := cs\<rparr>)"
  using assms by (simp add: health_inv_def polls_ok_def intervals_ok_def entries_ok_def refs_ok_def timers_ok_def)

lemma health_inv_handle:
  assumes inv: "health_inv s"
  shows "health_inv (health_handle s e)"
proof (cases e)
  case (HSubscribe hidden sid l)
  obtain a s1 where f: "entryFor sid s = (a, s1)" by (cases "entryFor sid s")
  have s1: "health_inv s1" "a < length (hp_heap s1)" using health_inv_entryFor [OF inv, of sid] f by auto
  let ?s = "attach hidden sid l a s1"
  have "health_inv ?s" by (rule health_inv_attach [OF s1])
  moreover have "\<forall>(i, b, m) \<in> set (hp_closures ?s @ [(sid, a, l)]). b < length (hp_heap ?s)"
    using s1 by (auto simp: attach_sel [OF s1(2)] health_inv_def refs_ok_def)
  ultimately show ?thesis
    using HSubscribe f by (simp add: subscribe_def health_inv_closures)
next
  case (HUnsubscribe sid a l)
  show ?thesis
  proof (cases "(sid, a, l) \<in> set (hp_closures s)")
    case True
    let ?s = "s\<lparr>hp_closures := remove1 (sid, a, l) (hp_closures s)\<rparr>"
    have a: "a < length (hp_heap s)" using True inv by (auto simp: health_inv_def refs_ok_def)
    have "health_inv ?s" using inv
      by (intro health_inv_closures) (auto simp: health_inv_def refs_ok_def dest: subsetD [OF set_remove1_subset])
    with a have "health_inv (unsubscribe sid a l ?s)"
      by (cases "he_listeners (entry_at s a) = []") (simp_all add: unsubscribe_any health_inv_unsubscribe)
    with True HUnsubscribe show ?thesis by simp
  qed (simp add: HUnsubscribe inv)
next
  case (HTick hidden t sid a)
  have "a < length (hp_heap s)" if "(t, sid, a) \<in> set (hp_intervals s)"
    using that inv by (auto simp: health_inv_def intervals_ok_def)
  then show ?thesis using HTick inv by (simp add: tick_def health_inv_poll_start)
qed (simp_all add: inv health_inv_settles health_inv_gc health_inv_reset)

lemma health_inv_init: "health_inv health_init"
  by (simp add: health_inv_def health_init_def polls_ok_def intervals_ok_def entries_ok_def refs_ok_def
      timers_ok_def timer_uniq_def)

interpretation health_machine: deterministic_machine health_init health_handle health_inv
  by unfold_locales (simp_all add: health_inv_init health_inv_handle)

lemma registered_polls:
  assumes "health_inv s" and "map_of (hp_entries s) sid = Some a"
  shows "(\<exists>t i. (t, i, a) \<in> set (hp_intervals s)) \<longleftrightarrow> he_listeners (entry_at s a) \<noteq> []"
proof -
  have a: "(sid, a) \<in> set (hp_entries s)" using assms(2) by (rule map_of_SomeD)
  then have ok: "entry_ok (entry_at s a)" "a < length (hp_heap s)"
    using assms(1) by (auto simp: health_inv_def entries_ok_def)
  show ?thesis
  proof
    assume "\<exists>t i. (t, i, a) \<in> set (hp_intervals s)"
    then have "he_timer (entry_at s a) \<noteq> None"
      using assms(1) by (auto simp: health_inv_def intervals_ok_def)
    then show "he_listeners (entry_at s a) \<noteq> []" using ok by (auto simp: entry_ok_def)
  next
    assume "he_listeners (entry_at s a) \<noteq> []"
    then obtain t where "he_timer (entry_at s a) = Some t" using ok by (auto simp: entry_ok_def)
    then show "\<exists>t i. (t, i, a) \<in> set (hp_intervals s)"
      using a assms(1) unfolding health_inv_def entries_ok_def by fast
  qed
qed

text \<open>The turns of a page that only polls, and what they leave alone.\<close>

fun polling :: "health_event \<Rightarrow> bool" where
  "polling (HTick hidden t sid a) = True"
| "polling (HSettle now res sid a) = True"
| "polling _ = False"

lemma set_entry_listeners:
  "he_listeners e = he_listeners (entry_at s a) \<Longrightarrow> he_listeners (entry_at (set_entry a e s) c) = he_listeners (entry_at s c)"
  by (cases "a < length (hp_heap s)"; cases "c = a") (simp_all add: set_entry_def list_update_beyond not_less)

lemma polling_frame:
  assumes "polling e"
  shows "he_listeners (entry_at (health_handle s e) c) = he_listeners (entry_at s c)"
    and "hp_entries (health_handle s e) = hp_entries s" and "hp_intervals (health_handle s e) = hp_intervals s"
    and "hp_timeouts (health_handle s e) = hp_timeouts s"
proof -
  have "he_listeners (entry_at (publish a u) c) = he_listeners (entry_at u c)" for a u
    using set_entry_listeners [of "entry_at u a\<lparr>he_snapshot := snapshot_of (entry_at u a)\<rparr>" u a c]
    by (simp add: publish_def Let_def)
  with assms show "he_listeners (entry_at (health_handle s e) c) = he_listeners (entry_at s c)"
    by (cases e) (simp_all add: tick_def poll_start_def poll_settles_def set_entry_listeners)
  show "hp_entries (health_handle s e) = hp_entries s" "hp_intervals (health_handle s e) = hp_intervals s"
    "hp_timeouts (health_handle s e) = hp_timeouts s"
    using assms by (cases e; simp add: tick_def poll_start_def set_entry_def settles_other)+
qed

lemma polling_run:
  assumes "\<forall>e \<in> set ps. polling e"
  shows "he_listeners (entry_at (foldl health_handle s ps) c) = he_listeners (entry_at s c) \<and>
    hp_entries (foldl health_handle s ps) = hp_entries s \<and> hp_intervals (foldl health_handle s ps) = hp_intervals s \<and>
    hp_timeouts (foldl health_handle s ps) = hp_timeouts s"
  using assms by (induction ps arbitrary: s) (simp_all add: polling_frame)

text \<open>A reset, the unsubscription of the component that was mounted and the subscription of the next one.\<close>

lemma resubscribed:
  assumes "health_inv s" and "map_of (hp_entries s) sid = Some a" and "he_listeners (entry_at s a) = [l]"
    and "(sid, a, l) \<in> set (hp_closures s)"
    and "u = foldl health_handle s [HReset, HUnsubscribe sid a l, HSubscribe hidden sid m]"
  shows "(hp_nextTimer s, sid, a) \<in> set (hp_timeouts u)" and "he_listeners (entry_at u a) = []"
    and "hp_entries u = [(sid, length (hp_heap s))]" and "he_listeners (entry_at u (length (hp_heap s))) = [m]"
    and "\<exists>t. (t, sid, length (hp_heap s)) \<in> set (hp_intervals u)"
proof -
  have a: "a < length (hp_heap s)"
    using assms(1) map_of_SomeD [OF assms(2)] by (auto simp: health_inv_def entries_ok_def)
  let ?r = "(resetHealthStore s)\<lparr>hp_closures := remove1 (sid, a, l) (hp_closures s)\<rparr>"
  let ?v = "unsubscribe sid a l ?r"
  define w where "w = ?v\<lparr>hp_heap := hp_heap ?v @ [new_entry], hp_entries := [(sid, length (hp_heap s))]\<rparr>"
  have r: "hp_heap ?r = hp_heap s" "hp_entries ?r = []" "hp_nextTimer ?r = hp_nextTimer s" "hp_closures (resetHealthStore s) = hp_closures s"
    by (simp_all add: resetHealthStore_def Let_def)
  have v: "hp_heap ?v = (hp_heap s)[a := (entry_at s a)\<lparr>he_listeners := [], he_timer := None, he_gcTimer := Some (hp_nextTimer s)\<rparr>]"
    "hp_entries ?v = []" "(hp_nextTimer s, sid, a) \<in> set (hp_timeouts ?v)"
    using assms(3) r by (simp_all add: unsubscribe_def Let_def set_delete_def clear_interval_def set_entry_def)
  have u: "u = (attach hidden sid m (length (hp_heap s)) w)
      \<lparr>hp_closures := hp_closures (attach hidden sid m (length (hp_heap s)) w) @ [(sid, length (hp_heap s), m)]\<rparr>"
    using assms(4,5) v(1,2) by (simp add: r subscribe_def entryFor_def w_def)
  have w: "length (hp_heap s) < length (hp_heap w)" "entry_at w (length (hp_heap s)) = new_entry"
    "he_listeners (entry_at w a) = []" "hp_entries w = [(sid, length (hp_heap s))]" "hp_timeouts w = hp_timeouts ?v"
    using v(1) a by (simp_all add: nth_append w_def)
  show "he_listeners (entry_at u (length (hp_heap s))) = [m]"
    using w(1,2) by (simp add: u attach_sel(1) attached_def Let_def new_entry_def set_add_def)
  show "\<exists>t. (t, sid, length (hp_heap s)) \<in> set (hp_intervals u)"
    using w(1,2) by (auto simp: u attach_sel(2) new_entry_def)
  show "he_listeners (entry_at u a) = []" using a w(1,3) by (simp add: u attach_sel(1))
  show "hp_entries u = [(sid, length (hp_heap s))]" using w(4) by (simp add: u attach_sel(6) [OF w(1)])
  have "hp_timeouts (attach hidden sid m (length (hp_heap s)) w) = hp_timeouts w"
    using w(2) by (simp add: attach_def Let_def new_entry_def clear_timeout_def set_entry_def start_interval_def
        poll_start_def case_prod_unfold)
  then show "(hp_nextTimer s, sid, a) \<in> set (hp_timeouts u)" using v(3) w(5) by (simp add: u)
qed

section \<open>Properties\<close>

text \<open>C18: However subscriptions, timer ticks, answers, garbage collection and resets interleave, the
  series a component reads has at most 240 samples and its latest sample is the last of them; no
  entry has two polls in flight; an entry in the map is polled exactly while it has subscribers; and
  no interval runs for an entry without subscribers.\<close>

theorem health_store_ok:
  assumes "s = foldl health_handle health_init es"
  shows "length (hv_samples (useSandboxHealth sid s)) \<le> 240 \<and>
    hv_latest (useSandboxHealth sid s) =
      (if hv_samples (useSandboxHealth sid s) = [] then None
       else Some (last (hv_samples (useSandboxHealth sid s)))) \<and>
    distinct (map snd (hp_polls s)) \<and>
    (\<forall>a. map_of (hp_entries s) sid = Some a \<longrightarrow>
       ((\<exists>t i. (t, i, a) \<in> set (hp_intervals s)) \<longleftrightarrow> he_listeners (entry_at s a) \<noteq> [])) \<and>
    (\<forall>(t, i, a) \<in> set (hp_intervals s). he_listeners (entry_at s a) \<noteq> [])"
proof -
  have inv: "health_inv s" unfolding assms by (rule health_machine.run_inv)
  have ok: "entry_ok (entry_at s a)" if "map_of (hp_entries s) sid = Some a" for a
    using inv map_of_SomeD [OF that] by (auto simp: health_inv_def entries_ok_def)
  have "\<forall>(t, i, a) \<in> set (hp_intervals s). he_listeners (entry_at s a) \<noteq> []"
    using inv by (fastforce simp: health_inv_def intervals_ok_def entry_ok_def)
  moreover have "distinct (map snd (hp_polls s))" using inv by (simp add: health_inv_def polls_ok_def)
  ultimately show ?thesis using registered_polls [OF inv] ok
    by (auto simp: useSandboxHealth_def EMPTY_def entry_ok_def snapshot_of_def CAPACITY_def split: option.splits)
qed

theorem health_store_ok_witness:
  "length (hv_samples (useSandboxHealth ''a'' (foldl health_handle health_init
     [HSubscribe False ''a'' 1, HSettle 5 (Inl (PlatformError ''x'')) ''a'' 0]))) \<le> 240"
  using health_store_ok [OF refl] by blast

text \<open>C21: In whatever state a component is the only subscriber of a sandbox when the store is reset, its
  unsubscription starts the collection timer of the old entry, and that timer removes the entry the map
  then holds for the sandbox, a newer one.  A component that subscribed in between reads the samples of
  its own entry until the timer goes off, however often it was polled, and the empty series afterwards,
  although it is still subscribed and its interval goes on polling; the next subscriber gets an entry
  and an interval of its own.\<close>

theorem reset_then_gc_drops_live_entry:
  assumes "s = foldl health_handle health_init es" and "map_of (hp_entries s) sid = Some a"
    and "he_listeners (entry_at s a) = [l]" and "(sid, a, l) \<in> set (hp_closures s)"
    and "\<forall>e \<in> set ps. polling e"
    and "v = foldl health_handle s ([HReset, HUnsubscribe sid a l, HSubscribe hidden sid m] @ ps)"
    and "u = health_handle v (HGc (hp_nextTimer s) sid a)" and "b = length (hp_heap s)"
  shows "useSandboxHealth sid v = he_snapshot (entry_at v b) \<and> useSandboxHealth sid u = EMPTY \<and>
    m \<in> set (he_listeners (entry_at u b)) \<and> (\<exists>t. (t, sid, b) \<in> set (hp_intervals u)) \<and>
    fst (subscribe hidden' sid k u) \<noteq> b \<and>
    (\<exists>t. (t, sid, fst (subscribe hidden' sid k u)) \<in> set (hp_intervals (snd (subscribe hidden' sid k u))))"
proof -
  have inv: "health_inv s" unfolding assms(1) by (rule health_machine.run_inv)
  let ?w = "foldl health_handle s [HReset, HUnsubscribe sid a l, HSubscribe hidden sid m]"
  note w = resubscribed [OF inv assms(2-4) refl, of hidden m]
  have v: "v = foldl health_handle ?w ps" by (simp add: assms(6))
  note p = polling_run [OF assms(5), of ?w]
  have fires: "(hp_nextTimer s, sid, a) \<in> set (hp_timeouts v)" "he_listeners (entry_at v a) = []"
    "hp_entries v = [(sid, b)]" "he_listeners (entry_at v b) = [m]" "\<exists>t. (t, sid, b) \<in> set (hp_intervals v)"
    using p w unfolding v assms(8) by auto
  then have u: "hp_heap u = hp_heap v" "hp_entries u = []" "hp_intervals u = hp_intervals v"
    by (simp_all add: assms(7) gc_fires_def Let_def)
  have "health_inv v" unfolding assms(1,6) foldl_append [symmetric] by (rule health_machine.run_inv)
  then have b: "b < length (hp_heap v)" using fires(3) by (simp add: health_inv_def entries_ok_def)
  let ?n = "u\<lparr>hp_heap := hp_heap u @ [new_entry], hp_entries := [(sid, length (hp_heap u))]\<rparr>"
  have sub: "subscribe hidden' sid k u = (length (hp_heap u), attach hidden' sid k (length (hp_heap u)) ?n)"
    by (simp add: subscribe_def entryFor_def u(2))
  have "\<exists>t. (t, sid, length (hp_heap u)) \<in> set (hp_intervals (attach hidden' sid k (length (hp_heap u)) ?n))"
    by (subst attach_sel(2)) (auto simp: new_entry_def)
  then show ?thesis using fires u b by (simp add: useSandboxHealth_def sub)
qed

theorem reset_then_gc_drops_live_entry_witness:
  "\<forall>h. \<exists>v. hv_samples (useSandboxHealth ''a'' v) = [\<lparr>hs_at = 9, hs_health = h\<rparr>] \<and>
     useSandboxHealth ''a'' (health_handle v (HGc 1 ''a'' 0)) = EMPTY"
proof
  fix h
  let ?s = "foldl health_handle health_init [HSubscribe False ''a'' 1]"
  let ?v = "foldl health_handle ?s ([HReset, HUnsubscribe ''a'' 0 1, HSubscribe False ''a'' 2] @ [HSettle 9 (Inr h) ''a'' 1])"
  note defs = health_init_def subscribe_def entryFor_def attach_def set_entry_def new_entry_def clear_timeout_def
    poll_start_def start_interval_def set_add_def
  have s: "map_of (hp_entries ?s) ''a'' = Some 0" "he_listeners (entry_at ?s 0) = [1]" "(''a'', 0, 1) \<in> set (hp_closures ?s)"
    "hp_nextTimer ?s = 1" "length (hp_heap ?s) = 1"
    by (simp_all add: defs)
  have "hv_samples (he_snapshot (entry_at ?v 1)) = [\<lparr>hs_at = 9, hs_health = h\<rparr>]"
    by (simp add: defs set_delete_def unsubscribe_def clear_interval_def resetHealthStore_def poll_settles_def
        poll_answer_def publish_def snapshot_of_def Let_def js_slice_from_def)
  moreover have "useSandboxHealth ''a'' ?v = he_snapshot (entry_at ?v 1)"
    "useSandboxHealth ''a'' (health_handle ?v (HGc 1 ''a'' 0)) = EMPTY"
    using reset_then_gc_drops_live_entry [OF refl s(1-3) _ refl refl refl, of "[HSettle 9 (Inr h) ''a'' 1]" False 2]
    unfolding s(4,5) by simp_all
  ultimately show "\<exists>v. hv_samples (useSandboxHealth ''a'' v) = [\<lparr>hs_at = 9, hs_health = h\<rparr>] \<and>
     useSandboxHealth ''a'' (health_handle v (HGc 1 ''a'' 0)) = EMPTY"
    by (intro exI [of _ ?v]) simp
qed

end
