(* ===== verification/Term.thy ===== *)
theory Term
  imports Client
begin

text \<open>
  The terminal sessions (\<open>web/src/lib/term.ts\<close>, reached from the shell through
  \<open>web/src/lib/termBridge.ts\<close>).  A session's \<open>Internal\<close> object is captured by the handlers of its
  socket and by its retry timer, which outlive its place in the session list, so the objects and the
  sockets live in heaps of addresses.  A socket's events are those of the browser: it opens once,
  delivers messages while open and closes once.  xterm.js is outside the repository: its part of the
  state is the size of the terminal and the list of what was written to it.
\<close>

datatype SessionStatus = Connecting | Open | Reconnecting | Closed

definition TERM_THEME :: "(string \<times> string) list" where
  "TERM_THEME =
     [(''background'', ''#0c0e13''), (''foreground'', ''#e7eaf0''), (''cursor'', ''#f5a524''),
      (''cursorAccent'', ''#0c0e13''), (''selectionBackground'', ''#f5a52445''),
      (''black'', ''#12151c''), (''red'', ''#e5534b''), (''green'', ''#3fb454''),
      (''yellow'', ''#d1a01f''), (''blue'', ''#4a94dd''), (''magenta'', ''#b07dd6''),
      (''cyan'', ''#3fb0b4''), (''white'', ''#9aa3b2''), (''brightBlack'', ''#616b7c''),
      (''brightRed'', ''#f3a6a2''), (''brightGreen'', ''#7ed492''), (''brightYellow'', ''#f5c95c''),
      (''brightBlue'', ''#8abdf0''), (''brightMagenta'', ''#d3aef0''), (''brightCyan'', ''#7ed4d8''),
      (''brightWhite'', ''#e7eaf0'')]"

definition MAX_SESSIONS :: int where
  "MAX_SESSIONS = 6"

definition BACKOFF_MIN_MS :: int where
  "BACKOFF_MIN_MS = 500"

definition BACKOFF_MAX_MS :: int where
  "BACKOFF_MAX_MS = 8000"

text \<open>The public part of a session, as the snapshots copy it.\<close>

record TermSession =
  ss_id :: string
  ss_sandboxId :: string
  ss_title :: string
  ss_status :: SessionStatus
  ss_exitCode :: "int option"

record Internal =
  in_session :: TermSession
  in_cols :: int
  in_rows :: int
  in_written :: "string list"
  in_disposed :: bool
  in_ws :: "nat option"
  in_userClosed :: bool
  in_shellExited :: bool
  in_backoffMs :: int
  in_retryTimer :: "nat option"

datatype ready_state = WsConnecting | WsOpen | WsClosing | WsClosed
datatype frame = Binary string | Control TermControl

record socket =
  sk_owner :: nat
  sk_url :: string
  sk_protocols :: "string list"
  sk_state :: ready_state
  sk_sent :: "frame list"

record term_state =
  tm_heap :: "Internal list"
  tm_sockets :: "socket list"
  tm_timers :: "(nat \<times> nat \<times> rat) list"
  tm_nextTimer :: nat
  tm_bySandbox :: "(string \<times> nat list) list"
  tm_lastState :: "string \<rightharpoonup> SandboxState"
  tm_snapshots :: "string \<rightharpoonup> TermSession list"
  tm_seq :: int
  tm_published :: nat
  tm_token :: "string option"
  tm_https :: bool
  tm_host :: string

definition term_init :: "string option \<Rightarrow> bool \<Rightarrow> string \<Rightarrow> term_state" where
  "term_init token https host =
     \<lparr>tm_heap = [], tm_sockets = [], tm_timers = [], tm_nextTimer = 0, tm_bySandbox = [],
      tm_lastState = Map.empty, tm_snapshots = Map.empty, tm_seq = 1, tm_published = 0,
      tm_token = token, tm_https = https, tm_host = host\<rparr>"

abbreviation obj :: "term_state \<Rightarrow> nat \<Rightarrow> Internal" where
  "obj s a \<equiv> tm_heap s ! a"

definition set_obj :: "nat \<Rightarrow> (Internal \<Rightarrow> Internal) \<Rightarrow> term_state \<Rightarrow> term_state" where
  "set_obj a f s = s\<lparr>tm_heap := (tm_heap s)[a := f (obj s a)]\<rparr>"

definition sessions :: "string \<Rightarrow> term_state \<Rightarrow> nat list" where
  "sessions sid s = nullish (map_of (tm_bySandbox s) sid) []"

text \<open>\<open>bySandbox.set\<close>: an existing key keeps its place in the iteration order.\<close>

definition set_sessions :: "string \<Rightarrow> nat list \<Rightarrow> term_state \<Rightarrow> term_state" where
  "set_sessions sid as s =
     s\<lparr>tm_bySandbox :=
       (if map_of (tm_bySandbox s) sid = None then tm_bySandbox s @ [(sid, as)]
        else map (\<lambda>(k, v). if k = sid then (k, as) else (k, v)) (tm_bySandbox s))\<rparr>"

definition term_publish :: "string \<Rightarrow> term_state \<Rightarrow> term_state" where
  "term_publish sid s =
     s\<lparr>tm_snapshots := (tm_snapshots s)(sid \<mapsto> map (\<lambda>a. in_session (obj s a)) (sessions sid s)),
       tm_published := Suc (tm_published s)\<rparr>"

definition set_status :: "SessionStatus \<Rightarrow> Internal \<Rightarrow> Internal" where
  "set_status st i = i\<lparr>in_session := (in_session i)\<lparr>ss_status := st\<rparr>\<rparr>"

abbreviation sandbox_of :: "term_state \<Rightarrow> nat \<Rightarrow> string" where
  "sandbox_of s a \<equiv> ss_sandboxId (in_session (obj s a))"

definition wsURL :: "term_state \<Rightarrow> string \<Rightarrow> int \<Rightarrow> int \<Rightarrow> string" where
  "wsURL s sandboxId cols rows =
     (if tm_https s then ''wss:'' else ''ws:'') @ ''//'' @ tm_host s @ ''/v0/sandboxes/'' @ sandboxId @
     ''/term?cols='' @ js_num cols @ ''&rows='' @ js_num rows"

definition connect :: "nat \<Rightarrow> term_state \<Rightarrow> term_state" where
  "connect a s =
     (if \<not> truthy_str (tm_token s) then s
      else
        let i = obj s a; sid = ss_sandboxId (in_session i);
            s1 = term_publish sid (set_obj a (set_status
                   (if in_backoffMs i > BACKOFF_MIN_MS then Reconnecting else Connecting)) s);
            ws = \<lparr>sk_owner = a, sk_url = wsURL s sid (in_cols i) (in_rows i),
                  sk_protocols = [''bearer.'' @ b64url (the (tm_token s)), TERM_SUBPROTOCOL],
                  sk_state = WsConnecting, sk_sent = []\<rparr>
        in set_obj a (\<lambda>i. i\<lparr>in_ws := Some (length (tm_sockets s1))\<rparr>)
             (s1\<lparr>tm_sockets := tm_sockets s1 @ [ws]\<rparr>))"

definition set_socket :: "nat \<Rightarrow> (socket \<Rightarrow> socket) \<Rightarrow> term_state \<Rightarrow> term_state" where
  "set_socket w f s = s\<lparr>tm_sockets := (tm_sockets s)[w := f (tm_sockets s ! w)]\<rparr>"

text \<open>\<open>Math.random()\<close> is one of the \<open>2 ^ 53\<close> values \<open>n / 2 ^ 53\<close> below 1.\<close>

definition js_random :: "nat \<Rightarrow> rat" where
  "js_random n = of_nat (n mod 2 ^ 53) / 2 ^ 53"

definition retry_delay :: "nat \<Rightarrow> int \<Rightarrow> rat" where
  "retry_delay rnd backoffMs =
     min (of_int backoffMs * (js_random rnd * (3 / 10) + 85 / 100)) (of_int BACKOFF_MAX_MS)"

definition scheduleReconnect :: "nat \<Rightarrow> nat \<Rightarrow> term_state \<Rightarrow> term_state" where
  "scheduleReconnect rnd a s =
     (let i = obj s a
      in if in_retryTimer i \<noteq> None \<or> in_userClosed i \<or> in_shellExited i then s
         else (set_obj a (\<lambda>i. i\<lparr>in_backoffMs := min (in_backoffMs i * 2) BACKOFF_MAX_MS,
                                in_retryTimer := Some (tm_nextTimer s)\<rparr>) s)
                \<lparr>tm_timers := tm_timers s @ [(tm_nextTimer s, a, retry_delay rnd (in_backoffMs i))],
                 tm_nextTimer := Suc (tm_nextTimer s)\<rparr>)"

definition retry_fires :: "nat \<Rightarrow> nat \<Rightarrow> nat \<Rightarrow> term_state \<Rightarrow> term_state" where
  "retry_fires rnd t a s =
     (if \<exists>d. (t, a, d) \<in> set (tm_timers s)
      then let s1 = set_obj a (\<lambda>i. i\<lparr>in_retryTimer := None\<rparr>)
                      (s\<lparr>tm_timers := filter (\<lambda>(t', _). t' \<noteq> t) (tm_timers s)\<rparr>);
               i = obj s1 a
           in if in_userClosed i \<or> in_shellExited i \<or> in_ws i \<noteq> None then s1
              else if tm_lastState s1 (sandbox_of s1 a) \<noteq> Some RUNNING then scheduleReconnect rnd a s1
              else connect a s1
      else s)"

section \<open>Socket handlers\<close>

abbreviation sock :: "term_state \<Rightarrow> nat \<Rightarrow> socket" where
  "sock s w \<equiv> tm_sockets s ! w"

definition ws_onopen :: "nat \<Rightarrow> term_state \<Rightarrow> term_state" where
  "ws_onopen w s =
     (if w < length (tm_sockets s) \<and> sk_state (sock s w) = WsConnecting
      then let a = sk_owner (sock s w);
               s1 = set_obj a (\<lambda>i. set_status Open (i\<lparr>in_backoffMs := BACKOFF_MIN_MS\<rparr>))
                      (set_socket w (\<lambda>k. k\<lparr>sk_state := WsOpen\<rparr>) s)
           in term_publish (sandbox_of s1 a) s1
      else s)"

definition write_term :: "string \<Rightarrow> Internal \<Rightarrow> Internal" where
  "write_term txt i = i\<lparr>in_written := in_written i @ [txt]\<rparr>"

definition ws_onmessage :: "nat \<Rightarrow> frame \<Rightarrow> term_state \<Rightarrow> term_state" where
  "ws_onmessage w f s =
     (if w < length (tm_sockets s) \<and> sk_state (sock s w) = WsOpen
      then let a = sk_owner (sock s w)
           in case f of
                Control (CtlExit code) \<Rightarrow>
                  set_obj a (\<lambda>i. i\<lparr>in_shellExited := True,
                     in_session := (in_session i)\<lparr>ss_exitCode := Some (nullish code 0)\<rparr>\<rparr>) s
              | Control _ \<Rightarrow> s
              | Binary bytes \<Rightarrow> set_obj a (write_term bytes) s
      else s)"

definition exit_notice :: "Internal \<Rightarrow> string" where
  "exit_notice i =
     [CHR 0x0D, CHR 0x0A, CHR 0x1B] @ ''[2m[process exited: '' @
     js_num (nullish (ss_exitCode (in_session i)) 0) @ '']'' @ [CHR 0x1B] @ ''[0m'' @
     [CHR 0x0D, CHR 0x0A]"

definition ws_onclose :: "nat \<Rightarrow> nat \<Rightarrow> term_state \<Rightarrow> term_state" where
  "ws_onclose rnd w s =
     (if w < length (tm_sockets s) \<and> sk_state (sock s w) \<noteq> WsClosed
      then let a = sk_owner (sock s w);
               s0 = set_socket w (\<lambda>k. k\<lparr>sk_state := WsClosed\<rparr>) s
           in if in_ws (obj s0 a) \<noteq> Some w then s0
              else
                let s1 = set_obj a (\<lambda>i. i\<lparr>in_ws := None\<rparr>) s0; i = obj s1 a
                in if in_userClosed i then s1
                   else if in_shellExited i
                     then term_publish (sandbox_of s1 a)
                            (set_obj a (\<lambda>i. write_term (exit_notice i) (set_status Closed i)) s1)
                   else scheduleReconnect rnd a
                          (term_publish (sandbox_of s1 a) (set_obj a (set_status Reconnecting) s1))
      else s)"

section \<open>Sessions\<close>

text \<open>\<open>cols\<close> and \<open>rows\<close> are the size xterm.js starts with.\<close>

definition newSession :: "string \<Rightarrow> int \<Rightarrow> int \<Rightarrow> term_state \<Rightarrow> nat \<times> term_state" where
  "newSession sid cols rows s =
     (let i = \<lparr>in_session = \<lparr>ss_id = ''sh-'' @ js_num (tm_seq s), ss_sandboxId = sid,
                 ss_title = ''sh '' @ js_num (tm_seq s), ss_status = Connecting, ss_exitCode = None\<rparr>,
               in_cols = cols, in_rows = rows, in_written = [], in_disposed = False, in_ws = None,
               in_userClosed = False, in_shellExited = False, in_backoffMs = BACKOFF_MIN_MS,
               in_retryTimer = None\<rparr>
      in (length (tm_heap s), s\<lparr>tm_heap := tm_heap s @ [i], tm_seq := tm_seq s + 1\<rparr>))"

text \<open>The listeners \<open>newSession\<close> installs on the terminal.\<close>

definition send_open :: "nat \<Rightarrow> frame \<Rightarrow> term_state \<Rightarrow> term_state" where
  "send_open a f s =
     (case in_ws (obj s a) of
        None \<Rightarrow> s
      | Some w \<Rightarrow> if sk_state (sock s w) = WsOpen
                  then set_socket w (\<lambda>k. k\<lparr>sk_sent := sk_sent k @ [f]\<rparr>) s else s)"

definition term_onData :: "nat \<Rightarrow> string \<Rightarrow> term_state \<Rightarrow> term_state" where
  "term_onData a data s = send_open a (Binary data) s"

definition term_onResize :: "nat \<Rightarrow> int \<Rightarrow> int \<Rightarrow> term_state \<Rightarrow> term_state" where
  "term_onResize a cols rows s =
     send_open a (Control (CtlResize (Some cols) (Some rows)))
       (set_obj a (\<lambda>i. i\<lparr>in_cols := cols, in_rows := rows\<rparr>) s)"

text \<open>\<open>True\<close> lets the key flow to the shell.\<close>

definition term_key :: "bool \<Rightarrow> bool \<Rightarrow> string \<Rightarrow> bool \<Rightarrow> bool" where
  "term_key metaKey ctrlKey key hasSelection =
     (let modifier = metaKey \<or> ctrlKey
      in if modifier \<and> key = ''c'' \<and> hasSelection then False
         else if modifier \<and> key = ''v'' then False else True)"

definition sessionsOf :: "string \<Rightarrow> term_state \<Rightarrow> TermSession list" where
  "sessionsOf sid s = nullish (tm_snapshots s sid) []"

definition open_session :: "string \<Rightarrow> int \<Rightarrow> int \<Rightarrow> term_state \<Rightarrow> nat option \<times> term_state" where
  "open_session sid cols rows s =
     (let as = sessions sid s
      in if int (length as) \<ge> MAX_SESSIONS then (None, s)
         else let (a, s1) = newSession sid cols rows s
              in (Some a, term_publish sid (connect a (set_sessions sid (as @ [a]) s1))))"

definition find_session :: "string \<Rightarrow> string \<Rightarrow> term_state \<Rightarrow> nat option" where
  "find_session sid sessionId s =
     find (\<lambda>a. ss_id (in_session (obj s a)) = sessionId) (sessions sid s)"

definition restart :: "string \<Rightarrow> string \<Rightarrow> term_state \<Rightarrow> term_state" where
  "restart sid sessionId s =
     (case find_session sid sessionId s of
        None \<Rightarrow> s
      | Some a \<Rightarrow>
          if in_ws (obj s a) \<noteq> None \<or> \<not> in_shellExited (obj s a) then s
          else connect a (set_obj a (\<lambda>i. i\<lparr>in_shellExited := False, in_userClosed := False,
                 in_session := (in_session i)\<lparr>ss_exitCode := None\<rparr>, in_backoffMs := BACKOFF_MIN_MS\<rparr>) s))"

text \<open>The common part of \<open>close\<close> and \<open>disposeSandbox\<close> for one session.\<close>

definition end_session :: "nat \<Rightarrow> term_state \<Rightarrow> term_state" where
  "end_session a s =
     (let i = obj s a;
          s1 = set_obj a (\<lambda>i. i\<lparr>in_userClosed := True, in_disposed := True\<rparr>) s;
          s2 = s1\<lparr>tm_timers := filter (\<lambda>(t, _). in_retryTimer i \<noteq> Some t) (tm_timers s1)\<rparr>
      in case in_ws i of
           None \<Rightarrow> s2
         | Some w \<Rightarrow> set_socket w (\<lambda>k. if sk_state k = WsClosed then k else k\<lparr>sk_state := WsClosing\<rparr>) s2)"

definition close_session :: "string \<Rightarrow> string \<Rightarrow> term_state \<Rightarrow> term_state" where
  "close_session sid sessionId s =
     (case find_session sid sessionId s of
        None \<Rightarrow> s
      | Some a \<Rightarrow>
          term_publish sid (set_sessions sid (filter (\<lambda>b. b \<noteq> a) (sessions sid s)) (end_session a s)))"

definition note_one :: "nat \<Rightarrow> term_state \<Rightarrow> term_state" where
  "note_one a s =
     (let i = obj s a;
          s1 = (case in_retryTimer i of
                  None \<Rightarrow> s
                | Some t \<Rightarrow> set_obj a (\<lambda>i. i\<lparr>in_retryTimer := None\<rparr>)
                    (s\<lparr>tm_timers := filter (\<lambda>(t', _). t' \<noteq> t) (tm_timers s)\<rparr>))
      in if in_ws i = None \<and> \<not> in_userClosed i \<and> \<not> in_shellExited i then connect a s1 else s1)"

definition noteState :: "string \<Rightarrow> SandboxState \<Rightarrow> term_state \<Rightarrow> term_state" where
  "noteState sid state s =
     (let prev = tm_lastState s sid;
          s1 = s\<lparr>tm_lastState := (tm_lastState s)(sid \<mapsto> state)\<rparr>
      in if prev \<noteq> Some RUNNING \<and> state = RUNNING then fold note_one (sessions sid s1) s1 else s1)"

definition disposeSandbox :: "string \<Rightarrow> term_state \<Rightarrow> term_state" where
  "disposeSandbox sid s =
     (let s1 = fold end_session (sessions sid s) s
      in term_publish sid (s1\<lparr>tm_bySandbox := filter (\<lambda>(k, _). k \<noteq> sid) (tm_bySandbox s1),
           tm_lastState := (tm_lastState s1)(sid := None)\<rparr>))"

definition disposeAll :: "term_state \<Rightarrow> term_state" where
  "disposeAll s = fold disposeSandbox (map fst (tm_bySandbox s)) s"

text \<open>The turns of the event loop.  The facade of \<open>termBridge.ts\<close> loads the module and makes the
  same calls one turn later.\<close>

datatype term_event =
    TOpen string int int | TRestart string string | TClose string string
  | TNote string SandboxState | TDispose string | TDisposeAll
  | TWsOpen nat | TWsMessage nat frame | TWsClose nat nat | TRetry nat nat nat
  | TData nat string | TResize nat int int | TToken "string option"

fun term_handle :: "term_state \<Rightarrow> term_event \<Rightarrow> term_state" where
  "term_handle s (TOpen sid cols rows) = snd (open_session sid cols rows s)"
| "term_handle s (TRestart sid x) = restart sid x s"
| "term_handle s (TClose sid x) = close_session sid x s"
| "term_handle s (TNote sid st) = noteState sid st s"
| "term_handle s (TDispose sid) = disposeSandbox sid s"
| "term_handle s TDisposeAll = disposeAll s"
| "term_handle s (TWsOpen w) = ws_onopen w s"
| "term_handle s (TWsMessage w f) = ws_onmessage w f s"
| "term_handle s (TWsClose rnd w) = ws_onclose rnd w s"
| "term_handle s (TRetry rnd t a) = retry_fires rnd t a s"
| "term_handle s (TData a d) = (if a < length (tm_heap s) then term_onData a d s else s)"
| "term_handle s (TResize a c r) = (if a < length (tm_heap s) then term_onResize a c r s else s)"
| "term_handle s (TToken token) = s\<lparr>tm_token := token\<rparr>"

definition noteTermState :: "string \<Rightarrow> SandboxState \<Rightarrow> term_event" where
  "noteTermState sid st = TNote sid st"

definition disposeTermSandbox :: "string \<Rightarrow> term_event" where
  "disposeTermSandbox sid = TDispose sid"

definition disposeAllTerms :: term_event where
  "disposeAllTerms = TDisposeAll"

section \<open>Lists, ids and snapshots\<close>

text \<open>The first half of the invariant; \<open>D\<close> holds the sessions that have been ended but are still in
  a list.\<close>

abbreviation id_of :: "term_state \<Rightarrow> nat \<Rightarrow> string" where
  "id_of s a \<equiv> ss_id (in_session (obj s a))"

definition lists_ok :: "nat set \<Rightarrow> term_state \<Rightarrow> bool" where
  "lists_ok D s \<longleftrightarrow>
     tm_seq s = int (length (tm_heap s)) + 1 \<and>
     (\<forall>a < length (tm_heap s). id_of s a = ''sh-'' @ js_num (int a + 1)) \<and>
     (\<forall>sid. length (sessions sid s) \<le> nat MAX_SESSIONS \<and> distinct (sessions sid s) \<and>
        (\<forall>a \<in> set (sessions sid s). a < length (tm_heap s) \<and> sandbox_of s a = sid \<and>
           (a \<in> D \<or> \<not> in_userClosed (obj s a))))"

text \<open>The snapshots list the same sessions as the lists, but for the sandboxes in \<open>E\<close>.\<close>

definition snaps_ok :: "string set \<Rightarrow> term_state \<Rightarrow> bool" where
  "snaps_ok E s \<longleftrightarrow> (\<forall>sid. sid \<notin> E \<longrightarrow> map ss_id (sessionsOf sid s) = map (id_of s) (sessions sid s))"

text \<open>What a step may do to the lists' view of an object.\<close>

definition keeps_identity :: "(Internal \<Rightarrow> Internal) \<Rightarrow> bool" where
  "keeps_identity f \<longleftrightarrow> (\<forall>i. ss_id (in_session (f i)) = ss_id (in_session i) \<and>
     ss_sandboxId (in_session (f i)) = ss_sandboxId (in_session i) \<and>
     (in_userClosed (f i) \<longrightarrow> in_userClosed i))"

lemma sessions_frame [simp]:
  "sessions sid (set_obj a f s) = sessions sid s"
  "sessions sid (set_socket w g s) = sessions sid s"
  "sessions sid (term_publish k s) = sessions sid s"
  "sessions sid (s\<lparr>tm_timers := ts\<rparr>) = sessions sid s"
  "sessions sid (s\<lparr>tm_nextTimer := n\<rparr>) = sessions sid s"
  "sessions sid (s\<lparr>tm_sockets := ks\<rparr>) = sessions sid s"
  "sessions sid (s\<lparr>tm_lastState := ls\<rparr>) = sessions sid s"
  "sessions sid (s\<lparr>tm_token := tk\<rparr>) = sessions sid s"
  "sessions sid (s\<lparr>tm_heap := h\<rparr>) = sessions sid s"
  "sessions sid (s\<lparr>tm_seq := q\<rparr>) = sessions sid s"
  by (simp_all add: sessions_def set_obj_def set_socket_def term_publish_def)

lemma map_of_replace: "map_of (map (\<lambda>(k, v). if k = sid then (k, as) else (k, v)) xs) k' =
  (if k' = sid then map_option (\<lambda>_. as) (map_of xs sid) else map_of xs k')"
  by (induction xs) auto

lemma map_of_remove: "map_of (filter (\<lambda>(k, _). k \<noteq> sid) xs) k' =
  (if k' = sid then None else map_of xs k')"
  by (induction xs) auto

lemma sessions_set_sessions [simp]:
  "sessions sid' (set_sessions sid as s) = (if sid' = sid then as else sessions sid' s)"
  by (auto simp: sessions_def set_sessions_def map_of_replace map_add_def split: option.splits)

lemma sessions_remove [simp]:
  "sessions sid' (s\<lparr>tm_bySandbox := filter (\<lambda>(k, _). k \<noteq> sid) (tm_bySandbox s)\<rparr>) =
     (if sid' = sid then [] else sessions sid' s)"
  by (simp add: sessions_def map_of_remove)

lemma heap_frame [simp]:
  "tm_heap (set_socket w g s) = tm_heap s" "tm_heap (term_publish k s) = tm_heap s"
  "tm_heap (set_sessions sid as s) = tm_heap s" "length (tm_heap (set_obj a f s)) = length (tm_heap s)"
  "tm_heap (set_obj a f s) = (tm_heap s)[a := f (obj s a)]"
  "tm_seq (set_socket w g s) = tm_seq s" "tm_seq (term_publish k s) = tm_seq s"
  "tm_seq (set_sessions sid as s) = tm_seq s" "tm_seq (set_obj a f s) = tm_seq s"
  by (simp_all add: set_obj_def set_socket_def term_publish_def set_sessions_def)

lemma sessionsOf_publish: "sessionsOf sid (term_publish k s) =
  (if sid = k then map (\<lambda>a. in_session (obj s a)) (sessions sid s) else sessionsOf sid s)"
  by (simp add: sessionsOf_def term_publish_def)

lemma sessionsOf_frame [simp]:
  "sessionsOf sid (set_obj a f s) = sessionsOf sid s" "sessionsOf sid (set_socket w g s) = sessionsOf sid s"
  "sessionsOf sid (s\<lparr>tm_timers := ts\<rparr>) = sessionsOf sid s"
  "sessionsOf sid (s\<lparr>tm_nextTimer := n\<rparr>) = sessionsOf sid s"
  "sessionsOf sid (s\<lparr>tm_sockets := ks\<rparr>) = sessionsOf sid s"
  "sessionsOf sid (s\<lparr>tm_lastState := ls\<rparr>) = sessionsOf sid s"
  "sessionsOf sid (s\<lparr>tm_token := tk\<rparr>) = sessionsOf sid s"
  "sessionsOf sid (set_sessions k as s) = sessionsOf sid s"
  by (simp_all add: sessionsOf_def set_obj_def set_socket_def set_sessions_def)

lemma identity_nth:
  assumes "keeps_identity f"
  shows "ss_id (in_session ((h[a := f (h ! a)]) ! b)) = ss_id (in_session (h ! b))"
    and "ss_sandboxId (in_session ((h[a := f (h ! a)]) ! b)) = ss_sandboxId (in_session (h ! b))"
    and "in_userClosed ((h[a := f (h ! a)]) ! b) \<Longrightarrow> in_userClosed (h ! b)"
proof -
  have upd: "h[a := f (h ! a)] ! b = (if a < length h \<and> a = b then f (h ! b) else h ! b)"
    by (cases "a < length h") (auto simp: nth_list_update list_update_beyond not_less)
  show "ss_id (in_session ((h[a := f (h ! a)]) ! b)) = ss_id (in_session (h ! b))"
    "ss_sandboxId (in_session ((h[a := f (h ! a)]) ! b)) = ss_sandboxId (in_session (h ! b))"
    "in_userClosed ((h[a := f (h ! a)]) ! b) \<Longrightarrow> in_userClosed (h ! b)"
    unfolding upd using assms unfolding keeps_identity_def by (auto split: if_splits)
qed

lemma lists_ok_set_obj:
  assumes "lists_ok D s" and f: "keeps_identity f"
  shows "lists_ok D (set_obj a f s)"
proof -
  have "b \<in> D \<or> \<not> in_userClosed (obj (set_obj a f s) b)" if "b \<in> D \<or> \<not> in_userClosed (obj s b)" for b
    using that identity_nth(3) [OF f, of "tm_heap s" a b] by auto
  with assms(1) show ?thesis
    unfolding lists_ok_def sessions_frame heap_frame length_list_update identity_nth(1,2) [OF f] by blast
qed

lemma snaps_ok_set_obj:
  assumes "snaps_ok E s" and f: "keeps_identity f"
  shows "snaps_ok E (set_obj a f s)"
  using assms(1) by (simp add: snaps_ok_def identity_nth(1) [OF f])

lemma ok_publish: "lists_ok D s \<Longrightarrow> lists_ok D (term_publish k s)" "snaps_ok E s \<Longrightarrow> snaps_ok (E - {k}) (term_publish k s)"
  by (auto simp: lists_ok_def snaps_ok_def sessionsOf_publish)

lemma ok_frame:
  assumes "tm_heap s' = tm_heap s" and "tm_seq s' = tm_seq s" and "\<And>sid. sessions sid s' = sessions sid s"
    and "\<And>sid. sessionsOf sid s' = sessionsOf sid s"
  shows "lists_ok D s' = lists_ok D s" and "snaps_ok E s' = snaps_ok E s"
  using assms by (simp_all add: lists_ok_def snaps_ok_def)

definition AB :: "string set \<Rightarrow> term_state \<Rightarrow> bool" where
  "AB E s \<longleftrightarrow> lists_ok {} s \<and> snaps_ok E s"

lemma AB_set_obj: "AB E s \<Longrightarrow> keeps_identity f \<Longrightarrow> AB E (set_obj a f s)"
  by (simp add: AB_def lists_ok_set_obj snaps_ok_set_obj)

lemma AB_publish: "AB E s \<Longrightarrow> AB (E - {k}) (term_publish k s)"
  by (simp add: AB_def ok_publish)

lemma AB_publish_mono: "AB E s \<Longrightarrow> AB E (term_publish k s)"
  by (auto simp: AB_def ok_publish snaps_ok_def sessionsOf_publish)

lemma AB_frame:
  "AB E s \<Longrightarrow> AB E (set_socket w g s)" "AB E s \<Longrightarrow> AB E (s\<lparr>tm_timers := ts\<rparr>)"
  "AB E s \<Longrightarrow> AB E (s\<lparr>tm_sockets := ks\<rparr>)" "AB E s \<Longrightarrow> AB E (s\<lparr>tm_lastState := ls\<rparr>)"
  "AB E s \<Longrightarrow> AB E (s\<lparr>tm_token := tk\<rparr>)" "AB E s \<Longrightarrow> AB E (s\<lparr>tm_nextTimer := n\<rparr>)"
  by (simp_all add: AB_def lists_ok_def snaps_ok_def)

lemma keeps_identity_fields [simp]:
  "keeps_identity (set_status st)" "keeps_identity (write_term txt)"
  "keeps_identity (\<lambda>i. i\<lparr>in_ws := w i\<rparr>)" "keeps_identity (\<lambda>i. i\<lparr>in_retryTimer := r i\<rparr>)"
  "keeps_identity (\<lambda>i. i\<lparr>in_backoffMs := b i, in_retryTimer := r i\<rparr>)"
  "keeps_identity (\<lambda>i. set_status st (i\<lparr>in_backoffMs := b i\<rparr>))"
  "keeps_identity (\<lambda>i. write_term (x i) (set_status st i))"
  "keeps_identity (\<lambda>i. i\<lparr>in_shellExited := e i, in_session := (in_session i)\<lparr>ss_exitCode := c i\<rparr>\<rparr>)"
  "keeps_identity (\<lambda>i. i\<lparr>in_cols := co i, in_rows := ro i\<rparr>)"
  "keeps_identity (\<lambda>i. i\<lparr>in_shellExited := False, in_userClosed := False,
      in_session := (in_session i)\<lparr>ss_exitCode := c i\<rparr>, in_backoffMs := b i\<rparr>)"
  by (simp_all add: keeps_identity_def set_status_def write_term_def)

lemma AB_connect: "AB E s \<Longrightarrow> AB E (connect a s)"
  unfolding connect_def Let_def
  by (auto intro!: AB_set_obj AB_frame AB_publish_mono)

lemma AB_schedule: "AB E s \<Longrightarrow> AB E (scheduleReconnect rnd a s)"
  unfolding scheduleReconnect_def Let_def
  by (auto intro!: AB_frame AB_set_obj)

lemma AB_retry: "AB E s \<Longrightarrow> AB E (retry_fires rnd t a s)"
  unfolding retry_fires_def Let_def
  by (auto intro!: AB_connect AB_schedule AB_frame AB_set_obj)

lemma AB_ws:
  "AB E s \<Longrightarrow> AB E (ws_onopen w s)" "AB E s \<Longrightarrow> AB E (ws_onmessage w f s)" "AB E s \<Longrightarrow> AB E (ws_onclose rnd w s)"
  unfolding ws_onopen_def ws_onmessage_def ws_onclose_def Let_def
  by (auto intro!: AB_schedule AB_publish_mono AB_frame AB_set_obj split: frame.splits TermControl.splits)

lemma AB_note_one: "AB E s \<Longrightarrow> AB E (note_one a s)"
  unfolding note_one_def Let_def
  by (auto intro!: AB_connect AB_frame AB_set_obj split: option.splits)

lemma AB_fold_note: "AB E s \<Longrightarrow> AB E (fold note_one as s)"
  by (induction as arbitrary: s) (auto simp: AB_note_one)

lemma AB_note: "AB E s \<Longrightarrow> AB E (noteState sid st s)"
  by (simp add: noteState_def Let_def AB_fold_note AB_frame)

lemma AB_send: "AB E s \<Longrightarrow> AB E (send_open a f s)"
  unfolding send_open_def by (auto intro!: AB_frame split: option.splits)

lemma AB_restart: "AB E s \<Longrightarrow> AB E (restart sid x s)"
  unfolding restart_def by (auto intro!: AB_connect AB_set_obj split: option.splits)

lemma AB_open:
  assumes "AB {} s"
  shows "AB {} (snd (open_session sid cols rows s))"
proof (cases "int (length (sessions sid s)) \<ge> MAX_SESSIONS")
  case False
  obtain a s1 where n: "newSession sid cols rows s = (a, s1)" by (cases "newSession sid cols rows s")
  let ?s = "set_sessions sid (sessions sid s @ [a]) s1"
  have a: "a = length (tm_heap s)" and s1: "\<And>k. sessions k s1 = sessions k s" "\<And>k. sessionsOf k s1 = sessionsOf k s"
    "tm_seq s1 = tm_seq s + 1" "\<And>b. b < length (tm_heap s) \<Longrightarrow> obj s1 b = obj s b"
    "length (tm_heap s1) = Suc (length (tm_heap s))" "id_of s1 a = ''sh-'' @ js_num (tm_seq s)"
    "sandbox_of s1 a = sid" "\<not> in_userClosed (obj s1 a)"
    using n by (auto simp: newSession_def Let_def nth_append sessionsOf_def)
  have "lists_ok {} ?s"
    using assms False a s1 by (auto simp: AB_def lists_ok_def less_Suc_eq MAX_SESSIONS_def)
  moreover have "snaps_ok {sid} ?s"
    using assms s1 by (auto simp: AB_def snaps_ok_def lists_ok_def)
  ultimately have "AB {sid} (connect a ?s)" by (intro AB_connect) (simp add: AB_def)
  from AB_publish [OF this, of sid] show ?thesis using False n by (simp add: open_session_def Let_def)
qed (simp add: open_session_def assms)

lemma end_session_heap: "tm_heap (end_session a s) =
  (tm_heap s)[a := (obj s a)\<lparr>in_userClosed := True, in_disposed := True\<rparr>]"
  by (simp add: end_session_def Let_def set_obj_def set_socket_def split: option.splits)

lemma end_session_frame [simp]:
  "sessions sid (end_session a s) = sessions sid s" "sessionsOf sid (end_session a s) = sessionsOf sid s"
  "tm_seq (end_session a s) = tm_seq s" "tm_bySandbox (end_session a s) = tm_bySandbox s"
  by (simp_all add: end_session_def Let_def split: option.splits) (simp_all add: set_obj_def set_socket_def)

lemma end_session_nth:
  "id_of (end_session a s) b = id_of s b" "sandbox_of (end_session a s) b = sandbox_of s b"
  "b \<noteq> a \<Longrightarrow> obj (end_session a s) b = obj s b" "length (tm_heap (end_session a s)) = length (tm_heap s)"
  unfolding end_session_heap
  by (cases "a < length (tm_heap s)"; cases "a = b"; simp add: list_update_beyond not_less)+

lemma end_session_lists: "lists_ok D s \<Longrightarrow> lists_ok (insert a D) (end_session a s)"
  unfolding lists_ok_def end_session_frame end_session_nth
  by (metis end_session_nth(3) insert_iff)

lemma fold_end_lists: "lists_ok D s \<Longrightarrow>
  lists_ok (set as \<union> D) (fold end_session as s) \<and>
  (\<forall>sid. sessions sid (fold end_session as s) = sessions sid s) \<and>
  (\<forall>sid. sessionsOf sid (fold end_session as s) = sessionsOf sid s) \<and>
  (\<forall>b. id_of (fold end_session as s) b = id_of s b)"
proof (induction as arbitrary: s D)
  case (Cons a as)
  from Cons.IH [OF end_session_lists [OF Cons.prems, of a]] show ?case
    by (auto simp: end_session_nth Un_commute)
qed simp

lemma lists_ok_drop:
  assumes "lists_ok D s" and "tm_heap s' = tm_heap s" and "tm_seq s' = tm_seq s"
    and "\<And>k. sessions k s' = (if k = sid then filter (\<lambda>b. b \<notin> D) (sessions sid s) else sessions k s)"
    and "\<forall>a \<in> D. sandbox_of s a = sid"
  shows "lists_ok {} s'"
proof -
  have len: "length (filter (\<lambda>b. b \<notin> D) (sessions sid s)) \<le> nat MAX_SESSIONS"
    using assms(1) unfolding lists_ok_def by (meson length_filter_le order.trans)
  have "\<not> in_userClosed (obj s a)" if "a \<in> set (sessions k s)" "k \<noteq> sid" for a k
    using assms(1,5) that unfolding lists_ok_def by metis
  with assms len show ?thesis unfolding lists_ok_def by (auto split: if_splits)
qed

lemma AB_close:
  assumes "AB {} s"
  shows "AB {} (close_session sid x s)"
proof (cases "find_session sid x s")
  case (Some a)
  then have a: "a \<in> set (sessions sid s)" by (auto simp: find_session_def find_Some_iff in_set_conv_nth)
  let ?s = "set_sessions sid (filter (\<lambda>b. b \<noteq> a) (sessions sid s)) (end_session a s)"
  have "lists_ok {a} (end_session a s)" using assms end_session_lists by (auto simp: AB_def)
  then have "lists_ok {} ?s"
    by (rule lists_ok_drop) (use assms a in \<open>auto simp: AB_def lists_ok_def end_session_nth\<close>)
  moreover have "snaps_ok {sid} ?s"
    using assms by (auto simp: AB_def snaps_ok_def end_session_nth)
  ultimately have "AB {sid} ?s" by (simp add: AB_def)
  from AB_publish [OF this, of sid] show ?thesis by (simp add: close_session_def Some)
qed (simp add: close_session_def assms)

lemma AB_dispose:
  assumes "AB {} s"
  shows "AB {} (disposeSandbox sid s)"
proof -
  let ?f = "fold end_session (sessions sid s) s"
  let ?s = "?f\<lparr>tm_bySandbox := filter (\<lambda>(k, _). k \<noteq> sid) (tm_bySandbox ?f),
              tm_lastState := (tm_lastState ?f)(sid := None)\<rparr>"
  have f: "lists_ok (set (sessions sid s)) ?f" "\<And>k. sessions k ?f = sessions k s"
    "\<And>k. sessionsOf k ?f = sessionsOf k s" "\<And>b. id_of ?f b = id_of s b"
    using fold_end_lists [of "{}" s "sessions sid s"] assms by (auto simp: AB_def)
  have k: "sessions k ?s = (if k = sid then [] else sessions k s)" "sessionsOf k ?s = sessionsOf k s" for k
    using f(2,3) by (simp_all add: sessions_def sessionsOf_def map_of_remove)
  from f(1) have "lists_ok {} ?s"
    by (rule lists_ok_drop [where sid = sid]) (use f k in \<open>auto simp: lists_ok_def\<close>)
  moreover have "snaps_ok {sid} ?s" using assms f k by (auto simp: AB_def snaps_ok_def)
  ultimately have "AB {sid} ?s" by (simp add: AB_def)
  from AB_publish [OF this, of sid] show ?thesis by (simp add: disposeSandbox_def Let_def)
qed

lemma AB_fold_dispose: "AB {} s \<Longrightarrow> AB {} (fold disposeSandbox sids s)"
  by (induction sids arbitrary: s) (auto simp: AB_dispose)

lemma AB_handle: "AB {} s \<Longrightarrow> AB {} (term_handle s e)"
  by (cases e) (simp_all add: AB_open AB_restart AB_close AB_note AB_dispose disposeAll_def
      AB_fold_dispose AB_ws AB_retry term_onData_def term_onResize_def AB_send AB_set_obj AB_frame)

section \<open>Sockets and timers\<close>

text \<open>The second half: a socket that is not closed is the one its session holds, so a session has at
  most one; a pending retry timer belongs to a session that waits for it and holds no socket.\<close>

definition links_ok :: "term_state \<Rightarrow> bool" where
  "links_ok s \<longleftrightarrow>
     (\<forall>w < length (tm_sockets s). sk_owner (sock s w) < length (tm_heap s) \<and>
        (sk_state (sock s w) \<noteq> WsClosed \<longrightarrow> in_ws (obj s (sk_owner (sock s w))) = Some w)) \<and>
     (\<forall>a < length (tm_heap s). \<forall>w. in_ws (obj s a) = Some w \<longrightarrow>
        w < length (tm_sockets s) \<and> sk_owner (sock s w) = a \<and> sk_state (sock s w) \<noteq> WsClosed)"

definition retry_ok :: "term_state \<Rightarrow> bool" where
  "retry_ok s \<longleftrightarrow>
     (\<forall>(t, a, d) \<in> set (tm_timers s). a < length (tm_heap s) \<and> in_retryTimer (obj s a) = Some t \<and>
        \<not> in_userClosed (obj s a) \<and> \<not> in_shellExited (obj s a) \<and> in_ws (obj s a) = None \<and>
        425 \<le> d \<and> d \<le> 8000)"

definition backoff_ok :: "term_state \<Rightarrow> bool" where
  "backoff_ok s \<longleftrightarrow> (\<forall>a < length (tm_heap s). 500 \<le> in_backoffMs (obj s a) \<and> in_backoffMs (obj s a) \<le> 8000)"

definition SB :: "term_state \<Rightarrow> bool" where
  "SB s \<longleftrightarrow> links_ok s \<and> retry_ok s \<and> backoff_ok s"

definition idle :: "nat \<Rightarrow> term_state \<Rightarrow> bool" where
  "idle a s \<longleftrightarrow> a < length (tm_heap s) \<and> in_ws (obj s a) = None \<and> (\<forall>(t, b, d) \<in> set (tm_timers s). b \<noteq> a)"

lemma other_frame [simp]:
  "tm_sockets (set_obj a f s) = tm_sockets s" "tm_timers (set_obj a f s) = tm_timers s"
  "tm_nextTimer (set_obj a f s) = tm_nextTimer s" "tm_token (set_obj a f s) = tm_token s"
  "tm_lastState (set_obj a f s) = tm_lastState s"
  "tm_sockets (term_publish k s) = tm_sockets s" "tm_timers (term_publish k s) = tm_timers s"
  "tm_nextTimer (term_publish k s) = tm_nextTimer s" "tm_token (term_publish k s) = tm_token s"
  "tm_lastState (term_publish k s) = tm_lastState s"
  "tm_sockets (set_sessions sid as s) = tm_sockets s" "tm_timers (set_sessions sid as s) = tm_timers s"
  "tm_token (set_sessions sid as s) = tm_token s"
  "tm_sockets (set_socket w g s) = (tm_sockets s)[w := g (sock s w)]"
  "tm_timers (set_socket w g s) = tm_timers s" "tm_nextTimer (set_socket w g s) = tm_nextTimer s"
  by (simp_all add: set_obj_def term_publish_def set_sessions_def set_socket_def)

lemma SB_frame:
  assumes "tm_heap s' = tm_heap s" and "tm_sockets s' = tm_sockets s" and "set (tm_timers s') \<subseteq> set (tm_timers s)"
    and "SB s"
  shows "SB s'"
proof -
  have "retry_ok s'" using assms subsetD [OF assms(3)] by (auto simp: SB_def retry_ok_def)
  with assms show ?thesis by (simp add: SB_def links_ok_def backoff_ok_def)
qed

definition keeps_links :: "(Internal \<Rightarrow> Internal) \<Rightarrow> bool" where
  "keeps_links f \<longleftrightarrow> (\<forall>i. in_ws (f i) = in_ws i \<and> in_retryTimer (f i) = in_retryTimer i \<and>
     in_userClosed (f i) = in_userClosed i \<and> in_shellExited (f i) = in_shellExited i \<and>
     (500 \<le> in_backoffMs i \<longrightarrow> in_backoffMs i \<le> 8000 \<longrightarrow> 500 \<le> in_backoffMs (f i) \<and> in_backoffMs (f i) \<le> 8000))"

lemma keeps_links_nth:
  assumes "keeps_links f"
  shows "in_ws ((h[a := f (h ! a)]) ! b) = in_ws (h ! b)"
    and "in_retryTimer ((h[a := f (h ! a)]) ! b) = in_retryTimer (h ! b)"
    and "in_userClosed ((h[a := f (h ! a)]) ! b) = in_userClosed (h ! b)"
    and "in_shellExited ((h[a := f (h ! a)]) ! b) = in_shellExited (h ! b)"
    and "500 \<le> in_backoffMs (h ! b) \<Longrightarrow> in_backoffMs (h ! b) \<le> 8000 \<Longrightarrow>
      500 \<le> in_backoffMs ((h[a := f (h ! a)]) ! b) \<and> in_backoffMs ((h[a := f (h ! a)]) ! b) \<le> 8000"
proof -
  have upd: "h[a := f (h ! a)] ! b = (if a < length h \<and> a = b then f (h ! b) else h ! b)"
    by (cases "a < length h") (auto simp: nth_list_update list_update_beyond not_less)
  show "in_ws ((h[a := f (h ! a)]) ! b) = in_ws (h ! b)"
    "in_retryTimer ((h[a := f (h ! a)]) ! b) = in_retryTimer (h ! b)"
    "in_userClosed ((h[a := f (h ! a)]) ! b) = in_userClosed (h ! b)"
    "in_shellExited ((h[a := f (h ! a)]) ! b) = in_shellExited (h ! b)"
    "500 \<le> in_backoffMs (h ! b) \<Longrightarrow> in_backoffMs (h ! b) \<le> 8000 \<Longrightarrow>
      500 \<le> in_backoffMs ((h[a := f (h ! a)]) ! b) \<and> in_backoffMs ((h[a := f (h ! a)]) ! b) \<le> 8000"
    unfolding upd using assms unfolding keeps_links_def by auto
qed

lemma SB_set_obj:
  assumes "SB s" and f: "keeps_links f"
  shows "SB (set_obj a f s)"
  using assms(1) keeps_links_nth(5) [OF f, of "tm_heap s" _ a]
  unfolding SB_def links_ok_def retry_ok_def backoff_ok_def heap_frame other_frame length_list_update
    keeps_links_nth(1-4) [OF f]
  by blast

lemma keeps_links_fields [simp]:
  "keeps_links (set_status st)" "keeps_links (write_term txt)"
  "keeps_links (\<lambda>i. write_term (x i) (set_status st i))"
  "keeps_links (\<lambda>i. i\<lparr>in_cols := co i, in_rows := ro i\<rparr>)"
  "keeps_links (\<lambda>i. set_status st (i\<lparr>in_backoffMs := BACKOFF_MIN_MS\<rparr>))"
  by (simp_all add: keeps_links_def set_status_def write_term_def BACKOFF_MIN_MS_def)

lemma SB_publish: "SB s \<Longrightarrow> SB (term_publish k s)"
  by (rule SB_frame [of _ s]) simp_all

lemma retry_ok_update:
  assumes "retry_ok s" and "tm_heap s' = (tm_heap s)[a := x]"
    and "\<forall>(t, b, d) \<in> set (tm_timers s'). b \<noteq> a \<and> (t, b, d) \<in> set (tm_timers s)"
  shows "retry_ok s'"
  unfolding retry_ok_def
proof (clarify)
  fix t b d assume "(t, b, d) \<in> set (tm_timers s')"
  with assms(3) have b: "b \<noteq> a" "(t, b, d) \<in> set (tm_timers s)" by auto
  then have "obj s' b = obj s b" by (simp add: assms(2))
  with assms(1) b show "b < length (tm_heap s') \<and> in_retryTimer (obj s' b) = Some t \<and>
      \<not> in_userClosed (obj s' b) \<and> \<not> in_shellExited (obj s' b) \<and> in_ws (obj s' b) = None \<and>
      425 \<le> d \<and> d \<le> 8000"
    unfolding retry_ok_def by (fastforce simp: assms(2))
qed

lemma SB_add_socket:
  assumes "SB s" and "idle a s" and "sk_owner k = a" and "sk_state k \<noteq> WsClosed"
  shows "SB (set_obj a (\<lambda>i. i\<lparr>in_ws := Some (length (tm_sockets s))\<rparr>) (s\<lparr>tm_sockets := tm_sockets s @ [k]\<rparr>))"
    (is "SB ?s")
proof -
  have a: "a < length (tm_heap s)" "in_ws (obj s a) = None" using assms(2) by (simp_all add: idle_def)
  have L: "links_ok s" using assms(1) by (simp add: SB_def)
  have heap: "obj ?s b = (if b = a then (obj s a)\<lparr>in_ws := Some (length (tm_sockets s))\<rparr> else obj s b)" for b
    using a by (simp add: nth_list_update)
  have sk: "sock ?s w = (if w < length (tm_sockets s) then sock s w else [k] ! (w - length (tm_sockets s)))" for w
    by (simp add: nth_append)
  have "links_ok ?s" unfolding links_ok_def
  proof (intro conjI allI impI)
    fix w assume w: "w < length (tm_sockets ?s)"
    show "sk_owner (sock ?s w) < length (tm_heap ?s)"
    proof (cases "w < length (tm_sockets s)")
      case True
      then show ?thesis using L unfolding sk links_ok_def by simp
    next
      case False
      with w have "w = length (tm_sockets s)" by simp
      then show ?thesis unfolding sk using a assms(3) by simp
    qed
    assume "sk_state (sock ?s w) \<noteq> WsClosed"
    then show "in_ws (obj ?s (sk_owner (sock ?s w))) = Some w"
    proof (cases "w < length (tm_sockets s)")
      case True
      with \<open>sk_state (sock ?s w) \<noteq> WsClosed\<close> have "in_ws (obj s (sk_owner (sock s w))) = Some w"
        using L unfolding links_ok_def sk by presburger
      moreover from this a have "sk_owner (sock s w) \<noteq> a" by auto
      ultimately show ?thesis unfolding heap sk using True by simp
    next
      case False
      with w have "w = length (tm_sockets s)" by simp
      then show ?thesis unfolding heap sk using assms(3) by simp
    qed
  next
    fix b w assume b: "b < length (tm_heap ?s)" and ws: "in_ws (obj ?s b) = Some w"
    show "w < length (tm_sockets ?s)" "sk_owner (sock ?s w) = b" "sk_state (sock ?s w) \<noteq> WsClosed"
      using b ws L assms(3,4) unfolding heap sk
      by (auto simp: links_ok_def less_Suc_eq split: if_splits)
  qed
  moreover have "retry_ok ?s"
    by (rule retry_ok_update [of s _ a]) (use assms in \<open>auto simp: SB_def idle_def\<close>)
  moreover have "backoff_ok ?s"
    using assms by (auto simp: SB_def backoff_ok_def nth_list_update idle_def)
  ultimately show ?thesis by (simp add: SB_def)
qed

lemma idle_publish [simp]: "idle a (term_publish k s) = idle a s"
  by (simp add: idle_def)

lemma idle_set_obj: "keeps_links f \<Longrightarrow> idle a (set_obj b f s) = idle a s"
  by (simp add: idle_def keeps_links_nth(1))

lemma SB_connect:
  assumes "SB s" and "idle a s"
  shows "SB (connect a s)"
proof (cases "truthy_str (tm_token s)")
  case True
  let ?st = "if in_backoffMs (obj s a) > BACKOFF_MIN_MS then Reconnecting else Connecting"
  let ?s = "term_publish (sandbox_of s a) (set_obj a (set_status ?st) s)"
  have "SB ?s" "idle a ?s" using assms by (auto intro!: SB_publish SB_set_obj simp: idle_set_obj)
  from SB_add_socket [OF this] show ?thesis using True by (simp add: connect_def Let_def)
qed (simp add: connect_def assms)

lemma delay_bounds:
  assumes "500 \<le> b" and "b \<le> 8000"
  shows "425 \<le> retry_delay rnd b" and "retry_delay rnd b \<le> 8000"
proof -
  have r: "0 \<le> js_random rnd" by (simp add: js_random_def)
  have "(425 :: rat) \<le> of_int b * (85 / 100)"
    using assms(1) of_int_le_iff [of 500 b, where ?'a = rat] by simp
  also have "\<dots> \<le> of_int b * (js_random rnd * (3 / 10) + 85 / 100)"
    using assms(1) r by (intro mult_left_mono) simp_all
  finally show "425 \<le> retry_delay rnd b" by (simp add: retry_delay_def BACKOFF_MAX_MS_def)
  show "retry_delay rnd b \<le> 8000" by (simp add: retry_delay_def BACKOFF_MAX_MS_def)
qed

lemma no_timer_of: "retry_ok s \<Longrightarrow> in_retryTimer (obj s a) = None \<Longrightarrow> (t, b, d) \<in> set (tm_timers s) \<Longrightarrow> b \<noteq> a"
  by (auto simp: retry_ok_def)

lemma links_ok_ws:
  assumes "links_ok s" and "tm_sockets s' = tm_sockets s" and "length (tm_heap s') = length (tm_heap s)"
    and "\<And>b. in_ws (obj s' b) = in_ws (obj s b)"
  shows "links_ok s'"
  using assms by (simp add: links_ok_def)

lemma SB_schedule:
  assumes "SB s" and a: "a < length (tm_heap s)" "in_ws (obj s a) = None"
  shows "SB (scheduleReconnect rnd a s)"
proof (cases "in_retryTimer (obj s a) \<noteq> None \<or> in_userClosed (obj s a) \<or> in_shellExited (obj s a)")
  case False
  let ?s = "scheduleReconnect rnd a s"
  let ?i = "(obj s a)\<lparr>in_backoffMs := min (in_backoffMs (obj s a) * 2) BACKOFF_MAX_MS,
      in_retryTimer := Some (tm_nextTimer s)\<rparr>"
  have s: "tm_heap ?s = (tm_heap s)[a := ?i]" "tm_sockets ?s = tm_sockets s"
    "tm_timers ?s = tm_timers s @ [(tm_nextTimer s, a, retry_delay rnd (in_backoffMs (obj s a)))]"
    using False by (simp_all add: scheduleReconnect_def Let_def)
  have b: "500 \<le> in_backoffMs (obj s a)" "in_backoffMs (obj s a) \<le> 8000"
    using assms by (simp_all add: SB_def backoff_ok_def)
  have "links_ok ?s"
    by (rule links_ok_ws [of s]) (use assms(1) in \<open>auto simp: SB_def s nth_list_update a\<close>)
  moreover have "retry_ok (?s\<lparr>tm_timers := tm_timers s\<rparr>)"
    by (rule retry_ok_update [of s _ a]) (use assms(1) False in \<open>auto simp: SB_def s dest: no_timer_of\<close>)
  then have "retry_ok ?s" using a False delay_bounds [OF b, of rnd] by (auto simp: retry_ok_def s)
  moreover have "backoff_ok ?s" using assms(1) b a
    by (auto simp: SB_def backoff_ok_def s nth_list_update BACKOFF_MAX_MS_def)
  ultimately show ?thesis by (simp add: SB_def)
qed (auto simp: scheduleReconnect_def assms)

text \<open>Taking a session's timer away leaves it idle.\<close>

lemma SB_clear_timer:
  assumes "SB s" and "a < length (tm_heap s)" and "in_retryTimer (obj s a) = Some t"
  shows "SB (set_obj a (\<lambda>i. i\<lparr>in_retryTimer := None\<rparr>) (s\<lparr>tm_timers := filter (\<lambda>(t', _). t' \<noteq> t) (tm_timers s)\<rparr>))"
    and "\<forall>(t', b, d) \<in> set (filter (\<lambda>(t', _). t' \<noteq> t) (tm_timers s)). b \<noteq> a"
proof -
  let ?s = "set_obj a (\<lambda>i. i\<lparr>in_retryTimer := None\<rparr>) (s\<lparr>tm_timers := filter (\<lambda>(t', _). t' \<noteq> t) (tm_timers s)\<rparr>)"
  show no: "\<forall>(t', b, d) \<in> set (filter (\<lambda>(t', _). t' \<noteq> t) (tm_timers s)). b \<noteq> a"
    using assms by (auto simp: SB_def retry_ok_def)
  have "links_ok ?s"
    by (rule links_ok_ws [of s]) (use assms(1) in \<open>auto simp: SB_def nth_list_update assms(2)\<close>)
  moreover have "retry_ok ?s"
    by (rule retry_ok_update [of s _ a]) (use assms(1) no in \<open>auto simp: SB_def\<close>)
  moreover have "backoff_ok ?s" using assms by (auto simp: SB_def backoff_ok_def nth_list_update)
  ultimately show "SB ?s" by (simp add: SB_def)
qed

lemma SB_retry:
  assumes "SB s"
  shows "SB (retry_fires rnd t a s)"
proof (cases "\<exists>d. (t, a, d) \<in> set (tm_timers s)")
  case True
  let ?s = "set_obj a (\<lambda>i. i\<lparr>in_retryTimer := None\<rparr>) (s\<lparr>tm_timers := filter (\<lambda>(t', _). t' \<noteq> t) (tm_timers s)\<rparr>)"
  have a: "a < length (tm_heap s)" "in_retryTimer (obj s a) = Some t"
    using True assms by (auto simp: SB_def retry_ok_def)
  note c = SB_clear_timer [OF assms a]
  have "SB (if in_userClosed (obj ?s a) \<or> in_shellExited (obj ?s a) \<or> in_ws (obj ?s a) \<noteq> None then ?s
      else if tm_lastState ?s (sandbox_of ?s a) \<noteq> Some RUNNING then scheduleReconnect rnd a ?s else connect a ?s)"
    using c a by (auto intro!: SB_schedule SB_connect simp: idle_def)
  then show ?thesis using True by (simp add: retry_fires_def Let_def)
qed (simp add: retry_fires_def assms)

lemma owner_holds:
  assumes "SB s" and "w < length (tm_sockets s)" and "sk_state (sock s w) \<noteq> WsClosed"
  shows "sk_owner (sock s w) < length (tm_heap s)" and "in_ws (obj s (sk_owner (sock s w))) = Some w"
    and "\<forall>(t, b, d) \<in> set (tm_timers s). b \<noteq> sk_owner (sock s w)"
proof -
  show l: "sk_owner (sock s w) < length (tm_heap s)" and ws: "in_ws (obj s (sk_owner (sock s w))) = Some w"
    using assms unfolding SB_def links_ok_def by blast+
  show "\<forall>(t, b, d) \<in> set (tm_timers s). b \<noteq> sk_owner (sock s w)"
    using assms(1) ws by (auto simp: SB_def retry_ok_def)
qed

text \<open>A socket that changes its state without closing, or its sent frames.\<close>

lemma SB_set_socket:
  assumes "SB s" and "\<And>k. sk_owner (g k) = sk_owner k"
    and "\<And>k. sk_state (g k) = WsClosed \<longleftrightarrow> sk_state k = WsClosed"
  shows "SB (set_socket w g s)"
proof -
  have k: "sk_owner ((tm_sockets s)[w := g (sock s w)] ! v) = sk_owner (sock s v)"
    "(sk_state ((tm_sockets s)[w := g (sock s w)] ! v) = WsClosed) = (sk_state (sock s v) = WsClosed)" for v
    using assms(2,3) by (cases "w < length (tm_sockets s)"; cases "v = w"; simp add: list_update_beyond not_less)+
  have "links_ok (set_socket w g s)"
    using assms(1) by (simp add: SB_def links_ok_def k)
  then show ?thesis using assms(1) by (simp add: SB_def retry_ok_def backoff_ok_def)
qed

lemma SB_onopen: "SB s \<Longrightarrow> SB (ws_onopen w s)"
proof (cases "w < length (tm_sockets s) \<and> sk_state (sock s w) = WsConnecting")
  case True
  assume "SB s"
  let ?g = "\<lambda>k. if sk_state k = WsConnecting then k\<lparr>sk_state := WsOpen\<rparr> else k"
  have "set_socket w (\<lambda>k. k\<lparr>sk_state := WsOpen\<rparr>) s = set_socket w ?g s"
    using True by (simp add: set_socket_def)
  moreover have "SB (set_socket w ?g s)" using \<open>SB s\<close> by (rule SB_set_socket) auto
  ultimately show ?thesis using True
    by (auto simp: ws_onopen_def Let_def intro!: SB_publish SB_set_obj)
qed (auto simp: ws_onopen_def)

lemma SB_onmessage:
  assumes "SB s"
  shows "SB (ws_onmessage w f s)"
proof (cases "w < length (tm_sockets s) \<and> sk_state (sock s w) = WsOpen")
  case True
  let ?a = "sk_owner (sock s w)"
  note o = owner_holds [OF assms, of w]
  let ?e = "\<lambda>c i. i\<lparr>in_shellExited := True, in_session := (in_session i)\<lparr>ss_exitCode := c\<rparr>\<rparr>"
  have exit: "SB (set_obj ?a (?e c) s)" for c
  proof -
    have "links_ok (set_obj ?a (?e c) s)"
      by (rule links_ok_ws [of s]) (use assms True o in \<open>auto simp: SB_def nth_list_update\<close>)
    moreover have "retry_ok (set_obj ?a (?e c) s)"
      by (rule retry_ok_update [of s _ ?a]) (use assms True o in \<open>auto simp: SB_def\<close>)
    moreover have "backoff_ok (set_obj ?a (?e c) s)"
      using assms True o by (auto simp: SB_def backoff_ok_def nth_list_update)
    ultimately show ?thesis by (simp add: SB_def)
  qed
  then show ?thesis using True assms
    by (auto simp: ws_onmessage_def Let_def intro!: SB_set_obj split: frame.splits TermControl.splits)
qed (auto simp: ws_onmessage_def assms)

lemma SB_onclose:
  assumes "SB s"
  shows "SB (ws_onclose rnd w s)"
proof (cases "w < length (tm_sockets s) \<and> sk_state (sock s w) \<noteq> WsClosed")
  case True
  let ?a = "sk_owner (sock s w)"
  note o = owner_holds [OF assms, of w]
  let ?s = "set_obj ?a (\<lambda>i. i\<lparr>in_ws := None\<rparr>) (set_socket w (\<lambda>k. k\<lparr>sk_state := WsClosed\<rparr>) s)"
  have a: "?a < length (tm_heap s)" "in_ws (obj s ?a) = Some w" "\<forall>(t, b, d) \<in> set (tm_timers s). b \<noteq> ?a"
    using o True by auto
  have heap: "obj ?s b = (if b = ?a then (obj s ?a)\<lparr>in_ws := None\<rparr> else obj s b)" for b
    using a by (simp add: nth_list_update)
  have sk: "sock ?s v = (if v = w then (sock s w)\<lparr>sk_state := WsClosed\<rparr> else sock s v)" for v
    using True by (simp add: nth_list_update)
  have "links_ok ?s" unfolding links_ok_def heap sk
  proof (intro conjI allI impI)
    fix v assume v: "v < length (tm_sockets ?s)"
    then have "sk_owner (sock s v) < length (tm_heap s)" using assms by (simp add: SB_def links_ok_def)
    then show "sk_owner (if v = w then (sock s w)\<lparr>sk_state := WsClosed\<rparr> else sock s v) < length (tm_heap ?s)"
      using a(1) by simp
    assume "sk_state (if v = w then (sock s w)\<lparr>sk_state := WsClosed\<rparr> else sock s v) \<noteq> WsClosed"
    then have vw: "v \<noteq> w" "sk_state (sock s v) \<noteq> WsClosed" by (auto split: if_splits)
    then have "in_ws (obj s (sk_owner (sock s v))) = Some v" using owner_holds(2) [OF assms, of v] v by simp
    with a vw show "in_ws (if sk_owner (if v = w then (sock s w)\<lparr>sk_state := WsClosed\<rparr> else sock s v) = ?a
        then (obj s ?a)\<lparr>in_ws := None\<rparr>
        else obj s (sk_owner (if v = w then (sock s w)\<lparr>sk_state := WsClosed\<rparr> else sock s v))) = Some v"
      by auto
  next
    fix b v assume "b < length (tm_heap ?s)"
      and "in_ws (if b = ?a then (obj s ?a)\<lparr>in_ws := None\<rparr> else obj s b) = Some v"
    then have "b \<noteq> ?a" "in_ws (obj s b) = Some v" "b < length (tm_heap s)" by (auto split: if_splits)
    then have "v < length (tm_sockets s)" "sk_owner (sock s v) = b" "sk_state (sock s v) \<noteq> WsClosed"
      using assms unfolding SB_def links_ok_def by blast+
    with \<open>b \<noteq> ?a\<close> show "v < length (tm_sockets ?s)"
      "sk_owner (if v = w then (sock s w)\<lparr>sk_state := WsClosed\<rparr> else sock s v) = b"
      "sk_state (if v = w then (sock s w)\<lparr>sk_state := WsClosed\<rparr> else sock s v) \<noteq> WsClosed" by auto
  qed
  moreover have "retry_ok ?s" by (rule retry_ok_update [of s _ ?a]) (use assms a in \<open>auto simp: SB_def\<close>)
  moreover have "backoff_ok ?s" using assms by (simp add: SB_def backoff_ok_def heap del: heap_frame(5))
  ultimately have "SB ?s" by (simp add: SB_def)
  then show ?thesis using True a
    by (auto simp: ws_onclose_def Let_def keeps_links_nth(1) intro!: SB_publish SB_set_obj SB_schedule
        simp del: heap_frame(5)) (simp_all add: keeps_links_nth(1) set_status_def)
qed (auto simp: ws_onclose_def assms)

lemma SB_end_session:
  assumes "SB s" and a: "a < length (tm_heap s)"
  shows "SB (end_session a s)"
proof -
  let ?s = "(set_obj a (\<lambda>i. i\<lparr>in_userClosed := True, in_disposed := True\<rparr>) s)
    \<lparr>tm_timers := filter (\<lambda>(t, _). in_retryTimer (obj s a) \<noteq> Some t) (tm_timers s)\<rparr>"
  have "links_ok ?s"
    by (rule links_ok_ws [of s]) (use assms in \<open>auto simp: SB_def nth_list_update\<close>)
  moreover have "retry_ok ?s"
    by (rule retry_ok_update [of s _ a]) (use assms in \<open>auto simp: SB_def retry_ok_def\<close>)
  moreover have "backoff_ok ?s" using assms by (auto simp: SB_def backoff_ok_def nth_list_update)
  ultimately have "SB ?s" by (simp add: SB_def)
  then show ?thesis
    by (auto simp: end_session_def Let_def intro!: SB_set_socket split: option.splits if_splits)
qed

lemma SB_fold_end:
  "SB s \<Longrightarrow> \<forall>a \<in> set as. a < length (tm_heap s) \<Longrightarrow> SB (fold end_session as s)"
  by (induction as arbitrary: s) (simp_all add: SB_end_session end_session_nth)

lemma SB_note_one:
  assumes "SB s" and a: "a < length (tm_heap s)"
  shows "SB (note_one a s) \<and> length (tm_heap (note_one a s)) = length (tm_heap s)"
proof -
  have len: "length (tm_heap (note_one a s)) = length (tm_heap s)"
    by (simp add: note_one_def Let_def connect_def split: option.splits)
  show ?thesis
  proof (cases "in_retryTimer (obj s a)")
    case None
    then have "in_ws (obj s a) = None \<Longrightarrow> idle a s"
      using assms by (auto simp: idle_def SB_def dest: no_timer_of)
    with None assms len show ?thesis by (auto simp: note_one_def Let_def intro: SB_connect)
  next
    case (Some t)
    note c = SB_clear_timer [OF assms Some]
    then show ?thesis using Some a len
      by (auto simp: note_one_def Let_def idle_def intro!: SB_connect)
  qed
qed

lemma SB_fold_note: "SB s \<Longrightarrow> \<forall>a \<in> set as. a < length (tm_heap s) \<Longrightarrow> SB (fold note_one as s)"
  by (induction as arbitrary: s) (simp_all add: SB_note_one)

lemma SB_open:
  assumes "SB s"
  shows "SB (snd (open_session sid cols rows s))"
proof (cases "int (length (sessions sid s)) \<ge> MAX_SESSIONS")
  case False
  obtain a s1 where n: "newSession sid cols rows s = (a, s1)" by (cases "newSession sid cols rows s")
  let ?s = "set_sessions sid (sessions sid s @ [a]) s1"
  have s1: "a = length (tm_heap s)" "length (tm_heap s1) = Suc (length (tm_heap s))"
    "\<And>b. b < length (tm_heap s) \<Longrightarrow> obj s1 b = obj s b" "in_ws (obj s1 a) = None"
    "in_backoffMs (obj s1 a) = 500" "tm_sockets s1 = tm_sockets s" "tm_timers s1 = tm_timers s"
    using n by (auto simp: newSession_def Let_def nth_append BACKOFF_MIN_MS_def)
  have "links_ok ?s" using assms s1 by (simp add: SB_def links_ok_def less_Suc_eq all_conj_distrib imp_conjR)
  moreover have "retry_ok ?s" using assms s1 by (fastforce simp: SB_def retry_ok_def)
  moreover have "backoff_ok ?s" using assms s1 by (auto simp: SB_def backoff_ok_def less_Suc_eq)
  moreover have "idle a ?s" using assms s1 by (fastforce simp: idle_def SB_def retry_ok_def)
  ultimately have "SB (connect a ?s)" by (intro SB_connect) (simp_all add: SB_def)
  from SB_publish [OF this, of sid] show ?thesis using False n by (simp add: open_session_def Let_def)
qed (simp add: open_session_def assms)

lemma listed: "AB E s \<Longrightarrow> a \<in> set (sessions sid s) \<Longrightarrow> a < length (tm_heap s)"
  by (auto simp: AB_def lists_ok_def)

lemma found: "find_session sid x s = Some a \<Longrightarrow> a \<in> set (sessions sid s)"
  by (auto simp: find_session_def find_Some_iff in_set_conv_nth)

lemma SB_restart:
  assumes "AB E s" and "SB s"
  shows "SB (restart sid x s)"
proof (cases "find_session sid x s")
  case (Some a)
  have a: "a < length (tm_heap s)" using listed [OF assms(1) found [OF Some]] .
  show ?thesis
  proof (cases "in_ws (obj s a) = None \<and> in_shellExited (obj s a)")
    case True
    let ?s = "set_obj a (\<lambda>i. i\<lparr>in_shellExited := False, in_userClosed := False,
        in_session := (in_session i)\<lparr>ss_exitCode := None\<rparr>, in_backoffMs := BACKOFF_MIN_MS\<rparr>) s"
    have no: "\<forall>(t, b, d) \<in> set (tm_timers s). b \<noteq> a" using assms(2) True by (auto simp: SB_def retry_ok_def)
    have "links_ok ?s" by (rule links_ok_ws [of s]) (use assms a in \<open>auto simp: SB_def nth_list_update\<close>)
    moreover have "retry_ok ?s" by (rule retry_ok_update [of s _ a]) (use assms no in \<open>auto simp: SB_def\<close>)
    moreover have "backoff_ok ?s" using assms(2) a
      by (auto simp: SB_def backoff_ok_def nth_list_update BACKOFF_MIN_MS_def)
    moreover have "idle a ?s" using a no True by (simp add: idle_def)
    ultimately have "SB (connect a ?s)" by (intro SB_connect) (simp_all add: SB_def)
    then show ?thesis using True Some by (simp add: restart_def)
  qed (use Some assms(2) in \<open>auto simp: restart_def\<close>)
qed (simp add: restart_def assms)

lemma SB_dispose:
  assumes "AB E s" and "SB s"
  shows "SB (disposeSandbox sid s)"
proof -
  have e: "SB (fold end_session (sessions sid s) s)"
    using assms listed by (intro SB_fold_end) auto
  show ?thesis unfolding disposeSandbox_def Let_def
    by (rule SB_publish, rule SB_frame [OF _ _ _ e]) simp_all
qed

lemma SB_fold_dispose: "AB {} s \<Longrightarrow> SB s \<Longrightarrow> SB (fold disposeSandbox sids s)"
  by (induction sids arbitrary: s) (simp_all add: SB_dispose AB_dispose)

lemma SB_close: "AB E s \<Longrightarrow> SB s \<Longrightarrow> SB (close_session sid x s)"
proof (cases "find_session sid x s")
  case (Some a)
  assume s: "AB E s" "SB s"
  have e: "SB (end_session a s)" using s listed [OF s(1) found [OF Some]] by (intro SB_end_session) auto
  show ?thesis
    unfolding close_session_def Some option.case
    by (rule SB_publish, rule SB_frame [OF _ _ _ e]) simp_all
qed (simp add: close_session_def)

lemma SB_note: "AB E s \<Longrightarrow> SB s \<Longrightarrow> SB (noteState sid st s)"
proof -
  assume s: "AB E s" "SB s"
  let ?s = "s\<lparr>tm_lastState := (tm_lastState s)(sid \<mapsto> st)\<rparr>"
  have "SB ?s" by (rule SB_frame [OF _ _ _ s(2)]) simp_all
  then show ?thesis using s listed by (auto simp: noteState_def Let_def intro!: SB_fold_note)
qed

lemma SB_send: "SB s \<Longrightarrow> SB (send_open a f s)"
  by (auto simp: send_open_def intro!: SB_set_socket split: option.splits)

section \<open>Retries\<close>

text \<open>The other direction: the retry a session waits for is set, so the handle in \<open>retryTimer\<close> is that
  of a pending timer, unless the session was ended; handles are never shared or reused.\<close>

definition armed :: "term_state \<Rightarrow> bool" where
  "armed s \<longleftrightarrow>
     (\<forall>a < length (tm_heap s). \<forall>t. in_retryTimer (obj s a) = Some t \<longrightarrow> t < tm_nextTimer s \<and>
        (in_userClosed (obj s a) \<or> (\<exists>d. (t, a, d) \<in> set (tm_timers s)))) \<and>
     inj_on (\<lambda>a. in_retryTimer (obj s a)) {a. a < length (tm_heap s) \<and> in_retryTimer (obj s a) \<noteq> None}"

lemma armedD:
  assumes "armed s" and "a < length (tm_heap s)" and "in_retryTimer (obj s a) = Some t"
  shows "t < tm_nextTimer s" and "in_userClosed (obj s a) \<or> (\<exists>d. (t, a, d) \<in> set (tm_timers s))"
    and "b < length (tm_heap s) \<Longrightarrow> in_retryTimer (obj s b) = Some t \<Longrightarrow> b = a"
proof -
  show "t < tm_nextTimer s" "in_userClosed (obj s a) \<or> (\<exists>d. (t, a, d) \<in> set (tm_timers s))"
    using assms unfolding armed_def by blast+
  assume "b < length (tm_heap s)" "in_retryTimer (obj s b) = Some t"
  with assms show "b = a" unfolding armed_def by (elim conjE) (erule inj_onD, simp_all)
qed

definition keeps_timer :: "(Internal \<Rightarrow> Internal) \<Rightarrow> bool" where
  "keeps_timer f \<longleftrightarrow> (\<forall>i. in_retryTimer (f i) = in_retryTimer i \<and> in_userClosed (f i) = in_userClosed i)"

lemma keeps_timer_nth:
  assumes "keeps_timer f"
  shows "in_retryTimer ((h[a := f (h ! a)]) ! b) = in_retryTimer (h ! b)"
    and "in_userClosed ((h[a := f (h ! a)]) ! b) = in_userClosed (h ! b)"
  using assms by (cases "a < length h"; cases "a = b"; simp add: keeps_timer_def list_update_beyond not_less)+

lemma keeps_timer_fields [simp]:
  "keeps_timer (set_status st)" "keeps_timer (write_term txt)"
  "keeps_timer (\<lambda>i. write_term (x i) (set_status st i))" "keeps_timer (\<lambda>i. i\<lparr>in_ws := w i\<rparr>)"
  "keeps_timer (\<lambda>i. i\<lparr>in_cols := co i, in_rows := ro i\<rparr>)"
  "keeps_timer (\<lambda>i. set_status st (i\<lparr>in_backoffMs := b i\<rparr>))"
  "keeps_timer (\<lambda>i. i\<lparr>in_shellExited := e i, in_session := (in_session i)\<lparr>ss_exitCode := c i\<rparr>\<rparr>)"
  by (simp_all add: keeps_timer_def set_status_def write_term_def)

lemma armed_set_obj: "armed s \<Longrightarrow> keeps_timer f \<Longrightarrow> armed (set_obj a f s)"
  by (simp add: armed_def keeps_timer_nth)

lemma armed_frame:
  assumes "armed s" and "tm_heap s' = tm_heap s" and "tm_timers s' = tm_timers s"
    and "tm_nextTimer s' = tm_nextTimer s"
  shows "armed s'"
  using assms by (simp add: armed_def)

lemma nextTimer_sessions [simp]: "tm_nextTimer (set_sessions sid as s) = tm_nextTimer s"
  by (simp add: set_sessions_def)

lemma armed_frames:
  "armed s \<Longrightarrow> armed (term_publish k s)" "armed s \<Longrightarrow> armed (set_socket w g s)"
  "armed s \<Longrightarrow> armed (set_sessions sid as s)" "armed s \<Longrightarrow> armed (s\<lparr>tm_sockets := ks\<rparr>)"
  "armed s \<Longrightarrow> armed (s\<lparr>tm_lastState := ls\<rparr>)" "armed s \<Longrightarrow> armed (s\<lparr>tm_token := tk\<rparr>)"
  by (erule armed_frame; simp)+

text \<open>One session changes its handle: it drops it, keeps it, or takes the next one.\<close>

lemma armed_update:
  assumes s: "armed s" and a: "a < length (tm_heap s)" and heap: "tm_heap s' = (tm_heap s)[a := x]"
    and next': "tm_nextTimer s \<le> tm_nextTimer s'"
    and others: "\<And>t b d. (t, b, d) \<in> set (tm_timers s) \<Longrightarrow> b \<noteq> a \<Longrightarrow> (t, b, d) \<in> set (tm_timers s')"
    and x: "\<And>t. in_retryTimer x = Some t \<Longrightarrow> t < tm_nextTimer s' \<and>
      (t = tm_nextTimer s \<or> in_retryTimer (obj s a) = Some t) \<and>
      (in_userClosed x \<or> (\<exists>d. (t, a, d) \<in> set (tm_timers s')))"
  shows "armed s'"
  unfolding armed_def
proof (intro conjI allI impI inj_onI)
  have nth: "obj s' c = (if c = a then x else obj s c)" for c using a by (simp add: heap nth_list_update)
  fix b t
  assume b: "b < length (tm_heap s')" and t: "in_retryTimer (obj s' b) = Some t"
  show "t < tm_nextTimer s'"
    using b t x armedD(1) [OF s, of b t] next' by (cases "b = a") (auto simp: nth heap)
  show "in_userClosed (obj s' b) \<or> (\<exists>d. (t, b, d) \<in> set (tm_timers s'))"
    using b t x armedD(2) [OF s, of b t] others [of t b] by (cases "b = a") (auto simp: nth heap)
next
  have nth: "obj s' c = (if c = a then x else obj s c)" for c using a by (simp add: heap nth_list_update)
  have no: False if "b \<noteq> a" "b < length (tm_heap s)" "in_retryTimer (obj s b) = Some t" "in_retryTimer x = Some t" for b t
    using x [OF that(4)] armedD(1) [OF s that(2,3)] armedD(3) [OF s a, of t b] that by auto
  fix b c
  assume "b \<in> {a. a < length (tm_heap s') \<and> in_retryTimer (obj s' a) \<noteq> None}"
    "c \<in> {a. a < length (tm_heap s') \<and> in_retryTimer (obj s' a) \<noteq> None}"
    and eq: "in_retryTimer (obj s' b) = in_retryTimer (obj s' c)"
  then obtain t where t: "in_retryTimer (obj s' b) = Some t" "in_retryTimer (obj s' c) = Some t"
    and l: "b < length (tm_heap s)" "c < length (tm_heap s)" by (auto simp: heap)
  show "b = c"
    using t l no [of b t] no [of c t] armedD(3) [OF s, of c t b] by (cases "b = a"; cases "c = a") (simp_all add: nth)
qed

text \<open>Clearing a session's handle from the timers touches no other session's.\<close>

lemma others_stay:
  assumes "armed s" and "retry_ok s" and "a < length (tm_heap s)" and "in_retryTimer (obj s a) = Some t"
    and "(t', b, d) \<in> set (tm_timers s)" and "b \<noteq> a"
  shows "t' \<noteq> t"
proof -
  have "b < length (tm_heap s)" "in_retryTimer (obj s b) = Some t'" using assms(2,5) by (auto simp: retry_ok_def)
  with armedD(3) [OF assms(1,3,4)] assms(6) show ?thesis by auto
qed

lemma armed_clear:
  assumes "armed s" and "SB s" and "a < length (tm_heap s)" and "in_retryTimer (obj s a) = Some t"
  shows "armed (set_obj a (\<lambda>i. i\<lparr>in_retryTimer := None\<rparr>) (s\<lparr>tm_timers := filter (\<lambda>(t', _). t' \<noteq> t) (tm_timers s)\<rparr>))"
  by (rule armed_update [OF assms(1,3)]) (use assms in \<open>auto simp: SB_def dest: others_stay\<close>)

lemma armed_connect: "armed s \<Longrightarrow> armed (connect a s)"
  unfolding connect_def Let_def by (auto intro!: armed_set_obj armed_frames)

lemma armed_schedule:
  assumes "armed s" and "a < length (tm_heap s)"
  shows "armed (scheduleReconnect rnd a s)"
proof (cases "in_retryTimer (obj s a) \<noteq> None \<or> in_userClosed (obj s a) \<or> in_shellExited (obj s a)")
  case False
  then show ?thesis
    by (intro armed_update [OF assms]) (auto simp: scheduleReconnect_def Let_def)
qed (auto simp: scheduleReconnect_def assms)

lemma armed_retry:
  assumes "armed s" and "SB s"
  shows "armed (retry_fires rnd t a s)"
proof (cases "\<exists>d. (t, a, d) \<in> set (tm_timers s)")
  case True
  then have a: "a < length (tm_heap s)" "in_retryTimer (obj s a) = Some t"
    using assms by (auto simp: SB_def retry_ok_def)
  from armed_clear [OF assms a] True a(1) show ?thesis
    by (simp add: retry_fires_def Let_def armed_connect armed_schedule)
qed (simp add: retry_fires_def assms)

lemma armed_ws:
  assumes "armed s" and "SB s"
  shows "armed (ws_onopen w s)" and "armed (ws_onmessage w f s)" and "armed (ws_onclose rnd w s)"
proof -
  show "armed (ws_onopen w s)" "armed (ws_onmessage w f s)"
    using assms(1) unfolding ws_onopen_def ws_onmessage_def Let_def
    by (auto intro!: armed_frames armed_set_obj split: frame.splits TermControl.splits)
  show "armed (ws_onclose rnd w s)"
    using assms owner_holds(1) [OF assms(2), of w] unfolding ws_onclose_def Let_def
    by (auto intro!: armed_schedule armed_frames armed_set_obj)
qed

lemma armed_note_one: "armed s \<Longrightarrow> SB s \<Longrightarrow> a < length (tm_heap s) \<Longrightarrow> armed (note_one a s)"
  by (cases "in_retryTimer (obj s a)") (simp_all add: note_one_def Let_def armed_connect armed_clear)

lemma armed_fold_note:
  "armed s \<Longrightarrow> SB s \<Longrightarrow> \<forall>a \<in> set as. a < length (tm_heap s) \<Longrightarrow> armed (fold note_one as s)"
  by (induction as arbitrary: s) (simp_all add: SB_note_one armed_note_one)

lemma armed_end_session:
  assumes "armed s" and "SB s" and "a < length (tm_heap s)"
  shows "armed (end_session a s)"
proof -
  have "armed ((set_obj a (\<lambda>i. i\<lparr>in_userClosed := True, in_disposed := True\<rparr>) s)
      \<lparr>tm_timers := filter (\<lambda>(t, _). in_retryTimer (obj s a) \<noteq> Some t) (tm_timers s)\<rparr>)"
    by (rule armed_update [OF assms(1,3)]) (use assms in \<open>auto simp: SB_def dest: others_stay armedD(1)\<close>)
  then show ?thesis by (auto simp: end_session_def Let_def intro!: armed_frames split: option.splits)
qed

lemma armed_fold_end:
  "armed s \<Longrightarrow> SB s \<Longrightarrow> \<forall>a \<in> set as. a < length (tm_heap s) \<Longrightarrow> armed (fold end_session as s)"
  by (induction as arbitrary: s) (simp_all add: SB_end_session armed_end_session end_session_nth)

lemma armed_open:
  assumes "armed s"
  shows "armed (snd (open_session sid cols rows s))"
proof (cases "int (length (sessions sid s)) \<ge> MAX_SESSIONS")
  case False
  have "armed (snd (newSession sid cols rows s))"
    using assms
    by (auto simp: newSession_def armed_def nth_append less_Suc_eq inj_on_def)
  with False show ?thesis
    by (auto simp: open_session_def Let_def split: prod.split intro!: armed_frames armed_connect)
qed (simp add: open_session_def assms)

lemma armed_restart:
  assumes "AB {} s" and "SB s" and "armed s"
  shows "armed (restart sid x s)"
proof (cases "find_session sid x s")
  case (Some a)
  have a: "a < length (tm_heap s)" "\<not> in_userClosed (obj s a)"
    using assms(1) found [OF Some] by (auto simp: AB_def lists_ok_def)
  have keep: "armed (set_obj a (\<lambda>i. i\<lparr>in_shellExited := False, in_userClosed := False,
      in_session := (in_session i)\<lparr>ss_exitCode := None\<rparr>, in_backoffMs := BACKOFF_MIN_MS\<rparr>) s)"
    by (rule armed_update [OF assms(3) a(1)]) (use assms a in \<open>auto dest: armedD\<close>)
  show ?thesis using Some keep assms by (auto simp: restart_def intro: armed_connect)
qed (simp add: restart_def assms)

lemma armed_dispose:
  assumes "AB {} s" and "SB s" and "armed s"
  shows "armed (disposeSandbox sid s)"
proof -
  have e: "armed (fold end_session (sessions sid s) s)" using assms listed by (intro armed_fold_end) auto
  show ?thesis unfolding disposeSandbox_def Let_def
    by (rule armed_frames(1), rule armed_frame [OF e]) simp_all
qed

lemma armed_fold_dispose: "AB {} s \<Longrightarrow> SB s \<Longrightarrow> armed s \<Longrightarrow> armed (fold disposeSandbox sids s)"
  by (induction sids arbitrary: s) (simp_all add: SB_dispose AB_dispose armed_dispose)

lemma armed_close:
  assumes "AB {} s" and "SB s" and "armed s"
  shows "armed (close_session sid x s)"
proof (cases "find_session sid x s")
  case (Some a)
  then show ?thesis using assms listed [OF assms(1) found [OF Some]]
    by (auto simp: close_session_def intro!: armed_frames armed_end_session)
qed (simp add: close_session_def assms)

lemma armed_note:
  assumes "AB {} s" and "SB s" and "armed s"
  shows "armed (noteState sid st s)"
proof -
  let ?s = "s\<lparr>tm_lastState := (tm_lastState s)(sid \<mapsto> st)\<rparr>"
  have "SB ?s" by (rule SB_frame [OF _ _ _ assms(2)]) simp_all
  then show ?thesis using assms listed [OF assms(1)] armed_frames(5) [OF assms(3)]
    by (auto simp: noteState_def Let_def intro!: armed_fold_note)
qed

lemma armed_send: "armed s \<Longrightarrow> armed (send_open a f s)"
  by (auto simp: send_open_def intro!: armed_frames split: option.splits)

definition term_inv :: "term_state \<Rightarrow> bool" where
  "term_inv s \<longleftrightarrow> AB {} s \<and> SB s \<and> armed s"

lemma term_inv_handle: "term_inv s \<Longrightarrow> term_inv (term_handle s e)"
proof -
  assume "term_inv s"
  then have s: "AB {} s" "SB s" "armed s" by (simp_all add: term_inv_def)
  have "SB (term_handle s e)"
  proof (cases e)
    case (TToken token)
    have "SB (s\<lparr>tm_token := token\<rparr>)" by (rule SB_frame [OF _ _ _ s(2)]) simp_all
    then show ?thesis by (simp add: TToken)
  qed (use s in \<open>simp_all add: SB_open SB_restart SB_close SB_note SB_dispose disposeAll_def SB_fold_dispose
      SB_onopen SB_onmessage SB_onclose SB_retry term_onData_def term_onResize_def SB_send SB_set_obj\<close>)
  moreover have "armed (term_handle s e)"
    by (cases e) (use s in \<open>simp_all add: armed_open armed_restart armed_close armed_note armed_dispose
      disposeAll_def armed_fold_dispose armed_ws armed_retry term_onData_def term_onResize_def armed_send
      armed_set_obj armed_frames\<close>)
  ultimately show ?thesis by (simp add: term_inv_def AB_handle s)
qed

lemma term_inv_init: "term_inv (term_init token https host)"
  by (simp add: term_inv_def AB_def SB_def lists_ok_def snaps_ok_def links_ok_def retry_ok_def backoff_ok_def
      armed_def term_init_def sessions_def sessionsOf_def MAX_SESSIONS_def)

interpretation terms: deterministic_machine "term_init token https host" term_handle term_inv
  by unfold_locales (rule term_inv_init, rule term_inv_handle)

lemma js_num_inject: "0 \<le> i \<Longrightarrow> 0 \<le> j \<Longrightarrow> js_num i = js_num j \<Longrightarrow> i = j"
  by (metis js_Number_num option.inject)

lemma distinct_ids:
  assumes "term_inv s"
  shows "distinct (map (id_of s) (sessions sid s))"
proof -
  have ok: "lists_ok {} s" using assms by (simp add: term_inv_def AB_def)
  have "id_of s a = id_of s b \<Longrightarrow> a = b" if "a \<in> set (sessions sid s)" "b \<in> set (sessions sid s)" for a b
  proof -
    have "a < length (tm_heap s)" "b < length (tm_heap s)" using ok that by (auto simp: lists_ok_def)
    then have "id_of s a = ''sh-'' @ js_num (int a + 1)" "id_of s b = ''sh-'' @ js_num (int b + 1)"
      using ok unfolding lists_ok_def by blast+
    then show "id_of s a = id_of s b \<Longrightarrow> a = b" using js_num_inject [of "int a + 1" "int b + 1"] by simp
  qed
  then show ?thesis using ok by (simp add: lists_ok_def distinct_map inj_on_def)
qed

text \<open>What happens to a session the user has ended: no step gives it a socket or a timer again.\<close>

lemma ended_silent:
  assumes "term_inv s" and "a < length (tm_heap s)" and "in_userClosed (obj s a)"
  shows "a \<notin> set (sessions sid s)" and "\<forall>(t, b, d) \<in> set (tm_timers s). b \<noteq> a"
  using assms by (auto simp: term_inv_def AB_def SB_def lists_ok_def retry_ok_def)

section \<open>No session is forgotten\<close>

text \<open>While a token is at hand, a session that is neither ended nor exited holds a socket or waits for
  a retry; \<open>E\<close> holds the sessions a handler is working on.\<close>

definition held :: "Internal \<Rightarrow> bool" where
  "held i \<longleftrightarrow> in_userClosed i \<or> in_shellExited i \<or> in_ws i \<noteq> None \<or> in_retryTimer i \<noteq> None"

definition kept :: "nat set \<Rightarrow> term_state \<Rightarrow> bool" where
  "kept E s \<longleftrightarrow> truthy_str (tm_token s) \<and> (\<forall>a < length (tm_heap s). a \<notin> E \<longrightarrow> held (obj s a))"

lemma kept_frame: "kept E s \<Longrightarrow> tm_heap s' = tm_heap s \<Longrightarrow> tm_token s' = tm_token s \<Longrightarrow> kept E s'"
  by (simp add: kept_def)

lemma kept_update:
  assumes "kept E s" and "tm_heap s' = (tm_heap s)[a := x]" and "tm_token s' = tm_token s"
    and "held x \<or> a \<in> F" and "E \<subseteq> insert a F"
  shows "kept F s'"
proof -
  have "held (obj s' b)" if "b < length (tm_heap s)" "b \<notin> F" for b
    using assms that by (cases "b = a") (auto simp: kept_def)
  with assms show ?thesis by (simp add: kept_def)
qed

lemma token_frame [simp]:
  "tm_token (set_socket w g s) = tm_token s" "tm_token (connect a s) = tm_token s"
  "tm_token (scheduleReconnect rnd a s) = tm_token s" "tm_token (end_session a s) = tm_token s"
  by (simp_all add: set_socket_def connect_def scheduleReconnect_def end_session_def Let_def split: option.split)

lemma kept_connect:
  assumes "kept (insert a E) s"
  shows "kept E (connect a s)"
proof -
  let ?st = "if in_backoffMs (obj s a) > BACKOFF_MIN_MS then Reconnecting else Connecting"
  have "tm_heap (connect a s) = (tm_heap s)[a := (set_status ?st (obj s a))\<lparr>in_ws := Some (length (tm_sockets s))\<rparr>]"
    using assms by (cases "a < length (tm_heap s)") (simp_all add: connect_def kept_def Let_def list_update_beyond)
  then show ?thesis by (rule kept_update [OF assms]) (auto simp: held_def)
qed

lemma kept_schedule:
  assumes "kept (insert a E) s"
  shows "kept E (scheduleReconnect rnd a s)"
proof (cases "in_retryTimer (obj s a) \<noteq> None \<or> in_userClosed (obj s a) \<or> in_shellExited (obj s a)")
  case True
  then have "held (obj s a)" by (auto simp: held_def)
  with True assms show ?thesis by (auto simp: scheduleReconnect_def kept_def)
next
  case False
  show ?thesis
    by (rule kept_update [OF assms, of _ a "(obj s a)\<lparr>in_backoffMs := min (in_backoffMs (obj s a) * 2) BACKOFF_MAX_MS,
          in_retryTimer := Some (tm_nextTimer s)\<rparr>"])
      (use False in \<open>auto simp: scheduleReconnect_def Let_def held_def\<close>)
qed

text \<open>A step on the object of a session it is working on, and leaving a session that is held.\<close>

lemma kept_touch: "kept E s \<Longrightarrow> kept (insert a E) (set_obj a f s)"
  by (rule kept_update) auto

lemma kept_leave: "kept (insert a E) s \<Longrightarrow> held (obj s a) \<Longrightarrow> kept E s"
  by (auto simp: kept_def)

lemma kept_held: "kept E s \<Longrightarrow> (held (obj s a) \<Longrightarrow> held (f (obj s a))) \<Longrightarrow> kept E (set_obj a f s)"
  by (cases "a < length (tm_heap s)") (auto simp: kept_def nth_list_update list_update_beyond not_less)

lemma kept_retry: "kept {} s \<Longrightarrow> kept {} (retry_fires rnd t a s)"
proof (cases "\<exists>d. (t, a, d) \<in> set (tm_timers s)")
  case True
  assume "kept {} s"
  let ?s = "set_obj a (\<lambda>i. i\<lparr>in_retryTimer := None\<rparr>) (s\<lparr>tm_timers := filter (\<lambda>(t', _). t' \<noteq> t) (tm_timers s)\<rparr>)"
  have "kept {} (s\<lparr>tm_timers := filter (\<lambda>(t', _). t' \<noteq> t) (tm_timers s)\<rparr>)"
    by (rule kept_frame [OF \<open>kept {} s\<close>]) simp_all
  then have k: "kept {a} ?s" by (rule kept_touch)
  then have "in_userClosed (obj ?s a) \<or> in_shellExited (obj ?s a) \<or> in_ws (obj ?s a) \<noteq> None \<Longrightarrow> kept {} ?s"
    by (rule kept_leave) (unfold held_def, blast)
  with k True show ?thesis by (simp add: retry_fires_def Let_def kept_connect kept_schedule)
qed (simp add: retry_fires_def)

lemma kept_ws:
  assumes "kept {} s"
  shows "kept {} (ws_onopen w s)" and "kept {} (ws_onmessage w f s)" and "kept {} (ws_onclose rnd w s)"
proof -
  have sock: "kept {} (set_socket w g s)" for g by (rule kept_frame [OF assms]) simp_all
  have pub: "kept E u \<Longrightarrow> kept E (term_publish k u)" for E u k by (erule kept_frame) simp_all
  show "kept {} (ws_onopen w s)"
    unfolding ws_onopen_def Let_def using sock assms
    by (auto intro!: pub kept_held simp: held_def set_status_def)
  show "kept {} (ws_onmessage w f s)"
    unfolding ws_onmessage_def Let_def using assms
    by (auto intro!: kept_held simp: held_def write_term_def split: frame.split TermControl.split)
  let ?a = "sk_owner (sock s w)"
  let ?s = "set_obj ?a (\<lambda>i. i\<lparr>in_ws := None\<rparr>) (set_socket w (\<lambda>k. k\<lparr>sk_state := WsClosed\<rparr>) s)"
  have k: "kept {?a} ?s" by (rule kept_touch [OF sock])
  have "kept {} ?s" if "in_userClosed (obj ?s ?a)" using that by (intro kept_leave [OF k]) (simp add: held_def)
  moreover have "kept {} (set_obj ?a (\<lambda>i. write_term (exit_notice i) (set_status Closed i)) ?s)"
    if "in_shellExited (obj ?s ?a)"
    by (rule kept_held [OF kept_leave [OF k]]) (use that in \<open>simp_all add: held_def write_term_def set_status_def\<close>)
  moreover have "kept {} (scheduleReconnect rnd ?a (term_publish n (set_obj ?a (set_status Reconnecting) ?s)))" for n
    using kept_touch [OF k, of ?a] by (intro kept_schedule pub) simp
  ultimately show "kept {} (ws_onclose rnd w s)"
    unfolding ws_onclose_def Let_def using sock assms by (auto intro!: pub)
qed

lemma kept_note_one:
  assumes "kept {} s"
  shows "kept {} (note_one a s)"
proof -
  let ?s = "case in_retryTimer (obj s a) of None \<Rightarrow> s
    | Some t \<Rightarrow> set_obj a (\<lambda>i. i\<lparr>in_retryTimer := None\<rparr>)
        (s\<lparr>tm_timers := filter (\<lambda>(t', _). t' \<noteq> t) (tm_timers s)\<rparr>)"
  have k: "kept {a} ?s"
    using assms by (auto simp: kept_def nth_list_update split: option.split)
  have "kept {} ?s" if "\<not> (in_ws (obj s a) = None \<and> \<not> in_userClosed (obj s a) \<and> \<not> in_shellExited (obj s a))"
  proof (cases "in_retryTimer (obj s a)")
    case (Some t)
    have "kept {} (set_obj a (\<lambda>i. i\<lparr>in_retryTimer := None\<rparr>)
        (s\<lparr>tm_timers := filter (\<lambda>(t', _). t' \<noteq> t) (tm_timers s)\<rparr>))"
      by (rule kept_held, rule kept_frame [OF assms]) (use that in \<open>auto simp: held_def\<close>)
    then show ?thesis by (simp add: Some)
  qed (simp add: assms)
  with kept_connect [OF k] show ?thesis by (simp add: note_one_def Let_def)
qed

lemma kept_fold_note: "kept {} s \<Longrightarrow> kept {} (fold note_one as s)"
  by (induction as arbitrary: s) (simp_all add: kept_note_one)

lemma kept_note: "kept {} s \<Longrightarrow> kept {} (noteState sid st s)"
  by (auto simp: noteState_def Let_def intro!: kept_fold_note elim!: kept_frame)

lemma kept_end: "kept {} s \<Longrightarrow> kept {} (end_session a s)"
  by (erule kept_update [OF _ end_session_heap]) (auto simp: held_def)

lemma kept_fold_end: "kept {} s \<Longrightarrow> kept {} (fold end_session as s)"
  by (induction as arbitrary: s) (simp_all add: kept_end)

lemma kept_dispose: "kept {} s \<Longrightarrow> kept {} (disposeSandbox sid s)"
  unfolding disposeSandbox_def Let_def by (rule kept_frame [OF kept_fold_end]) simp_all

lemma kept_fold_dispose: "kept {} s \<Longrightarrow> kept {} (fold disposeSandbox sids s)"
  by (induction sids arbitrary: s) (simp_all add: kept_dispose)

lemma kept_close: "kept {} s \<Longrightarrow> kept {} (close_session sid x s)"
  unfolding close_session_def by (auto split: option.split elim!: kept_frame [OF kept_end])

lemma kept_open: "kept {} s \<Longrightarrow> kept {} (snd (open_session sid cols rows s))"
proof (cases "int (length (sessions sid s)) \<ge> MAX_SESSIONS")
  case False
  assume "kept {} s"
  then have "kept {length (tm_heap s)} (set_sessions sid as (snd (newSession sid cols rows s)))" for as
    by (auto simp: newSession_def kept_def nth_append less_Suc_eq)
  from kept_frame [OF kept_connect [OF this [of "sessions sid s @ [length (tm_heap s)]"]]] False show ?thesis
    by (simp add: open_session_def newSession_def Let_def)
qed (simp add: open_session_def)

lemma kept_restart: "kept {} s \<Longrightarrow> kept {} (restart sid x s)"
  unfolding restart_def by (auto split: option.split intro!: kept_connect kept_touch)

lemma kept_send: "kept {} s \<Longrightarrow> kept {} (send_open a f s)"
  unfolding send_open_def by (auto split: option.split elim!: kept_frame)

lemma kept_handle:
  assumes "kept {} s" and "\<And>tk. e = TToken tk \<Longrightarrow> truthy_str tk"
  shows "kept {} (term_handle s e)"
proof (cases e)
  case (TToken tk)
  then show ?thesis using assms by (simp add: kept_def)
next
  case (TResize a c r)
  have "kept {} (set_obj a (\<lambda>i. i\<lparr>in_cols := c, in_rows := r\<rparr>) s)"
    by (rule kept_held [OF assms(1)]) (simp add: held_def)
  then show ?thesis using assms TResize by (simp add: term_onResize_def kept_send)
qed (use assms in \<open>simp_all add: kept_open kept_restart kept_close kept_note kept_dispose disposeAll_def
    kept_fold_dispose kept_ws kept_retry term_onData_def kept_send\<close>)

lemma kept_run:
  "kept {} s \<Longrightarrow> (\<And>tk. TToken tk \<in> set es \<Longrightarrow> truthy_str tk) \<Longrightarrow> kept {} (foldl term_handle s es)"
  by (induction es rule: rev_induct) (simp_all add: kept_handle)

definition waits :: "nat \<Rightarrow> term_state \<Rightarrow> bool" where
  "waits a s \<longleftrightarrow> (\<exists>(t, b, d) \<in> set (tm_timers s). b = a \<and> in_retryTimer (obj s a) = Some t)"

lemma connected_iff:
  assumes "SB s" and "a < length (tm_heap s)"
  shows "(\<exists>w < length (tm_sockets s). sk_owner (sock s w) = a \<and> sk_state (sock s w) \<noteq> WsClosed) \<longleftrightarrow> in_ws (obj s a) \<noteq> None"
proof (cases "in_ws (obj s a)")
  case None
  then show ?thesis using owner_holds(2) [OF assms(1)] by fastforce
next
  case (Some w)
  then have "w < length (tm_sockets s)" "sk_owner (sock s w) = a" "sk_state (sock s w) \<noteq> WsClosed"
    using assms unfolding SB_def links_ok_def by blast+
  then show ?thesis using Some by auto
qed

lemma waits_iff:
  assumes "SB s" and "armed s" and "a < length (tm_heap s)" and "\<not> in_userClosed (obj s a)"
    and "\<not> in_shellExited (obj s a)"
  shows "waits a s \<longleftrightarrow> in_retryTimer (obj s a) \<noteq> None" and "waits a s \<Longrightarrow> in_ws (obj s a) = None"
proof -
  show "waits a s \<longleftrightarrow> in_retryTimer (obj s a) \<noteq> None"
    using armedD(2) [OF assms(2,3)] assms(4) by (fastforce simp: waits_def)
  show "waits a s \<Longrightarrow> in_ws (obj s a) = None" using assms(1) by (auto simp: waits_def SB_def retry_ok_def)
qed

lemma schedule_waits:
  assumes "a < length (tm_heap s)" and "\<not> in_userClosed (obj s a)" and "\<not> in_shellExited (obj s a)"
    and "in_retryTimer (obj s a) = None"
  shows "waits a (scheduleReconnect rnd a s)"
  using assms by (simp add: scheduleReconnect_def Let_def waits_def)

lemma lost_waits:
  assumes "SB s" and "armed s" and "w < length (tm_sockets s)" and "sk_state (sock s w) \<noteq> WsClosed"
    and "a = sk_owner (sock s w)" and "\<not> in_userClosed (obj s a)" and "\<not> in_shellExited (obj s a)"
  shows "waits a (ws_onclose rnd w s)" and "ss_status (in_session (obj (ws_onclose rnd w s) a)) = Reconnecting"
proof -
  have o: "a < length (tm_heap s)" "in_ws (obj s a) = Some w" using owner_holds [OF assms(1,3,4)] assms(5) by simp_all
  have "in_retryTimer (obj s a) = None"
    using waits_iff [OF assms(1,2) o(1) assms(6,7)] o(2) by auto
  then show "waits a (ws_onclose rnd w s)" "ss_status (in_session (obj (ws_onclose rnd w s) a)) = Reconnecting"
    using assms(3-7) o by (auto simp: ws_onclose_def Let_def scheduleReconnect_def set_status_def waits_def)
qed

lemma retry_outcome:
  assumes "SB s" and "kept E s" and "(t, a, d) \<in> set (tm_timers s)"
  shows "let u = retry_fires rnd t a s
       in if tm_lastState s (sandbox_of s a) = Some RUNNING
          then tm_sockets u = tm_sockets s @ [\<lparr>sk_owner = a,
                 sk_url = wsURL s (sandbox_of s a) (in_cols (obj s a)) (in_rows (obj s a)),
                 sk_protocols = [''bearer.'' @ b64url (the (tm_token s)), TERM_SUBPROTOCOL],
                 sk_state = WsConnecting, sk_sent = []\<rparr>] \<and> in_ws (obj u a) = Some (length (tm_sockets s))
          else waits a u"
proof -
  have a: "a < length (tm_heap s)" "\<not> in_userClosed (obj s a)" "\<not> in_shellExited (obj s a)" "in_ws (obj s a) = None"
    using assms(1,3) by (auto simp: SB_def retry_ok_def)
  let ?s = "set_obj a (\<lambda>i. i\<lparr>in_retryTimer := None\<rparr>) (s\<lparr>tm_timers := filter (\<lambda>(t', _). t' \<noteq> t) (tm_timers s)\<rparr>)"
  have fires: "retry_fires rnd t a s =
      (if tm_lastState s (sandbox_of s a) = Some RUNNING then connect a ?s else scheduleReconnect rnd a ?s)"
    using assms(3) a by (auto simp: retry_fires_def Let_def)
  have "waits a (scheduleReconnect rnd a ?s)" by (rule schedule_waits) (use a in simp_all)
  moreover have "wsURL ?s x y z = wsURL s x y z" for x y z by (simp add: wsURL_def set_obj_def)
  ultimately show ?thesis unfolding fires Let_def using assms(2) a
    by (auto simp: connect_def Let_def kept_def set_status_def)
qed

text \<open>The sandbox is seen to run again.\<close>

lemma note_one_other: "b \<noteq> a \<Longrightarrow> obj (note_one b s) a = obj s a"
  by (auto simp: note_one_def Let_def connect_def split: option.split)

lemma note_one_keeps: "in_ws (obj s a) \<noteq> None \<Longrightarrow> in_ws (obj (note_one b s) a) \<noteq> None"
proof (cases "b = a")
  case True
  assume "in_ws (obj s a) \<noteq> None"
  with True show ?thesis by (cases "a < length (tm_heap s)")
    (auto simp: note_one_def Let_def list_update_beyond not_less split: option.split)
qed (simp add: note_one_other)

lemma fold_note_keeps: "in_ws (obj s a) \<noteq> None \<Longrightarrow> in_ws (obj (fold note_one as s) a) \<noteq> None"
proof (induction as arbitrary: s)
  case (Cons b as)
  from Cons.IH [OF note_one_keeps [OF Cons.prems]] show ?case by simp
qed simp

lemma note_one_connects:
  assumes "kept {} s" and "a < length (tm_heap s)" and "\<not> in_userClosed (obj s a)" and "\<not> in_shellExited (obj s a)"
  shows "in_ws (obj (note_one a s) a) \<noteq> None"
  using assms by (auto simp: note_one_def connect_def Let_def kept_def split: option.split)

lemma note_one_length: "length (tm_heap (note_one a s)) = length (tm_heap s)"
  by (simp add: note_one_def Let_def connect_def split: option.split)

lemma fold_note_connects:
  assumes "kept {} s" and "a \<in> set as" and "a < length (tm_heap s)" and "\<not> in_userClosed (obj s a)"
    and "\<not> in_shellExited (obj s a)"
  shows "in_ws (obj (fold note_one as s) a) \<noteq> None"
  using assms
proof (induction as arbitrary: s)
  case (Cons b as)
  show ?case
  proof (cases "b = a")
    case True
    then show ?thesis using fold_note_keeps [OF note_one_connects [OF Cons.prems(1,3-5)], of as] by simp
  next
    case False
    then show ?thesis
      using Cons.IH [OF kept_note_one [OF Cons.prems(1), of b]] Cons.prems
      by (simp add: note_one_other note_one_length)
  qed
qed simp

lemma note_connects:
  assumes "kept {} s" and "a \<in> set (sessions sid s) \<and> tm_lastState s sid \<noteq> Some RUNNING" and "a < length (tm_heap s)"
    and "\<not> in_userClosed (obj s a)" and "\<not> in_shellExited (obj s a)"
  shows "in_ws (obj (noteState sid RUNNING s) a) \<noteq> None"
proof -
  have "kept {} (s\<lparr>tm_lastState := (tm_lastState s)(sid \<mapsto> RUNNING)\<rparr>)" by (rule kept_frame [OF assms(1)]) simp_all
  from fold_note_connects [OF this, of a "sessions sid s"] assms show ?thesis by (simp add: noteState_def Let_def)
qed

section \<open>Properties\<close>

text \<open>C13: However the user, the sockets and the timers interleave, a sandbox has at most six terminal
  sessions with distinct ids, the list React renders shows exactly these, every session has at most
  one connection that is not closed, and a pending retry belongs to a session that is neither ended
  nor exited nor connected and waits between 425 ms and 8 s.\<close>

theorem term_sessions_ok:
  assumes "s = foldl term_handle (term_init token https host) es"
  shows "length (sessionsOf sid s) \<le> 6 \<and> distinct (map ss_id (sessionsOf sid s)) \<and>
    map ss_id (sessionsOf sid s) = map (id_of s) (sessions sid s) \<and>
    (\<forall>v < length (tm_sockets s). \<forall>w < length (tm_sockets s).
       sk_owner (sock s v) = sk_owner (sock s w) \<longrightarrow> sk_state (sock s v) \<noteq> WsClosed \<longrightarrow>
       sk_state (sock s w) \<noteq> WsClosed \<longrightarrow> v = w) \<and>
    (\<forall>(t, a, d) \<in> set (tm_timers s). \<not> in_userClosed (obj s a) \<and> \<not> in_shellExited (obj s a) \<and>
       in_ws (obj s a) = None \<and> 425 \<le> d \<and> d \<le> 8000)"
proof -
  have inv: "term_inv s" unfolding assms by (rule terms.run_inv)
  have snap: "map ss_id (sessionsOf sid s) = map (id_of s) (sessions sid s)"
    using inv by (simp add: term_inv_def AB_def snaps_ok_def)
  moreover have "length (sessions sid s) \<le> 6"
    using inv by (simp add: term_inv_def AB_def lists_ok_def MAX_SESSIONS_def)
  moreover have "length (sessionsOf sid s) = length (sessions sid s)" using snap by (metis length_map)
  moreover have "v = w" if "v < length (tm_sockets s)" "w < length (tm_sockets s)"
    "sk_owner (sock s v) = sk_owner (sock s w)" "sk_state (sock s v) \<noteq> WsClosed" "sk_state (sock s w) \<noteq> WsClosed"
    for v w
  proof -
    have "SB s" using inv by (simp add: term_inv_def)
    from owner_holds(2) [OF this that(1,4)] owner_holds(2) [OF this that(2,5)] that(3)
    show "v = w" by (metis option.inject)
  qed
  moreover have "\<forall>(t, a, d) \<in> set (tm_timers s). \<not> in_userClosed (obj s a) \<and> \<not> in_shellExited (obj s a) \<and>
       in_ws (obj s a) = None \<and> 425 \<le> d \<and> d \<le> 8000"
    using inv by (auto simp: term_inv_def SB_def retry_ok_def)
  ultimately show ?thesis using distinct_ids [OF inv] by (simp add: snap)
qed

theorem term_sessions_ok_witness:
  "length (sessionsOf ''sb'' (foldl term_handle (term_init (Some ''t'') True ''h'')
     (replicate 9 (TOpen ''sb'' 80 24)))) \<le> 6"
  by (rule term_sessions_ok [OF refl, THEN conjunct1])

text \<open>C15: From a point where a token is at hand and no earlier session is still in use (a fresh page, or
  after the terminals were disposed of), and as long as no empty token replaces it, no session is ever
  left behind: one that the user keeps and whose shell has not exited either holds a connection that is
  not closed or waits for a pending retry, never both; losing the connection shows it as reconnecting
  and makes it wait; a retry that goes off gives it a new connection, authenticated with the token under
  the terminal subprotocol, when the sandbox was last seen running, and makes it wait again when not;
  and when the sandbox is seen to run again, a listed session that waits is connected at once.\<close>

theorem term_reconnects:
  assumes "s0 = foldl term_handle (term_init token https host) es0"
    and "\<forall>b < length (tm_heap s0). in_userClosed (obj s0 b)" and "truthy_str (tm_token s0)"
    and "s = foldl term_handle s0 es" and "\<forall>tk. TToken tk \<in> set es \<longrightarrow> truthy_str tk"
    and "a < length (tm_heap s)" and "\<not> in_userClosed (obj s a)" and "\<not> in_shellExited (obj s a)"
  shows "((\<exists>w < length (tm_sockets s). sk_owner (sock s w) = a \<and> sk_state (sock s w) \<noteq> WsClosed) \<longleftrightarrow>
      \<not> waits a s) \<and>
    (\<forall>w < length (tm_sockets s). sk_owner (sock s w) = a \<longrightarrow> sk_state (sock s w) \<noteq> WsClosed \<longrightarrow>
      waits a (ws_onclose rnd w s) \<and> ss_status (in_session (obj (ws_onclose rnd w s) a)) = Reconnecting) \<and>
    (\<forall>t d. (t, a, d) \<in> set (tm_timers s) \<longrightarrow>
      (let u = retry_fires rnd t a s
       in if tm_lastState s (sandbox_of s a) = Some RUNNING
          then tm_sockets u = tm_sockets s @ [\<lparr>sk_owner = a,
                 sk_url = wsURL s (sandbox_of s a) (in_cols (obj s a)) (in_rows (obj s a)),
                 sk_protocols = [''bearer.'' @ b64url (the (tm_token s)), TERM_SUBPROTOCOL],
                 sk_state = WsConnecting, sk_sent = []\<rparr>] \<and> in_ws (obj u a) = Some (length (tm_sockets s))
          else waits a u)) \<and>
    (\<forall>sid. a \<in> set (sessions sid s) \<longrightarrow> tm_lastState s sid \<noteq> Some RUNNING \<longrightarrow>
      in_ws (obj (noteState sid RUNNING s) a) \<noteq> None)"
proof (intro conjI allI impI)
  have inv: "term_inv s" unfolding assms(1,4) foldl_append [symmetric] by (rule terms.run_inv)
  then have SB: "SB s" and armed: "armed s" by (simp_all add: term_inv_def)
  have "kept {} s0" using assms(2,3) by (simp add: kept_def held_def)
  then have k: "kept {} s" unfolding assms(4) by (rule kept_run) (simp add: assms(5))
  show "(\<exists>w < length (tm_sockets s). sk_owner (sock s w) = a \<and> sk_state (sock s w) \<noteq> WsClosed) \<longleftrightarrow> \<not> waits a s"
    using connected_iff [OF SB assms(6)] waits_iff [OF SB armed assms(6-8)] k assms(6-8)
    by (auto simp: kept_def held_def)
  show "in_ws (obj (noteState sid RUNNING s) a) \<noteq> None"
    if "a \<in> set (sessions sid s)" "tm_lastState s sid \<noteq> Some RUNNING" for sid
    using note_connects [OF k _ assms(6-8)] that by simp
  show "waits a (ws_onclose rnd w s)" "ss_status (in_session (obj (ws_onclose rnd w s) a)) = Reconnecting"
    if "w < length (tm_sockets s)" "sk_owner (sock s w) = a" "sk_state (sock s w) \<noteq> WsClosed" for w
    using lost_waits [OF SB armed that(1,3)] that assms(7,8) by simp_all
  show "let u = retry_fires rnd t a s
       in if tm_lastState s (sandbox_of s a) = Some RUNNING
          then tm_sockets u = tm_sockets s @ [\<lparr>sk_owner = a,
                 sk_url = wsURL s (sandbox_of s a) (in_cols (obj s a)) (in_rows (obj s a)),
                 sk_protocols = [''bearer.'' @ b64url (the (tm_token s)), TERM_SUBPROTOCOL],
                 sk_state = WsConnecting, sk_sent = []\<rparr>] \<and> in_ws (obj u a) = Some (length (tm_sockets s))
          else waits a u" if "(t, a, d) \<in> set (tm_timers s)" for t d
    using retry_outcome [OF SB k that] .
qed

theorem term_reconnects_witness:
  "waits 0 (ws_onclose 0 1 (foldl term_handle (term_init (Some ''t'') True ''h'')
     [TNote ''sb'' RUNNING, TOpen ''sb'' 80 24, TWsOpen 0, TWsClose 0 0, TRetry 0 0 0, TWsOpen 1]))"
proof -
  let ?i = "term_init (Some ''t'') True ''h''"
  let ?es = "[TNote ''sb'' RUNNING, TOpen ''sb'' 80 24, TWsOpen 0, TWsClose 0 0, TRetry 0 0 0, TWsOpen 1]"
  have i: "\<forall>b < length (tm_heap ?i). in_userClosed (obj ?i b)" "truthy_str (tm_token ?i)"
    "\<forall>tk. TToken tk \<in> set ?es \<longrightarrow> truthy_str tk"
    by (simp_all add: term_init_def)
  have s: "0 < length (tm_heap (foldl term_handle ?i ?es))" "\<not> in_userClosed (obj (foldl term_handle ?i ?es) 0)"
    "\<not> in_shellExited (obj (foldl term_handle ?i ?es) 0)" "1 < length (tm_sockets (foldl term_handle ?i ?es))"
    "sk_owner (sock (foldl term_handle ?i ?es) 1) = 0" "sk_state (sock (foldl term_handle ?i ?es) 1) \<noteq> WsClosed"
    by (simp_all add: term_init_def noteState_def open_session_def sessions_def newSession_def set_sessions_def
        connect_def Let_def MAX_SESSIONS_def term_publish_def set_obj_def set_status_def ws_onopen_def
        set_socket_def ws_onclose_def scheduleReconnect_def retry_fires_def)
  from term_reconnects [of ?i "Some ''t''" True "''h''" "[]", OF _ i(1,2) refl i(3) s(1-3),
      THEN conjunct2, THEN conjunct1] s(4-6)
  show ?thesis by simp
qed

end
