(* ===== verification/Lifecycle.thy ===== *)
theory Lifecycle
  imports Types
begin

text \<open>
  The lifecycle state machine of the control plane (\<open>pkg/lifecycle/machine.go\<close>): the edge set, the
  validator and the two ways a machine moves.  The console offers actions by state; this theory is
  the reference its buttons are checked against.
\<close>

definition transitions :: "SandboxState \<Rightarrow> SandboxState list" where
  "transitions s = (case s of
     PENDING \<Rightarrow> [STARTING]
   | STARTING \<Rightarrow> [RUNNING]
   | RUNNING \<Rightarrow> [PAUSING, STOPPING]
   | PAUSING \<Rightarrow> [PAUSED_HOT, RUNNING]
   | PAUSED_HOT \<Rightarrow> [RESUMING, STOPPING, PAUSED_WARM]
   | PAUSED_WARM \<Rightarrow> [RESUMING, ARCHIVED_COLD, STOPPING]
   | ARCHIVED_COLD \<Rightarrow> [RESUMING, RECYCLED, STOPPING]
   | RECYCLED \<Rightarrow> [STOPPING]
   | RESUMING \<Rightarrow> [RUNNING]
   | STOPPING \<Rightarrow> [STOPPED]
   | FAILED \<Rightarrow> [RESUMING, STOPPING]
   | STOPPED \<Rightarrow> [])"

definition activeStates :: "SandboxState list" where
  "activeStates = [STARTING, RUNNING, PAUSING, PAUSED_HOT, PAUSED_WARM, ARCHIVED_COLD, RESUMING, STOPPING]"

definition Terminal :: "SandboxState \<Rightarrow> bool" where
  "Terminal s \<longleftrightarrow> s = STOPPED"

definition Paused :: "SandboxState \<Rightarrow> bool" where
  "Paused s \<longleftrightarrow> s = PAUSED_HOT \<or> s = PAUSED_WARM \<or> s = ARCHIVED_COLD"

datatype lifecycle_error = IllegalTransition SandboxState SandboxState | CasLost SandboxState SandboxState

definition Validate :: "SandboxState \<Rightarrow> SandboxState \<Rightarrow> lifecycle_error option" where
  "Validate from to =
     (if to = FAILED \<and> from \<in> set activeStates then None
      else if to \<in> set (transitions from) then None
      else Some (IllegalTransition from to))"

definition machine_To :: "SandboxState \<Rightarrow> SandboxState \<Rightarrow> lifecycle_error + SandboxState" where
  "machine_To to cur = (case Validate cur to of Some e \<Rightarrow> Inl e | None \<Rightarrow> Inr to)"

definition machine_CAS ::
  "SandboxState \<Rightarrow> SandboxState \<Rightarrow> SandboxState \<Rightarrow> lifecycle_error + SandboxState" where
  "machine_CAS from to cur =
     (if cur \<noteq> from then Inl (CasLost cur from)
      else case Validate from to of Some e \<Rightarrow> Inl e | None \<Rightarrow> Inr to)"

text \<open>A legal step of the machine, and what it can reach.\<close>

inductive lifecycle_step :: "SandboxState \<Rightarrow> SandboxState \<Rightarrow> bool" where
  listed: "to \<in> set (transitions from) \<Longrightarrow> lifecycle_step from to"
| fails: "from \<in> set activeStates \<Longrightarrow> lifecycle_step from FAILED"

inductive_cases lifecycle_stepE: "lifecycle_step from to"

lemma Validate_step: "Validate from to = None \<longleftrightarrow> lifecycle_step from to"
  by (auto simp: Validate_def elim: lifecycle_stepE intro: lifecycle_step.intros)

lemma To_step: "machine_To to cur = Inr next \<longleftrightarrow> lifecycle_step cur to \<and> next = to"
  by (auto simp: machine_To_def Validate_step [symmetric] split: option.splits)

text \<open>The requests the rest of the system makes of a machine, by either method; a request that returns an
  error leaves the state as it was.\<close>

datatype lifecycle_request = ReqTo SandboxState | ReqCAS SandboxState SandboxState

fun machine_request :: "lifecycle_request \<Rightarrow> SandboxState \<Rightarrow> lifecycle_error + SandboxState" where
  "machine_request (ReqTo to) cur = machine_To to cur"
| "machine_request (ReqCAS from to) cur = machine_CAS from to cur"

definition machine_next :: "SandboxState \<Rightarrow> lifecycle_request \<Rightarrow> SandboxState" where
  "machine_next cur r = (case machine_request r cur of Inl _ \<Rightarrow> cur | Inr new \<Rightarrow> new)"

definition machine_run :: "SandboxState \<Rightarrow> lifecycle_request list \<Rightarrow> SandboxState" where
  "machine_run s reqs = foldl machine_next s reqs"

lemma CAS_step: "machine_CAS from to cur = Inr new \<longleftrightarrow> cur = from \<and> lifecycle_step from to \<and> new = to"
  by (auto simp: machine_CAS_def Validate_step [symmetric] split: option.splits)

lemma next_cases: "machine_next cur r = cur \<or> lifecycle_step cur (machine_next cur r)"
  by (cases r) (auto simp: machine_next_def To_step CAS_step split: sum.splits)

lemma via: "t \<in> set (transitions s) \<Longrightarrow> lifecycle_step\<^sup>*\<^sup>* t u \<Longrightarrow> lifecycle_step\<^sup>*\<^sup>* s u"
  by (meson converse_rtranclp_into_rtranclp lifecycle_step.listed)

lemma stops: "lifecycle_step\<^sup>*\<^sup>* s STOPPED"
proof -
  have 1: "lifecycle_step\<^sup>*\<^sup>* STOPPING STOPPED" by (rule via [of STOPPED]) (simp_all add: transitions_def)
  have 2: "lifecycle_step\<^sup>*\<^sup>* RUNNING STOPPED" by (rule via [OF _ 1]) (simp add: transitions_def)
  have 3: "lifecycle_step\<^sup>*\<^sup>* STARTING STOPPED" by (rule via [OF _ 2]) (simp add: transitions_def)
  show ?thesis
    by (cases s) (simp_all add: 1 2 3 via [OF _ 1] via [OF _ 2] via [OF _ 3] transitions_def)
qed

lemma run_legal: "lifecycle_step\<^sup>*\<^sup>* s (machine_run s reqs)"
proof (induction reqs rule: rev_induct)
  case (snoc r reqs)
  then show ?case
    using next_cases [of "machine_run s reqs" r]
    by (auto simp: machine_run_def intro: rtranclp.rtrancl_into_rtrancl)
qed (simp add: machine_run_def)

section \<open>Properties\<close>

text \<open>C1: Whatever requests are made of a sandbox's machine, by \<open>To\<close> and by \<open>CAS\<close>, it only ever moves along
  legal edges and can still be driven to STOPPED.  \<open>To\<close> succeeds exactly on a legal edge; \<open>CAS\<close> exactly when
  the machine is still in the state the caller saw and the edge is legal, so that a watchdog that saw
  RUNNING cannot fail a sandbox that has moved on, although FAILED is legal from there; a request that is
  refused changes nothing and one that succeeds ends in the requested state.  STOPPED is the only state no
  edge leaves, and exactly the paused, archived and failed states can be resumed.\<close>

theorem lifecycle_sound:
  "lifecycle_step\<^sup>*\<^sup>* s (machine_run s reqs) \<and> lifecycle_step\<^sup>*\<^sup>* (machine_run s reqs) STOPPED \<and>
   (let cur = machine_run s reqs in
      machine_run s (reqs @ [ReqTo u]) = (if lifecycle_step cur u then u else cur) \<and>
      machine_run s (reqs @ [ReqCAS from u]) = (if cur = from \<and> lifecycle_step from u then u else cur) \<and>
      ((\<exists>e. machine_To u cur = Inl e) \<longleftrightarrow> \<not> lifecycle_step cur u) \<and>
      ((\<exists>e. machine_CAS from u cur = Inl e) \<longleftrightarrow> \<not> (cur = from \<and> lifecycle_step from u))) \<and>
   (Terminal t \<longleftrightarrow> (\<forall>u. Validate t u \<noteq> None)) \<and>
   (Validate t RESUMING = None \<longleftrightarrow> Paused t \<or> t = FAILED)"
proof -
  have "(Terminal t \<longleftrightarrow> (\<forall>u. Validate t u \<noteq> None))"
    by (cases t) (auto simp: Terminal_def Validate_def transitions_def activeStates_def)
  moreover have "Validate t RESUMING = None \<longleftrightarrow> Paused t \<or> t = FAILED"
    by (cases t) (auto simp: Paused_def Validate_def transitions_def activeStates_def)
  ultimately show ?thesis
    using run_legal stops
    by (auto simp: machine_run_def machine_next_def Let_def machine_To_def machine_CAS_def Validate_step [symmetric] split: option.splits)
qed

theorem lifecycle_sound_witness:
  "machine_run RUNNING [ReqTo PAUSING, ReqCAS RUNNING FAILED] = PAUSING \<and> machine_run RUNNING [ReqTo PAUSING, ReqTo FAILED] = FAILED"
proof -
  have "machine_run RUNNING [ReqTo PAUSING] = PAUSING" by code_simp
  moreover have "lifecycle_step PAUSING FAILED" by (rule lifecycle_step.fails) (simp add: activeStates_def)
  ultimately show ?thesis
    using lifecycle_sound [of RUNNING "[ReqTo PAUSING]" FAILED RUNNING] by (simp add: Let_def)
qed

end
