(* ===== verification/Hooks.thy ===== *)
theory Hooks
  imports Client Files Lifecycle
begin

text \<open>
  The query and mutation hooks (\<open>web/src/api/hooks.ts\<close>).  TanStack Query is not part of the
  repository: its client is a parameter, a record of the three operations the hooks call on a cache
  of an unspecified type; the locale \<open>query_cache\<close> states the documented behaviour the hooks rely on
  (a key reads back what was set last, other keys are untouched, invalidation leaves the data in
  place).  A query is its key, its request and its polling rule.
\<close>

section \<open>Queries\<close>

datatype key_part = KStr string | KNum int

type_synonym query_key = "key_part list"

record api_call =
  ac_method :: string
  ac_path :: string
  ac_body :: "json option"

definition call :: "string \<Rightarrow> string \<Rightarrow> json option \<Rightarrow> api_call" where
  "call method path body = \<lparr>ac_method = method, ac_path = path, ac_body = body\<rparr>"

record INTERVALS_t =
  iv_sandboxes :: int
  iv_sandboxTransit :: int
  iv_sandboxSettled :: int
  iv_nodes :: int
  iv_templates :: int
  iv_storage :: int
  iv_events :: int

definition INTERVALS :: INTERVALS_t where
  "INTERVALS = \<lparr>iv_sandboxes = 5000, iv_sandboxTransit = 2000, iv_sandboxSettled = 15000,
     iv_nodes = 10000, iv_templates = 10000, iv_storage = 10000, iv_events = 5000\<rparr>"

text \<open>\<open>/ING$|^PENDING$/\<close>.\<close>

definition TRANSIT_test :: "string \<Rightarrow> bool" where
  "TRANSIT_test st \<longleftrightarrow> js_endsWith st ''ING'' \<or> st = ''PENDING''"

definition SETTLED :: "string list" where
  "SETTLED = [''STOPPED'', ''RECYCLED'', ''FAILED'']"

record query =
  q_key :: query_key
  q_call :: api_call
  q_interval :: "int option"
  q_staleTime :: int
  q_enabled :: bool

text \<open>The options of the application's query client.\<close>

definition default_retry :: nat where
  "default_retry = 1"

definition default_staleTime :: int where
  "default_staleTime = 2000"

definition mk_query :: "query_key \<Rightarrow> string \<Rightarrow> int option \<Rightarrow> query" where
  "mk_query k path iv =
     \<lparr>q_key = k, q_call = call ''GET'' path None, q_interval = iv, q_staleTime = default_staleTime, q_enabled = True\<rparr>"

definition useSandboxes :: query where
  "useSandboxes = mk_query [KStr ''sandboxes''] ''/sandboxes'' (Some (iv_sandboxes INTERVALS))"

text \<open>The polling rule of one sandbox reads the state in the cache.\<close>

definition sandbox_interval :: "SandboxState option \<Rightarrow> int" where
  "sandbox_interval state =
     (let st = (case state of None \<Rightarrow> '''' | Some s \<Rightarrow> state_text s)
      in if TRANSIT_test st then iv_sandboxTransit INTERVALS
         else if st \<in> set SETTLED then iv_sandboxSettled INTERVALS
         else iv_sandboxes INTERVALS)"

definition useSandbox :: "string \<Rightarrow> SandboxState option \<Rightarrow> query" where
  "useSandbox sid cached =
     mk_query [KStr ''sandboxes'', KStr sid] (''/sandboxes/'' @ sid) (Some (sandbox_interval cached))"

definition useNodes :: query where
  "useNodes = mk_query [KStr ''nodes''] ''/nodes'' (Some (iv_nodes INTERVALS))"

definition useTemplates :: query where
  "useTemplates = mk_query [KStr ''templates''] ''/templates'' (Some (iv_templates INTERVALS))"

definition useCheckpoints :: "string \<Rightarrow> query" where
  "useCheckpoints sid =
     mk_query [KStr ''sandboxes'', KStr sid, KStr ''checkpoints''] (''/sandboxes/'' @ sid @ ''/checkpoints'') None"

definition useSandboxEvents :: "string \<Rightarrow> query" where
  "useSandboxEvents sid =
     mk_query [KStr ''sandboxes'', KStr sid, KStr ''events''] (''/sandboxes/'' @ sid @ ''/events'')
       (Some (iv_events INTERVALS))"

definition useFleetEvents :: "int \<Rightarrow> query" where
  "useFleetEvents limit =
     mk_query [KStr ''events'', KNum limit] (''/events?limit='' @ js_num limit) (Some (iv_events INTERVALS))"

definition useStorage :: "string \<Rightarrow> query" where
  "useStorage sid =
     mk_query [KStr ''sandboxes'', KStr sid, KStr ''storage''] (''/sandboxes/'' @ sid @ ''/storage'') None"

definition useStorageReport :: query where
  "useStorageReport = mk_query [KStr ''storage-report''] ''/storage-report'' (Some (iv_storage INTERVALS))"

definition useDirectory :: "string \<Rightarrow> string \<Rightarrow> bool \<Rightarrow> query" where
  "useDirectory sid path enabled =
     (mk_query [KStr ''sandboxes'', KStr sid, KStr ''dir'', KStr path]
        (''/sandboxes/'' @ sid @ ''/files?op=list&path='' @ encodeURIComponent path) None)
       \<lparr>q_staleTime := 10000, q_enabled := enabled\<rparr>"

section \<open>Mutations\<close>

text \<open>The data of the keys the mutations touch; what other queries cached stays opaque.\<close>

datatype query_data = DSandboxes "Sandbox list" | DSandbox Sandbox | DOther nat

record 'q query_client =
  qc_get :: "query_key \<Rightarrow> 'q \<Rightarrow> query_data option"
  qc_set :: "query_key \<Rightarrow> query_data \<Rightarrow> 'q \<Rightarrow> 'q"
  qc_invalidate :: "query_key \<Rightarrow> 'q \<Rightarrow> 'q"

text \<open>\<open>Partial<Sandbox>\<close>, with the fields the console patches.\<close>

record sandbox_patch =
  pa_state :: "SandboxState option"
  pa_memory_mib :: "int option"
  pa_vcpus :: "int option"
  pa_autoscale :: "bool option"

definition no_patch :: sandbox_patch where
  "no_patch = \<lparr>pa_state = None, pa_memory_mib = None, pa_vcpus = None, pa_autoscale = None\<rparr>"

definition apply_patch :: "sandbox_patch \<Rightarrow> Sandbox \<Rightarrow> Sandbox" where
  "apply_patch p sb =
     sb\<lparr>sb_state := nullish (pa_state p) (sb_state sb),
        sb_memory_mib := nullish (pa_memory_mib p) (sb_memory_mib sb),
        sb_vcpus := nullish (pa_vcpus p) (sb_vcpus sb),
        sb_autoscale := (case pa_autoscale p of None \<Rightarrow> sb_autoscale sb | Some b \<Rightarrow> Some b)\<rparr>"

record action_opts =
  ao_sandboxId :: "string option"
  ao_optimistic :: "(Sandbox \<Rightarrow> sandbox_patch) option"

record mutate_ctx =
  cx_prevOne :: "Sandbox option"
  cx_prevList :: "Sandbox list option"

definition one_key :: "string \<Rightarrow> query_key" where
  "one_key sid = [KStr ''sandboxes'', KStr sid]"

definition list_key :: query_key where
  "list_key = [KStr ''sandboxes'']"

definition get_one :: "'q query_client \<Rightarrow> string \<Rightarrow> 'q \<Rightarrow> Sandbox option" where
  "get_one Q sid q = (case qc_get Q (one_key sid) q of Some (DSandbox sb) \<Rightarrow> Some sb | _ \<Rightarrow> None)"

definition get_list :: "'q query_client \<Rightarrow> 'q \<Rightarrow> Sandbox list option" where
  "get_list Q q = (case qc_get Q list_key q of Some (DSandboxes sbs) \<Rightarrow> Some sbs | _ \<Rightarrow> None)"

definition action_onMutate :: "'q query_client \<Rightarrow> action_opts \<Rightarrow> 'q \<Rightarrow> mutate_ctx \<times> 'q" where
  "action_onMutate Q opts q =
     (case (ao_sandboxId opts, ao_optimistic opts) of
        (Some sid, Some optimistic) \<Rightarrow>
          if sid = [] then (\<lparr>cx_prevOne = None, cx_prevList = None\<rparr>, q)
          else
            let prevOne = get_one Q sid q; prevList = get_list Q q;
                patch = (\<lambda>sb. apply_patch (optimistic sb) sb);
                q1 = (case prevOne of None \<Rightarrow> q | Some sb \<Rightarrow> qc_set Q (one_key sid) (DSandbox (patch sb)) q);
                q2 = (case prevList of None \<Rightarrow> q1
                      | Some sbs \<Rightarrow> qc_set Q list_key
                          (DSandboxes (map (\<lambda>sb. if sb_id sb = sid then patch sb else sb) sbs)) q1)
            in (\<lparr>cx_prevOne = prevOne, cx_prevList = prevList\<rparr>, q2)
      | _ \<Rightarrow> (\<lparr>cx_prevOne = None, cx_prevList = None\<rparr>, q))"

definition action_onError :: "'q query_client \<Rightarrow> action_opts \<Rightarrow> mutate_ctx \<Rightarrow> 'q \<Rightarrow> 'q" where
  "action_onError Q opts ctx q =
     (let q1 = (case (ao_sandboxId opts, cx_prevOne ctx) of
                  (Some sid, Some sb) \<Rightarrow> if sid = [] then q else qc_set Q (one_key sid) (DSandbox sb) q
                | _ \<Rightarrow> q)
      in case cx_prevList ctx of None \<Rightarrow> q1 | Some sbs \<Rightarrow> qc_set Q list_key (DSandboxes sbs) q1)"

definition action_onSettled :: "'q query_client \<Rightarrow> 'q \<Rightarrow> 'q" where
  "action_onSettled Q q = qc_invalidate Q [KStr ''nodes''] (qc_invalidate Q list_key q)"

text \<open>A mutation from its start to its end, with no other write to the cache in between; the outcome
  is the one of the request.\<close>

definition useSandboxAction ::
  "'q query_client \<Rightarrow> action_opts \<Rightarrow> js_error + 'b \<Rightarrow> 'q \<Rightarrow> 'q" where
  "useSandboxAction Q opts outcome q =
     (let (ctx, q1) = action_onMutate Q opts q
      in case outcome of
           Inl err \<Rightarrow> action_onSettled Q (action_onError Q opts ctx q1)
         | Inr out \<Rightarrow> action_onSettled Q q1)"

section \<open>Verbs\<close>

record ExecOptions =
  eo_env :: "string list option"
  eo_cwd :: "string option"
  eo_timeout_s :: "int option"
  eo_checkpoint :: "bool option"

definition sandbox_path :: "string \<Rightarrow> string \<Rightarrow> string" where
  "sandbox_path sid rest = ''/sandboxes/'' @ sid @ rest"

definition verb_pause :: "string \<Rightarrow> api_call" where
  "verb_pause sid = call ''POST'' (sandbox_path sid ''/pause'') None"

definition verb_resume :: "string \<Rightarrow> api_call" where
  "verb_resume sid = call ''POST'' (sandbox_path sid ''/resume'') None"

definition verb_kill :: "string \<Rightarrow> api_call" where
  "verb_kill sid = call ''DELETE'' (sandbox_path sid []) None"

definition verb_snapshot :: "string \<Rightarrow> string \<Rightarrow> api_call" where
  "verb_snapshot sid tag = call ''POST'' (sandbox_path sid ''/snapshot'') (Some (JObj [(''tag'', JStr tag)]))"

text \<open>\<open>JSON.stringify\<close> leaves out members that are \<open>undefined\<close>.\<close>

definition member :: "string \<Rightarrow> ('b \<Rightarrow> json) \<Rightarrow> 'b option \<Rightarrow> (string \<times> json) list" where
  "member k f v = (case v of None \<Rightarrow> [] | Some x \<Rightarrow> [(k, f x)])"

definition verb_resize :: "string \<Rightarrow> int option \<Rightarrow> int option \<Rightarrow> api_call" where
  "verb_resize sid memory_mib vcpus =
     call ''POST'' (sandbox_path sid ''/resize'')
       (Some (JObj (member ''memory_mib'' JNum memory_mib @ member ''vcpus'' JNum vcpus)))"

definition verb_setAutoscale :: "string \<Rightarrow> bool \<Rightarrow> api_call" where
  "verb_setAutoscale sid on =
     call ''POST'' (sandbox_path sid ''/autoscale'') (Some (JObj [(''autoscale'', JBool on)]))"

definition verb_migrate :: "string \<Rightarrow> string option \<Rightarrow> api_call" where
  "verb_migrate sid nodeID =
     call ''POST'' (sandbox_path sid ''/migrate'')
       (Some (JObj (if truthy_str nodeID then [(''node_id'', JStr (the nodeID))] else [])))"

definition verb_checkpoint :: "string \<Rightarrow> string option \<Rightarrow> api_call" where
  "verb_checkpoint sid tag =
     call ''POST'' (sandbox_path sid ''/checkpoints'')
       (Some (JObj (if truthy_str tag then [(''tag'', JStr (the tag))] else [])))"

definition verb_fork :: "string \<Rightarrow> string option \<Rightarrow> api_call" where
  "verb_fork sid checkpoint =
     call ''POST'' (sandbox_path sid ''/fork'')
       (Some (JObj (if truthy_str checkpoint then [(''checkpoint'', JStr (the checkpoint))] else [])))"

definition verb_rollback :: "string \<Rightarrow> string \<Rightarrow> api_call" where
  "verb_rollback sid checkpoint =
     call ''POST'' (sandbox_path sid ''/rollback'') (Some (JObj [(''checkpoint'', JStr checkpoint)]))"

definition verb_exec :: "string \<Rightarrow> string \<Rightarrow> string list \<Rightarrow> ExecOptions \<Rightarrow> api_call" where
  "verb_exec sid cmd args opts =
     call ''POST'' (sandbox_path sid ''/exec'')
       (Some (JObj ([(''cmd'', JStr cmd), (''args'', JArr (map JStr args))] @
          member ''env'' (\<lambda>es. JArr (map JStr es)) (eo_env opts) @ member ''cwd'' JStr (eo_cwd opts) @
          member ''timeout_s'' JNum (eo_timeout_s opts) @ member ''checkpoint'' JBool (eo_checkpoint opts))))"

definition verb_restoreArtifacts :: "string \<Rightarrow> api_call" where
  "verb_restoreArtifacts sid = call ''POST'' (sandbox_path sid ''/restore-artifacts'') None"

definition egress_text :: "Egress \<Rightarrow> string" where
  "egress_text e = (case e of Nat \<Rightarrow> ''nat'' | NoEgress \<Rightarrow> ''none'')"

definition create_json :: "CreateSandboxRequest \<Rightarrow> json" where
  "create_json b =
     JObj ([(''template_id'', JStr (cr_template_id b))] @ member ''vcpus'' JNum (cr_vcpus b) @
       member ''memory_mib'' JNum (cr_memory_mib b) @ member ''data_disk_gib'' JNum (cr_data_disk_gib b) @
       member ''max_memory_mib'' JNum (cr_max_memory_mib b) @ member ''max_vcpus'' JNum (cr_max_vcpus b) @
       member ''autoscale'' JBool (cr_autoscale b) @
       member ''egress'' (\<lambda>e. JStr (egress_text e)) (cr_egress b))"

definition verb_createSandbox :: "CreateSandboxRequest \<Rightarrow> api_call" where
  "verb_createSandbox body = call ''POST'' ''/sandboxes'' (Some (create_json body))"

definition verb_createTemplate :: "string \<Rightarrow> string \<Rightarrow> api_call" where
  "verb_createTemplate name img =
     call ''POST'' ''/templates'' (Some (JObj [(''name'', JStr name), (''image'', JStr img)]))"

definition verb_deleteTemplate :: "string \<Rightarrow> api_call" where
  "verb_deleteTemplate tid = call ''DELETE'' (''/templates/'' @ tid) None"

section \<open>The cache's contract and the optimistic update\<close>

locale query_cache =
  fixes Q :: "'q query_client"
  assumes get_set: "qc_get Q k (qc_set Q k' d q) = (if k = k' then Some d else qc_get Q k q)"
    and get_invalidate: "qc_get Q k (qc_invalidate Q k' q) = qc_get Q k q"
begin

lemma keys_differ: "one_key sid \<noteq> list_key"
  by (simp add: one_key_def list_key_def)

lemma settled_get: "qc_get Q k (action_onSettled Q q) = qc_get Q k q"
  by (simp add: action_onSettled_def get_invalidate)

lemma mutate_other: "k \<noteq> list_key \<Longrightarrow> (\<And>sid. ao_sandboxId opts = Some sid \<Longrightarrow> k \<noteq> one_key sid) \<Longrightarrow>
  qc_get Q k (snd (action_onMutate Q opts q)) = qc_get Q k q"
  by (auto simp: action_onMutate_def Let_def get_set split: option.splits)

lemma rollback:
  "qc_get Q k (action_onError Q opts (fst (action_onMutate Q opts q)) (snd (action_onMutate Q opts q))) =
   qc_get Q k q"
proof (cases "\<exists>sid f. ao_sandboxId opts = Some sid \<and> ao_optimistic opts = Some f \<and> sid \<noteq> []")
  case True
  then obtain sid f where o: "ao_sandboxId opts = Some sid" "ao_optimistic opts = Some f" "sid \<noteq> []" by blast
  have one: "get_one Q sid q = Some sb \<Longrightarrow> qc_get Q (one_key sid) q = Some (DSandbox sb)" for sb
    by (auto simp: get_one_def split: option.splits query_data.splits)
  have lst: "get_list Q q = Some sbs \<Longrightarrow> qc_get Q list_key q = Some (DSandboxes sbs)" for sbs
    by (auto simp: get_list_def split: option.splits query_data.splits)
  show ?thesis using o one lst
    by (auto simp: action_onMutate_def action_onError_def Let_def get_set split: option.splits)
next
  case False
  then have "action_onMutate Q opts q = (\<lparr>cx_prevOne = None, cx_prevList = None\<rparr>, q)"
    by (auto simp: action_onMutate_def split: option.splits)
  then show ?thesis by (simp add: action_onError_def split: option.splits)
qed

lemma failed_action: "qc_get Q k (useSandboxAction Q opts (Inl err) q) = qc_get Q k q"
  using rollback [of k opts q] by (simp add: useSandboxAction_def case_prod_unfold settled_get Let_def)

lemma optimistic_one:
  assumes "ao_sandboxId opts = Some sid" and "sid \<noteq> []" and "ao_optimistic opts = Some f"
    and "get_one Q sid q = Some sb"
  shows "get_one Q sid (snd (action_onMutate Q opts q)) = Some (apply_patch (f sb) sb)"
  using assms keys_differ [of sid]
  by (auto simp: action_onMutate_def Let_def get_one_def get_set split: option.splits)

lemma optimistic_list:
  assumes "ao_sandboxId opts = Some sid" and "sid \<noteq> []" and "ao_optimistic opts = Some f"
    and "get_list Q q = Some sbs"
  shows "get_list Q (snd (action_onMutate Q opts q)) =
    Some (map (\<lambda>sb. if sb_id sb = sid then apply_patch (f sb) sb else sb) sbs)"
  using assms by (auto simp: action_onMutate_def Let_def get_list_def get_set split: option.splits)

end

text \<open>The contract is satisfiable: the cache as a map from keys to data together with the list of
  invalidated prefixes.\<close>

definition map_client :: "((query_key \<rightharpoonup> query_data) \<times> query_key list) query_client" where
  "map_client =
     \<lparr>qc_get = (\<lambda>k (m, inv). m k), qc_set = (\<lambda>k d (m, inv). (m(k \<mapsto> d), inv)),
      qc_invalidate = (\<lambda>k (m, inv). (m, inv @ [k]))\<rparr>"

interpretation map_cache: query_cache map_client
  by unfold_locales (auto simp: map_client_def)

section \<open>Properties\<close>

text \<open>C3: An action on a sandbox that fails leaves no trace of its optimistic patch: whatever the patch
  and whatever was cached, every key of the cache reads back what it held before.  While the request
  runs, the detail and the row of that sandbox, and nothing else, show the patched values.\<close>

theorem optimistic_rollback:
  assumes "query_cache Q"
  shows "qc_get Q k (useSandboxAction Q opts (Inl err) q) = qc_get Q k q \<and>
    (ao_sandboxId opts = Some sid \<longrightarrow> sid \<noteq> [] \<longrightarrow> ao_optimistic opts = Some f \<longrightarrow>
       (get_one Q sid q = Some sb \<longrightarrow>
          get_one Q sid (snd (action_onMutate Q opts q)) = Some (apply_patch (f sb) sb)) \<and>
       (get_list Q q = Some sbs \<longrightarrow>
          get_list Q (snd (action_onMutate Q opts q)) =
            Some (map (\<lambda>sb. if sb_id sb = sid then apply_patch (f sb) sb else sb) sbs)) \<and>
       (k \<noteq> list_key \<longrightarrow> k \<noteq> one_key sid \<longrightarrow>
          qc_get Q k (snd (action_onMutate Q opts q)) = qc_get Q k q))"
proof (intro conjI impI)
  show "qc_get Q k (useSandboxAction Q opts (Inl err) q) = qc_get Q k q"
    by (rule query_cache.failed_action [OF assms])
next
  assume o: "ao_sandboxId opts = Some sid" "sid \<noteq> []" "ao_optimistic opts = Some f"
  show "get_one Q sid q = Some sb \<Longrightarrow>
      get_one Q sid (snd (action_onMutate Q opts q)) = Some (apply_patch (f sb) sb)"
    by (rule query_cache.optimistic_one [OF assms o])
  show "get_list Q q = Some sbs \<Longrightarrow> get_list Q (snd (action_onMutate Q opts q)) =
      Some (map (\<lambda>sb. if sb_id sb = sid then apply_patch (f sb) sb else sb) sbs)"
    by (rule query_cache.optimistic_list [OF assms o])
  show "k \<noteq> list_key \<Longrightarrow> k \<noteq> one_key sid \<Longrightarrow> qc_get Q k (snd (action_onMutate Q opts q)) = qc_get Q k q"
    using o by (intro query_cache.mutate_other [OF assms]) auto
qed

theorem optimistic_rollback_witness:
  "qc_get map_client list_key (useSandboxAction map_client
      \<lparr>ao_sandboxId = Some ''a'', ao_optimistic = Some (\<lambda>sb. no_patch\<lparr>pa_state := Some PAUSING\<rparr>)\<rparr>
      (Inl (ApiError 409 ''busy'') :: js_error + unit) ([list_key \<mapsto> DSandboxes []], [])) = Some (DSandboxes [])"
proof -
  have "qc_get map_client list_key ([list_key \<mapsto> DSandboxes []], []) = Some (DSandboxes [])"
    by (simp add: map_client_def)
  then show ?thesis
    using optimistic_rollback [OF map_cache.query_cache_axioms, THEN conjunct1] by metis
qed

text \<open>The polling rule of one sandbox: 15 s for stopped, recycled and failed ones, 5 s for the
  paused and archived ones and before the first answer, 2 s for every other state.  The last group
  includes \<open>RUNNING\<close>, whose name ends like those of the transitional states.\<close>

theorem sandbox_interval_table:
  "sandbox_interval state =
     (case state of
        None \<Rightarrow> 5000
      | Some s \<Rightarrow> if s \<in> {STOPPED, RECYCLED, FAILED} then 15000
                  else if s \<in> {PAUSED_HOT, PAUSED_WARM, ARCHIVED_COLD} then 5000 else 2000) \<and>
   sandbox_interval (Some RUNNING) = iv_sandboxTransit INTERVALS"
proof -
  have "sandbox_interval (Some s) = (if s \<in> {STOPPED, RECYCLED, FAILED} then 15000
                  else if s \<in> {PAUSED_HOT, PAUSED_WARM, ARCHIVED_COLD} then 5000 else 2000)" for s
    by (cases s) (simp_all add: sandbox_interval_def TRANSIT_test_def js_endsWith_def SETTLED_def INTERVALS_def)
  moreover have "sandbox_interval None = 5000"
    by (simp add: sandbox_interval_def TRANSIT_test_def js_endsWith_def SETTLED_def INTERVALS_def)
  ultimately show ?thesis by (simp add: INTERVALS_def split: option.splits)
qed

end
