(* ===== verification/Dom.thy ===== *)
theory Dom
  imports I18n
begin

text \<open>
  What a component renders: a tree of elements with their attributes, the handlers as values of an
  action type.  Class names and styles that only lay out the page are left out; attributes that carry
  state (text, \<open>disabled\<close>, \<open>checked\<close>, \<open>aria-*\<close>, \<open>role\<close>, widths computed from data) are kept.
  \<open>cond \&\& node\<close> is \<open>shown cond [node]\<close>.  The handlers a user can reach are those of elements that
  are not disabled.
\<close>

text \<open>\<open>Pct\<close> is a length in percent computed from data; \<open>None\<close> is \<open>NaN\<close>.\<close>

datatype 'a attr = Attr string string | Flag string bool | Pct string "rat option" | Num string int | On string 'a

datatype 'a vnode = Txt string | El string "'a attr list" "'a vnode list"

definition shown :: "bool \<Rightarrow> 'b list \<Rightarrow> 'b list" where
  "shown c ns = (if c then ns else [])"

definition shown_opt :: "'a option \<Rightarrow> ('a \<Rightarrow> 'b list) \<Rightarrow> 'b list" where
  "shown_opt x f = (case x of None \<Rightarrow> [] | Some v \<Rightarrow> f v)"

text \<open>JavaScript division and the extrema that pass \<open>NaN\<close> on.  Infinite quotients do not occur in
  the source: wherever it may divide by 0 the dividend is 0 too.\<close>

definition js_ratio :: "int \<Rightarrow> int \<Rightarrow> rat option" where
  "js_ratio a b = (if b = 0 then None else Some (of_int a / of_int b))"

definition js_scale :: "rat \<Rightarrow> rat option \<Rightarrow> rat option" where
  "js_scale k x = map_option (\<lambda>r. r * k) x"

definition js_min :: "rat \<Rightarrow> rat option \<Rightarrow> rat option" where
  "js_min k x = map_option (min k) x"

definition js_max :: "rat \<Rightarrow> rat option \<Rightarrow> rat option" where
  "js_max k x = map_option (max k) x"

text \<open>The lengths in a tree.\<close>

fun pcts_of :: "'a vnode \<Rightarrow> (string \<times> rat option) list" where
  "pcts_of (Txt s) = []"
| "pcts_of (El tag attrs ns) =
     concat (map (\<lambda>a. case a of Pct k r \<Rightarrow> [(k, r)] | _ \<Rightarrow> []) attrs) @ concat (map pcts_of ns)"

text \<open>The text of a tree, in document order.\<close>

fun text_of :: "'a vnode \<Rightarrow> string" where
  "text_of (Txt s) = s"
| "text_of (El tag attrs ns) = concat (map text_of ns)"

text \<open>All nodes of a tree, in document order.\<close>

fun nodes_of :: "'a vnode \<Rightarrow> 'a vnode list" where
  "nodes_of (Txt s) = [Txt s]"
| "nodes_of (El tag attrs ns) = El tag attrs ns # concat (map nodes_of ns)"

text \<open>The actions a click, change or submit can trigger.\<close>

definition attr_actions :: "'a attr list \<Rightarrow> (string \<times> 'a) list" where
  "attr_actions attrs =
     (if Flag ''disabled'' True \<in> set attrs then []
      else concat (map (\<lambda>a. case a of On e h \<Rightarrow> [(e, h)] | _ \<Rightarrow> []) attrs))"

fun enabled_actions :: "'a vnode \<Rightarrow> (string \<times> 'a) list" where
  "enabled_actions (Txt s) = []"
| "enabled_actions (El tag attrs ns) = attr_actions attrs @ concat (map enabled_actions ns)"

definition enabled_of :: "'a vnode list \<Rightarrow> (string \<times> 'a) list" where
  "enabled_of ns = concat (map enabled_actions ns)"

fun map_actions :: "('a \<Rightarrow> 'b) \<Rightarrow> 'a vnode \<Rightarrow> 'b vnode" where
  "map_actions f (Txt s) = Txt s"
| "map_actions f (El tag attrs ns) =
     El tag (map (\<lambda>a. case a of Attr k v \<Rightarrow> Attr k v | Flag k b \<Rightarrow> Flag k b | Pct k r \<Rightarrow> Pct k r | Num k n \<Rightarrow> Num k n | On e h \<Rightarrow> On e (f h)) attrs)
       (map (map_actions f) ns)"

fun tags_of :: "'a vnode \<Rightarrow> string list" where
  "tags_of (Txt s) = []"
| "tags_of (El tag attrs ns) = tag # concat (map tags_of ns)"

lemma shown_simps [simp]: "shown True ns = ns" "shown False ns = []"
  by (simp_all add: shown_def)

lemma shown_opt_simps [simp]: "shown_opt None f = []" "shown_opt (Some v) f = f v"
  by (simp_all add: shown_opt_def)

lemma enabled_of_simps [simp]:
  "enabled_of [] = []" "enabled_of (n # ns) = enabled_actions n @ enabled_of ns"
  "enabled_of (ns @ ms) = enabled_of ns @ enabled_of ms"
  by (simp_all add: enabled_of_def)

lemma enabled_shown [simp]: "enabled_of (shown c ns) = (if c then enabled_of ns else [])"
  by (simp add: shown_def)

lemma enabled_El [simp]: "enabled_actions (El tag attrs ns) = attr_actions attrs @ enabled_of ns"
  by (simp add: enabled_of_def)

declare enabled_actions.simps(2) [simp del]

lemma enabled_map: "set (enabled_of (map f xs)) = (\<Union>x \<in> set xs. set (enabled_actions (f x)))"
  by (auto simp: enabled_of_def)

text \<open>A disabled element offers nothing, whatever handlers it carries.\<close>

lemma disabled_no_action [simp]: "Flag ''disabled'' True \<in> set attrs \<Longrightarrow> attr_actions attrs = []"
  by (simp add: attr_actions_def)

end
