(* ===== verification/Icons.thy ===== *)
theory Icons
  imports Dom
begin

text \<open>
  The icons of the console (\<open>web/src/components/icons.tsx\<close>): what each of them draws, as data, and the
  path language of SVG as far as the drawings use it, to say where they draw.
\<close>

section \<open>The drawings\<close>

text \<open>An element of a drawing: its tag and its attributes.\<close>

type_synonym drawing = "(string \<times> (string \<times> string) list) list"

definition svg_draw :: "string \<times> (string \<times> string) list \<Rightarrow> 'a vnode" where
  "svg_draw e = El (fst e) (map (\<lambda>(k, v). Attr k v) (snd e)) []"

definition svg_path :: "string \<Rightarrow> string \<times> (string \<times> string) list" where
  "svg_path d = (''path'', [(''d'', d)])"

definition svg_dot :: "string \<Rightarrow> string \<Rightarrow> string \<times> (string \<times> string) list" where
  "svg_dot d w = (''path'', [(''d'', d), (''strokeWidth'', w)])"

definition svg_circle :: "string \<Rightarrow> string \<Rightarrow> string \<Rightarrow> string \<times> (string \<times> string) list" where
  "svg_circle cx cy r = (''circle'', [(''cx'', cx), (''cy'', cy), (''r'', r)])"

definition svg_rect :: "string \<Rightarrow> string \<Rightarrow> string \<Rightarrow> string \<Rightarrow> string \<Rightarrow> string \<times> (string \<times> string) list" where
  "svg_rect x y w h rx = (''rect'', [(''x'', x), (''y'', y), (''width'', w), (''height'', h), (''rx'', rx)])"

definition IconPlay :: drawing where
  "IconPlay =
     [svg_path ''M4.5 2.8 12.6 8l-8.1 5.2z'']"

definition IconPause :: drawing where
  "IconPause =
     [svg_path ''M5.5 3v10'',
      svg_path ''M10.5 3v10'']"

definition IconCamera :: drawing where
  "IconCamera =
     [svg_rect ''1.8'' ''4.5'' ''12.4'' ''8.7'' ''1.5'',
      svg_path ''M5.5 4.5 6.6 2.6h2.8l1.1 1.9'',
      svg_circle ''8'' ''8.7'' ''2.3'']"

definition IconBranch :: drawing where
  "IconBranch =
     [svg_circle ''4.5'' ''3.5'' ''1.7'',
      svg_circle ''4.5'' ''12.5'' ''1.7'',
      svg_circle ''11.5'' ''6'' ''1.7'',
      svg_path ''M4.5 5.2v5.6'',
      svg_path ''M11.5 7.7c0 2.6-4 2.2-5.4 3.6'']"

definition IconUndo :: drawing where
  "IconUndo =
     [svg_path ''M2.8 6.5h7a3.7 3.7 0 0 1 0 7.4H6'',
      svg_path ''m5.6 3.7-2.8 2.8 2.8 2.8'']"

definition IconTerminal :: drawing where
  "IconTerminal =
     [svg_rect ''1.8'' ''2.8'' ''12.4'' ''10.4'' ''1.5'',
      svg_path ''m4.5 6 2.2 2-2.2 2'',
      svg_path ''M8.5 10.2h3'']"

definition IconFolder :: drawing where
  "IconFolder =
     [svg_path ''M1.8 4.2c0-.8.6-1.4 1.4-1.4h3l1.5 1.7h5.1c.8 0 1.4.6 1.4 1.4v6.4c0 .8-.6 1.4-1.4 1.4H3.2c-.8 0-1.4-.6-1.4-1.4z'']"

definition IconFolderOpen :: drawing where
  "IconFolderOpen =
     [svg_path ''M1.8 4.2c0-.8.6-1.4 1.4-1.4h3l1.5 1.7h4.6c.8 0 1.4.6 1.4 1.4v.8'',
      svg_path ''M3.4 13.7h8.9c.6 0 1.2-.4 1.4-1l1.3-4.2c.2-.7-.3-1.4-1-1.4H4.7c-.6 0-1.2.4-1.4 1l-1.5 4.7c.1.5.6.9 1.6.9z'']"

definition IconFile :: drawing where
  "IconFile =
     [svg_path ''M3.5 2.8c0-.6.4-1 1-1H9l3.5 3.5v7.9c0 .6-.4 1-1 1h-7c-.6 0-1-.4-1-1z'',
      svg_path ''M9 1.8v3.7h3.5'']"

definition IconGlobe :: drawing where
  "IconGlobe =
     [svg_circle ''8'' ''8'' ''6.2'',
      svg_path ''M1.8 8h12.4'',
      svg_path ''M8 1.8c1.8 1.7 2.7 3.9 2.7 6.2S9.8 12.5 8 14.2C6.2 12.5 5.3 10.3 5.3 8S6.2 3.5 8 1.8z'']"

definition IconGauge :: drawing where
  "IconGauge =
     [svg_path ''M2 11.8a6.5 6.5 0 1 1 12 0'',
      svg_path ''M8 9.8 11 5.6'',
      (''circle'', [(''cx'', ''8''), (''cy'', ''10.5''), (''r'', ''1''), (''fill'', ''currentColor''), (''stroke'', ''none'')])]"

definition IconClock :: drawing where
  "IconClock =
     [svg_circle ''8'' ''8'' ''6.2'',
      svg_path ''M8 4.5V8l2.4 1.6'']"

definition IconNode :: drawing where
  "IconNode =
     [svg_rect ''2'' ''2.5'' ''12'' ''4.6'' ''1.2'',
      svg_rect ''2'' ''8.9'' ''12'' ''4.6'' ''1.2'',
      svg_dot ''M4.4 4.8h.01M4.4 11.2h.01'' ''2'']"

definition IconTrash :: drawing where
  "IconTrash =
     [svg_path ''M2.5 4.2h11'',
      svg_path ''M5.5 4.2V3c0-.6.4-1 1-1h3c.6 0 1 .4 1 1v1.2'',
      svg_path ''M4 4.2l.7 9c0 .6.5 1 1 1h4.6c.5 0 1-.4 1-1l.7-9'']"

definition IconCopy :: drawing where
  "IconCopy =
     [svg_rect ''5.5'' ''5.5'' ''8'' ''8'' ''1.2'',
      svg_path ''M10.5 5.5V3.7c0-.7-.5-1.2-1.2-1.2H3.7c-.7 0-1.2.5-1.2 1.2v5.6c0 .7.5 1.2 1.2 1.2h1.8'']"

definition IconExternal :: drawing where
  "IconExternal =
     [svg_path ''M12.8 8.7v4c0 .6-.4 1-1 1H3.2c-.6 0-1-.4-1-1V4.2c0-.6.4-1 1-1h4'',
      svg_path ''M9.8 2.2h4v4'',
      svg_path ''M13.6 2.4 7.7 8.3'']"

definition IconPlus :: drawing where
  "IconPlus =
     [svg_path ''M8 3v10M3 8h10'']"

definition IconClose :: drawing where
  "IconClose =
     [svg_path ''m3.8 3.8 8.4 8.4M12.2 3.8l-8.4 8.4'']"

definition IconRefresh :: drawing where
  "IconRefresh =
     [svg_path ''M13.6 6.6A6 6 0 0 0 3.4 4.4L2 6'',
      svg_path ''M2 2.5V6h3.5'',
      svg_path ''M2.4 9.4a6 6 0 0 0 10.2 2.2l1.4-1.6'',
      svg_path ''M14 13.5V10h-3.5'']"

definition IconChevronRight :: drawing where
  "IconChevronRight =
     [svg_path ''m6 3.5 4.5 4.5L6 12.5'']"

definition IconChevronDown :: drawing where
  "IconChevronDown =
     [svg_path ''m3.5 6 4.5 4.5L12.5 6'']"

definition IconDots :: drawing where
  "IconDots =
     [svg_dot ''M3.2 8h.01M8 8h.01M12.8 8h.01'' ''2.4'']"

definition IconUpload :: drawing where
  "IconUpload =
     [svg_path ''M8 10.5v-8'',
      svg_path ''m4.8 5.4 3.2-3.2 3.2 3.2'',
      svg_path ''M2.5 13.5h11'']"

definition IconDownload :: drawing where
  "IconDownload =
     [svg_path ''M8 2.5v8'',
      svg_path ''m4.8 7.4 3.2 3.2 3.2-3.2'',
      svg_path ''M2.5 13.5h11'']"

definition IconArrowRight :: drawing where
  "IconArrowRight =
     [svg_path ''M2.5 8h11'',
      svg_path ''m9.5 4 4 4-4 4'']"

definition IconWarn :: drawing where
  "IconWarn =
     [svg_path ''M8 2.2 14.6 13c.3.5 0 1.2-.7 1.2H2.1c-.7 0-1-.7-.7-1.2z'',
      svg_path ''M8 6.2v3.4'',
      svg_dot ''M8 12h.01'' ''2'']"

definition IconCheck :: drawing where
  "IconCheck =
     [svg_path ''m2.8 8.6 3.4 3.4 7-7.4'']"

definition IconInfo :: drawing where
  "IconInfo =
     [svg_circle ''8'' ''8'' ''6.2'',
      svg_path ''M8 7.4v3.4'',
      svg_dot ''M8 4.8h.01'' ''2'']"

text \<open>The icons by the names they are exported with.\<close>

definition ICONS :: "(string \<times> drawing) list" where
  "ICONS =
     [(''IconPlay'', IconPlay), (''IconPause'', IconPause), (''IconCamera'', IconCamera),
      (''IconBranch'', IconBranch), (''IconUndo'', IconUndo), (''IconTerminal'', IconTerminal),
      (''IconFolder'', IconFolder), (''IconFolderOpen'', IconFolderOpen), (''IconFile'', IconFile),
      (''IconGlobe'', IconGlobe), (''IconGauge'', IconGauge), (''IconClock'', IconClock),
      (''IconNode'', IconNode), (''IconTrash'', IconTrash), (''IconCopy'', IconCopy),
      (''IconExternal'', IconExternal), (''IconPlus'', IconPlus), (''IconClose'', IconClose),
      (''IconRefresh'', IconRefresh), (''IconChevronRight'', IconChevronRight), (''IconChevronDown'', IconChevronDown),
      (''IconDots'', IconDots), (''IconUpload'', IconUpload), (''IconDownload'', IconDownload),
      (''IconArrowRight'', IconArrowRight), (''IconWarn'', IconWarn), (''IconCheck'', IconCheck),
      (''IconInfo'', IconInfo)]"

lemmas icon_defs =
  IconPlay_def IconPause_def IconCamera_def IconBranch_def IconUndo_def IconTerminal_def
  IconFolder_def IconFolderOpen_def IconFile_def IconGlobe_def IconGauge_def IconClock_def
  IconNode_def IconTrash_def IconCopy_def IconExternal_def IconPlus_def IconClose_def
  IconRefresh_def IconChevronRight_def IconChevronDown_def IconDots_def IconUpload_def IconDownload_def
  IconArrowRight_def IconWarn_def IconCheck_def IconInfo_def

definition drawing_of :: "string \<Rightarrow> drawing" where
  "drawing_of name = (case map_of ICONS name of None \<Rightarrow> [] | Some d \<Rightarrow> d)"

lemma draw_views [simp]:
  "enabled_actions (svg_draw e) = []" "text_of (svg_draw e) = []" "pcts_of (svg_draw e) = []"
proof -
  have "attr_actions (map (\<lambda>(k, v). Attr k v) kvs) = []" for kvs :: "(string \<times> string) list"
    by (auto simp: attr_actions_def)
  then show "enabled_actions (svg_draw e) = []" by (simp add: svg_draw_def)
  show "text_of (svg_draw e) = []" by (simp add: svg_draw_def)
  show "pcts_of (svg_draw e) = []" by (auto simp: svg_draw_def)
qed

lemma tags_draw: "tags_of (svg_draw e) = [fst e]"
  by (simp add: svg_draw_def)

section \<open>Where a path goes\<close>

text \<open>Numbers in hundredths.  Path data is commands and numbers: a sign, a second point or a letter ends a
  number without white space.\<close>

datatype svg_token = SvgCmd char | SvgVal int

datatype number_state = NoNumber | InNumber bool int "nat option"

fun svg_flush :: "number_state \<Rightarrow> svg_token list" where
  "svg_flush NoNumber = []"
| "svg_flush (InNumber neg m f) =
     (let v = m * 10 ^ (2 - (case f of None \<Rightarrow> 0 | Some k \<Rightarrow> k)) in [SvgVal (if neg then - v else v)])"

definition digit_of :: "char \<Rightarrow> int option" where
  "digit_of c = map_of (zip ''0123456789'' [0, 1, 2, 3, 4, 5, 6, 7, 8, 9]) c"

fun feed_char :: "number_state \<Rightarrow> char \<Rightarrow> svg_token list \<times> number_state" where
  "feed_char st c = (case digit_of c of
     Some d \<Rightarrow> (case st of
         NoNumber \<Rightarrow> ([], InNumber False d None)
       | InNumber neg m f \<Rightarrow> ([], InNumber neg (10 * m + d) (map_option Suc f)))
   | None \<Rightarrow>
       if c = CHR ''.'' then
         (case st of
            InNumber neg m None \<Rightarrow> ([], InNumber neg m (Some 0))
          | _ \<Rightarrow> (svg_flush st, InNumber False 0 (Some 0)))
       else if c = CHR ''-'' then (svg_flush st, InNumber True 0 None)
       else if c = CHR '' '' then (svg_flush st, NoNumber)
       else (svg_flush st @ [SvgCmd c], NoNumber))"

fun svg_tokens :: "number_state \<Rightarrow> string \<Rightarrow> svg_token list" where
  "svg_tokens st [] = svg_flush st"
| "svg_tokens st (c # cs) = (case feed_char st c of (ts, st') \<Rightarrow> ts @ svg_tokens st' cs)"

definition svg_number :: "string \<Rightarrow> int option" where
  "svg_number s = (case svg_tokens NoNumber s of [SvgVal v] \<Rightarrow> Some v | _ \<Rightarrow> None)"

text \<open>The pen: its position, the start of the current part, the last control point of a curve.\<close>

record pen =
  pn_at :: "int \<times> int"
  pn_start :: "int \<times> int"
  pn_ctrl :: "(int \<times> int) option"

definition svg_shift :: "bool \<Rightarrow> pen \<Rightarrow> int \<Rightarrow> int \<Rightarrow> int \<times> int" where
  "svg_shift rel p x y = (if rel then (fst (pn_at p) + x, snd (pn_at p) + y) else (x, y))"

definition line_to :: "pen \<Rightarrow> int \<times> int \<Rightarrow> pen" where
  "line_to p q = p\<lparr>pn_at := q, pn_ctrl := None\<rparr>"

definition reflected :: "pen \<Rightarrow> int \<times> int" where
  "reflected p = (case pn_ctrl p of None \<Rightarrow> pn_at p
     | Some c \<Rightarrow> (2 * fst (pn_at p) - fst c, 2 * snd (pn_at p) - snd c))"

text \<open>One command with its numbers: the points it names (ends of lines and arcs, ends and control points of
  curves), the pen afterwards and the numbers left; \<open>None\<close> when the command is unknown or its numbers are
  missing.\<close>

fun path_step :: "char \<Rightarrow> bool \<Rightarrow> pen \<Rightarrow> svg_token list \<Rightarrow> ((int \<times> int) list \<times> pen \<times> svg_token list) option" where
  "path_step c rel p (SvgVal a # ts) =
     (if c = CHR ''H'' then let q = (fst (svg_shift rel p a 0), snd (pn_at p)) in Some ([q], line_to p q, ts)
      else if c = CHR ''V'' then let q = (fst (pn_at p), snd (svg_shift rel p 0 a)) in Some ([q], line_to p q, ts)
      else case ts of
        SvgVal b # ts2 \<Rightarrow>
          if c = CHR ''L'' then let q = svg_shift rel p a b in Some ([q], line_to p q, ts2)
          else if c = CHR ''M'' then let q = svg_shift rel p a b in Some ([q], (line_to p q)\<lparr>pn_start := q\<rparr>, ts2)
          else (case ts2 of
            SvgVal d # SvgVal e # ts4 \<Rightarrow>
              if c = CHR ''S'' then
                let k = svg_shift rel p a b; q = svg_shift rel p d e
                in Some ([reflected p, k, q], (line_to p q)\<lparr>pn_ctrl := Some k\<rparr>, ts4)
              else (case ts4 of
                SvgVal f # SvgVal g # ts6 \<Rightarrow>
                  if c = CHR ''C'' then
                    let k = svg_shift rel p d e; q = svg_shift rel p f g
                    in Some ([svg_shift rel p a b, k, q], (line_to p q)\<lparr>pn_ctrl := Some k\<rparr>, ts6)
                  else if c = CHR ''A'' then
                    (case ts6 of
                       SvgVal h # ts7 \<Rightarrow> let q = svg_shift rel p g h in Some ([q], line_to p q, ts7)
                     | _ \<Rightarrow> None)
                  else None
              | _ \<Rightarrow> None)
          | _ \<Rightarrow> None)
      | _ \<Rightarrow> None)"
| "path_step c rel p _ = None"

definition svg_upper :: "char \<Rightarrow> char" where
  "svg_upper c = (if 97 \<le> (of_char c :: nat) then char_of ((of_char c :: nat) - 32) else c)"

text \<open>More numbers after a command repeat it, after a move as lines.  \<open>fuel\<close> bounds the commands; every step
  takes a token, so the number of tokens is enough.\<close>

fun path_points :: "nat \<Rightarrow> char \<Rightarrow> pen \<Rightarrow> svg_token list \<Rightarrow> (int \<times> int) list option" where
  "path_points _ c p [] = Some []"
| "path_points 0 c p (t # ts) = None"
| "path_points (Suc n) c p (SvgCmd x # ts) =
     (if svg_upper x = CHR ''Z'' then path_points n x (line_to p (pn_start p)) ts else path_points n x p ts)"
| "path_points (Suc n) c p (SvgVal v # ts) =
     (case path_step (svg_upper c) (svg_upper c \<noteq> c) p (SvgVal v # ts) of
        None \<Rightarrow> None
      | Some (qs, p', ts') \<Rightarrow>
          map_option ((@) qs)
            (path_points n (if c = CHR ''M'' then CHR ''L'' else if c = CHR ''m'' then CHR ''l'' else c) p' ts'))"

definition points_of :: "string \<Rightarrow> (int \<times> int) list option" where
  "points_of d = (let ts = svg_tokens NoNumber d in path_points (length ts) (CHR ''Z'') \<lparr>pn_at = (0, 0), pn_start = (0, 0), pn_ctrl = None\<rparr> ts)"

text \<open>The points of an element: of a path, the corners of a rectangle, the ends of the diameters of a
  circle.\<close>

definition el_points :: "string \<times> (string \<times> string) list \<Rightarrow> (int \<times> int) list option" where
  "el_points e =
     (let num = (\<lambda>k. case map_of (snd e) k of None \<Rightarrow> None | Some v \<Rightarrow> svg_number v)
      in if fst e = ''path'' then (case map_of (snd e) ''d'' of None \<Rightarrow> None | Some d \<Rightarrow> points_of d)
         else if fst e = ''rect'' then
           (case (num ''x'', num ''y'', num ''width'', num ''height'') of
              (Some x, Some y, Some w, Some h) \<Rightarrow> Some [(x, y), (x + w, y + h)] | _ \<Rightarrow> None)
         else if fst e = ''circle'' then
           (case (num ''cx'', num ''cy'', num ''r'') of
              (Some x, Some y, Some r) \<Rightarrow> Some [(x - r, y - r), (x + r, y + r)] | _ \<Rightarrow> None)
         else None)"

text \<open>Twice the distance the stroke reaches to either side: the stroke's width, 1.5 unless the element sets
  its own.\<close>

definition stroke_of :: "string \<times> (string \<times> string) list \<Rightarrow> int option" where
  "stroke_of e =
     (if map_of (snd e) ''stroke'' = Some ''none'' then Some 0
      else case map_of (snd e) ''strokeWidth'' of None \<Rightarrow> Some 150 | Some w \<Rightarrow> svg_number w)"

text \<open>Inside of the view box \<open>0 0 16 16\<close>.\<close>

definition in_frame :: "string \<times> (string \<times> string) list \<Rightarrow> bool" where
  "in_frame e = (case (el_points e, stroke_of e) of
     (Some ps, Some w) \<Rightarrow> ps \<noteq> [] \<and>
       list_all (\<lambda>(x, y). w \<le> 2 * x \<and> 2 * x + w \<le> 3200 \<and> w \<le> 2 * y \<and> 2 * y + w \<le> 3200) ps
   | _ \<Rightarrow> False)"


section \<open>Facts\<close>

text \<open>The drawings, a few at a time, by evaluation.\<close>

lemma frames_1: "list_all (list_all in_frame) [IconPlay, IconPause, IconCamera, IconBranch]"
  by code_simp

lemma frames_2: "list_all (list_all in_frame) [IconUndo, IconTerminal, IconFolder, IconFolderOpen]"
  by code_simp

lemma frames_3: "list_all (list_all in_frame) [IconFile, IconGlobe, IconGauge, IconClock]"
  by code_simp

lemma frames_4: "list_all (list_all in_frame) [IconNode, IconTrash, IconCopy, IconExternal]"
  by code_simp

lemma frames_5: "list_all (list_all in_frame) [IconPlus, IconClose, IconRefresh, IconChevronRight]"
  by code_simp

lemma frames_6: "list_all (list_all in_frame) [IconChevronDown, IconDots, IconUpload, IconDownload]"
  by code_simp

lemma frames_7: "list_all (list_all in_frame) [IconArrowRight, IconWarn, IconCheck, IconInfo]"
  by code_simp

lemmas frames = frames_1 frames_2 frames_3 frames_4 frames_5 frames_6 frames_7

text \<open>Every icon is drawn inside of its view box, its stroke included: the path data is well formed, and
  every corner, diameter and end or control point it names keeps half a stroke's width away from the
  border.  A curve lies between its end and control points; of an arc only the ends are considered.  No two
  icons have the same name or the same drawing.\<close>

theorem icons_in_frame:
  "list_all (\<lambda>(_, d). list_all in_frame d) ICONS \<and> distinct (map fst ICONS) \<and> distinct (map snd ICONS)"
proof (intro conjI)
  show "list_all (\<lambda>(_, d). list_all in_frame d) ICONS" using frames by (simp add: ICONS_def)
  show "distinct (map fst ICONS)" by (simp add: ICONS_def)
  show "distinct (map snd ICONS)"
    by (simp add: ICONS_def icon_defs svg_path_def svg_dot_def svg_circle_def svg_rect_def)
qed

end
