(* ===== verification/Ui.thy ===== *)
theory Ui
  imports Icons
begin

text \<open>
  The shared components (\<open>web/src/components/ui.tsx\<close>, \<open>menu.tsx\<close>, \<open>tabs.tsx\<close>, \<open>tooltip.tsx\<close>): what
  each renders for its properties, the confirm state and the effect that opens and closes a modal
  dialog.
\<close>

section \<open>Error boundary\<close>

definition Spinner :: "'a vnode" where
  "Spinner = El ''span'' [Flag ''aria-hidden'' True] []"

datatype btn_kind = Primary | Default | Danger | Ghost
datatype btn_size = Sm | Md

record 'a button_props =
  bp_onClick :: "'a option"
  bp_kind :: "btn_kind option"
  bp_size :: "btn_size option"
  bp_disabled :: bool
  bp_busy :: bool
  bp_submit :: bool
  bp_title :: "string option"

definition button0 :: "'a button_props" where
  "button0 = \<lparr>bp_onClick = None, bp_kind = None, bp_size = None, bp_disabled = False, bp_busy = False,
     bp_submit = False, bp_title = None\<rparr>"

definition btn_look :: "btn_kind \<Rightarrow> string" where
  "btn_look k = (case k of
     Primary \<Rightarrow> ''bg-accent text-[#1a1206] font-semibold hover:bg-accent-hover''
   | Default \<Rightarrow> ''border border-border bg-raised/40 text-ink hover:bg-raised hover:border-[#31394a]''
   | Danger \<Rightarrow> ''border border-danger/40 text-danger hover:bg-danger/10''
   | Ghost \<Rightarrow> ''text-muted hover:bg-raised hover:text-ink'')"

definition Button :: "'a button_props \<Rightarrow> 'a vnode list \<Rightarrow> 'a vnode" where
  "Button p children =
     (let kind = nullish (bp_kind p) Default;
          sizing = (if nullish (bp_size p) Md = Sm then ''px-2.5 py-1 text-xs'' else ''px-3 py-1.5 text-[13px]'');
          look = btn_look kind
      in El ''button''
           ([Attr ''type'' (if bp_submit p then ''submit'' else ''button''),
             Attr ''class'' (sizing @ '' '' @ look)] @
            shown_opt (bp_onClick p) (\<lambda>h. [On ''click'' h]) @
            [Flag ''disabled'' (bp_disabled p \<or> bp_busy p)] @
            shown_opt (bp_title p) (\<lambda>x. [Attr ''title'' x]))
           (shown (bp_busy p) [Spinner] @ children))"

definition ErrorPanel :: "TFn \<Rightarrow> string \<Rightarrow> 'a \<Rightarrow> 'a vnode" where
  "ErrorPanel t msg onRetry =
     El ''div'' [] [El ''div'' []
       [El ''div'' [] [Txt (t ''render error'' (zh [0x6E32, 0x67D3, 0x9519, 0x8BEF]))],
        El ''p'' [] [Txt (t ''This view hit an unexpected error. The rest of the console is unaffected.''
                           (zh [0x6B64, 0x89C6, 0x56FE, 0x9047, 0x5230, 0x610F, 0x5916, 0x9519, 0x8BEF, 0xFF0C, 0x63A7, 0x5236, 0x53F0, 0x5176, 0x4F59, 0x90E8, 0x5206, 0x4E0D, 0x53D7, 0x5F71, 0x54CD, 0x3002]))],
        El ''pre'' [] [Txt msg],
        Button (button0\<lparr>bp_onClick := Some onRetry\<rparr>) [Txt (t ''Retry'' (zh [0x91CD, 0x8BD5]))]]]"

text \<open>The boundary: its state is the caught error; retrying clears it and calls \<open>onReset\<close>.\<close>

datatype boundary_action = Retry

definition getDerivedStateFromError :: "js_error \<Rightarrow> js_error option" where
  "getDerivedStateFromError e = Some e"

definition ErrorBoundary ::
  "TFn \<Rightarrow> js_error option \<Rightarrow> boundary_action vnode list \<Rightarrow> boundary_action vnode list" where
  "ErrorBoundary t err children =
     (case err of None \<Rightarrow> children | Some e \<Rightarrow> [ErrorPanel t (message e) Retry])"

definition boundary_retry :: "'r option \<Rightarrow> js_error option \<times> 'r option" where
  "boundary_retry onReset = (None, onReset)"

section \<open>Scaffold\<close>

definition PageHeader :: "'a vnode list \<Rightarrow> 'a vnode list \<Rightarrow> 'a vnode list \<Rightarrow> 'a vnode" where
  "PageHeader title subtitle actions =
     El ''header'' []
       ([El ''div'' [] ([El ''h1'' [] title] @ shown (subtitle \<noteq> []) [El ''p'' [] subtitle])] @
        shown (actions \<noteq> []) [El ''div'' [] actions])"

definition Card :: "'a vnode list \<Rightarrow> 'a vnode list \<Rightarrow> bool option \<Rightarrow> 'a vnode list \<Rightarrow> 'a vnode" where
  "Card title actions pad children =
     El ''section'' []
       (shown (title \<noteq> [] \<or> actions \<noteq> []) [El ''header'' [] ([El ''h2'' [] title] @ actions)] @
        [El ''div'' [Attr ''class'' (if nullish pad True then ''p-4'' else '''')] children])"

definition Stat :: "'a vnode list \<Rightarrow> 'a vnode list \<Rightarrow> 'a vnode list \<Rightarrow> bool \<Rightarrow> 'a vnode" where
  "Stat label value sub accent =
     El ''div'' []
       ([El ''div'' [] label,
         El ''div'' [Attr ''class'' (if accent then ''text-accent'' else ''text-ink'')] value] @
        shown (sub \<noteq> []) [El ''div'' [] sub])"

definition Field :: "string \<Rightarrow> 'a vnode list \<Rightarrow> 'a vnode list \<Rightarrow> 'a vnode" where
  "Field label hint children =
     El ''label'' [] ([El ''div'' [] [Txt label]] @ children @ shown (hint \<noteq> []) [El ''div'' [] hint])"

definition Toggle :: "bool \<Rightarrow> (bool \<Rightarrow> 'a) \<Rightarrow> 'a vnode list \<Rightarrow> 'a vnode" where
  "Toggle checked onChange label =
     El ''label'' []
       [El ''button'' [Attr ''type'' ''button'', Attr ''role'' ''switch'', Flag ''aria-checked'' checked,
                       On ''click'' (onChange (\<not> checked)),
                       Attr ''class'' (if checked then ''bg-accent'' else ''bg-overlay'')]
          [El ''span'' [Attr ''class'' (if checked then ''translate-x-[15px]'' else ''translate-x-0.5'')] []],
        El ''span'' [] label]"

section \<open>Dialogs\<close>

datatype modal_call = ShowModal | CloseModal

text \<open>The effect of \<open>Dialog\<close> and \<open>Drawer\<close> on the element, run when \<open>open\<close> changes.\<close>

definition dialog_effect :: "bool \<Rightarrow> bool \<Rightarrow> modal_call list" where
  "dialog_effect opened d_open =
     shown (opened \<and> \<not> d_open) [ShowModal] @ shown (\<not> opened \<and> d_open) [CloseModal]"

definition modal_apply :: "modal_call list \<Rightarrow> bool \<Rightarrow> bool" where
  "modal_apply cs d_open = foldl (\<lambda>d c. c = ShowModal) d_open cs"

definition Dialog :: "TFn \<Rightarrow> string \<Rightarrow> 'a \<Rightarrow> 'a vnode list \<Rightarrow> 'a vnode" where
  "Dialog t title onClose children =
     El ''dialog'' [On ''close'' onClose, On ''click-self'' onClose]
       [El ''div'' []
          [El ''h2'' [] [Txt title],
           El ''button'' [On ''click'' onClose, Attr ''aria-label'' (t ''Close'' (zh [0x5173, 0x95ED]))] [Txt (zh [0x2715])]],
        El ''div'' [] children]"

definition ConfirmDialog ::
  "TFn \<Rightarrow> string \<Rightarrow> 'a vnode list \<Rightarrow> string \<Rightarrow> bool \<Rightarrow> 'a \<Rightarrow> 'a \<Rightarrow> 'a vnode" where
  "ConfirmDialog t title body confirmLabel busy onConfirm onClose =
     Dialog t title onClose
       [El ''div'' []
          [El ''div'' [] body,
           El ''div'' []
             [El ''button'' [Attr ''ref'' ''cancelRef'', Attr ''type'' ''button'', On ''click'' onClose]
                [Txt (t ''Cancel'' (zh [0x53D6, 0x6D88]))],
              Button (button0\<lparr>bp_kind := Some Danger, bp_onClick := Some onConfirm, bp_busy := busy\<rparr>)
                [Txt confirmLabel]]]]"

text \<open>What opening the confirm dialog focuses: the cancel button.\<close>

definition confirm_focus :: "bool \<Rightarrow> string option" where
  "confirm_focus opened = (if opened then Some ''cancelRef'' else None)"

text \<open>\<open>useConfirm\<close>: the pending function is the state; confirming runs it and clears the state.\<close>

definition confirm_open :: "'f option \<Rightarrow> bool" where
  "confirm_open pending \<longleftrightarrow> pending \<noteq> None"

definition confirm_ask :: "'f \<Rightarrow> 'f option \<Rightarrow> 'f option" where
  "confirm_ask fn pending = Some fn"

definition confirm_confirm :: "'f option \<Rightarrow> 'f list \<times> 'f option" where
  "confirm_confirm pending = (case pending of None \<Rightarrow> [] | Some f \<Rightarrow> [f], None)"

definition confirm_close :: "'f option \<Rightarrow> 'f option" where
  "confirm_close pending = None"

definition Drawer :: "TFn \<Rightarrow> 'a vnode list \<Rightarrow> 'a \<Rightarrow> 'a vnode list \<Rightarrow> 'a vnode" where
  "Drawer t title onClose children =
     El ''dialog'' [On ''close'' onClose, On ''click-self'' onClose]
       [El ''div'' []
          [El ''div'' []
             [El ''h2'' [] title,
              El ''button'' [On ''click'' onClose, Attr ''aria-label'' (t ''Close'' (zh [0x5173, 0x95ED]))] [Txt (zh [0x2715])]],
           El ''div'' [] children]]"

section \<open>Bars\<close>

definition capacity_pct :: "int \<Rightarrow> int \<Rightarrow> rat" where
  "capacity_pct used whole =
     (if whole \<le> 0 then 0 else min 100 (of_int used / of_int whole * 100))"

definition CapacityBar :: "string \<Rightarrow> int \<Rightarrow> int \<Rightarrow> (int \<Rightarrow> string) \<Rightarrow> 'a vnode" where
  "CapacityBar label used whole fmt =
     (let boundless = (whole \<le> 0); pct = capacity_pct used whole; hot = (pct \<ge> 85)
      in El ''div'' []
           [El ''div'' []
              [El ''span'' [] [Txt label],
               El ''span'' []
                 [El ''span'' [] [Txt (fmt used)],
                  if boundless then El ''span'' [] [Txt (('' '' @ zh [0xB7] @ '' unlimited''))] else Txt ('' / '' @ fmt whole)]],
            El ''div'' []
              (shown (\<not> boundless)
                 [El ''div'' [Pct ''width'' (Some (max (if pct > 0 then 3 else 0) pct)),
                              Attr ''background'' (if hot then ''var(--color-danger)'' else ''var(--color-accent)'')] []])])"

definition oversell_domain :: "int \<Rightarrow> int \<Rightarrow> int \<Rightarrow> int \<Rightarrow> int" where
  "oversell_domain used ceil capacity budget = max ceil (max used (max budget (max capacity 1)))"

definition oversell_pct :: "int \<Rightarrow> int \<Rightarrow> rat" where
  "oversell_pct domain v = min 100 (of_int v / of_int domain * 100)"

definition OversellBar ::
  "string \<Rightarrow> int \<Rightarrow> int \<Rightarrow> int \<Rightarrow> int \<Rightarrow> int \<Rightarrow> (int \<Rightarrow> string) \<Rightarrow> string option \<Rightarrow> 'a vnode" where
  "OversellBar label base used ceil capacity budget fmt overBudgetTitle =
     (let domain = oversell_domain used ceil capacity budget;
          pct = oversell_pct domain;
          overBudget = (budget > 0 \<and> ceil > budget);
          hatch = (if overBudget
            then ''repeating-linear-gradient(135deg, color-mix(in srgb, var(--color-danger) 45%, transparent) 0 3px, transparent 3px 6px)''
            else ''repeating-linear-gradient(135deg, color-mix(in srgb, var(--color-accent) 35%, transparent) 0 3px, transparent 3px 6px)'')
      in El ''div'' (shown overBudget (shown_opt overBudgetTitle (\<lambda>x. [Attr ''title'' x])))
           [El ''div'' []
              [El ''span'' [] [Txt label],
               El ''span'' [] [El ''span'' [] [Txt (fmt used)], El ''span'' [] [Txt ('' / '' @ fmt ceil @ '' max'')]]],
            El ''div'' []
              ([El ''div'' [Pct ''width'' (Some (pct ceil)), Attr ''background'' hatch] [],
                El ''div'' [Pct ''width'' (Some (max (if used > 0 then 2 else 0) (pct used))),
                            Attr ''background'' ''color-mix(in srgb, var(--color-accent) 55%, transparent)''] [],
                El ''div'' [Pct ''width'' (Some (max (if base > 0 then 2 else 0) (pct base))),
                            Attr ''background'' ''var(--color-accent)''] []] @
               shown (capacity > 0) [El ''div'' [Flag ''aria-hidden'' True, Pct ''left'' (Some (pct capacity))] []] @
               shown (budget > 0 \<and> budget \<noteq> capacity)
                 [El ''div'' [Flag ''aria-hidden'' True, Pct ''left'' (Some (pct budget)),
                              Attr ''background'' ''var(--color-warm)''] []]),
            El ''div'' []
              [El ''span'' [] [Txt (''base '' @ fmt base)],
               if budget > 0
               then El ''span'' [Attr ''class'' (if overBudget then ''text-danger'' else '''')] [Txt (''budget '' @ fmt budget)]
               else El ''span'' [] [Txt ''unlimited'']]])"

section \<open>Small parts\<close>

text \<open>An icon of \<open>icons.tsx\<close> by its name, as the factory \<open>icon\<close> renders its drawing.\<close>

definition Icon :: "string \<Rightarrow> int option \<Rightarrow> 'a vnode" where
  "Icon name sz =
     El ''svg''
       [Num ''width'' (nullish sz 16), Num ''height'' (nullish sz 16), Attr ''viewBox'' ''0 0 16 16'', Attr ''fill'' ''none'',
        Attr ''stroke'' ''currentColor'', Attr ''strokeWidth'' ''1.5'', Attr ''strokeLinecap'' ''round'',
        Attr ''strokeLinejoin'' ''round'', Flag ''aria-hidden'' True]
       (map svg_draw (drawing_of name))"

definition Skeleton :: "string option \<Rightarrow> 'a vnode" where
  "Skeleton cls = El ''div'' [Flag ''aria-hidden'' True, Attr ''class'' (nullish cls ''h-4 w-24'')] []"

definition KBD :: "'a vnode list \<Rightarrow> 'a vnode" where
  "KBD children = El ''kbd'' [] children"

definition IconButton :: "string \<Rightarrow> 'a option \<Rightarrow> bool \<Rightarrow> bool \<Rightarrow> 'a vnode list \<Rightarrow> 'a vnode" where
  "IconButton label onClick disabled danger children =
     El ''button''
       ([Attr ''type'' ''button'', Attr ''aria-label'' label, Attr ''title'' label] @
        shown_opt onClick (\<lambda>h. [On ''click'' h]) @
        [Flag ''disabled'' disabled,
         Attr ''class'' (if danger then ''text-muted hover:bg-danger/10 hover:text-danger''
                         else ''text-muted hover:bg-raised hover:text-ink'')])
       children"

definition ErrorNote :: "js_error option \<Rightarrow> 'a vnode list" where
  "ErrorNote err =
     (case err of
        None \<Rightarrow> []
      | Some e \<Rightarrow> [El ''p'' [Attr ''role'' ''alert'']
                    [El ''span'' [Flag ''aria-hidden'' True] [Txt (zh [0x26A0])], El ''span'' [] [Txt (message e)]]])"

definition Empty :: "'a vnode list \<Rightarrow> 'a vnode" where
  "Empty children = El ''div'' [] children"

definition Mono :: "'a vnode list \<Rightarrow> string option \<Rightarrow> 'a vnode" where
  "Mono children cls = El ''span'' [Attr ''class'' (''font-mono text-[12.5px] '' @ nullish cls '''')] children"

definition Table :: "'a vnode list list \<Rightarrow> 'a vnode list \<Rightarrow> 'a vnode" where
  "Table head children =
     El ''div'' [] [El ''table'' []
       [El ''thead'' [] [El ''tr'' [] (map (\<lambda>h. El ''th'' [] h) head)], El ''tbody'' [] children]]"

section \<open>Menus, tabs and tooltips\<close>

text \<open>The Radix primitives appear as elements of their name.\<close>

definition Menu :: "'a vnode \<Rightarrow> string option \<Rightarrow> 'a vnode list \<Rightarrow> 'a vnode" where
  "Menu trigger align children =
     El ''RadixMenu.Root'' []
       [El ''RadixMenu.Trigger'' [] [trigger],
        El ''RadixMenu.Portal'' []
          [El ''RadixMenu.Content'' [Attr ''align'' (nullish align ''end''), Num ''sideOffset'' 6,
                                     Num ''collisionPadding'' 8] children]]"

definition MenuItem :: "'a \<Rightarrow> bool \<Rightarrow> bool \<Rightarrow> 'a vnode list \<Rightarrow> 'a vnode list \<Rightarrow> 'a vnode" where
  "MenuItem onSelect danger disabled icon children =
     El ''RadixMenu.Item''
       [Flag ''disabled'' disabled, On ''select'' onSelect,
        Attr ''class'' (if danger then ''text-danger data-[highlighted]:bg-danger/10''
                        else ''text-ink data-[highlighted]:bg-overlay'')]
       (shown (icon \<noteq> []) [El ''span'' [] icon] @ children)"

definition MenuSeparator :: "'a vnode" where
  "MenuSeparator = El ''RadixMenu.Separator'' [] []"

record 'a TabDef =
  tb_value :: string
  tb_label :: "'a vnode list"
  tb_icon :: "'a vnode list"
  tb_disabled :: bool

definition TabBar :: "TFn \<Rightarrow> 'a TabDef list \<Rightarrow> string \<Rightarrow> (string \<Rightarrow> 'a) \<Rightarrow> 'a vnode list \<Rightarrow> 'a vnode" where
  "TabBar t tabs value onChange right =
     El ''RadixTabs.Root'' [Attr ''value'' value]
       [El ''RadixTabs.List'' [Attr ''aria-label'' (t ''Workspace sections'' (zh [0x5DE5, 0x4F5C, 0x533A, 0x5206, 0x533A]))]
          (map (\<lambda>tab. El ''RadixTabs.Trigger''
                  [Attr ''value'' (tb_value tab), Flag ''disabled'' (tb_disabled tab),
                   On ''valueChange'' (onChange (tb_value tab))] (tb_icon tab @ tb_label tab)) tabs @
           shown (right \<noteq> []) [El ''div'' [] right])]"

definition TooltipProvider :: "'a vnode list \<Rightarrow> 'a vnode" where
  "TooltipProvider children =
     El ''RadixTooltip.Provider'' [Num ''delayDuration'' 300, Num ''skipDelayDuration'' 200] children"

definition Tip :: "'a vnode list option \<Rightarrow> string option \<Rightarrow> bool \<Rightarrow> 'a vnode list \<Rightarrow> 'a vnode list" where
  "Tip content side monospaced children =
     (case content of
        None \<Rightarrow> children
      | Some c \<Rightarrow>
          [El ''RadixTooltip.Root'' []
             [El ''RadixTooltip.Trigger'' [] children,
              El ''RadixTooltip.Portal'' []
                [El ''RadixTooltip.Content''
                   [Attr ''side'' (nullish side ''top''), Num ''sideOffset'' 6, Num ''collisionPadding'' 8,
                    Attr ''class'' (if monospaced then ''font-mono tabular-nums'' else '''')] c]]])"

section \<open>Facts\<close>

lemma enabled_Button [simp]: "enabled_actions (Button p children) =
  (if bp_disabled p \<or> bp_busy p then [] else shown_opt (bp_onClick p) (\<lambda>h. [(''click'', h)])) @
  enabled_of children"
  by (auto simp: Button_def Let_def attr_actions_def Spinner_def shown_opt_def split: option.splits)

lemma enabled_Icon [simp]: "enabled_actions (Icon name sz) = []"
  by (auto simp: Icon_def attr_actions_def enabled_of_def)

lemma button0_sel [simp]:
  "bp_onClick button0 = None" "\<not> bp_disabled button0" "\<not> bp_busy button0" "\<not> bp_submit button0"
  by (simp_all add: button0_def)

lemma enabled_MenuItem [simp]: "enabled_actions (MenuItem h danger disabled icon children) =
  (if disabled then [] else [(''select'', h)]) @ enabled_of icon @ enabled_of children"
  by (simp add: MenuItem_def attr_actions_def shown_def)

lemma enabled_IconButton [simp]: "enabled_actions (IconButton label h disabled danger children) =
  (if disabled then [] else shown_opt h (\<lambda>h. [(''click'', h)])) @ enabled_of children"
  by (auto simp: IconButton_def attr_actions_def shown_opt_def split: option.splits)

text \<open>The modal element follows the \<open>open\<close> property, whatever state it was in.\<close>

lemma dialog_follows: "modal_apply (dialog_effect opened d_open) d_open = opened"
  by (cases opened; cases d_open) (simp_all add: dialog_effect_def modal_apply_def)

lemma capacity_pct_bounds: "0 \<le> used \<Longrightarrow> 0 \<le> capacity_pct used whole \<and> capacity_pct used whole \<le> 100"
  by (simp add: capacity_pct_def)

lemma oversell_pct_bounds: "0 < d \<Longrightarrow> 0 \<le> v \<Longrightarrow> 0 \<le> oversell_pct d v \<and> oversell_pct d v \<le> 100"
  by (simp add: oversell_pct_def)

lemma oversell_pct_mono: "0 < d \<Longrightarrow> u \<le> v \<Longrightarrow> oversell_pct d u \<le> oversell_pct d v"
  unfolding oversell_pct_def
  by (intro min.mono mult_right_mono divide_right_mono) simp_all

lemma oversell_domain_pos: "0 < oversell_domain used ceil capacity budget"
  by (simp add: oversell_domain_def)

lemma oversell_unclipped:
  assumes "0 < d" and "v \<le> d"
  shows "oversell_pct d v = of_int v / of_int d * 100"
proof -
  obtain x :: rat where x: "x = of_int v / of_int d" by blast
  then have "x \<le> 1" using assms by (simp add: divide_le_eq)
  then show ?thesis unfolding oversell_pct_def x [symmetric] by (simp add: min_def)
qed

section \<open>Properties\<close>

text \<open>The oversell bar draws every quantity to one scale: each drawn length is between 0 and 100
  percent, and the ceiling, the capacity tick and the budget tick lie at exactly their share of the
  largest of the quantities, so that the ceiling reaches past the budget tick exactly when the node
  is oversold beyond its budget.\<close>

theorem oversell_to_scale:
  assumes "0 \<le> base" and "0 \<le> used" and "0 \<le> ceil" and "0 \<le> capacity" and "0 \<le> budget"
    and "d = oversell_domain used ceil capacity budget"
  shows "(\<forall>(k, r) \<in> set (pcts_of (OversellBar label base used ceil capacity budget fmt title)).
       \<exists>x. r = Some x \<and> 0 \<le> x \<and> x \<le> 100) \<and>
    (oversell_pct d ceil = of_int ceil / of_int d * 100 \<and>
     oversell_pct d budget = of_int budget / of_int d * 100 \<and>
     oversell_pct d capacity = of_int capacity / of_int d * 100) \<and>
    (oversell_pct d budget < oversell_pct d ceil \<longleftrightarrow> budget < ceil)"
proof -
  have d: "0 < d" "ceil \<le> d" "budget \<le> d" "capacity \<le> d"
    using oversell_domain_pos by (auto simp: assms(6) oversell_domain_def)
  have b: "0 \<le> oversell_pct d v \<and> oversell_pct d v \<le> 100" if "0 \<le> v" for v
    using oversell_pct_bounds d(1) that by blast
  note eq = oversell_unclipped [OF d(1)]
  have "oversell_pct d budget < oversell_pct d ceil \<longleftrightarrow> budget < ceil"
    unfolding eq [OF d(2)] eq [OF d(3)] using d(1) by (simp add: divide_less_cancel)
  moreover have "\<forall>(k, r) \<in> set (pcts_of (OversellBar label base used ceil capacity budget fmt title)).
       \<exists>x. r = Some x \<and> 0 \<le> x \<and> x \<le> 100"
    using b assms(1-5) unfolding OversellBar_def Let_def assms(6) [symmetric]
    by (cases title) (auto simp: shown_def le_max_iff_disj)
  ultimately show ?thesis using eq [OF d(2)] eq [OF d(3)] eq [OF d(4)] by blast
qed

theorem oversell_to_scale_witness:
  "oversell_pct 8192 4096 < oversell_pct 8192 8192"
proof -
  have "8192 = oversell_domain 1024 8192 4096 4096" by (simp add: oversell_domain_def)
  from oversell_to_scale [OF _ _ _ _ _ this, of 512, THEN conjunct2, THEN conjunct2] show ?thesis by simp
qed

end
