(* ===== verification/Status.thy ===== *)
theory Status
  imports Ui
begin

text \<open>
  Lifecycle status (\<open>web/src/components/status.tsx\<close>): the label and colour of every state, the badge,
  the two gauges and the autoscale pill.
\<close>

record Meta =
  me_color :: string
  me_label :: string
  me_zh :: string

definition mk_meta :: "string \<Rightarrow> string \<Rightarrow> string \<Rightarrow> Meta" where
  "mk_meta c l z = \<lparr>me_color = c, me_label = l, me_zh = z\<rparr>"

definition STATE_META :: "SandboxState \<Rightarrow> Meta" where
  "STATE_META s = (case s of
     RUNNING \<Rightarrow> mk_meta ''var(--color-ok)'' ''Running'' (zh [0x8FD0, 0x884C, 0x4E2D])
   | PAUSED_HOT \<Rightarrow> mk_meta ''var(--color-hot)'' ((''Paused '' @ zh [0xB7] @ '' hot'')) ((zh [0x5DF2, 0x6682, 0x505C] @ '' '' @ zh [0xB7] @ '' '' @ zh [0x70ED]))
   | PAUSED_WARM \<Rightarrow> mk_meta ''var(--color-warm)'' ((''Paused '' @ zh [0xB7] @ '' warm'')) ((zh [0x5DF2, 0x6682, 0x505C] @ '' '' @ zh [0xB7] @ '' '' @ zh [0x6E29]))
   | ARCHIVED_COLD \<Rightarrow> mk_meta ''var(--color-cold)'' ((''Archived '' @ zh [0xB7] @ '' cold'')) ((zh [0x5DF2, 0x5F52, 0x6863] @ '' '' @ zh [0xB7] @ '' '' @ zh [0x51B7]))
   | STOPPED \<Rightarrow> mk_meta ''var(--color-idle)'' ''Stopped'' (zh [0x5DF2, 0x505C, 0x6B62])
   | RECYCLED \<Rightarrow> mk_meta ''var(--color-idle)'' ''Recycled'' (zh [0x5DF2, 0x56DE, 0x6536])
   | FAILED \<Rightarrow> mk_meta ''var(--color-danger)'' ''Failed'' (zh [0x5931, 0x8D25])
   | PENDING \<Rightarrow> mk_meta ''var(--color-transit)'' ''Pending'' (zh [0x7B49, 0x5F85, 0x4E2D])
   | STARTING \<Rightarrow> mk_meta ''var(--color-transit)'' ''Starting'' (zh [0x542F, 0x52A8, 0x4E2D])
   | RESUMING \<Rightarrow> mk_meta ''var(--color-transit)'' ''Resuming'' (zh [0x6062, 0x590D, 0x4E2D])
   | PAUSING \<Rightarrow> mk_meta ''var(--color-transit)'' ''Pausing'' (zh [0x6682, 0x505C, 0x4E2D])
   | STOPPING \<Rightarrow> mk_meta ''var(--color-transit)'' ''Stopping'' (zh [0x505C, 0x6B62, 0x4E2D]))"

text \<open>The table is total on \<open>SandboxState\<close>, so the fallback of \<open>meta\<close> never applies to a typed
  state.\<close>

definition meta :: "SandboxState \<Rightarrow> Meta" where
  "meta s = STATE_META s"

definition stateLabel :: "SandboxState \<Rightarrow> TFn \<Rightarrow> string" where
  "stateLabel s t = (let m = meta s in t (me_label m) (me_zh m))"

definition useStateLabel :: "TFn \<Rightarrow> SandboxState \<Rightarrow> string" where
  "useStateLabel t = (\<lambda>s. stateLabel s t)"

definition color :: "string \<Rightarrow> string \<Rightarrow> string" where
  "color c pct = ''color-mix(in srgb, '' @ c @ '' '' @ pct @ '', transparent)''"

definition StatusDot :: "SandboxState \<Rightarrow> int option \<Rightarrow> 'a vnode" where
  "StatusDot s sz =
     (let n = nullish sz 7
      in El ''span'' [Flag ''aria-hidden'' True, Num ''width'' n, Num ''height'' n,
                      Attr ''background'' (me_color (meta s))] [])"

definition StateBadge :: "TFn \<Rightarrow> SandboxState \<Rightarrow> 'a vnode" where
  "StateBadge t s =
     (let m = meta s
      in El ''span'' [Attr ''color'' (me_color m), Attr ''borderColor'' (color (me_color m) ''35%''),
                      Attr ''background'' (color (me_color m) ''12%'')]
           [StatusDot s (Some 6), Txt (t (me_label m) (me_zh m))])"

text \<open>\<open>p \&\& p > 0 ? p : d\<close>.\<close>

definition pos_or :: "int option \<Rightarrow> int \<Rightarrow> int" where
  "pos_or p d = (case p of Some v \<Rightarrow> if v \<noteq> 0 \<and> v > 0 then v else d | None \<Rightarrow> d)"

definition gauge_pct :: "int \<Rightarrow> int \<Rightarrow> rat option" where
  "gauge_pct v m = js_max 3 (js_min 100 (js_scale 100 (js_ratio v m)))"

definition gauge_basePct :: "int \<Rightarrow> int \<Rightarrow> rat option" where
  "gauge_basePct b m = js_max 0 (js_min 100 (js_scale 100 (js_ratio b m)))"

text \<open>The common body of the two gauges, which differ in their texts.\<close>

definition gauge :: "string \<Rightarrow> string \<Rightarrow> string \<Rightarrow> string \<Rightarrow> SandboxState \<Rightarrow> int \<Rightarrow> int \<Rightarrow> int \<Rightarrow> bool \<Rightarrow> 'a vnode" where
  "gauge aria title now_text max_text s v base mx wide =
     (let resizable = (mx > base)
      in El ''div'' [Attr ''class'' (if wide then ''w-full'' else ''w-40'')]
           [El ''div'' [Attr ''role'' ''meter'', Attr ''aria-label'' aria, Num ''aria-valuenow'' v,
                        Num ''aria-valuemin'' base, Num ''aria-valuemax'' mx]
              ([El ''div'' [Pct ''width'' (gauge_pct v mx), Attr ''background'' (me_color (meta s))] []] @
               shown resizable
                 [El ''div'' [Flag ''aria-hidden'' True, Pct ''left'' (gauge_basePct base mx), Attr ''title'' title] []]),
            El ''div'' []
              [El ''span'' [] [Txt now_text],
               if resizable then El ''span'' [] [Txt (''/ '' @ max_text)] else El ''span'' [] [Txt ''fixed'']]])"

definition MemGauge :: "SandboxState \<Rightarrow> int \<Rightarrow> int option \<Rightarrow> int option \<Rightarrow> bool \<Rightarrow> 'a vnode" where
  "MemGauge s memoryMiB baseMiB maxMiB wide =
     (let mx = pos_or maxMiB memoryMiB; base = pos_or baseMiB memoryMiB
      in gauge ''effective memory'' (''base '' @ fmtMiB base) (fmtMiB memoryMiB) (fmtMiB mx) s memoryMiB base mx wide)"

definition CpuGauge :: "SandboxState \<Rightarrow> int \<Rightarrow> int option \<Rightarrow> int option \<Rightarrow> bool \<Rightarrow> 'a vnode" where
  "CpuGauge s vcpus baseVCPUs maxVCPUs wide =
     (let mx = pos_or maxVCPUs vcpus; base = pos_or baseVCPUs vcpus
      in gauge ''effective vcpus'' (''base '' @ js_num base @ '' vCPU'') (js_num vcpus @ '' vCPU'') (js_num mx)
           s vcpus base mx wide)"

definition AutoscaleBadge :: "TFn \<Rightarrow> bool \<Rightarrow> bool \<Rightarrow> 'a vnode" where
  "AutoscaleBadge t on deferred =
     (let c = (if deferred then ''var(--color-warm)''
               else if on then ''var(--color-transit)'' else ''var(--color-idle)'');
          label = (if deferred then t ((''autoscale '' @ zh [0xB7] @ '' deferred'')) ((zh [0x81EA, 0x52A8, 0x4F38, 0x7F29] @ '' '' @ zh [0xB7] @ '' '' @ zh [0x5DF2, 0x63A8, 0x8FDF]))
                   else if on then t ''autoscale'' (zh [0x81EA, 0x52A8, 0x4F38, 0x7F29]) else t ''manual'' (zh [0x624B, 0x52A8]))
      in El ''span'' [Attr ''color'' c, Attr ''borderColor'' (color c ''35%''), Attr ''background'' (color c ''12%''),
             Attr ''title'' (if on then ''pressure-driven resize between base and ceiling''
                             else ''resize via the workspace panel'')]
           [El ''span'' [Flag ''aria-hidden'' True, Attr ''background'' c] [], Txt label])"

section \<open>Properties\<close>

lemma gauge_pct_bounds: "0 < m \<Longrightarrow> \<exists>x. gauge_pct v m = Some x \<and> 3 \<le> x \<and> x \<le> 100"
  by (simp add: gauge_pct_def js_max_def js_min_def js_scale_def js_ratio_def max_def min_def)

lemma gauge_base_bounds: "0 < m \<Longrightarrow> 0 \<le> b \<Longrightarrow> b \<le> m \<Longrightarrow>
  gauge_basePct b m = Some (of_int b / of_int m * 100)"
proof -
  assume m: "0 < m" "0 \<le> b" "b \<le> m"
  obtain x :: rat where x: "x = of_int b / of_int m" by blast
  then have "0 \<le> x" "x \<le> 1" using m by (simp_all add: divide_le_eq)
  then have "max 0 (min 100 (x * 100)) = x * 100" by (simp add: max_def min_def)
  then show ?thesis using m(1) unfolding gauge_basePct_def js_ratio_def x [symmetric]
    by (simp add: js_max_def js_min_def js_scale_def)
qed

lemma pos_or_pos: "0 < d \<Longrightarrow> 0 < pos_or p d"
  by (simp add: pos_or_def split: option.splits)

text \<open>The memory gauge of a sandbox with positive memory always draws a bar between 3 and 100
  percent, marks the base at its exact share of the ceiling whenever it shows a base at all, and
  calls the sandbox fixed exactly when its ceiling does not exceed its base.\<close>

theorem MemGauge_lengths:
  assumes "0 < memoryMiB" and "mx = pos_or maxMiB memoryMiB" and "base = pos_or baseMiB memoryMiB"
  shows "pcts_of (MemGauge s memoryMiB baseMiB maxMiB wide :: 'a vnode) =
      (''width'', gauge_pct memoryMiB mx) #
      (if mx > base then [(''left'', Some (of_int base / of_int mx * 100))] else []) \<and>
    (\<exists>x. gauge_pct memoryMiB mx = Some x \<and> 3 \<le> x \<and> x \<le> 100) \<and>
    (mx \<le> base \<longleftrightarrow> text_of (MemGauge s memoryMiB baseMiB maxMiB wide :: 'a vnode) = fmtMiB memoryMiB @ ''fixed'')"
proof -
  have pos: "0 < mx" "0 < base" using assms pos_or_pos by simp_all
  have "text_of (MemGauge s memoryMiB baseMiB maxMiB wide :: 'a vnode) =
      fmtMiB memoryMiB @ (if mx > base then ''/ '' @ fmtMiB mx else ''fixed'')"
    unfolding MemGauge_def gauge_def assms(2,3) [symmetric] by (simp add: shown_def)
  moreover have "pcts_of (MemGauge s memoryMiB baseMiB maxMiB wide :: 'a vnode) =
      (''width'', gauge_pct memoryMiB mx) # (if mx > base then [(''left'', gauge_basePct base mx)] else [])"
    unfolding MemGauge_def gauge_def assms(2,3) [symmetric] by (simp add: shown_def)
  ultimately show ?thesis using gauge_pct_bounds [OF pos(1), of memoryMiB] gauge_base_bounds [OF pos(1)] pos(2)
    by (auto simp: not_less)
qed

theorem MemGauge_lengths_witness:
  "pcts_of (MemGauge RUNNING 512 (Some 256) (Some 1024) False :: unit vnode) =
     [(''width'', gauge_pct 512 1024), (''left'', Some (256 / 1024 * 100))]"
  using MemGauge_lengths [where ?'a = unit, of 512 1024 "Some 1024" 256 "Some 256" RUNNING False] by (simp add: pos_or_def)

end
