(* ===== verification/CreateSandbox.thy ===== *)
theory CreateSandbox
  imports Geometry Hooks Ui Toasts
begin

text \<open>
  The dialog that creates a sandbox (\<open>web/src/components/createSandbox.tsx\<close>): the form's state and its
  updates, the check shown to the user, the request each mode sends, what happens on success, and the
  rendered form.  Numeric inputs hold integers; the browser's own constraint check keeps others from
  being submitted.
\<close>

datatype Mode = ElasticMode | FixedMode

record create_form =
  cf_template_id :: string
  cf_preset :: string
  cf_vcpus :: int
  cf_memory_mib :: int
  cf_data_disk_gib :: int
  cf_max_memory_mib :: int
  cf_max_vcpus :: int
  cf_autoscale :: bool
  cf_egress :: Egress

record create_state =
  cs_mode :: Mode
  cs_advanced :: bool
  cs_form :: create_form

definition create_init :: create_state where
  "create_init =
     \<lparr>cs_mode = ElasticMode, cs_advanced = False,
      cs_form = \<lparr>cf_template_id = '''', cf_preset = ''standard'', cf_vcpus = g_vcpus DEFAULT_BASE,
        cf_memory_mib = g_memory_mib DEFAULT_BASE, cf_data_disk_gib = 15,
        cf_max_memory_mib = g_memory_mib DEFAULT_CEILING, cf_max_vcpus = g_vcpus DEFAULT_CEILING,
        cf_autoscale = True, cf_egress = Nat\<rparr>\<rparr>"

datatype form_field =
    FTemplate string | FPreset string | FVcpus int | FMemory int | FDisk int | FMaxMemory int
  | FMaxVcpus int | FAutoscale bool | FEgress Egress

fun set_field :: "form_field \<Rightarrow> create_form \<Rightarrow> create_form" where
  "set_field (FTemplate v) f = f\<lparr>cf_template_id := v\<rparr>"
| "set_field (FPreset v) f = f\<lparr>cf_preset := v\<rparr>"
| "set_field (FVcpus v) f = f\<lparr>cf_vcpus := v\<rparr>"
| "set_field (FMemory v) f = f\<lparr>cf_memory_mib := v\<rparr>"
| "set_field (FDisk v) f = f\<lparr>cf_data_disk_gib := v\<rparr>"
| "set_field (FMaxMemory v) f = f\<lparr>cf_max_memory_mib := v\<rparr>"
| "set_field (FMaxVcpus v) f = f\<lparr>cf_max_vcpus := v\<rparr>"
| "set_field (FAutoscale v) f = f\<lparr>cf_autoscale := v\<rparr>"
| "set_field (FEgress v) f = f\<lparr>cf_egress := v\<rparr>"

datatype create_action = SetMode Mode | ToggleAdvanced | Set form_field | Submit | Cancel

fun create_update :: "create_state \<Rightarrow> create_action \<Rightarrow> create_state" where
  "create_update s (SetMode m) = s\<lparr>cs_mode := m\<rparr>"
| "create_update s ToggleAdvanced = s\<lparr>cs_advanced := \<not> cs_advanced s\<rparr>"
| "create_update s (Set x) = s\<lparr>cs_form := set_field x (cs_form s)\<rparr>"
| "create_update s Submit = s"
| "create_update s Cancel = s"

definition ready_templates :: "Template list option \<Rightarrow> Template list" where
  "ready_templates templates = filter (\<lambda>tpl. tpl_state tpl = READY) (nullish templates [])"

definition fixed_input :: "create_form \<Rightarrow> GeometryInput" where
  "fixed_input f = \<lparr>gi_vcpus = Some (cf_vcpus f), gi_memory_mib = Some (cf_memory_mib f),
     gi_data_disk_gib = Some (cf_data_disk_gib f), gi_max_vcpus = None, gi_max_memory_mib = None,
     gi_autoscale = None\<rparr>"

definition advanced_input :: "create_form \<Rightarrow> GeometryInput" where
  "advanced_input f = \<lparr>gi_vcpus = Some (cf_vcpus f), gi_memory_mib = Some (cf_memory_mib f),
     gi_data_disk_gib = Some (cf_data_disk_gib f), gi_max_vcpus = Some (cf_max_vcpus f),
     gi_max_memory_mib = Some (cf_max_memory_mib f), gi_autoscale = Some (cf_autoscale f)\<rparr>"

definition validationError :: "create_state \<Rightarrow> TFn \<Rightarrow> string option" where
  "validationError s t =
     (if cs_mode s = FixedMode then validateGeometry (fixed_input (cs_form s)) t
      else if cs_advanced s then validateGeometry (advanced_input (cs_form s)) t
      else None)"

definition chosen_template :: "create_form \<Rightarrow> Template list \<Rightarrow> string" where
  "chosen_template f ready =
     (if cf_template_id f \<noteq> '''' then cf_template_id f
      else case ready of [] \<Rightarrow> '''' | tpl # _ \<Rightarrow> tpl_id tpl)"

text \<open>\<open>submit\<close>: the body sent, or nothing when the form does not check.\<close>

definition create_body :: "create_state \<Rightarrow> Template list \<Rightarrow> CreateSandboxRequest" where
  "create_body s ready =
     (let f = cs_form s;
          body = \<lparr>cr_template_id = chosen_template f ready, cr_vcpus = None, cr_memory_mib = None,
                  cr_data_disk_gib = (if cf_data_disk_gib f \<noteq> 15 then Some (cf_data_disk_gib f) else None),
                  cr_max_memory_mib = None, cr_max_vcpus = None, cr_autoscale = None,
                  cr_egress = Some (cf_egress f)\<rparr>
      in if cs_mode s = FixedMode then
           body\<lparr>cr_vcpus := Some (cf_vcpus f), cr_memory_mib := Some (cf_memory_mib f)\<rparr>
         else if cs_advanced s then
           body\<lparr>cr_vcpus := Some (cf_vcpus f), cr_memory_mib := Some (cf_memory_mib f),
                cr_max_memory_mib := Some (cf_max_memory_mib f), cr_max_vcpus := Some (cf_max_vcpus f),
                cr_autoscale := Some (cf_autoscale f)\<rparr>
         else
           case find (\<lambda>p. ep_key p = cf_preset f) ELASTIC_PRESETS of
             None \<Rightarrow> body
           | Some preset \<Rightarrow>
               body\<lparr>cr_max_memory_mib := (if truthy_num (ep_max_memory_mib preset) then ep_max_memory_mib preset else None),
                    cr_max_vcpus := (if truthy_num (ep_max_vcpus preset) then ep_max_vcpus preset else None)\<rparr>)"

definition submit :: "create_state \<Rightarrow> Template list \<Rightarrow> TFn \<Rightarrow> CreateSandboxRequest option" where
  "submit s ready t =
     (if truthy_str (validationError s t) then None else Some (create_body s ready))"

text \<open>\<open>onSuccess\<close> of the mutation: the query to invalidate, the toast, closing and the route.\<close>

definition created_title :: "Sandbox \<Rightarrow> TFn \<Rightarrow> string" where
  "created_title sb t =
     (let elastic = (nullish (sb_max_memory_mib sb) 0 > 0 \<or> nullish (sb_max_vcpus sb) 0 > 0);
          upto = fmtMiB (or_num (sb_max_memory_mib sb) (sb_memory_mib sb));
          auto = truthy_bool (sb_autoscale sb)
      in if elastic then
           t ((''Sandbox created '' @ zh [0x2014] @ '' '') @ fmtMiB (sb_memory_mib sb) @ ('' '' @ zh [0x2192] @ '' up to '') @ upto @
                (if auto then ('' '' @ zh [0xB7] @ '' autoscale on'') else ''''))
             ((zh [0x6C99, 0x7BB1, 0x5DF2, 0x521B, 0x5EFA] @ '' '' @ zh [0x2014, 0x2014] @ '' '') @ fmtMiB (sb_memory_mib sb) @ ('' '' @ zh [0x2192] @ '' '' @ zh [0x4E0A, 0x9650] @ '' '') @ upto @
                (if auto then ('' '' @ zh [0xB7] @ '' '' @ zh [0x81EA, 0x52A8, 0x4F38, 0x7F29, 0x5DF2, 0x5F00, 0x542F]) else ''''))
         else
           t ((''Sandbox created '' @ zh [0x2014] @ '' fixed '') @ fmtMiB (sb_memory_mib sb) @ '' / '' @ js_num (sb_vcpus sb) @ '' vCPU'')
             ((zh [0x6C99, 0x7BB1, 0x5DF2, 0x521B, 0x5EFA] @ '' '' @ zh [0x2014, 0x2014] @ '' '' @ zh [0x56FA, 0x5B9A] @ '' '') @ fmtMiB (sb_memory_mib sb) @ '' / '' @ js_num (sb_vcpus sb) @ '' vCPU''))"

datatype create_effect = Invalidate query_key | ToastSuccess string | CloseDialog | Navigate string

definition create_onSuccess :: "Sandbox \<Rightarrow> TFn \<Rightarrow> create_effect list" where
  "create_onSuccess sb t =
     [Invalidate [KStr ''sandboxes''], ToastSuccess (created_title sb t), CloseDialog,
      Navigate (''/sandboxes/'' @ sb_id sb)]"

section \<open>The rendered form\<close>

definition number_input ::
  "int option \<Rightarrow> int option \<Rightarrow> int option \<Rightarrow> int \<Rightarrow> (int \<Rightarrow> form_field) \<Rightarrow> (string \<Rightarrow> create_action) vnode" where
  "number_input mn mx step v mk =
     El ''input''
       ([Attr ''type'' ''number''] @ shown_opt mn (\<lambda>n. [Num ''min'' n]) @ shown_opt mx (\<lambda>n. [Num ''max'' n]) @
        shown_opt step (\<lambda>n. [Num ''step'' n]) @
        [Num ''value'' v, On ''change'' (\<lambda>txt. Set (mk (nullish (js_Number txt) 0)))]) []"

definition template_select :: "create_form \<Rightarrow> Template list \<Rightarrow> TFn \<Rightarrow> (string \<Rightarrow> create_action) vnode" where
  "template_select f ready t =
     Field (t ''Template'' (zh [0x6A21, 0x677F])) []
       [El ''select'' [Attr ''value'' (chosen_template f ready), On ''change'' (\<lambda>v. Set (FTemplate v))]
          (shown (ready = []) [El ''option'' [Attr ''value'' '''']
             [Txt (t ((''No READY templates '' @ zh [0x2014] @ '' build one first'')) ((zh [0x6682, 0x65E0] @ '' READY '' @ zh [0x6A21, 0x677F] @ '' '' @ zh [0x2014, 0x2014] @ '' '' @ zh [0x8BF7, 0x5148, 0x6784, 0x5EFA, 0x4E00, 0x4E2A])))]] @
           map (\<lambda>tpl. El ''option'' [Attr ''value'' (tpl_id tpl)] [Txt (tpl_name tpl @ '' ('' @ tpl_image tpl @ '')'')]) ready)]"

definition mode_tabs :: "Mode \<Rightarrow> TFn \<Rightarrow> (string \<Rightarrow> create_action) vnode" where
  "mode_tabs mode t =
     El ''div'' [Attr ''role'' ''tablist'']
       [El ''button'' [Attr ''type'' ''button'', Attr ''role'' ''tab'', Flag ''aria-selected'' (mode = ElasticMode),
                       On ''click'' (\<lambda>_. SetMode ElasticMode)] [Txt (t ''Elastic (recommended)'' (zh [0x5F39, 0x6027, 0xFF08, 0x63A8, 0x8350, 0xFF09]))],
        El ''button'' [Attr ''type'' ''button'', Attr ''role'' ''tab'', Flag ''aria-selected'' (mode = FixedMode),
                       On ''click'' (\<lambda>_. SetMode FixedMode)] [Txt (t ''Fixed'' (zh [0x56FA, 0x5B9A]))]]"

definition preset_button :: "create_form \<Rightarrow> TFn \<Rightarrow> ElasticPreset \<Rightarrow> (string \<Rightarrow> create_action) vnode" where
  "preset_button f t p =
     (let active = (cf_preset f = ep_key p);
          maxMem = nullish (ep_max_memory_mib p) (g_memory_mib DEFAULT_CEILING);
          maxCpu = nullish (ep_max_vcpus p) (g_vcpus DEFAULT_CEILING)
      in El ''button'' [Attr ''type'' ''button'', Attr ''role'' ''radio'', Flag ''aria-checked'' active,
                        On ''click'' (\<lambda>_. Set (FPreset (ep_key p)))]
           [El ''span'' [] [Txt (t (ep_label p) (ep_zh p))],
            El ''span'' [] [Txt (t ''up to'' (zh [0x4E0A, 0x9650]) @ '' '' @ fmtMiB maxMem @ ('' '' @ zh [0xB7] @ '' '') @ js_num maxCpu @ '' vCPU'')]])"

definition advanced_fields :: "create_form \<Rightarrow> TFn \<Rightarrow> (string \<Rightarrow> create_action) vnode" where
  "advanced_fields f t =
     El ''div'' []
       [Field (t ''Base vCPUs'' ((zh [0x57FA, 0x7840] @ '' vCPU''))) [] [number_input (Some 1) (Some 64) None (cf_vcpus f) FVcpus],
        Field (t ''Base memory MiB'' ((zh [0x57FA, 0x7840, 0x5185, 0x5B58] @ '' MiB''))) []
          [number_input (Some 128) None (Some 128) (cf_memory_mib f) FMemory],
        Field (t ''Max vCPUs'' ((zh [0x6700, 0x5927] @ '' vCPU''))) []
          [number_input (Some (cf_vcpus f)) (Some 64) None (cf_max_vcpus f) FMaxVcpus],
        Field (t ''Max memory MiB'' ((zh [0x6700, 0x5927, 0x5185, 0x5B58] @ '' MiB'')))
          [Txt (nullish (slotRoundingHint (cf_memory_mib f) (cf_max_memory_mib f) t)
             (t ''Rounded up to 128 MiB slots.'' ((zh [0x5411, 0x4E0A, 0x53D6, 0x6574, 0x5230] @ '' 128 MiB '' @ zh [0x7684, 0x69FD, 0x4F4D, 0x3002]))))]
          [number_input (Some (cf_memory_mib f)) None (Some 128) (cf_max_memory_mib f) FMaxMemory],
        El ''div'' []
          [Toggle (cf_autoscale f) (\<lambda>v _. Set (FAutoscale v))
             [Txt (t ''Autoscale on guest pressure'' ((zh [0x6309] @ '' guest '' @ zh [0x538B, 0x529B, 0x81EA, 0x52A8, 0x4F38, 0x7F29])))]]]"

definition elastic_panel :: "create_state \<Rightarrow> TFn \<Rightarrow> (string \<Rightarrow> create_action) vnode" where
  "elastic_panel s t =
     (let small = fmtMiB (g_memory_mib DEFAULT_BASE) @ '' / '' @ js_num (g_vcpus DEFAULT_BASE) @ '' vCPU''
      in El ''div'' []
       ([El ''p'' [] [Txt (t (''Starts small ('' @ small @ '') and grows under pressure up to the ceiling.'')
            (zh [0x4ECE, 0x5C0F, 0x89C4, 0x683C, 0xFF08] @ small @ zh [0xFF09, 0x542F, 0x52A8, 0xFF0C, 0x538B, 0x529B, 0x4E0B, 0x81EA, 0x52A8, 0x589E, 0x957F, 0x81F3, 0x4E0A, 0x9650, 0x3002]))]] @
        shown (\<not> cs_advanced s)
          [El ''div'' [Attr ''role'' ''radiogroup'', Attr ''aria-label'' (t ''Ceiling preset'' (zh [0x4E0A, 0x9650, 0x9884, 0x8BBE]))]
             (map (preset_button (cs_form s) t) ELASTIC_PRESETS)] @
        [El ''button'' [Attr ''type'' ''button'', On ''click'' (\<lambda>_. ToggleAdvanced)]
           [Txt (if cs_advanced s then t ''Hide advanced'' (zh [0x6536, 0x8D77, 0x9AD8, 0x7EA7, 0x9009, 0x9879])
                 else t ((''Advanced '' @ zh [0x2014] @ '' explicit base & ceiling'')) ((zh [0x9AD8, 0x7EA7] @ '' '' @ zh [0x2014, 0x2014] @ '' '' @ zh [0x663E, 0x5F0F, 0x57FA, 0x7840, 0x4E0E, 0x4E0A, 0x9650])))]] @
        shown (cs_advanced s) [advanced_fields (cs_form s) t]))"

definition fixed_panel :: "create_form \<Rightarrow> TFn \<Rightarrow> (string \<Rightarrow> create_action) vnode" where
  "fixed_panel f t =
     El ''div'' []
       [El ''p'' [] [Txt (t ''Fixed geometry cannot be resized or autoscaled later.''
           (zh [0x56FA, 0x5B9A, 0x89C4, 0x683C, 0x521B, 0x5EFA, 0x540E, 0x4E0D, 0x53EF, 0x518D, 0x8C03, 0x6574, 0x3001, 0x4E0D, 0x53EF, 0x81EA, 0x52A8, 0x4F38, 0x7F29, 0x3002]))],
        El ''div'' []
          [Field (t ''vCPUs'' ((''vCPU '' @ zh [0x6570]))) [] [number_input (Some 1) (Some 64) None (cf_vcpus f) FVcpus],
           Field (t ''Memory MiB'' ((zh [0x5185, 0x5B58] @ '' MiB''))) []
             [number_input (Some 128) None (Some 128) (cf_memory_mib f) FMemory]]]"

definition common_fields :: "create_form \<Rightarrow> TFn \<Rightarrow> (string \<Rightarrow> create_action) vnode" where
  "common_fields f t =
     El ''div'' []
       [Field (t ''Disk GiB'' ((zh [0x78C1, 0x76D8] @ '' GiB''))) [] [number_input (Some 1) (Some 4096) None (cf_data_disk_gib f) FDisk],
        Field (t ''Egress'' (zh [0x51FA, 0x7F51])) []
          [El ''select'' [Attr ''value'' (egress_text (cf_egress f)),
                          On ''change'' (\<lambda>v. Set (FEgress (if v = ''nat'' then Nat else NoEgress)))]
             [El ''option'' [Attr ''value'' ''nat''] [Txt (t ((''nat '' @ zh [0x2014] @ '' outbound internet'')) ((''nat '' @ zh [0x2014] @ '' '' @ zh [0x53EF, 0x51FA, 0x516C, 0x7F51])))],
              El ''option'' [Attr ''value'' ''none''] [Txt (t ((''none '' @ zh [0x2014] @ '' no outbound network'')) ((''none '' @ zh [0x2014] @ '' '' @ zh [0x65E0, 0x51FA, 0x7F51])))]]]]"

definition submit_buttons ::
  "create_state \<Rightarrow> Template list \<Rightarrow> bool \<Rightarrow> TFn \<Rightarrow> (string \<Rightarrow> create_action) vnode" where
  "submit_buttons s ready isPending t =
     El ''div'' []
       [Button (button0\<lparr>bp_onClick := Some (\<lambda>_. Cancel)\<rparr>) [Txt (t ''Cancel'' (zh [0x53D6, 0x6D88]))],
        Button (button0\<lparr>bp_kind := Some Primary, bp_submit := True, bp_busy := isPending,
                        bp_disabled := (ready = [] \<or> validationError s t \<noteq> None)\<rparr>)
          [Txt (t ''Create sandbox'' (zh [0x521B, 0x5EFA, 0x6C99, 0x7BB1]))]]"

definition CreateSandboxDialog ::
  "create_state \<Rightarrow> Template list option \<Rightarrow> bool \<Rightarrow> js_error option \<Rightarrow> TFn \<Rightarrow> (string \<Rightarrow> create_action) vnode" where
  "CreateSandboxDialog s templates isPending err t =
     (let ready = ready_templates templates
      in Dialog t (t ''New sandbox'' (zh [0x65B0, 0x5EFA, 0x6C99, 0x7BB1])) (\<lambda>_. Cancel)
           [El ''form'' [On ''submit'' (\<lambda>_. Submit)]
              ([template_select (cs_form s) ready t, mode_tabs (cs_mode s) t] @
               shown (cs_mode s = ElasticMode) [elastic_panel s t] @
               shown (cs_mode s = FixedMode) [fixed_panel (cs_form s) t] @
               [common_fields (cs_form s) t] @
               shown_opt (validationError s t) (\<lambda>e. [El ''p'' [] [Txt e]]) @
               ErrorNote err @
               [submit_buttons s ready isPending t])])"

section \<open>What the server makes of each mode\<close>

text \<open>The request as the control plane decodes it.\<close>

definition request_body :: "CreateSandboxRequest \<Rightarrow> createSandboxBody" where
  "request_body r =
     \<lparr>b_TemplateID = cr_template_id r, b_VCPUs = nullish (cr_vcpus r) 0,
      b_MemoryMiB = nullish (cr_memory_mib r) 0, b_DataDiskGiB = nullish (cr_data_disk_gib r) 0,
      b_ArtifactPaths = [], b_Egress = (case cr_egress r of None \<Rightarrow> '''' | Some e \<Rightarrow> egress_text e), b_MaxMemoryMiB = nullish (cr_max_memory_mib r) 0, b_MaxVCPUs = nullish (cr_max_vcpus r) 0,
      b_Autoscale = cr_autoscale r\<rparr>"

text \<open>The checks of \<open>createSandbox\<close> before anything is stored, for the templates in the store and an owner
  with \<open>quota\<close> (0 for none) and \<open>active\<close> sandboxes.  The body it leaves is what the row and the node's
  request are filled from.  A failing database (answer 500) is left out.\<close>

datatype create_refusal =
    TemplateRequired | BadGeometry geometry_error | TemplateNotFound | TemplateNotReady string TemplateState
  | QuotaExceeded int

definition createSandbox_checks ::
  "ElasticDefaults \<Rightarrow> (string \<Rightarrow> Template option) \<Rightarrow> int \<Rightarrow> int \<Rightarrow> createSandboxBody \<Rightarrow>
   create_refusal + createSandboxBody" where
  "createSandbox_checks d getTemplate quota active body0 =
     (if b_TemplateID body0 = '''' then Inl TemplateRequired
      else case create_geometry d body0 of
        Inl e \<Rightarrow> Inl (BadGeometry e)
      | Inr body \<Rightarrow>
          (case getTemplate (b_TemplateID body) of
             None \<Rightarrow> Inl TemplateNotFound
           | Some tpl \<Rightarrow>
               if tpl_state tpl \<noteq> READY then Inl (TemplateNotReady (tpl_id tpl) (tpl_state tpl))
               else if quota > 0 \<and> active \<ge> quota then Inl (QuotaExceeded quota)
               else Inr body))"

lemma createSandbox_checks_geometry:
  assumes "create_geometry d b = Inr c" and "b_TemplateID b \<noteq> ''''" and "getTemplate (b_TemplateID b) = Some tpl"
    and "tpl_state tpl = READY" and "\<not> (0 < quota \<and> quota \<le> active)"
  shows "createSandbox_checks d getTemplate quota active b = Inr c"
  using assms create_geometry_carries [OF assms(1)] by (simp add: createSandbox_checks_def)

text \<open>What the form offers: a \<open>READY\<close> template, or none chosen yet.  The store knows the templates of the
  list under their ids.\<close>

definition template_offered :: "create_form \<Rightarrow> Template list \<Rightarrow> bool" where
  "template_offered f ready \<longleftrightarrow> ready \<noteq> [] \<and> cf_template_id f \<in> insert '''' (tpl_id ` set ready)"

definition list_current :: "(string \<Rightarrow> Template option) \<Rightarrow> Template list \<Rightarrow> bool" where
  "list_current getTemplate tpls \<longleftrightarrow> (\<forall>tpl \<in> set tpls. tpl_id tpl \<noteq> '''' \<and> getTemplate (tpl_id tpl) = Some tpl)"

lemma chosen_stored:
  assumes "ready = ready_templates tpls" and "template_offered f ready" and "list_current getTemplate ready"
  shows "\<exists>tpl. chosen_template f ready \<noteq> '''' \<and> getTemplate (chosen_template f ready) = Some tpl \<and> tpl_state tpl = READY"
proof -
  have "\<exists>tpl \<in> set ready. chosen_template f ready = tpl_id tpl"
    using assms(2) by (cases ready) (auto simp: template_offered_def chosen_template_def)
  then show ?thesis using assms(1,3) by (auto simp: list_current_def ready_templates_def)
qed

lemma create_geometry_explicit:
  assumes "0 < b_VCPUs b" "0 < b_MemoryMiB b"
    and "geometry_bounds (b_VCPUs b) (b_MemoryMiB b) (b_DataDiskGiB b)"
    and "srv_validateCeilings (b_VCPUs b) (b_MemoryMiB b) (b_MaxVCPUs b) (b_MaxMemoryMiB b) = None"
    and "b_Autoscale b = Some True \<Longrightarrow> 0 < b_MaxVCPUs b \<or> 0 < b_MaxMemoryMiB b"
  shows "\<exists>c. create_geometry d b = Inr c \<and> b_TemplateID c = b_TemplateID b \<and> b_Egress c = b_Egress b \<and>
    b_VCPUs c = b_VCPUs b \<and> b_MemoryMiB c = b_MemoryMiB b \<and>
    b_DataDiskGiB c = (if b_DataDiskGiB b = 0 \<and> \<not> d_Disabled d then d_DataDiskGiB (withDefaults d) else b_DataDiskGiB b) \<and>
    b_MaxVCPUs c = b_MaxVCPUs b \<and> b_Autoscale c = b_Autoscale b \<and>
    b_MaxMemoryMiB c = (if b_MaxMemoryMiB b > b_MemoryMiB b
      then effectiveCeiling (b_MemoryMiB b) (b_MaxMemoryMiB b) else b_MaxMemoryMiB b)"
proof -
  have "\<nexists>e. resolveGeometry b d = Inl e"
    unfolding resolveGeometry_explicit_error [OF assms(1,2)] using assms(5) by auto
  then obtain r where r: "resolveGeometry b d = Inr r" by (cases "resolveGeometry b d") auto
  note same = resolveGeometry_explicit [OF assms(1,2) r]
  have "srv_validateGeometry (b_VCPUs b) (b_MemoryMiB b) (b_DataDiskGiB b) = None"
    using assms(3) by (simp add: srv_validateGeometry_None)
  with same assms(4,5) have "\<exists>c. create_geometry d b = Inr c \<and> b_VCPUs c = b_VCPUs b \<and> b_MemoryMiB c = b_MemoryMiB b \<and>
    b_DataDiskGiB c = (if b_DataDiskGiB b = 0 \<and> \<not> d_Disabled d then d_DataDiskGiB (withDefaults d) else b_DataDiskGiB b) \<and>
    b_MaxVCPUs c = b_MaxVCPUs b \<and> b_Autoscale c = b_Autoscale b \<and>
    b_MaxMemoryMiB c = (if b_MaxMemoryMiB b > b_MemoryMiB b
      then effectiveCeiling (b_MemoryMiB b) (b_MaxMemoryMiB b) else b_MaxMemoryMiB b)"
    by (auto simp: create_geometry_def r effectiveCeiling_server)
  then show ?thesis using create_geometry_carries by fast
qed

lemma request_body_sel [simp]:
  "b_TemplateID (request_body r) = cr_template_id r"
  "b_Egress (request_body r) = (case cr_egress r of None \<Rightarrow> '''' | Some e \<Rightarrow> egress_text e)"
  "b_VCPUs (request_body r) = nullish (cr_vcpus r) 0"
  "b_MemoryMiB (request_body r) = nullish (cr_memory_mib r) 0"
  "b_DataDiskGiB (request_body r) = nullish (cr_data_disk_gib r) 0"
  "b_MaxVCPUs (request_body r) = nullish (cr_max_vcpus r) 0"
  "b_MaxMemoryMiB (request_body r) = nullish (cr_max_memory_mib r) 0"
  "b_Autoscale (request_body r) = cr_autoscale r"
  by (simp_all add: request_body_def)

text \<open>No message of the check is empty, so the form is submitted only when the check passes.\<close>

lemma utf8_char_nonempty [simp]: "utf8_char n \<noteq> []"
  by (simp add: utf8_char_def)

lemma if_neqI: "a \<noteq> c \<Longrightarrow> b \<noteq> c \<Longrightarrow> (if P then a else b) \<noteq> c"
  by simp

lemma validateGeometry_message: "validateGeometry g (tr l) \<noteq> Some ''''"
  unfolding validateGeometry_def Let_def by (intro if_neqI; simp add: tr_def zh_def)

lemma submit_Some: "submit s ready (tr l) = Some r \<longleftrightarrow>
  validationError s (tr l) = None \<and> r = create_body s ready"
  using validateGeometry_message [of "fixed_input (cs_form s)" l]
    validateGeometry_message [of "advanced_input (cs_form s)" l]
  by (auto simp: submit_def validationError_def truthy_str_def split: option.splits)

lemma explicit_valid:
  "validateGeometry (fixed_input f) t = None \<longleftrightarrow>
     geometry_bounds (cf_vcpus f) (cf_memory_mib f) (cf_data_disk_gib f)"
  "validateGeometry (advanced_input f) t = None \<longleftrightarrow>
     geometry_bounds (cf_vcpus f) (cf_memory_mib f) (cf_data_disk_gib f) \<and>
     client_ceilings (cf_vcpus f) (cf_memory_mib f) (cf_max_vcpus f) (cf_max_memory_mib f) \<and>
     (cf_autoscale f \<and> (0 < cf_vcpus f \<or> 0 < cf_memory_mib f) \<longrightarrow> 0 < cf_max_vcpus f \<or> 0 < cf_max_memory_mib f)"
  by (auto simp: fixed_input_def advanced_input_def validateGeometry_None client_ceilings_def truthy_bool_def)

lemma body_disk: "geometry_bounds v m (cf_data_disk_gib f) \<Longrightarrow>
  geometry_bounds v m (nullish (if cf_data_disk_gib f \<noteq> 15 then Some (cf_data_disk_gib f) else None) 0)"
  by (simp add: geometry_bounds_def)

lemma body_constant [simp]:
  "cr_template_id (create_body s ready) = chosen_template (cs_form s) ready"
  "cr_egress (create_body s ready) = Some (cf_egress (cs_form s))"
  "cr_data_disk_gib (create_body s ready) =
     (if cf_data_disk_gib (cs_form s) \<noteq> 15 then Some (cf_data_disk_gib (cs_form s)) else None)"
  by (simp_all add: create_body_def Let_def split: option.split)

definition stock_defaults :: ElasticDefaults where
  "stock_defaults = \<lparr>d_Disabled = False, d_BaseVCPUs = 0, d_BaseMemoryMiB = 0, d_DataDiskGiB = 0,
     d_MaxVCPUs = 0, d_MaxMemoryMiB = 0\<rparr>"

lemma explicit_geometry:
  assumes "submit s ready (tr l) = Some r" and "cs_mode s = FixedMode \<or> cs_advanced s"
    and "1 \<le> cf_vcpus (cs_form s)" "1 \<le> cf_memory_mib (cs_form s)" "1 \<le> cf_data_disk_gib (cs_form s)"
  shows "\<exists>c. create_geometry d (request_body r) = Inr c \<and>
    b_TemplateID c = chosen_template (cs_form s) ready \<and> b_Egress c = egress_text (cf_egress (cs_form s)) \<and>
    b_VCPUs c = cf_vcpus (cs_form s) \<and> b_MemoryMiB c = cf_memory_mib (cs_form s) \<and>
    b_DataDiskGiB c = (if cf_data_disk_gib (cs_form s) \<noteq> 15 then cf_data_disk_gib (cs_form s)
      else if d_Disabled d then 0 else d_DataDiskGiB (withDefaults d)) \<and>
    (if cs_mode s = FixedMode then b_MaxVCPUs c = 0 \<and> b_MaxMemoryMiB c = 0 \<and> b_Autoscale c = None
     else b_MaxVCPUs c = cf_max_vcpus (cs_form s) \<and> b_Autoscale c = Some (cf_autoscale (cs_form s)) \<and>
       b_MaxMemoryMiB c = (if cf_max_memory_mib (cs_form s) = 0 then 0
         else effectiveCeiling (cf_memory_mib (cs_form s)) (cf_max_memory_mib (cs_form s))))"
proof -
  let ?f = "cs_form s"
  have r: "r = create_body s ready" and ok: "validationError s (tr l) = None"
    using assms(1) by (simp_all add: submit_Some)
  show ?thesis
  proof (cases "cs_mode s = FixedMode")
    case True
    then have "geometry_bounds (cf_vcpus ?f) (cf_memory_mib ?f) (cf_data_disk_gib ?f)"
      using ok by (simp add: validationError_def explicit_valid)
    from create_geometry_explicit [of "request_body r" d] body_disk [OF this] True assms(3-5)
    show ?thesis by (auto simp: r create_body_def Let_def srv_validateCeilings_None)
  next
    case False
    with assms(2) have adv: "cs_advanced s" by simp
    with False ok have v: "geometry_bounds (cf_vcpus ?f) (cf_memory_mib ?f) (cf_data_disk_gib ?f)"
      "client_ceilings (cf_vcpus ?f) (cf_memory_mib ?f) (cf_max_vcpus ?f) (cf_max_memory_mib ?f)"
      "cf_autoscale ?f \<Longrightarrow> 0 < cf_max_vcpus ?f \<or> 0 < cf_max_memory_mib ?f"
      using assms(3) by (auto simp: validationError_def explicit_valid)
    from create_geometry_explicit [of "request_body r" d] body_disk [OF v(1)] False adv assms(3-5) v(2,3)
    show ?thesis
      by (auto simp: r create_body_def Let_def srv_validateCeilings_None client_ceilings_def
          effectiveCeiling_def)
  qed
qed

text \<open>The choice a radio group shows.\<close>

definition chosen_radio :: "'a vnode \<Rightarrow> bool" where
  "chosen_radio n = (case n of Txt _ \<Rightarrow> False
     | El tag attrs ns \<Rightarrow> Attr ''role'' ''radio'' \<in> set attrs \<and> Flag ''aria-checked'' True \<in> set attrs)"

lemma preset_radio: "filter chosen_radio (nodes_of (preset_button f t p)) =
  (if cf_preset f = ep_key p then [preset_button f t p] else [])"
  by (simp add: preset_button_def chosen_radio_def Let_def)

lemma panel_radio:
  assumes "\<not> cs_advanced s"
  shows "filter chosen_radio (nodes_of (elastic_panel s t)) =
    concat (map (\<lambda>p. if cf_preset (cs_form s) = ep_key p then [preset_button (cs_form s) t p] else []) ELASTIC_PRESETS)"
  using assms by (simp add: elastic_panel_def Let_def chosen_radio_def filter_concat o_def preset_radio)

lemma one_preset: "p \<in> set ELASTIC_PRESETS \<Longrightarrow>
  concat (map (\<lambda>q. if ep_key p = ep_key q then [f q] else []) ELASTIC_PRESETS) = [f p]"
  by (auto simp: ELASTIC_PRESETS_def)

lemma panel_shown: "cs_mode s = ElasticMode \<Longrightarrow>
  elastic_panel s t \<in> set (nodes_of (CreateSandboxDialog s tpls isPending err t))"
  by (simp add: CreateSandboxDialog_def Dialog_def Let_def) (simp add: elastic_panel_def Let_def)

lemma text_of_preset: "text_of (preset_button f t p) = t (ep_label p) (ep_zh p) @
  t ''up to'' (zh [0x4E0A, 0x9650]) @ '' '' @ fmtMiB (nullish (ep_max_memory_mib p) (g_memory_mib DEFAULT_CEILING)) @
  ('' '' @ zh [0xB7] @ '' '') @ js_num (nullish (ep_max_vcpus p) (g_vcpus DEFAULT_CEILING)) @ '' vCPU''"
  by (simp add: preset_button_def Let_def)

lemma simple_geometry:
  assumes "cs_mode s = ElasticMode" "\<not> cs_advanced s" and "p \<in> set ELASTIC_PRESETS"
    and "cf_preset (cs_form s) = ep_key p" and "1 \<le> cf_data_disk_gib (cs_form s)" "cf_data_disk_gib (cs_form s) \<le> 4096"
  shows "\<exists>c. create_geometry stock_defaults (request_body (create_body s ready)) = Inr c \<and>
    b_VCPUs c = g_vcpus DEFAULT_BASE \<and> b_MemoryMiB c = g_memory_mib DEFAULT_BASE \<and>
    b_DataDiskGiB c = cf_data_disk_gib (cs_form s) \<and> b_Autoscale c = Some True \<and>
    b_MaxVCPUs c = nullish (ep_max_vcpus p) (g_vcpus DEFAULT_CEILING) \<and>
    b_MaxMemoryMiB c = nullish (ep_max_memory_mib p) (g_memory_mib DEFAULT_CEILING)"
proof -
  have d: "withDefaults stock_defaults = \<lparr>d_Disabled = False, d_BaseVCPUs = 1, d_BaseMemoryMiB = 256,
     d_DataDiskGiB = 15, d_MaxVCPUs = 4, d_MaxMemoryMiB = 4096\<rparr>"
    by (simp add: withDefaults_def stock_defaults_def)
  consider "p = ELASTIC_PRESETS ! 0" | "p = ELASTIC_PRESETS ! 1" | "p = ELASTIC_PRESETS ! 2"
    using assms(3) by (auto simp: ELASTIC_PRESETS_def)
  then show ?thesis
    by cases (use assms(1,2,4,5,6) in \<open>simp_all add: create_geometry_def srv_validateGeometry_def
        resolveGeometry_def srv_validateCeilings_def d create_body_def Let_def ELASTIC_PRESETS_def
        DEFAULT_BASE_def DEFAULT_CEILING_def truthy_num_def srv_roundUpToSlot_def go_quot_def\<close>)
qed

section \<open>Properties\<close>

text \<open>C25: A form with an explicit base that can be submitted, with a template of the list, is accepted by
  every control plane whose store still has that list and whose quota has room, and what is stored is
  what was entered: template, egress, base; the fixed mode stores no ceiling and no autoscaling, the
  advanced mode the ceilings (memory rounded up to a slot) and the autoscaling choice.  The disk size is
  stored as entered unless it is 15, which the form leaves out: then it is the platform's default, and
  0 where default-elastic geometry is off.\<close>

theorem explicit_form_stored:
  assumes "submit s ready (tr l) = Some r" and "cs_mode s = FixedMode \<or> cs_advanced s"
    and "1 \<le> cf_vcpus (cs_form s)" "1 \<le> cf_memory_mib (cs_form s)" "1 \<le> cf_data_disk_gib (cs_form s)"
    and "ready = ready_templates tpls" "template_offered (cs_form s) ready" "list_current getTemplate ready"
    and "\<not> (0 < quota \<and> quota \<le> active)"
  shows "\<exists>c. createSandbox_checks d getTemplate quota active (request_body r) = Inr c \<and>
    b_TemplateID c = chosen_template (cs_form s) ready \<and> b_Egress c = egress_text (cf_egress (cs_form s)) \<and>
    b_VCPUs c = cf_vcpus (cs_form s) \<and> b_MemoryMiB c = cf_memory_mib (cs_form s) \<and>
    b_DataDiskGiB c = (if cf_data_disk_gib (cs_form s) \<noteq> 15 then cf_data_disk_gib (cs_form s)
      else if d_Disabled d then 0 else d_DataDiskGiB (withDefaults d)) \<and>
    (if cs_mode s = FixedMode then b_MaxVCPUs c = 0 \<and> b_MaxMemoryMiB c = 0 \<and> b_Autoscale c = None
     else b_MaxVCPUs c = cf_max_vcpus (cs_form s) \<and> b_Autoscale c = Some (cf_autoscale (cs_form s)) \<and>
       b_MaxMemoryMiB c = (if cf_max_memory_mib (cs_form s) = 0 then 0
         else effectiveCeiling (cf_memory_mib (cs_form s)) (cf_max_memory_mib (cs_form s))))"
proof -
  obtain tpl where tpl: "chosen_template (cs_form s) ready \<noteq> ''''"
    "getTemplate (chosen_template (cs_form s) ready) = Some tpl" "tpl_state tpl = READY"
    using chosen_stored [OF assms(6-8)] by blast
  have "cr_template_id r = chosen_template (cs_form s) ready" using assms(1) by (simp add: submit_Some)
  with tpl have "b_TemplateID (request_body r) \<noteq> ''''" "getTemplate (b_TemplateID (request_body r)) = Some tpl" by simp_all
  note checks = createSandbox_checks_geometry [where getTemplate = getTemplate, OF _ this tpl(3) assms(9)]
  obtain c where c: "create_geometry d (request_body r) = Inr c" "b_TemplateID c = chosen_template (cs_form s) ready \<and>
      b_Egress c = egress_text (cf_egress (cs_form s)) \<and>
      b_VCPUs c = cf_vcpus (cs_form s) \<and> b_MemoryMiB c = cf_memory_mib (cs_form s) \<and>
      b_DataDiskGiB c = (if cf_data_disk_gib (cs_form s) \<noteq> 15 then cf_data_disk_gib (cs_form s)
        else if d_Disabled d then 0 else d_DataDiskGiB (withDefaults d)) \<and>
      (if cs_mode s = FixedMode then b_MaxVCPUs c = 0 \<and> b_MaxMemoryMiB c = 0 \<and> b_Autoscale c = None
       else b_MaxVCPUs c = cf_max_vcpus (cs_form s) \<and> b_Autoscale c = Some (cf_autoscale (cs_form s)) \<and>
         b_MaxMemoryMiB c = (if cf_max_memory_mib (cs_form s) = 0 then 0
           else effectiveCeiling (cf_memory_mib (cs_form s)) (cf_max_memory_mib (cs_form s))))"
    using explicit_geometry [OF assms(1-5), of d] by blast
  show ?thesis by (rule exI [of _ c], rule conjI [OF checks [OF c(1)] c(2)])
qed

definition template0 :: Template where
  "template0 = \<lparr>tpl_id = ''tpl-1'', tpl_name = ''base'', tpl_image = ''alpine'', tpl_state = READY, tpl_error = None,
     tpl_created_at = '''', tpl_ready_at = None\<rparr>"

theorem explicit_form_stored_witness:
  "\<exists>c. createSandbox_checks stock_defaults [''tpl-1'' \<mapsto> template0] 0 7
      (request_body (create_body (create_init\<lparr>cs_advanced := True\<rparr>) [template0])) = Inr c \<and>
    b_TemplateID c = ''tpl-1'' \<and> b_Egress c = ''nat'' \<and> b_Autoscale c = Some True \<and>
    b_MaxMemoryMiB c = effectiveCeiling 256 4096"
proof -
  let ?s = "create_init\<lparr>cs_advanced := True\<rparr>"
  have "submit ?s [template0] (tr En) = Some (create_body ?s [template0])"
    by (simp add: submit_Some validationError_def create_init_def explicit_valid geometry_bounds_def
        client_ceilings_def DEFAULT_BASE_def DEFAULT_CEILING_def)
  from explicit_form_stored [OF this, of "Some [template0]" "[''tpl-1'' \<mapsto> template0]" 0 7 stock_defaults]
  show ?thesis
    by (auto simp: create_init_def DEFAULT_BASE_def DEFAULT_CEILING_def ready_templates_def template0_def
        template_offered_def list_current_def chosen_template_def egress_text_def)
qed

text \<open>C26: The simple mode sends no base.  With the stock defaults of the control plane, a store that has
  the dialog's templates and room in the quota, every preset is accepted, and what is stored is what the
  dialog shows: the base is the one in the panel's sentence, the ceiling is the one on the one preset
  button that is checked, autoscaling is on, and disk, egress and template are those of the form, as long
  as the disk size is in range.\<close>

theorem simple_form_stored:
  assumes "cs_mode s = ElasticMode" "\<not> cs_advanced s" and "p \<in> set ELASTIC_PRESETS"
    and "cf_preset (cs_form s) = ep_key p" and "1 \<le> cf_data_disk_gib (cs_form s)" "cf_data_disk_gib (cs_form s) \<le> 4096"
    and "ready = ready_templates tpls" "template_offered (cs_form s) ready" "list_current getTemplate ready"
    and "\<not> (0 < quota \<and> quota \<le> active)"
  shows "\<exists>r c. submit s ready t = Some r \<and>
    createSandbox_checks stock_defaults getTemplate quota active (request_body r) = Inr c \<and>
    elastic_panel s t \<in> set (nodes_of (CreateSandboxDialog s tpls isPending err t)) \<and>
    Txt (t (''Starts small ('' @ (fmtMiB (b_MemoryMiB c) @ '' / '' @ js_num (b_VCPUs c) @ '' vCPU'') @
           '') and grows under pressure up to the ceiling.'')
         (zh [0x4ECE, 0x5C0F, 0x89C4, 0x683C, 0xFF08] @ (fmtMiB (b_MemoryMiB c) @ '' / '' @ js_num (b_VCPUs c) @ '' vCPU'') @
           zh [0xFF09, 0x542F, 0x52A8, 0xFF0C, 0x538B, 0x529B, 0x4E0B, 0x81EA, 0x52A8, 0x589E, 0x957F, 0x81F3, 0x4E0A, 0x9650, 0x3002]))
      \<in> set (nodes_of (elastic_panel s t)) \<and>
    map text_of (filter chosen_radio (nodes_of (elastic_panel s t))) =
      [t (ep_label p) (ep_zh p) @ t ''up to'' (zh [0x4E0A, 0x9650]) @ '' '' @ fmtMiB (b_MaxMemoryMiB c) @
       ('' '' @ zh [0xB7] @ '' '') @ js_num (b_MaxVCPUs c) @ '' vCPU''] \<and>
    b_Autoscale c = Some True \<and> b_DataDiskGiB c = cf_data_disk_gib (cs_form s) \<and>
    b_Egress c = egress_text (cf_egress (cs_form s)) \<and> b_TemplateID c = chosen_template (cs_form s) ready"
proof -
  let ?r = "create_body s ready"
  have s: "submit s ready t = Some ?r"
    using assms(1,2) by (simp add: submit_def validationError_def truthy_str_def)
  obtain tpl where tpl: "chosen_template (cs_form s) ready \<noteq> ''''"
    "getTemplate (chosen_template (cs_form s) ready) = Some tpl" "tpl_state tpl = READY"
    using chosen_stored [OF assms(7-9)] by blast
  then have id: "b_TemplateID (request_body ?r) \<noteq> ''''" "getTemplate (b_TemplateID (request_body ?r)) = Some tpl" by simp_all
  obtain c where c: "create_geometry stock_defaults (request_body ?r) = Inr c"
    and v: "b_VCPUs c = g_vcpus DEFAULT_BASE" "b_MemoryMiB c = g_memory_mib DEFAULT_BASE"
      "b_DataDiskGiB c = cf_data_disk_gib (cs_form s)" "b_Autoscale c = Some True"
      "b_MaxVCPUs c = nullish (ep_max_vcpus p) (g_vcpus DEFAULT_CEILING)"
      "b_MaxMemoryMiB c = nullish (ep_max_memory_mib p) (g_memory_mib DEFAULT_CEILING)"
    using simple_geometry [OF assms(1-6), of ready] by blast
  have carried: "b_TemplateID c = chosen_template (cs_form s) ready" "b_Egress c = egress_text (cf_egress (cs_form s))"
    using create_geometry_carries [OF c] by simp_all
  have radio: "map text_of (filter chosen_radio (nodes_of (elastic_panel s t))) = [text_of (preset_button (cs_form s) t p)]"
    unfolding panel_radio [OF assms(2)] assms(4) one_preset [OF assms(3)] by simp
  show ?thesis
    by (intro exI [of _ ?r] exI [of _ c] conjI)
      (rule s, rule createSandbox_checks_geometry [where getTemplate = getTemplate, OF c id tpl(3) assms(10)],
       rule panel_shown [OF assms(1)], simp only: v(1,2), simp add: elastic_panel_def Let_def,
       simp only: radio text_of_preset v(5,6), rule v(4), rule v(3), rule carried(2), rule carried(1))
qed

theorem simple_form_stored_witness:
  "\<exists>c. createSandbox_checks stock_defaults [''tpl-1'' \<mapsto> template0] 3 2
      (request_body (create_body create_init [template0])) = Inr c \<and>
    b_TemplateID c = ''tpl-1'' \<and> b_DataDiskGiB c = 15 \<and> b_Autoscale c = Some True"
proof -
  obtain r c where "submit create_init [template0] (tr Zh) = Some r"
    "createSandbox_checks stock_defaults [''tpl-1'' \<mapsto> template0] 3 2 (request_body r) = Inr c"
    "b_Autoscale c = Some True" "b_DataDiskGiB c = cf_data_disk_gib (cs_form create_init)"
    "b_TemplateID c = chosen_template (cs_form create_init) [template0]"
    using simple_form_stored [of create_init "ELASTIC_PRESETS ! 0" "[template0]" "Some [template0]"
        "[''tpl-1'' \<mapsto> template0]" 3 2 "tr Zh" False None]
    by (auto simp: create_init_def ELASTIC_PRESETS_def ready_templates_def template0_def template_offered_def
        list_current_def)
  then show ?thesis
    by (auto simp: create_init_def submit_def validationError_def chosen_template_def template0_def truthy_str_def)
qed

end
