(* ===== verification/SortedView.thy ===== *)
theory SortedView
  imports Prelude
begin

text \<open>
  The contract of a table that filters and sorts the rows it is given.  The pages that show such a
  table interpret it on their own row functions.
\<close>

locale sorted_view =
  fixes view :: "'s \<Rightarrow> 'r list \<Rightarrow> 'r list"
    and keep :: "'s \<Rightarrow> 'r \<Rightarrow> bool"
    and key :: "'s \<Rightarrow> 'r \<Rightarrow> rat"
    and way :: "'s \<Rightarrow> int"
    and ready :: "'s \<Rightarrow> 'r list \<Rightarrow> bool"
  assumes view_sorts: "ready s xs \<Longrightarrow> view s xs = sort_key (\<lambda>r. of_int (way s) * key s r) (filter (keep s) xs)"
    and way_sign: "ready s xs \<Longrightarrow> way s = 1 \<or> way s = -1"
begin

lemma view_complete: "ready s xs \<Longrightarrow> mset (view s xs) = mset (filter (keep s) xs)"
  by (simp add: view_sorts)

lemma view_ordered: "ready s xs \<Longrightarrow> sorted_wrt (\<lambda>a b. of_int (way s) * key s a \<le> of_int (way s) * key s b) (view s xs)"
  using sorted_sort_key [of "\<lambda>r. of_int (way s) * key s r"] by (simp add: view_sorts sorted_map)

lemma view_stable:
  assumes "ready s xs"
  shows "filter (\<lambda>r. key s r = v) (view s xs) = filter (\<lambda>r. key s r = v) (filter (keep s) xs)"
proof -
  have "key s r = v \<longleftrightarrow> of_int (way s) * key s r = of_int (way s) * v" for r
    using way_sign [OF assms] by auto
  then show ?thesis unfolding view_sorts [OF assms] by (simp only: sort_key_stable)
qed

lemma view_up: "ready s xs \<Longrightarrow> way s = 1 \<Longrightarrow> sorted_wrt (\<lambda>a b. key s a \<le> key s b) (view s xs)"
  using view_ordered by fastforce

lemma view_down: "ready s xs \<Longrightarrow> way s = -1 \<Longrightarrow> sorted_wrt (\<lambda>a b. key s a \<ge> key s b) (view s xs)"
  using view_ordered by fastforce

end

end
