(* ===== verification/SandboxesPage.thy ===== *)
theory SandboxesPage
  imports SortedView CreateSandbox Status ResourceEvents Lifecycle
begin

text \<open>
  The sandboxes page (\<open>web/src/pages/Sandboxes.tsx\<close>): the counts, the filter and the sort over the
  fetched list, the chips, the table and the row menu with the mutations it starts.  The current time
  is the argument \<open>now\<close> where the page shows an age.
\<close>

datatype SortKey = ByState | ByMemory | ByAge | ByHeadroom

datatype list_filter = AllStates | AutoscaleOnly | OneState SandboxState

record sandboxes_state =
  ss_creating :: bool
  ss_query :: string
  ss_filter :: list_filter
  ss_key :: SortKey
  ss_dir :: int

definition sandboxes_init :: sandboxes_state where
  "sandboxes_init = \<lparr>ss_creating = False, ss_query = '''', ss_filter = AllStates, ss_key = ByAge, ss_dir = -1\<rparr>"

definition STATE_RANK :: "SandboxState list" where
  "STATE_RANK = [RUNNING, STARTING, RESUMING, PENDING, PAUSING, PAUSED_HOT, PAUSED_WARM, ARCHIVED_COLD,
     STOPPING, STOPPED, RECYCLED, FAILED]"

definition headroom :: "Sandbox \<Rightarrow> rat" where
  "headroom sb =
     (let mx = nullish (sb_max_memory_mib sb) 0
      in if mx > 0 then of_int (sb_memory_mib sb) / of_int mx else 1)"

section \<open>Derived data\<close>

definition counts :: "Sandbox list \<Rightarrow> SandboxState \<rightharpoonup> nat" where
  "counts xs = foldl (\<lambda>m sb. m(sb_state sb \<mapsto> nullish (m (sb_state sb)) 0 + 1)) Map.empty xs"

definition autoscaleCount :: "Sandbox list \<Rightarrow> nat" where
  "autoscaleCount xs = length (filter (\<lambda>sb. truthy_bool (sb_autoscale sb)) xs)"

definition lastScale :: "SandboxEvents option \<Rightarrow> string \<rightharpoonup> SandboxEvent" where
  "lastScale fleet =
     (let evs = (case fleet of None \<Rightarrow> [] | Some f \<Rightarrow> nullish (evs_events f) [])
      in foldl (\<lambda>m ev. if m (ev_sandbox_id ev) = None \<and> parseResourceEvent ev \<noteq> None
                       then m(ev_sandbox_id ev \<mapsto> ev) else m) Map.empty evs)"

definition row_matches :: "sandboxes_state \<Rightarrow> Sandbox \<Rightarrow> bool" where
  "row_matches st sb =
     (let q = js_toLowerCase (js_trim (ss_query st))
      in if ss_filter st = AutoscaleOnly \<and> \<not> truthy_bool (sb_autoscale sb) then False
         else if (case ss_filter st of OneState s \<Rightarrow> sb_state sb \<noteq> s | _ \<Rightarrow> False) then False
         else if q = [] then True
         else js_includes (js_toLowerCase (sb_id sb)) q \<or>
              js_includes (js_toLowerCase (sb_template_id sb)) q \<or>
              js_includes (js_toLowerCase (nullish (sb_node_id sb) '''')) q)"

definition rank_of :: "SandboxState \<Rightarrow> int" where
  "rank_of s = (if s \<in> set STATE_RANK then int (length (takeWhile (\<lambda>x. x \<noteq> s) STATE_RANK)) else -1)"

text \<open>The comparator.  A difference with an unparsable date is \<open>NaN\<close>, which the sort treats as 0.\<close>

definition row_cmp :: "SortKey \<Rightarrow> int \<Rightarrow> Sandbox \<Rightarrow> Sandbox \<Rightarrow> rat" where
  "row_cmp key dir a b =
     (let c = (case key of
                 ByState \<Rightarrow> of_int (rank_of (sb_state a) - rank_of (sb_state b))
               | ByMemory \<Rightarrow> of_int (sb_memory_mib a - sb_memory_mib b)
               | ByHeadroom \<Rightarrow> headroom b - headroom a
               | ByAge \<Rightarrow> (case (date_ms (sb_created_at a), date_ms (sb_created_at b)) of
                            (Some x, Some y) \<Rightarrow> of_int (x - y)
                          | _ \<Rightarrow> 0))
      in c * of_int dir)"

definition rows :: "sandboxes_state \<Rightarrow> Sandbox list \<Rightarrow> Sandbox list" where
  "rows st xs = js_sort (row_cmp (ss_key st) (ss_dir st)) (filter (row_matches st) xs)"

text \<open>The quantity a column sorts by.\<close>

definition row_value :: "SortKey \<Rightarrow> Sandbox \<Rightarrow> rat" where
  "row_value key sb = (case key of
     ByState \<Rightarrow> of_int (rank_of (sb_state sb))
   | ByMemory \<Rightarrow> of_int (sb_memory_mib sb)
   | ByHeadroom \<Rightarrow> - headroom sb
   | ByAge \<Rightarrow> of_int (nullish (date_ms (sb_created_at sb)) 0))"

definition toggleSort :: "SortKey \<Rightarrow> sandboxes_state \<Rightarrow> sandboxes_state" where
  "toggleSort key st =
     (if ss_key st = key then st\<lparr>ss_dir := (if ss_dir st = 1 then -1 else 1)\<rparr>
      else st\<lparr>ss_key := key, ss_dir := 1\<rparr>)"

definition chips :: "Sandbox list \<Rightarrow> list_filter list" where
  "chips xs = AllStates # map OneState (filter (\<lambda>s. nullish (counts xs s) 0 > 0) STATE_RANK)"

section \<open>Rows\<close>

datatype row_action = OpenWorkspace | Pause | Resume | Fork | AskKill | ConfirmKill | CloseKill

datatype row_effect = Goto string | DisposeTerm string | SuccessToast string | ErrorToast string string

text \<open>A mutation of the row: the request, what it patches, and what its callbacks do.\<close>

record row_mutation =
  rm_call :: api_call
  rm_opts :: action_opts
  rm_onSuccess :: "string \<Rightarrow> row_effect list"
  rm_onError :: "js_error \<Rightarrow> row_effect list"

definition state_opts :: "string \<Rightarrow> SandboxState \<Rightarrow> action_opts" where
  "state_opts sid s = \<lparr>ao_sandboxId = Some sid, ao_optimistic = Some (\<lambda>_. no_patch\<lparr>pa_state := Some s\<rparr>)\<rparr>"

definition row_pause :: "Sandbox \<Rightarrow> TFn \<Rightarrow> row_mutation" where
  "row_pause sb t = \<lparr>rm_call = verb_pause (sb_id sb), rm_opts = state_opts (sb_id sb) PAUSING,
     rm_onSuccess = (\<lambda>_. []), rm_onError = (\<lambda>e. [ErrorToast (t ''Pause failed'' (zh [0x6682, 0x505C, 0x5931, 0x8D25])) (message e)])\<rparr>"

definition row_resume :: "Sandbox \<Rightarrow> TFn \<Rightarrow> row_mutation" where
  "row_resume sb t = \<lparr>rm_call = verb_resume (sb_id sb), rm_opts = state_opts (sb_id sb) RESUMING,
     rm_onSuccess = (\<lambda>_. []), rm_onError = (\<lambda>e. [ErrorToast (t ''Resume failed'' (zh [0x6062, 0x590D, 0x5931, 0x8D25])) (message e)])\<rparr>"

text \<open>The argument of \<open>onSuccess\<close> is the id of the sandbox in the answer.\<close>

definition row_fork :: "Sandbox \<Rightarrow> TFn \<Rightarrow> row_mutation" where
  "row_fork sb t = \<lparr>rm_call = verb_fork (sb_id sb) None,
     rm_opts = \<lparr>ao_sandboxId = Some (sb_id sb), ao_optimistic = None\<rparr>,
     rm_onSuccess = (\<lambda>child. [Goto (''/sandboxes/'' @ child)]),
     rm_onError = (\<lambda>e. [ErrorToast (t ''Fork failed'' (zh [0x6D3E, 0x751F, 0x5931, 0x8D25])) (message e)])\<rparr>"

definition row_kill :: "Sandbox \<Rightarrow> TFn \<Rightarrow> row_mutation" where
  "row_kill sb t = \<lparr>rm_call = verb_kill (sb_id sb), rm_opts = \<lparr>ao_sandboxId = None, ao_optimistic = None\<rparr>,
     rm_onSuccess = (\<lambda>_. [DisposeTerm (sb_id sb),
       SuccessToast (t ''Sandbox'' (zh [0x6C99, 0x7BB1]) @ '' '' @ js_slice (sb_id sb) 0 8 @ '' '' @ t ''destroyed'' (zh [0x5DF2, 0x9500, 0x6BC1]))]),
     rm_onError = (\<lambda>e. [ErrorToast (t ''Kill failed'' (zh [0x9500, 0x6BC1, 0x5931, 0x8D25])) (message e)])\<rparr>"

text \<open>What an action of the row does: the new state of the confirm dialog, and the mutation or the
  route it starts.\<close>

definition row_handle :: "Sandbox \<Rightarrow> TFn \<Rightarrow> row_action \<Rightarrow> bool \<Rightarrow> bool \<times> row_mutation option \<times> string option" where
  "row_handle sb t a confirmKill = (case a of
     OpenWorkspace \<Rightarrow> (confirmKill, None, Some (''/sandboxes/'' @ sb_id sb))
   | Pause \<Rightarrow> (confirmKill, Some (row_pause sb t), None)
   | Resume \<Rightarrow> (confirmKill, Some (row_resume sb t), None)
   | Fork \<Rightarrow> (confirmKill, Some (row_fork sb t), None)
   | AskKill \<Rightarrow> (True, None, None)
   | ConfirmKill \<Rightarrow> (False, Some (row_kill sb t), None)
   | CloseKill \<Rightarrow> (False, None, None))"

text \<open>\<open>text.slice(0, n)\<close> counts characters, not bytes (all of the texts are in the basic plane).\<close>

fun take_chars :: "nat \<Rightarrow> string \<Rightarrow> string" where
  "take_chars n [] = []"
| "take_chars n (c # s) =
     (if 128 \<le> (of_char c :: nat) \<and> (of_char c :: nat) < 192 then c # take_chars n s
      else case n of 0 \<Rightarrow> [] | Suc m \<Rightarrow> c # take_chars m s)"

definition pausedLike :: "SandboxState \<Rightarrow> bool" where
  "pausedLike s \<longleftrightarrow> js_startsWith (state_text s) ''PAUSED'' \<or> s = ARCHIVED_COLD \<or> s = FAILED"

definition cell :: "'a vnode list \<Rightarrow> 'a vnode" where
  "cell ns = El ''td'' [] ns"

definition last_scale_cell :: "SandboxEvent option \<Rightarrow> TFn \<Rightarrow> int \<Rightarrow> 'a vnode" where
  "last_scale_cell lastEv t now =
     (case lastEv of
        None \<Rightarrow> El ''span'' [] [Txt (zh [0x2014])]
      | Some ev \<Rightarrow>
          (case parseResourceEvent ev of
             None \<Rightarrow> El ''span'' [] [Txt (zh [0x2014])]
           | Some d \<Rightarrow>
               let txt = rv_text (describeResourceEvent d t)
               in El ''span'' [Attr ''title'' txt]
                    [Txt (take_chars 28 txt), El ''span'' [] [Txt (('' '' @ zh [0xB7] @ '' '') @ fmtAge now (ev_at ev))]]))"

definition row_menu :: "Sandbox \<Rightarrow> TFn \<Rightarrow> row_action vnode" where
  "row_menu sb t =
     (let running = (sb_state sb = RUNNING)
      in Menu (El ''button'' [Attr ''aria-label'' (t ''Actions for'' (zh [0x64CD, 0x4F5C]) @ '' '' @ js_slice (sb_id sb) 0 8)]
                 [Icon ''IconDots'' None]) None
           ([MenuItem OpenWorkspace False False [] [Txt (t ''Open workspace'' (zh [0x6253, 0x5F00, 0x5DE5, 0x4F5C, 0x533A]))]] @
            shown running [MenuItem Pause False False [] [Txt (t ''Pause'' (zh [0x6682, 0x505C]))]] @
            shown (pausedLike (sb_state sb)) [MenuItem Resume False False [] [Txt (t ''Resume'' (zh [0x6062, 0x590D]))]] @
            [MenuItem Fork False (\<not> running) [] [Txt (t ''Fork'' (zh [0x6D3E, 0x751F]))],
             MenuSeparator,
             MenuItem AskKill True False [] [Txt (t (''Kill'' @ zh [0x2026]) (zh [0x9500, 0x6BC1, 0x2026]))]]))"

definition Row :: "Sandbox \<Rightarrow> SandboxEvent option \<Rightarrow> bool \<Rightarrow> bool \<Rightarrow> TFn \<Rightarrow> int \<Rightarrow> row_action vnode" where
  "Row sb lastEv confirmKill killPending t now =
     El ''tr'' []
       [cell [StateBadge t (sb_state sb)],
        cell [El ''a'' [Attr ''href'' (''/sandboxes/'' @ sb_id sb)] [Mono [Txt (js_slice (sb_id sb) 0 8)] None],
              El ''div'' []
                (shown (truthy_bool (sb_autoscale sb)) [AutoscaleBadge t True False] @
                 shown (truthy_str (sb_forked_from sb)) [El ''span'' [] [Txt (''fork:'' @ nullish (sb_forked_from sb) '''')]])],
        cell [MemGauge (sb_state sb) (sb_memory_mib sb) (sb_base_memory_mib sb) (sb_max_memory_mib sb) False],
        cell [Mono [Txt (if nullish (sb_max_memory_mib sb) 0 > 0 then js_num (js_round (headroom sb * 100)) @ ''%'' else (zh [0x2014]))]
                (Some ''text-muted tabular-nums'')],
        cell [Mono ([Txt (js_num (sb_vcpus sb))] @
                shown (nullish (sb_max_vcpus sb) 0 > 0)
                  [El ''span'' [] [Txt ('' / '' @ js_num (nullish (sb_max_vcpus sb) 0))]]) (Some ''tabular-nums'')],
        cell [Mono [Txt (or_str (sb_node_id sb) (zh [0x2014]))] (Some ''text-muted'')],
        cell [last_scale_cell lastEv t now],
        cell [Mono [Txt (fmtAge now (sb_created_at sb))] (Some ''text-muted tabular-nums'')],
        cell [row_menu sb t,
              El ''div'' [] (shown confirmKill
                [ConfirmDialog t (t ''Kill sandbox'' (zh [0x9500, 0x6BC1, 0x6C99, 0x7BB1]))
                   [Txt (t ''Destroy'' (zh [0x9500, 0x6BC1]) @ '' ''), Mono [Txt (js_slice (sb_id sb) 0 8)] (Some ''text-ink''),
                    Txt (t ''? Its disk, checkpoints and snapshots are deleted.'' (zh [0xFF1F, 0x5176, 0x78C1, 0x76D8, 0x3001, 0x68C0, 0x67E5, 0x70B9, 0x548C, 0x5FEB, 0x7167, 0x90FD, 0x5C06, 0x88AB, 0x5220, 0x9664, 0x3002]))]
                   (t ''Kill sandbox'' (zh [0x9500, 0x6BC1, 0x6C99, 0x7BB1])) killPending ConfirmKill CloseKill])]]"

text \<open>The modal dialog takes part in the page only while it is open.\<close>

section \<open>The page\<close>

datatype page_action = NewSandbox | SetQuery | SetFilter list_filter | ToggleSort SortKey
  | RowAction string row_action

definition SortHeader :: "string \<Rightarrow> bool \<Rightarrow> int \<Rightarrow> 'a \<Rightarrow> 'a vnode" where
  "SortHeader label active dir onClick =
     El ''button''
       [On ''click'' onClick,
        Attr ''aria-sort'' (if active then (if dir = 1 then ''ascending'' else ''descending'') else ''none'')]
       ([Txt label] @
        shown active [El ''span'' [Attr ''class'' (if dir = 1 then ''rotate-180 transition-transform'' else ''transition-transform'')]
                        [Icon ''IconChevronDown'' (Some 11)]])"

definition chip_text :: "Sandbox list \<Rightarrow> TFn \<Rightarrow> list_filter \<Rightarrow> string" where
  "chip_text xs t c = (case c of
     OneState s \<Rightarrow> stateLabel s t @ '' '' @ js_num (int (nullish (counts xs s) 0))
   | _ \<Rightarrow> t ''All'' (zh [0x5168, 0x90E8]) @ '' '' @ js_num (int (length xs)))"

definition chip_bar :: "sandboxes_state \<Rightarrow> Sandbox list \<Rightarrow> TFn \<Rightarrow> page_action vnode" where
  "chip_bar st xs t =
     El ''div'' []
       (map (\<lambda>c. El ''button'' [On ''click'' (SetFilter c), Flag ''active'' (ss_filter st = c)]
                  [Txt (chip_text xs t c)]) (chips xs) @
        shown (autoscaleCount xs > 0)
          [El ''button'' [On ''click'' (SetFilter (if ss_filter st = AutoscaleOnly then AllStates else AutoscaleOnly)),
                          Flag ''active'' (ss_filter st = AutoscaleOnly)]
             [Txt (t ''Autoscale'' (zh [0x81EA, 0x52A8, 0x4F38, 0x7F29]) @ '' '' @ js_num (int (autoscaleCount xs)))]])"

definition table_head :: "sandboxes_state \<Rightarrow> TFn \<Rightarrow> page_action vnode list list" where
  "table_head st t =
     (let sh = (\<lambda>label key. [SortHeader label (ss_key st = key) (ss_dir st) (ToggleSort key)])
      in [sh (t ''State'' (zh [0x72B6, 0x6001])) ByState, [Txt (t ''Sandbox'' (zh [0x6C99, 0x7BB1]))], sh (t ''Memory'' (zh [0x5185, 0x5B58])) ByMemory,
          sh (t ''Headroom'' (zh [0x4F59, 0x91CF])) ByHeadroom, [Txt (t ''vCPUs'' ''vCPU'')], [Txt (t ''Node'' (zh [0x8282, 0x70B9]))],
          [Txt (t ''Last scale'' (zh [0x6700, 0x8FD1, 0x4F38, 0x7F29]))], sh (t ''Age'' (zh [0x65F6, 0x957F])) ByAge, [Txt '''']])"

text \<open>\<open>confirming\<close> and \<open>killing\<close> are the local states of the rows, by sandbox id.\<close>

definition Sandboxes ::
  "sandboxes_state \<Rightarrow> Sandbox list option \<Rightarrow> bool \<Rightarrow> SandboxEvents option \<Rightarrow> (string \<Rightarrow> bool) \<Rightarrow> (string \<Rightarrow> bool) \<Rightarrow>
   TFn \<Rightarrow> int \<Rightarrow> page_action vnode" where
  "Sandboxes st data isLoading fleet confirming killing t now =
     (let xs = nullish data []; rs = rows st xs
      in El ''div'' []
       ([PageHeader [Txt (t ''Sandboxes'' (zh [0x6C99, 0x7BB1]))]
           (shown (xs \<noteq> []) [Txt (js_num (int (length xs)) @ '' '' @ t ''total'' (zh [0x603B, 0x8BA1]))])
           [Button (button0\<lparr>bp_kind := Some Primary, bp_onClick := Some NewSandbox\<rparr>) [Txt (t ''New sandbox'' (zh [0x65B0, 0x5EFA, 0x6C99, 0x7BB1]))]],
         El ''div'' []
           [El ''input'' [Attr ''value'' (ss_query st), On ''change'' SetQuery,
                          Attr ''placeholder'' (t (''Filter by id, template, node'' @ zh [0x2026]) (zh [0x6309] @ '' id'' @ zh [0x3001, 0x6A21, 0x677F, 0x3001, 0x8282, 0x70B9, 0x7B5B, 0x9009, 0x2026])),
                          Attr ''aria-label'' (t ''Filter sandboxes'' (zh [0x7B5B, 0x9009, 0x6C99, 0x7BB1]))] [],
            chip_bar st xs t],
         Table (table_head st t)
           (map (\<lambda>sb. map_actions (RowAction (sb_id sb))
              (Row sb (lastScale fleet (sb_id sb)) (confirming (sb_id sb)) (killing (sb_id sb)) t now)) rs)] @
        shown isLoading
          [El ''div'' [] [Skeleton (Some ''h-10 w-full''), Skeleton (Some ''h-10 w-full'')]] @
        shown (\<not> isLoading \<and> xs = [])
          [Empty [Txt (t (''No sandboxes. '' @ zh [0x201C] @ ''New sandbox'' @ zh [0x201D] @ '' boots one from a READY template.'')
                         (zh [0x6682, 0x65E0, 0x6C99, 0x7BB1, 0x3002, 0x70B9, 0x51FB, 0x201C, 0x65B0, 0x5EFA, 0x6C99, 0x7BB1, 0x201D, 0x4ECE] @ '' READY '' @ zh [0x6A21, 0x677F, 0x542F, 0x52A8, 0x4E00, 0x4E2A, 0x3002]))]] @
        shown (\<not> isLoading \<and> xs \<noteq> [] \<and> rs = [])
          [Empty [Txt (t ''No sandboxes match this filter.'' (zh [0x6CA1, 0x6709, 0x6C99, 0x7BB1, 0x5339, 0x914D, 0x6B64, 0x7B5B, 0x9009, 0x3002]))]]))"

definition sandboxes_update :: "sandboxes_state \<Rightarrow> page_action \<Rightarrow> string \<Rightarrow> sandboxes_state" where
  "sandboxes_update st a input = (case a of
     NewSandbox \<Rightarrow> st\<lparr>ss_creating := True\<rparr>
   | SetQuery \<Rightarrow> st\<lparr>ss_query := input\<rparr>
   | SetFilter f \<Rightarrow> st\<lparr>ss_filter := f\<rparr>
   | ToggleSort k \<Rightarrow> toggleSort k st
   | RowAction _ _ \<Rightarrow> st)"


section \<open>Facts\<close>

text \<open>The displays of a row carry no handlers.\<close>

lemma view_actions:
  "enabled_actions (StateBadge t s) = []" "enabled_actions (AutoscaleBadge t on d) = []"
  "enabled_actions (MemGauge s m b mx w) = []" "enabled_actions (last_scale_cell ev t now) = []"
  "enabled_actions (Mono ns cls) = enabled_of ns" "enabled_actions MenuSeparator = []"
  "enabled_actions (Menu tg al ns) = enabled_actions tg @ enabled_of ns"
  by (simp_all add: StateBadge_def AutoscaleBadge_def MemGauge_def gauge_def StatusDot_def
      last_scale_cell_def Mono_def Menu_def MenuSeparator_def Let_def attr_actions_def shown_def
      split: option.splits)

lemma enabled_Confirm: "enabled_actions (ConfirmDialog t title body label busy yes no) =
  [(''close'', no), (''click-self'', no), (''click'', no)] @ enabled_of body @ [(''click'', no)] @
  (if busy then [] else [(''click'', yes)])"
  by (simp add: ConfirmDialog_def Dialog_def attr_actions_def)

lemma row_enabled: "enabled_actions (Row sb lastEv confirmKill killPending t now) =
  [(''select'', OpenWorkspace)] @ shown (sb_state sb = RUNNING) [(''select'', Pause)] @
  shown (pausedLike (sb_state sb)) [(''select'', Resume)] @ shown (sb_state sb = RUNNING) [(''select'', Fork)] @
  [(''select'', AskKill)] @
  shown confirmKill ([(''close'', CloseKill), (''click-self'', CloseKill), (''click'', CloseKill), (''click'', CloseKill)] @
    (if killPending then [] else [(''click'', ConfirmKill)]))"
  by (simp add: Row_def cell_def row_menu_def Let_def view_actions enabled_Confirm attr_actions_def shown_def)

lemma row_offers: "map snd (enabled_actions (Row sb lastEv confirmKill killPending t now)) =
  [OpenWorkspace] @ shown (sb_state sb = RUNNING) [Pause] @ shown (pausedLike (sb_state sb)) [Resume] @
  shown (sb_state sb = RUNNING) [Fork] @ [AskKill] @
  shown confirmKill ([CloseKill, CloseKill, CloseKill, CloseKill] @ (if killPending then [] else [ConfirmKill]))"
  by (simp add: row_enabled shown_def)

lemma counts_snoc: "counts (xs @ [x]) = (counts xs)(sb_state x \<mapsto> nullish (counts xs (sb_state x)) 0 + 1)"
  by (simp add: counts_def)

lemma counts_eq: "nullish (counts xs s) 0 = length (filter (\<lambda>sb. sb_state sb = s) xs)"
proof (induction xs rule: rev_induct)
  case (snoc x xs)
  then show ?case by (auto simp: counts_snoc)
qed (simp add: counts_def)

lemma row_cmp_key:
  assumes "key = ByAge \<Longrightarrow> date_ms (sb_created_at a) \<noteq> None \<and> date_ms (sb_created_at b) \<noteq> None"
  shows "row_cmp key dir a b = of_int dir * row_value key a - of_int dir * row_value key b"
  using assms by (cases key) (auto simp: row_cmp_def row_value_def algebra_simps)

lemma js_insert_cong: "\<forall>y \<in> set xs. cmp x y = cmp' x y \<Longrightarrow> js_insert cmp x xs = js_insert cmp' x xs"
  by (induction xs) auto

lemma js_sort_cong: "\<forall>a \<in> set xs. \<forall>b \<in> set xs. cmp a b = cmp' a b \<Longrightarrow> js_sort cmp xs = js_sort cmp' xs"
proof (induction xs)
  case (Cons x xs)
  then have "js_sort cmp xs = js_sort cmp' xs" by simp
  moreover have "\<forall>y \<in> set (js_sort cmp' xs). cmp x y = cmp' x y" using Cons.prems by auto
  ultimately show ?case using js_insert_cong [of "js_sort cmp' xs" cmp x cmp'] by (simp add: js_sort_def)
qed (simp add: js_sort_def)

lemma rows_sort_key:
  assumes "ss_key st = ByAge \<Longrightarrow> \<forall>sb \<in> set xs. date_ms (sb_created_at sb) \<noteq> None"
  shows "rows st xs = sort_key (\<lambda>sb. of_int (ss_dir st) * row_value (ss_key st) sb) (filter (row_matches st) xs)"
  unfolding rows_def js_sort_key [symmetric]
  by (rule js_sort_cong) (use assms in \<open>auto intro!: row_cmp_key\<close>)

text \<open>The table keeps the contract of a sorted view once the direction is a sign and, for the age column,
  the time stamps parse.\<close>

definition rows_ready :: "sandboxes_state \<Rightarrow> Sandbox list \<Rightarrow> bool" where
  "rows_ready st xs \<longleftrightarrow> (ss_dir st = 1 \<or> ss_dir st = -1) \<and>
     (ss_key st = ByAge \<longrightarrow> list_all (\<lambda>sb. date_ms (sb_created_at sb) \<noteq> None) xs)"

interpretation table: sorted_view rows row_matches "\<lambda>st. row_value (ss_key st)" ss_dir rows_ready
  by unfold_locales (auto simp: rows_ready_def list_all_iff intro!: rows_sort_key)

lemma legal_moves:
  "Validate s PAUSING = None \<longleftrightarrow> s = RUNNING" "Validate s RESUMING = None \<longleftrightarrow> pausedLike s"
  by (cases s; simp add: pausedLike_def Validate_def transitions_def activeStates_def)+

lemma no_stop_edge:
  "Validate s STOPPING \<noteq> None \<longleftrightarrow> s \<in> {PENDING, STARTING, PAUSING, RESUMING, STOPPING, STOPPED}"
  by (cases s; simp add: Validate_def transitions_def activeStates_def)

lemma row_set: "set (map snd (enabled_actions (Row sb lastEv confirmKill killPending t now))) =
  {OpenWorkspace, AskKill} \<union> (if sb_state sb = RUNNING then {Pause, Fork} else {}) \<union>
  (if pausedLike (sb_state sb) then {Resume} else {}) \<union>
  (if confirmKill then {CloseKill} \<union> (if killPending then {} else {ConfirmKill}) else {})"
  unfolding row_offers by (auto simp: shown_def)

lemma STATE_RANK_complete: "set STATE_RANK = UNIV"
  by (auto simp: STATE_RANK_def intro: SandboxState.exhaust)

section \<open>Properties\<close>

text \<open>C36: The table shows every sandbox that passes the chip and the text filter exactly once, in the
  order of the chosen column and direction (stably): for all columns, provided that for the age column
  the time stamps parse.\<close>

theorem rows_sorted:
  assumes "ss_key st = ByAge \<Longrightarrow> \<forall>sb \<in> set xs. date_ms (sb_created_at sb) \<noteq> None"
    and "ss_dir st = 1 \<or> ss_dir st = -1"
  shows "mset (rows st xs) = mset (filter (row_matches st) xs) \<and>
    sorted_wrt (\<lambda>a b. of_int (ss_dir st) * row_value (ss_key st) a \<le> of_int (ss_dir st) * row_value (ss_key st) b)
      (rows st xs) \<and>
    (\<forall>v. filter (\<lambda>sb. row_value (ss_key st) sb = v) (rows st xs) =
         filter (\<lambda>sb. row_value (ss_key st) sb = v) (filter (row_matches st) xs))"
proof -
  have "rows_ready st xs" using assms by (simp add: rows_ready_def list_all_iff)
  then show ?thesis using table.view_complete table.view_ordered table.view_stable by auto
qed

definition sandbox0 :: Sandbox where
  "sandbox0 = \<lparr>sb_id = ''aaaa'', sb_template_id = ''tpl'', sb_state = RUNNING, sb_vcpus = 1, sb_memory_mib = 512,
     sb_data_disk_gib = 15, sb_netns = None, sb_owner = None, sb_error = None,
     sb_created_at = ''2026-01-01T00:00:00Z'', sb_updated_at = ''2026-01-01T00:00:00Z'', sb_paused_at = None,
     sb_node_id = None, sb_parent_id = None, sb_forked_from = None, sb_max_memory_mib = None,
     sb_max_vcpus = None, sb_base_memory_mib = None, sb_base_vcpus = None, sb_autoscale = None\<rparr>"

theorem rows_sorted_witness:
  "\<exists>st xs. length xs = 2 \<and> ss_key st = ByMemory \<and>
    sorted_wrt (\<lambda>a b. sb_memory_mib a \<ge> sb_memory_mib b) (rows st xs) \<and> mset (rows st xs) = mset xs"
proof -
  let ?st = "sandboxes_init\<lparr>ss_key := ByMemory\<rparr>"
  let ?xs = "[sandbox0\<lparr>sb_memory_mib := 256\<rparr>, sandbox0]"
  have "filter (row_matches ?st) ?xs = ?xs"
    by (simp add: row_matches_def sandboxes_init_def js_trim_def js_toLowerCase_def)
  with rows_sorted [of ?st ?xs] show ?thesis
    by (intro exI [of _ ?st] exI [of _ ?xs]) (simp add: sandboxes_init_def row_value_def)
qed

text \<open>The numbers on the chips are right: the chip of a state is there exactly when some sandbox is
  in that state, and choosing a chip (or the autoscale chip) with an empty search box shows as many rows
  as the chip announces; the numbers of the state chips add up to the total.\<close>

theorem chips_count:
  assumes "js_trim (ss_query st) = []"
  shows "(\<forall>s. OneState s \<in> set (chips xs) \<longleftrightarrow> (\<exists>sb \<in> set xs. sb_state sb = s)) \<and>
    (\<forall>s. chip_text xs t (OneState s) =
       stateLabel s t @ '' '' @ js_num (int (length (rows (st\<lparr>ss_filter := OneState s\<rparr>) xs)))) \<and>
    length (rows (st\<lparr>ss_filter := AllStates\<rparr>) xs) = length xs \<and>
    length (rows (st\<lparr>ss_filter := AutoscaleOnly\<rparr>) xs) = autoscaleCount xs \<and>
    (\<Sum>s \<leftarrow> STATE_RANK. nullish (counts xs s) 0) = length xs"
proof -
  have "OneState s \<in> set (chips xs) \<longleftrightarrow> (\<exists>sb \<in> set xs. sb_state sb = s)" for s
    using STATE_RANK_complete by (auto simp: chips_def counts_eq filter_empty_conv)
  moreover have "(\<Sum>s \<leftarrow> STATE_RANK. length (filter (\<lambda>sb. sb_state sb = s) xs)) = length xs"
  proof (induction xs)
    case (Cons x xs)
    then show ?case by (cases "sb_state x") (simp_all add: STATE_RANK_def)
  qed (simp add: STATE_RANK_def)
  moreover have "filter (row_matches (st\<lparr>ss_filter := OneState s\<rparr>)) xs = filter (\<lambda>sb. sb_state sb = s) xs" for s
    using assms by (intro filter_cong) (auto simp: row_matches_def js_toLowerCase_def)
  moreover have "filter (row_matches (st\<lparr>ss_filter := AllStates\<rparr>)) xs = xs"
    using assms by (intro filter_True) (auto simp: row_matches_def js_toLowerCase_def)
  moreover have "filter (row_matches (st\<lparr>ss_filter := AutoscaleOnly\<rparr>)) xs =
      filter (\<lambda>sb. truthy_bool (sb_autoscale sb)) xs"
    using assms by (intro filter_cong) (auto simp: row_matches_def js_toLowerCase_def)
  ultimately show ?thesis by (simp add: chip_text_def rows_def counts_eq autoscaleCount_def)
qed

theorem chips_count_witness:
  "chip_text [sandbox0] (tr En) (OneState RUNNING) = stateLabel RUNNING (tr En) @ '' 1''"
  using chips_count [of sandboxes_init "[sandbox0]" "tr En"]
  by (simp add: sandboxes_init_def js_trim_def counts_eq chip_text_def sandbox0_def js_eval)

text \<open>C7: What a row of the table can do.  Pausing is offered exactly where the lifecycle may pause and
  resuming exactly where it may resume, each showing the state it leads to; forking exactly while running.
  Kill is offered in every state, also in the six from which the lifecycle has no edge to STOPPING, where
  the server has to decide.  The menu item only opens a confirm dialog, nothing else opens it, and every
  request the row sends is one of these: a legal pause or resume, a fork while running, or the kill
  confirmed in the open dialog, which cannot be confirmed twice while a kill is pending.\<close>

theorem row_actions_legal:
  "let as = set (map snd (enabled_actions (Row sb lastEv confirmKill killPending t now))); s = sb_state sb in
   (Pause \<in> as \<longleftrightarrow> Validate s PAUSING = None) \<and> (Resume \<in> as \<longleftrightarrow> Validate s RESUMING = None) \<and>
   (Fork \<in> as \<longleftrightarrow> s = RUNNING) \<and>
   AskKill \<in> as \<and> (Validate s STOPPING \<noteq> None \<longleftrightarrow> s \<in> {PENDING, STARTING, PAUSING, RESUMING, STOPPING, STOPPED}) \<and>
   (ConfirmKill \<in> as \<longleftrightarrow> confirmKill \<and> \<not> killPending) \<and>
   (\<forall>a \<in> as. (fst (row_handle sb t a confirmKill) \<longrightarrow> confirmKill \<or> a = AskKill) \<and>
     (\<forall>m. fst (snd (row_handle sb t a confirmKill)) = Some m \<longrightarrow>
        rm_call m = verb_pause (sb_id sb) \<and> rm_opts m = state_opts (sb_id sb) PAUSING \<and> Validate s PAUSING = None \<or>
        rm_call m = verb_resume (sb_id sb) \<and> rm_opts m = state_opts (sb_id sb) RESUMING \<and> Validate s RESUMING = None \<or>
        rm_call m = verb_fork (sb_id sb) None \<and> s = RUNNING \<or>
        rm_call m = verb_kill (sb_id sb) \<and> a = ConfirmKill \<and> confirmKill \<and> \<not> killPending))"
  unfolding Let_def legal_moves no_stop_edge row_set
  by (auto simp: row_handle_def row_pause_def row_resume_def row_fork_def row_kill_def split: if_splits)

theorem row_actions_legal_witness:
  "Pause \<in> set (map snd (enabled_actions (Row sandbox0 None False False (tr En) 0))) \<and>
   AskKill \<in> set (map snd (enabled_actions (Row (sandbox0\<lparr>sb_state := STOPPED\<rparr>) None False False (tr En) 0)))"
  using row_actions_legal [of sandbox0 None False False "tr En" 0]
    row_actions_legal [of "sandbox0\<lparr>sb_state := STOPPED\<rparr>" None False False "tr En" 0]
  by (simp add: Let_def sandbox0_def Validate_def transitions_def)

end
