(* ===== verification/FileTree.thy ===== *)
theory FileTree
  imports Hooks Ui
begin

text \<open>
  The guest file tree (\<open>web/src/components/tree.tsx\<close>) and the split pane it sits in
  (\<open>web/src/components/split.tsx\<close>).  Each directory node keeps whether it is open; a node that is
  unmounted (an ancestor was closed) forgets it, so the state of the tree is the list of the paths of
  the open mounted nodes.  Rendering recurses along open directories: \<open>DirNode\<close> takes fuel and returns
  \<open>None\<close> when it runs out, and \<open>tree_renders\<close> shows that one more than the number of open directories
  is enough.
\<close>

section \<open>Directory nodes\<close>

datatype tree_action = OpenPath string | ToggleDir string | ExpandDir string | CollapseDir string

text \<open>What \<open>useDirectory\<close> returns for a path.\<close>

record dir_query =
  dq_data :: "ListDirResponse option"
  dq_isLoading :: bool
  dq_error :: "js_error option"

definition dir_entries :: "dir_query \<Rightarrow> DirEntry list" where
  "dir_entries q = (case dq_data q of None \<Rightarrow> [] | Some d \<Rightarrow> nullish (ld_entries d) [])"

text \<open>Closing a directory unmounts everything below it.\<close>

definition below :: "string \<Rightarrow> string \<Rightarrow> bool" where
  "below p q \<longleftrightarrow> (\<exists>ns. ns \<noteq> [] \<and> path_parts q = path_parts p @ ns)"

definition below_test :: "string \<Rightarrow> string \<Rightarrow> bool" where
  "below_test p q \<longleftrightarrow> length (path_parts p) < length (path_parts q) \<and>
     take (length (path_parts p)) (path_parts q) = path_parts p"

definition dir_setOpen :: "string \<Rightarrow> bool \<Rightarrow> string list \<Rightarrow> string list" where
  "dir_setOpen p opened ops =
     (if opened then (if p \<in> set ops then ops else ops @ [p])
      else filter (\<lambda>q. q \<noteq> p \<and> \<not> below_test p q) ops)"

definition dir_click :: "string \<Rightarrow> string list \<Rightarrow> string list" where
  "dir_click p ops = dir_setOpen p (p \<notin> set ops) ops"

text \<open>The key handler of a directory row: the new state, and whether the event was consumed.\<close>

definition dir_onKeyDown :: "string \<Rightarrow> string \<Rightarrow> string list \<Rightarrow> string list \<times> bool" where
  "dir_onKeyDown key p ops =
     (let opened = (p \<in> set ops)
      in if key = ''ArrowRight'' \<and> \<not> opened then (dir_setOpen p True ops, True)
         else if key = ''ArrowLeft'' \<and> opened then (dir_setOpen p False ops, True)
         else (ops, False))"

text \<open>Arrow keys that reach the tree move the focus between the visible rows; an index out of range is
  \<open>undefined\<close>.  The result is the row to focus.\<close>

definition tree_onKeyDown :: "string \<Rightarrow> 'r list \<Rightarrow> 'r option \<Rightarrow> 'r option" where
  "tree_onKeyDown key rws active =
     (if key \<noteq> ''ArrowDown'' \<and> key \<noteq> ''ArrowUp'' then None
      else let i = (case active of
                      Some a \<Rightarrow> if a \<in> set rws then int (length (takeWhile (\<lambda>x. x \<noteq> a) rws)) else -1
                    | None \<Rightarrow> -1);
               j = i + (if key = ''ArrowDown'' then 1 else -1)
           in if 0 \<le> j \<and> j < int (length rws) then Some (rws ! nat j) else None)"

definition pad_attr :: "int \<Rightarrow> 'a attr" where
  "pad_attr n = Num ''paddingLeft'' n"

definition rowCls :: "bool \<Rightarrow> 'a attr" where
  "rowCls active = Attr ''class'' (if active then ''bg-accent-weak text-accent'' else ''text-muted hover:bg-raised hover:text-ink'')"

definition dir_row :: "string \<Rightarrow> bool \<Rightarrow> int \<Rightarrow> string \<Rightarrow> tree_action vnode" where
  "dir_row name opened depth path =
     El ''button''
       [Attr ''role'' ''treeitem'', Flag ''aria-expanded'' opened, pad_attr (depth * 14 + 8), rowCls False,
        On ''click'' (ToggleDir path),
        On ''keydown'' (if opened then CollapseDir path else ExpandDir path)]
       [El ''span'' [] [Icon (if opened then ''IconChevronDown'' else ''IconChevronRight'') (Some 12)],
        El ''span'' [] [Icon (if opened then ''IconFolderOpen'' else ''IconFolder'') (Some 14)],
        El ''span'' [] [Txt name]]"

text \<open>\<open>node\<close> renders a directory: the recursive call.\<close>

definition Entry ::
  "(string \<Rightarrow> int \<Rightarrow> string option \<Rightarrow> tree_action vnode option) \<Rightarrow> DirEntry \<Rightarrow> string \<Rightarrow> int \<Rightarrow> string option \<Rightarrow>
   tree_action vnode option" where
  "Entry node entry parent depth selected =
     (let path = joinPath parent (de_name entry)
      in if de_is_dir entry
         then node path depth (Some (de_name entry @ (if truthy_str (de_symlink entry) then ('' '' @ zh [0x2192]) else '''')))
         else Some (El ''button''
           ([Attr ''role'' ''treeitem'', Flag ''aria-selected'' (selected = Some path),
             pad_attr (depth * 14 + 8 + 18), rowCls (selected = Some path), On ''click'' (OpenPath path)] @
            shown (truthy_str (de_symlink entry)) [Attr ''title'' ((zh [0x2192] @ '' '') @ nullish (de_symlink entry) '''')])
           [El ''span'' [] [Icon ''IconFile'' (Some 14)], El ''span'' [] [Txt (de_name entry)]]))"

definition dir_group :: "TFn \<Rightarrow> dir_query \<Rightarrow> int \<Rightarrow> tree_action vnode list \<Rightarrow> tree_action vnode" where
  "dir_group t q depth kids =
     (let pad = pad_attr ((depth + 1) * 14 + 8)
      in El ''div'' [Attr ''role'' ''group'']
       (shown (dq_isLoading q) [El ''div'' [pad] [Skeleton (Some ''h-3.5 w-28''), Skeleton (Some ''h-3.5 w-20'')]] @
        shown_opt (dq_error q) (\<lambda>e. [El ''div'' [pad] [Txt (message e)]]) @
        kids @
        shown (case dq_data q of None \<Rightarrow> False | Some d \<Rightarrow> truthy_bool (ld_truncated d))
          [El ''div'' [pad] [Txt (t (zh [0x2026] @ '' listing truncated at 10 000 entries'') (zh [0x2026] @ '' '' @ zh [0x5217, 0x8868, 0x5728] @ '' 10000 '' @ zh [0x6761, 0x5904, 0x622A, 0x65AD]))]] @
        shown (dq_data q \<noteq> None \<and> dir_entries q = []) [El ''div'' [pad] [Txt (t ''empty'' (zh [0x7A7A]))]]))"

definition dir_kids ::
  "(string \<Rightarrow> int \<Rightarrow> string option \<Rightarrow> tree_action vnode option) \<Rightarrow> (string \<Rightarrow> dir_query) \<Rightarrow> bool \<Rightarrow> string option \<Rightarrow>
   string \<Rightarrow> int \<Rightarrow> tree_action vnode list option" where
  "dir_kids node dirs opened selected path depth =
     (if opened then those (map (\<lambda>e. Entry node e path (depth + 1) selected) (dir_entries (dirs path)))
      else Some [])"

definition dir_view :: "TFn \<Rightarrow> dir_query \<Rightarrow> bool \<Rightarrow> string \<Rightarrow> int \<Rightarrow> string option \<Rightarrow> tree_action vnode list \<Rightarrow> tree_action vnode" where
  "dir_view t q opened path depth name ks =
     El ''div'' (shown (truthy_str name) [Attr ''role'' ''none''])
       (shown (truthy_str name) [dir_row (nullish name '''') opened depth path] @
        shown opened [dir_group t q depth ks])"

fun DirNode ::
  "nat \<Rightarrow> TFn \<Rightarrow> (string \<Rightarrow> dir_query) \<Rightarrow> string list \<Rightarrow> string option \<Rightarrow> string \<Rightarrow> int \<Rightarrow> string option \<Rightarrow>
   tree_action vnode option" where
  "DirNode 0 t dirs ops selected path depth name = None"
| "DirNode (Suc n) t dirs ops selected path depth name =
     (let opened = (path \<in> set ops)
      in map_option (dir_view t (dirs path) opened path depth name)
           (dir_kids (\<lambda>p d nm. DirNode n t dirs ops selected p d nm) dirs opened selected path depth))"

text \<open>The tree: the root directory, open from the start and without a row of its own.\<close>

definition tree_init :: "string list" where
  "tree_init = [''/'']"

definition FileTree ::
  "nat \<Rightarrow> TFn \<Rightarrow> (string \<Rightarrow> dir_query) \<Rightarrow> string list \<Rightarrow> string option \<Rightarrow> tree_action vnode option" where
  "FileTree n t dirs ops selected =
     map_option (\<lambda>v. El ''div'' [Attr ''role'' ''tree'', Attr ''aria-label'' (t ''Guest files'' (''guest '' @ zh [0x6587, 0x4EF6]))] [v])
       (DirNode n t dirs ops selected ''/'' 0 None)"

definition tree_handle :: "string list \<Rightarrow> tree_action \<Rightarrow> string list" where
  "tree_handle ops a = (case a of
     OpenPath _ \<Rightarrow> ops
   | ToggleDir p \<Rightarrow> dir_click p ops
   | ExpandDir p \<Rightarrow> fst (dir_onKeyDown ''ArrowRight'' p ops)
   | CollapseDir p \<Rightarrow> fst (dir_onKeyDown ''ArrowLeft'' p ops))"

section \<open>Split pane\<close>

record split_props =
  sp_storageKey :: string
  sp_defaultLeft :: int
  sp_minLeft :: int
  sp_minRight :: int

definition split_defaults :: "string \<Rightarrow> split_props" where
  "split_defaults k = \<lparr>sp_storageKey = k, sp_defaultLeft = 280, sp_minLeft = 200, sp_minRight = 380\<rparr>"

definition split_key :: "split_props \<Rightarrow> string" where
  "split_key p = ''embervm.split.'' @ sp_storageKey p"

text \<open>\<open>Number(null)\<close> is 0.\<close>

definition split_init :: "split_props \<Rightarrow> local_storage \<Rightarrow> rat" where
  "split_init p m =
     (let saved = (case ls_get (split_key p) m of None \<Rightarrow> Some 0 | Some s \<Rightarrow> js_Number s)
      in case saved of
           Some n \<Rightarrow> if n \<ge> sp_minLeft p then of_int n else of_int (sp_defaultLeft p)
         | None \<Rightarrow> of_int (sp_defaultLeft p))"

definition split_clamp :: "split_props \<Rightarrow> int option \<Rightarrow> rat \<Rightarrow> rat" where
  "split_clamp p clientWidth w =
     (let total' = nullish clientWidth 1200
      in min (max w (of_int (sp_minLeft p))) (max (of_int (sp_minLeft p)) (of_int (total' - sp_minRight p))))"

definition split_commit :: "split_props \<Rightarrow> int option \<Rightarrow> rat \<Rightarrow> local_storage \<Rightarrow> rat \<times> local_storage" where
  "split_commit p clientWidth w m =
     (let v = split_clamp p clientWidth w in (v, ls_set (split_key p) (js_num (js_round v)) m))"

text \<open>A drag: the position and width at its start are kept by the move handler.\<close>

datatype split_event = PointerDown rat | PointerMove rat | PointerUp | KeyDown string

record split_state =
  sl_leftW :: rat
  sl_drag :: "(rat \<times> rat) option"
  sl_storage :: local_storage

definition split_set :: "split_props \<Rightarrow> int option \<Rightarrow> rat \<Rightarrow> split_state \<Rightarrow> split_state" where
  "split_set p cw w st =
     (let (v, m) = split_commit p cw w (sl_storage st) in st\<lparr>sl_leftW := v, sl_storage := m\<rparr>)"

fun split_handle :: "split_props \<Rightarrow> int option \<Rightarrow> split_state \<Rightarrow> split_event \<Rightarrow> split_state" where
  "split_handle p cw st (PointerDown x) = st\<lparr>sl_drag := Some (x, sl_leftW st)\<rparr>"
| "split_handle p cw st (PointerMove x) =
     (case sl_drag st of None \<Rightarrow> st | Some (startX, startW) \<Rightarrow> split_set p cw (startW + (x - startX)) st)"
| "split_handle p cw st PointerUp = st\<lparr>sl_drag := None\<rparr>"
| "split_handle p cw st (KeyDown key) =
     (if key = ''ArrowLeft'' then split_set p cw (sl_leftW st - 16) st
      else if key = ''ArrowRight'' then split_set p cw (sl_leftW st + 16) st
      else st)"

text \<open>Fractions of a pixel are rounded in the view.\<close>

definition SplitPane :: "TFn \<Rightarrow> split_props \<Rightarrow> rat \<Rightarrow> 'a vnode list \<Rightarrow> 'a vnode list \<Rightarrow> 'a vnode" where
  "SplitPane t p leftW left right =
     El ''div'' []
       [El ''div'' [Num ''width'' (js_round leftW)] left,
        El ''div'' [Attr ''role'' ''separator'', Attr ''aria-orientation'' ''vertical'',
                    Num ''aria-valuenow'' (js_round leftW), Num ''aria-valuemin'' (sp_minLeft p),
                    Attr ''aria-label'' (t ''Resize panels'' (zh [0x8C03, 0x6574, 0x9762, 0x677F])), Num ''tabIndex'' 0] [El ''div'' [] []],
        El ''div'' [] right]"

section \<open>Facts\<close>

lemma below_test: "below_test p q \<longleftrightarrow> below p q"
proof
  assume "below_test p q"
  then show "below p q" unfolding below_def below_test_def
    by (intro exI [of _ "drop (length (path_parts p)) (path_parts q)"])
       (metis append_take_drop_id length_drop zero_less_diff length_greater_0_conv)
qed (auto simp: below_def below_test_def)

lemma joinPath_path_parts: "plain_name n \<Longrightarrow> path_parts (joinPath d n) = path_parts d @ [n]"
  unfolding joinPath_parts using path_parts_plain [of d] by (intro path_parts_path_of) simp

definition deeper :: "string list \<Rightarrow> string \<Rightarrow> string set" where
  "deeper ops p = {q \<in> set ops. length (path_parts p) \<le> length (path_parts q)}"

lemma those_Some: "(\<And>x. x \<in> set xs \<Longrightarrow> \<exists>y. f x = Some y) \<Longrightarrow> \<exists>ys. those (map f xs) = Some ys"
  by (induction xs) force+

lemma deeper_child:
  assumes "p \<in> set ops" and "plain_name n"
  shows "card (deeper ops (joinPath p n)) < card (deeper ops p)"
proof (rule psubset_card_mono)
  have "p \<in> deeper ops p" "p \<notin> deeper ops (joinPath p n)"
    using assms by (simp_all add: deeper_def joinPath_path_parts)
  moreover have "deeper ops (joinPath p n) \<subseteq> deeper ops p"
    using assms by (auto simp: deeper_def joinPath_path_parts)
  ultimately show "deeper ops (joinPath p n) \<subset> deeper ops p" by blast
qed (simp add: deeper_def)

definition plain_dirs :: "(string \<Rightarrow> dir_query) \<Rightarrow> bool" where
  "plain_dirs dirs \<longleftrightarrow> (\<forall>p. \<forall>e \<in> set (dir_entries (dirs p)). plain_name (de_name e))"

lemma those_mono:
  "those (map f xs) = Some ys \<Longrightarrow> (\<And>x y. x \<in> set xs \<Longrightarrow> f x = Some y \<Longrightarrow> g x = Some y) \<Longrightarrow>
   those (map g xs) = Some ys"
  by (induction xs arbitrary: ys) (auto split: option.splits)

declare DirNode.simps(2) [simp del]

lemma DirNode_Some:
  assumes "plain_dirs dirs"
  shows "card (deeper ops path) < n \<Longrightarrow> \<exists>v. DirNode n t dirs ops selected path depth name = Some v"
proof (induction n arbitrary: path depth name)
  case (Suc n)
  have "\<exists>ks. dir_kids (\<lambda>p d nm. DirNode n t dirs ops selected p d nm) dirs (path \<in> set ops) selected path depth = Some ks"
  proof (cases "path \<in> set ops")
    case True
    have "\<exists>v. Entry (\<lambda>p d nm. DirNode n t dirs ops selected p d nm) e path (depth + 1) selected = Some v"
      if "e \<in> set (dir_entries (dirs path))" for e
    proof -
      have "plain_name (de_name e)" using assms that by (simp add: plain_dirs_def)
      from deeper_child [OF True this] Suc.prems
      have "card (deeper ops (joinPath path (de_name e))) < n" by simp
      from Suc.IH [OF this] show ?thesis by (simp add: Entry_def Let_def)
    qed
    from those_Some [of "dir_entries (dirs path)", OF this] True show ?thesis by (simp add: dir_kids_def)
  qed (simp add: dir_kids_def)
  then show ?case by (auto simp: DirNode.simps(2) Let_def)
qed simp

text \<open>More fuel changes nothing once there is a result.\<close>

lemma dir_kids_mono:
  assumes "dir_kids node dirs opened selected path depth = Some ks"
    and "\<And>p d nm v. node p d nm = Some v \<Longrightarrow> node' p d nm = Some v"
  shows "dir_kids node' dirs opened selected path depth = Some ks"
proof (cases opened)
  case True
  have "Entry node e path (depth + 1) selected = Some y \<Longrightarrow> Entry node' e path (depth + 1) selected = Some y" for e y
    using assms(2) by (auto simp: Entry_def Let_def split: if_splits)
  with True assms(1) show ?thesis by (auto simp: dir_kids_def intro: those_mono)
qed (use assms(1) in \<open>simp add: dir_kids_def\<close>)

lemma DirNode_mono: "DirNode n t dirs ops selected path depth name = Some v \<Longrightarrow>
  DirNode (Suc n) t dirs ops selected path depth name = Some v"
proof (induction n arbitrary: path depth name v)
  case (Suc n)
  from Suc.prems obtain ks where
    ks: "dir_kids (\<lambda>p d nm. DirNode n t dirs ops selected p d nm) dirs (path \<in> set ops) selected path depth = Some ks"
    and v: "v = dir_view t (dirs path) (path \<in> set ops) path depth name ks"
    by (auto simp: DirNode.simps(2) Let_def)
  from dir_kids_mono [OF ks Suc.IH] v show ?case by (simp add: DirNode.simps(2) [of "Suc n"] Let_def)
qed simp

lemma DirNode_mono': "n \<le> m \<Longrightarrow> DirNode n t dirs ops selected path depth name = Some v \<Longrightarrow>
  DirNode m t dirs ops selected path depth name = Some v"
  by (induction m rule: dec_induct) (auto intro: DirNode_mono)

text \<open>The files a rendered tree offers.\<close>

lemma those_set: "those xs = Some ys \<Longrightarrow> y \<in> set ys \<Longrightarrow> Some y \<in> set xs"
  by (induction xs arbitrary: ys) (auto split: option.splits)

lemma group_actions: "enabled_actions (dir_group t q depth ks) = enabled_of ks"
  by (simp add: dir_group_def Let_def attr_actions_def pad_attr_def Skeleton_def shown_opt_def shown_def
      split: option.splits)

lemma dir_row_actions: "snd ` set (enabled_actions (dir_row name opened depth path)) \<subseteq>
  {ToggleDir path, CollapseDir path, ExpandDir path}"
  by (simp add: dir_row_def attr_actions_def rowCls_def pad_attr_def)

lemma dir_view_actions: "snd ` set (enabled_actions (dir_view t q opened path depth name ks)) \<subseteq>
  {ToggleDir path, CollapseDir path, ExpandDir path} \<union> (if opened then snd ` set (enabled_of ks) else {})"
proof -
  have "enabled_actions (dir_view t q opened path depth name ks) =
      (if truthy_str name then enabled_actions (dir_row (nullish name '''') opened depth path) else []) @
      (if opened then enabled_of ks else [])"
    by (simp add: dir_view_def shown_def group_actions attr_actions_def)
  moreover note dir_row_actions [of "nullish name ''''" opened depth path]
  ultimately show ?thesis by (cases "truthy_str name"; cases opened) (simp_all add: image_Un subset_insertI2, blast)
qed

lemma file_row_actions: "\<not> de_is_dir e \<Longrightarrow> Entry node e path depth selected = Some k \<Longrightarrow>
  snd ` set (enabled_actions k) = {OpenPath (joinPath path (de_name e))}"
  by (auto simp: Entry_def Let_def attr_actions_def rowCls_def pad_attr_def shown_def)

lemma DirNode_offers:
  "DirNode n t dirs ops selected path depth name = Some v \<Longrightarrow>
   OpenPath f \<in> snd ` set (enabled_actions v) \<Longrightarrow>
   \<exists>d e. d \<in> set ops \<and> e \<in> set (dir_entries (dirs d)) \<and> \<not> de_is_dir e \<and> f = joinPath d (de_name e)"
proof (induction n arbitrary: path depth name v)
  case (Suc n)
  let ?node = "\<lambda>p d nm. DirNode n t dirs ops selected p d nm"
  from Suc.prems(1) obtain ks where
    ks: "dir_kids ?node dirs (path \<in> set ops) selected path depth = Some ks"
    and v: "v = dir_view t (dirs path) (path \<in> set ops) path depth name ks"
    by (auto simp: DirNode.simps(2) Let_def)
  have "snd ` set (enabled_actions v) \<subseteq> {ToggleDir path, CollapseDir path, ExpandDir path} \<union>
      (if path \<in> set ops then snd ` set (enabled_of ks) else {})"
    unfolding v by (rule dir_view_actions)
  with Suc.prems(2) have "OpenPath f \<in> (if path \<in> set ops then snd ` set (enabled_of ks) else {})" by blast
  then have "path \<in> set ops" and "OpenPath f \<in> snd ` set (enabled_of ks)"
    by (metis empty_iff)+
  then obtain k where k: "k \<in> set ks" "OpenPath f \<in> snd ` set (enabled_actions k)"
    by (auto simp: enabled_of_def)
  from ks \<open>path \<in> set ops\<close> k(1) obtain e where e: "e \<in> set (dir_entries (dirs path))"
    "Entry ?node e path (depth + 1) selected = Some k"
    using those_set [of "map (\<lambda>e. Entry ?node e path (depth + 1) selected) (dir_entries (dirs path))" ks k]
    by (auto simp: dir_kids_def)
  show ?case
  proof (cases "de_is_dir e")
    case True
    with e(2) Suc.IH [OF _ k(2)] show ?thesis by (auto simp: Entry_def Let_def)
  next
    case False
    from file_row_actions [OF this e(2)] k(2) have "f = joinPath path (de_name e)" by simp
    with False e(1) \<open>path \<in> set ops\<close> show ?thesis by blast
  qed
qed simp

lemma split_set_ok:
  assumes "0 \<le> sp_minLeft p" and "st = split_set p cw w st0"
  shows "of_int (sp_minLeft p) \<le> sl_leftW st \<and>
    sl_leftW st \<le> of_int (max (sp_minLeft p) (nullish cw 1200 - sp_minRight p)) \<and>
    split_init p (sl_storage st) = of_int (js_round (sl_leftW st))"
proof -
  define v where "v = split_clamp p cw w"
  have st: "sl_leftW st = v" "sl_storage st = ls_set (split_key p) (js_num (js_round v)) (sl_storage st0)"
    by (simp_all add: assms(2) split_set_def split_commit_def v_def Let_def)
  have lo: "of_int (sp_minLeft p) \<le> v" and hi: "v \<le> of_int (max (sp_minLeft p) (nullish cw 1200 - sp_minRight p))"
    by (simp_all add: v_def split_clamp_def Let_def of_int_max)
  have r: "sp_minLeft p \<le> js_round v"
    unfolding js_round_def le_floor_iff using lo by simp
  then have "js_Number (js_num (js_round v)) = Some (js_round v)"
    using assms(1) by (intro js_Number_num) simp
  with r lo hi show ?thesis by (simp add: st split_init_def ls_get_def ls_set_def)
qed

section \<open>Properties\<close>

text \<open>C38: The tree always renders: recursion through open directories ends, with fuel one more than
  the number of open directories, and more fuel renders the same tree.  Every file it offers to open
  is an entry of an open directory, named by the path of that directory and the entry's name.\<close>

theorem tree_renders:
  assumes "plain_dirs dirs" and "length ops < n"
  shows "\<exists>v. FileTree n t dirs ops selected = Some v \<and>
    (\<forall>m \<ge> n. FileTree m t dirs ops selected = Some v) \<and>
    (\<forall>f. OpenPath f \<in> snd ` set (enabled_actions v) \<longrightarrow>
       (\<exists>d \<in> set ops. parentPath f = normalizePath d \<and>
          (\<exists>e \<in> set (dir_entries (dirs d)). \<not> de_is_dir e \<and> de_name e = baseName f)))"
proof -
  have "card (deeper ops ''/'') \<le> card (set ops)" by (rule card_mono) (auto simp: deeper_def)
  then have "card (deeper ops ''/'') < n" using card_length [of ops] assms(2) by linarith
  from DirNode_Some [OF assms(1) this] obtain v where v: "DirNode n t dirs ops selected ''/'' 0 None = Some v" by blast
  let ?v = "El ''div'' [Attr ''role'' ''tree'', Attr ''aria-label'' (t ''Guest files'' (''guest '' @ zh [0x6587, 0x4EF6]))] [v]"
  have "FileTree m t dirs ops selected = Some ?v" if "n \<le> m" for m
    using DirNode_mono' [OF that v] by (simp add: FileTree_def)
  moreover have "\<exists>d \<in> set ops. parentPath f = normalizePath d \<and>
          (\<exists>e \<in> set (dir_entries (dirs d)). \<not> de_is_dir e \<and> de_name e = baseName f)"
    if "OpenPath f \<in> snd ` set (enabled_actions ?v)" for f
  proof -
    from that have "OpenPath f \<in> snd ` set (enabled_actions v)" by (simp add: attr_actions_def)
    from DirNode_offers [OF v this] obtain d e where
      de: "d \<in> set ops" "e \<in> set (dir_entries (dirs d))" "\<not> de_is_dir e" "f = joinPath d (de_name e)"
      by blast
    have n: "plain_name (de_name e)" using de(2) assms(1) by (simp add: plain_dirs_def)
    have parts: "path_parts f = path_parts d @ [de_name e]" unfolding de(4) by (rule joinPath_path_parts [OF n])
    show ?thesis
      using de(1,2,3) parent_base_parts [OF parts] by (auto simp: normalizePath_parts)
  qed
  ultimately show ?thesis by (intro exI [of _ ?v]) simp
qed

definition etc_dirs :: "string \<Rightarrow> dir_query" where
  "etc_dirs p = \<lparr>dq_data = Some \<lparr>ld_path = p, ld_entries = Some
      (if p = ''/'' then [\<lparr>de_name = ''etc'', de_size = 0, de_mode = ''drwxr-xr-x'', de_mtime = '''', de_is_dir = True, de_symlink = None\<rparr>]
       else []), ld_truncated = None\<rparr>, dq_isLoading = False, dq_error = None\<rparr>"

theorem tree_renders_witness:
  "\<exists>v. FileTree 3 (tr En) etc_dirs [''/'', ''/etc''] None = Some v"
proof -
  have "plain_dirs etc_dirs" by (simp add: plain_dirs_def etc_dirs_def dir_entries_def plain_name_def)
  from tree_renders [OF this, of "[''/'', ''/etc'']" 3 "tr En" None] show ?thesis by auto
qed

text \<open>The width of the split pane survives a reload: after any sequence of drags and key presses
  that set a width, the stored width is the rounded current one, it is what the next page load starts
  with, and it never falls below the minimum nor leaves the right pane less than its minimum (unless
  both minima do not fit).\<close>

theorem split_persists:
  assumes "0 \<le> sp_minLeft p" and "sl_leftW st0 = split_init p (sl_storage st0)"
    and "st = foldl (split_handle p cw) st0 es"
  shows "(\<exists>n :: int. n = js_round (sl_leftW st) \<and> split_init p (sl_storage st) = of_int n) \<and>
    (sl_leftW st = sl_leftW st0 \<or> of_int (sp_minLeft p) \<le> sl_leftW st \<and>
      sl_leftW st \<le> of_int (max (sp_minLeft p) (nullish cw 1200 - sp_minRight p)))"
  using assms(3)
proof (induction es arbitrary: st rule: rev_induct)
  case Nil
  have "js_round (of_int n) = n" for n by (simp add: js_round_def floor_eq_iff)
  with Nil assms(2) show ?case by (auto simp: split_init_def Let_def split: option.splits)
next
  case (snoc e es)
  let ?st = "foldl (split_handle p cw) st0 es"
  note IH = snoc.IH [OF refl]
  have "st = ?st\<lparr>sl_drag := sl_drag st\<rparr> \<or> (\<exists>w. st = split_set p cw w ?st)"
    using snoc.prems by (cases e) (auto split: option.splits)
  then consider (same) "sl_leftW st = sl_leftW ?st" "sl_storage st = sl_storage ?st"
    | (set) w where "st = split_set p cw w ?st"
    by (metis split_state.select_convs split_state.surjective split_state.update_convs(2))
  then show ?case
  proof cases
    case same
    with IH show ?thesis by simp
  next
    case set
    from split_set_ok [OF assms(1) set] show ?thesis by blast
  qed
qed

theorem split_persists_witness:
  "\<exists>st. st = foldl (split_handle (split_defaults ''files'') None)
      \<lparr>sl_leftW = 280, sl_drag = None, sl_storage = Map.empty\<rparr> [PointerDown 280, PointerMove 50, PointerUp] \<and>
    split_init (split_defaults ''files'') (sl_storage st) = of_int (js_round (sl_leftW st))"
  by (intro exI conjI)
     (rule refl, use split_persists [of "split_defaults ''files''" "\<lparr>sl_leftW = 280, sl_drag = None, sl_storage = Map.empty\<rparr>"
        _ None "[PointerDown 280, PointerMove 50, PointerUp]", OF _ _ refl]
      in \<open>simp add: split_defaults_def split_init_def ls_get_def\<close>)

end
