(* ===== verification/FilesTab.thy ===== *)
theory FilesTab
  imports FileTree Toasts
begin

text \<open>
  The files tab (\<open>web/src/pages/workspace/FilesTab.tsx\<close>) and the editor it mounts
  (\<open>web/src/pages/workspace/Editor.tsx\<close>).  Every \<open>await\<close> splits a function: the part before it issues
  the request and records it as in flight with what the closure captured, the part after it is the
  event of its settlement, so requests settle in any order and the user acts in between.  CodeMirror is
  not part of the repository; of it the model keeps the document, the initial value the update listener
  closes over, and the key under which React mounts the view.
\<close>

section \<open>The editor\<close>

datatype extension =
    ExtJavascript bool bool | ExtPython | ExtJson | ExtMarkdown | ExtHtml | ExtCss | ExtYaml
  | ExtStream string | ExtNone

definition languageExt :: "string \<Rightarrow> extension" where
  "languageExt l =
     (if l = ''javascript'' then ExtJavascript True True
      else if l = ''python'' then ExtPython
      else if l = ''json'' then ExtJson
      else if l = ''markdown'' then ExtMarkdown
      else if l = ''html'' then ExtHtml
      else if l = ''css'' then ExtCss
      else if l = ''yaml'' then ExtYaml
      else if l = ''shell'' then ExtStream ''shell''
      else if l = ''go'' then ExtStream ''go''
      else if l = ''toml'' then ExtStream ''toml''
      else if l = ''dockerfile'' then ExtStream ''dockerFile''
      else ExtNone)"

record editor =
  ed_key :: "string \<times> nat"
  ed_initial :: string
  ed_doc :: string
  ed_language :: extension
  ed_readOnly :: bool

definition language_text :: "table_value \<Rightarrow> string" where
  "language_text v = (case v of Lang l \<Rightarrow> l | InheritedObject \<Rightarrow> '''')"

definition Editor_mount :: "string \<times> nat \<Rightarrow> string \<Rightarrow> table_value \<Rightarrow> bool \<Rightarrow> editor" where
  "Editor_mount key initialValue language readOnly =
     \<lparr>ed_key = key, ed_initial = initialValue, ed_doc = initialValue,
      ed_language = languageExt (language_text language), ed_readOnly = readOnly\<rparr>"

text \<open>The update listener on a change of the document: the new view, the value for \<open>onDirty\<close> and the
  text for \<open>onChange\<close>.\<close>

definition Editor_update :: "string \<Rightarrow> editor \<Rightarrow> editor \<times> bool \<times> string" where
  "Editor_update txt e = (e\<lparr>ed_doc := txt\<rparr>, txt \<noteq> ed_initial e, txt)"

section \<open>State\<close>

record OpenFile =
  of_path :: string
  of_text :: string
  of_size :: int
  of_binary :: bool
  of_tooLarge :: bool
  of_readOnly :: bool
  of_generation :: nat

datatype files_toast = TSuccess string "string option" | TError string "string option" | TInfo string

record files_state =
  fs_file :: "OpenFile option"
  fs_dirty :: bool
  fs_busy :: bool
  fs_saving :: bool
  fs_pendingOpen :: "string option"
  fs_newFileOpen :: bool
  fs_gen :: nat
  fs_latest :: string
  fs_editor :: "editor option"
  fs_running :: bool
  fs_reads :: "string list"
  fs_saves :: "(OpenFile \<times> string) list"
  fs_creates :: "string list"
  fs_refreshes :: "string list"
  fs_uploads :: "(string \<times> string) list"
  fs_toasts :: "files_toast list"

text \<open>The tab as it is mounted for a running sandbox; for another one it is the state after \<open>Running False\<close>.\<close>

definition files_init :: files_state where
  "files_init = \<lparr>fs_file = None, fs_dirty = False, fs_busy = False, fs_saving = False, fs_pendingOpen = None,
     fs_newFileOpen = False, fs_gen = 1, fs_latest = '''', fs_editor = None, fs_running = True, fs_reads = [], fs_saves = [],
     fs_creates = [], fs_refreshes = [], fs_uploads = [], fs_toasts = []\<rparr>"

text \<open>The requests the tab issues.\<close>

datatype file_content = Text string | UploadedFile string

datatype files_call = ReadCall string | WriteCall string file_content | RefreshTree | DownloadCall string
  | CopyPath string

text \<open>Rendering after a change of \<open>file\<close>: the editor is there for a text file that is not too large,
  remounted when its key changed.  While the guest does not run the tab keeps its state but renders a
  placeholder without an editor.\<close>

definition file_key :: "OpenFile \<Rightarrow> string \<times> nat" where
  "file_key f = (of_path f, of_generation f)"

definition mount_editor :: "OpenFile option \<Rightarrow> editor option \<Rightarrow> editor option" where
  "mount_editor file ed =
     (case file of
        None \<Rightarrow> None
      | Some f \<Rightarrow>
          if of_binary f \<or> of_tooLarge f then None
          else
            let fresh = Some (Editor_mount (file_key f) (of_text f) (languageOf (baseName (of_path f))) (of_readOnly f))
            in case ed of
                 Some e \<Rightarrow> if ed_key e = file_key f then Some e else fresh
               | None \<Rightarrow> fresh)"

definition setFile :: "OpenFile \<Rightarrow> files_state \<Rightarrow> files_state" where
  "setFile f st = st\<lparr>fs_file := Some f, fs_editor := (if fs_running st then mount_editor (Some f) (fs_editor st) else None)\<rparr>"

section \<open>Operations\<close>

definition openFile :: "string \<Rightarrow> bool \<Rightarrow> files_state \<Rightarrow> files_state \<times> files_call list" where
  "openFile path force st =
     (if fs_dirty st \<and> \<not> force then (st\<lparr>fs_pendingOpen := Some path\<rparr>, [])
      else (st\<lparr>fs_busy := True, fs_dirty := False, fs_reads := fs_reads st @ [path]\<rparr>, [ReadCall path]))"

definition openFile_done :: "string \<Rightarrow> js_error + string \<Rightarrow> TFn \<Rightarrow> files_state \<Rightarrow> files_state" where
  "openFile_done path outcome t st =
     (case outcome of
        Inr bytes \<Rightarrow>
          let binary = looksBinary bytes;
              tooLarge = (int (length bytes) > EDIT_MAX_BYTES);
              txt = (if binary \<or> tooLarge then '''' else TextDecoder bytes);
              st1 = setFile \<lparr>of_path = path, of_text = txt, of_size = int (length bytes), of_binary = binary,
                       of_tooLarge = tooLarge,
                       of_readOnly = (\<not> binary \<and> \<not> tooLarge \<and> int (length bytes) > EDIT_WARN_BYTES),
                       of_generation = fs_gen st\<rparr> (st\<lparr>fs_latest := txt\<rparr>)
          in st1\<lparr>fs_gen := fs_gen st + 1, fs_busy := False\<rparr>
      | Inl e \<Rightarrow>
          st\<lparr>fs_toasts := fs_toasts st @
               [TError (t ''Open'' (zh [0x6253, 0x5F00]) @ '' '' @ baseName path @ '' '' @ t ''failed'' (zh [0x5931, 0x8D25])) (Some (message e))],
             fs_busy := False\<rparr>)"

definition save :: "string \<Rightarrow> files_state \<Rightarrow> files_state \<times> files_call list" where
  "save txt st =
     (case fs_file st of
        None \<Rightarrow> (st, [])
      | Some f \<Rightarrow>
          if of_readOnly f \<or> of_binary f then (st, [])
          else (st\<lparr>fs_saving := True, fs_saves := fs_saves st @ [(f, txt)]\<rparr>, [WriteCall (of_path f) (Text txt)]))"

definition save_done :: "OpenFile \<Rightarrow> string \<Rightarrow> js_error + unit \<Rightarrow> TFn \<Rightarrow> files_state \<Rightarrow> files_state" where
  "save_done f txt outcome t st =
     (case outcome of
        Inr _ \<Rightarrow>
          (setFile (f\<lparr>of_text := txt, of_size := int (length txt)\<rparr>) st)
            \<lparr>fs_dirty := False,
             fs_toasts := fs_toasts st @ [TSuccess (t ''Saved'' (zh [0x5DF2, 0x4FDD, 0x5B58]) @ '' '' @ baseName (of_path f)) None],
             fs_saving := False\<rparr>
      | Inl e \<Rightarrow>
          st\<lparr>fs_toasts := fs_toasts st @ [TError (t ''Save failed'' (zh [0x4FDD, 0x5B58, 0x5931, 0x8D25])) (Some (message e))],
             fs_saving := False\<rparr>)"

definition createFile :: "string \<Rightarrow> files_state \<Rightarrow> files_state \<times> files_call list" where
  "createFile path st =
     (st\<lparr>fs_creates := fs_creates st @ [path]\<rparr>, [WriteCall path (Text '''')])"

definition createFile_written :: "string \<Rightarrow> js_error + unit \<Rightarrow> TFn \<Rightarrow> files_state \<Rightarrow> files_state \<times> files_call list" where
  "createFile_written path outcome t st =
     (case outcome of
        Inr _ \<Rightarrow> (st\<lparr>fs_refreshes := fs_refreshes st @ [path]\<rparr>, [RefreshTree])
      | Inl e \<Rightarrow> (st\<lparr>fs_toasts := fs_toasts st @ [TError (t ''Create failed'' (zh [0x521B, 0x5EFA, 0x5931, 0x8D25])) (Some (message e))]\<rparr>, []))"

definition upload :: "string \<Rightarrow> string \<Rightarrow> files_state \<Rightarrow> files_state \<times> files_call list" where
  "upload name dir st =
     (st\<lparr>fs_uploads := fs_uploads st @ [(name, dir)]\<rparr>, [WriteCall (joinPath dir name) (UploadedFile name)])"

text \<open>The refresh after an upload is not split off: nothing of the state is read after it.\<close>

definition upload_done :: "string \<Rightarrow> string \<Rightarrow> js_error + unit \<Rightarrow> TFn \<Rightarrow> files_state \<Rightarrow> files_state \<times> files_call list" where
  "upload_done name dir outcome t st =
     (case outcome of
        Inr _ \<Rightarrow> (st\<lparr>fs_toasts := fs_toasts st @
            [TSuccess (t ''Uploaded'' (zh [0x5DF2, 0x4E0A, 0x4F20]) @ '' '' @ name) (Some (t ''to'' (zh [0x81F3]) @ '' '' @ dir))]\<rparr>, [RefreshTree])
      | Inl e \<Rightarrow> (st\<lparr>fs_toasts := fs_toasts st @ [TError (t ''Upload failed'' (zh [0x4E0A, 0x4F20, 0x5931, 0x8D25])) (Some (message e))]\<rparr>, []))"

definition currentDir :: "files_state \<Rightarrow> string" where
  "currentDir st =
     (case fs_file st of
        None \<Rightarrow> ''/''
      | Some f \<Rightarrow> let d = js_slice (of_path f) 0 (js_lastIndexOf (of_path f) (CHR ''/'')) in if d = [] then ''/'' else d)"

section \<open>The machine\<close>

definition remove_nth :: "nat \<Rightarrow> 'a list \<Rightarrow> 'a list" where
  "remove_nth i xs = take i xs @ drop (Suc i) xs"

datatype files_event =
    ClickFile string | ConfirmDiscard | CloseDiscard
  | Edit string | ModS | SaveClick
  | ReadSettles nat "js_error + string" | SaveSettles nat "js_error + unit"
  | AskNewFile | CloseNewFile | CreateFile string | CreateSettles nat "js_error + unit" | Refreshed nat
  | UploadFile string | UploadSettles nat "js_error + unit"
  | RefreshClick | CopyClick | DownloadClick
  | Running bool

definition save_enabled :: "files_state \<Rightarrow> bool" where
  "save_enabled st = (case fs_file st of None \<Rightarrow> False
     | Some f \<Rightarrow> fs_dirty st \<and> \<not> of_readOnly f \<and> \<not> of_binary f \<and> \<not> fs_saving st)"

fun files_react :: "TFn \<Rightarrow> files_state \<Rightarrow> files_event \<Rightarrow> files_state \<times> files_call list" where
  "files_react t st (ClickFile p) = openFile p False st"
| "files_react t st ConfirmDiscard =
     (case fs_pendingOpen st of
        None \<Rightarrow> (st, [])
      | Some p \<Rightarrow> let st1 = st\<lparr>fs_pendingOpen := None\<rparr> in if p = [] then (st1, []) else openFile p True st1)"
| "files_react t st CloseDiscard = (st\<lparr>fs_pendingOpen := None\<rparr>, [])"
| "files_react t st (Edit txt) =
     (case fs_editor st of
        None \<Rightarrow> (st, [])
      | Some e \<Rightarrow>
          if ed_readOnly e \<or> txt = ed_doc e then (st, [])
          else case Editor_update txt e of
                 (e', d, x) \<Rightarrow> (st\<lparr>fs_editor := Some e', fs_dirty := d, fs_latest := x\<rparr>, []))"
| "files_react t st ModS = (case fs_editor st of None \<Rightarrow> (st, []) | Some e \<Rightarrow> save (ed_doc e) st)"
| "files_react t st SaveClick = (if save_enabled st then save (fs_latest st) st else (st, []))"
| "files_react t st (ReadSettles i outcome) =
     (if i < length (fs_reads st)
      then (openFile_done (fs_reads st ! i) outcome t (st\<lparr>fs_reads := remove_nth i (fs_reads st)\<rparr>), [])
      else (st, []))"
| "files_react t st (SaveSettles i outcome) =
     (if i < length (fs_saves st)
      then (case fs_saves st ! i of (f, txt) \<Rightarrow>
              (save_done f txt outcome t (st\<lparr>fs_saves := remove_nth i (fs_saves st)\<rparr>), []))
      else (st, []))"
| "files_react t st AskNewFile = (st\<lparr>fs_newFileOpen := True\<rparr>, [])"
| "files_react t st CloseNewFile = (st\<lparr>fs_newFileOpen := False\<rparr>, [])"
| "files_react t st (CreateFile p) = createFile p (st\<lparr>fs_newFileOpen := False\<rparr>)"
| "files_react t st (CreateSettles i outcome) =
     (if i < length (fs_creates st)
      then createFile_written (fs_creates st ! i) outcome t (st\<lparr>fs_creates := remove_nth i (fs_creates st)\<rparr>)
      else (st, []))"
| "files_react t st (Refreshed i) =
     (if i < length (fs_refreshes st)
      then openFile (fs_refreshes st ! i) True (st\<lparr>fs_refreshes := remove_nth i (fs_refreshes st)\<rparr>)
      else (st, []))"
| "files_react t st (UploadFile name) = upload name (currentDir st) st"
| "files_react t st (UploadSettles i outcome) =
     (if i < length (fs_uploads st)
      then (case fs_uploads st ! i of (name, dir) \<Rightarrow>
              upload_done name dir outcome t (st\<lparr>fs_uploads := remove_nth i (fs_uploads st)\<rparr>))
      else (st, []))"
| "files_react t st RefreshClick = (st, [RefreshTree])"
| "files_react t st CopyClick =
     (case fs_file st of None \<Rightarrow> (st, [])
      | Some f \<Rightarrow> (st\<lparr>fs_toasts := fs_toasts st @ [TInfo (t ''Path copied'' (zh [0x5DF2, 0x590D, 0x5236, 0x8DEF, 0x5F84]))]\<rparr>, [CopyPath (of_path f)]))"
| "files_react t st DownloadClick =
     (case fs_file st of None \<Rightarrow> (st, []) | Some f \<Rightarrow> (st, [DownloadCall (of_path f)]))"
| "files_react t st (Running b) =
     (st\<lparr>fs_running := b, fs_editor := (if b then mount_editor (fs_file st) (fs_editor st) else None)\<rparr>, [])"

text \<open>What can happen while the placeholder is shown: answers arrive and the sandbox changes its state.\<close>

fun settles :: "files_event \<Rightarrow> bool" where
  "settles (ReadSettles i r) = True"
| "settles (SaveSettles i r) = True"
| "settles (CreateSettles i r) = True"
| "settles (Refreshed i) = True"
| "settles (UploadSettles i r) = True"
| "settles (Running b) = True"
| "settles _ = False"

definition files_step :: "TFn \<Rightarrow> files_state \<Rightarrow> files_event \<Rightarrow> files_state \<times> files_call list" where
  "files_step t st e = (if fs_running st \<or> settles e then files_react t st e else (st, []))"

definition files_handle :: "TFn \<Rightarrow> files_state \<Rightarrow> files_event \<Rightarrow> files_state" where
  "files_handle t st e = fst (files_step t st e)"

abbreviation files_run :: "TFn \<Rightarrow> files_event list \<Rightarrow> files_state \<Rightarrow> files_state" where
  "files_run t es st \<equiv> foldl (files_handle t) st es"

section \<open>New file dialog\<close>

definition newfile_start :: "string \<Rightarrow> string" where
  "newfile_start dir = (if dir = ''/'' then ''/'' else dir @ ''/'')"

definition newfile_valid :: "string \<Rightarrow> bool" where
  "newfile_valid path \<longleftrightarrow> js_startsWith path ''/'' \<and> \<not> js_endsWith path ''/'' \<and> length path > 1"

definition newfile_submit :: "string \<Rightarrow> files_event option" where
  "newfile_submit path = (if newfile_valid path then Some (CreateFile (normalizePath path)) else None)"

datatype newfile_action = NfClose | NfSubmit | NfSetPath

definition NewFileDialog :: "string \<Rightarrow> TFn \<Rightarrow> newfile_action vnode" where
  "NewFileDialog path t =
     Dialog t (t ''New file'' (zh [0x65B0, 0x5EFA, 0x6587, 0x4EF6])) NfClose
       [El ''form'' [On ''submit'' NfSubmit]
          [El ''label'' []
             [El ''div'' [] [Txt (t ''Absolute path'' (zh [0x7EDD, 0x5BF9, 0x8DEF, 0x5F84]))],
              El ''input'' [Attr ''value'' path, On ''change'' NfSetPath, Attr ''placeholder'' ''/workspace/main.py''] []],
           El ''div'' []
             [Button (button0\<lparr>bp_onClick := Some NfClose\<rparr>) [Txt (t ''Cancel'' (zh [0x53D6, 0x6D88]))],
              Button (button0\<lparr>bp_kind := Some Primary, bp_submit := True, bp_disabled := \<not> newfile_valid path\<rparr>)
                [Txt (t ''Create'' (zh [0x521B, 0x5EFA]))]]]]"

section \<open>The rendered tab\<close>

datatype files_action = FEv files_event | FTree tree_action | PickUpload | FNew newfile_action

definition files_toolbar :: "files_state \<Rightarrow> TFn \<Rightarrow> files_action vnode" where
  "files_toolbar st t =
     El ''div'' []
       [El ''span'' [] [Txt (t ''guest disk'' (''guest '' @ zh [0x78C1, 0x76D8]))],
        El ''div'' []
          (Tip (Some [Txt (t ''New file'' (zh [0x65B0, 0x5EFA, 0x6587, 0x4EF6]))]) None False
             [IconButton (t ''New file'' (zh [0x65B0, 0x5EFA, 0x6587, 0x4EF6])) (Some (FEv AskNewFile)) False False [Icon ''IconPlus'' (Some 13)]] @
           Tip (Some [Txt (t ''Upload to'' (zh [0x4E0A, 0x4F20, 0x5230]) @ '' '' @ currentDir st)]) None False
             [IconButton (t ''Upload file'' (zh [0x4E0A, 0x4F20, 0x6587, 0x4EF6])) (Some PickUpload) False False [Icon ''IconUpload'' (Some 13)]] @
           Tip (Some [Txt (t ''Refresh listing'' (zh [0x5237, 0x65B0, 0x5217, 0x8868]))]) None False
             [IconButton (t ''Refresh'' (zh [0x5237, 0x65B0])) (Some (FEv RefreshClick)) False False [Icon ''IconRefresh'' (Some 13)]]),
        El ''input'' [Attr ''type'' ''file''] []]"

text \<open>\<open>toLocaleString\<close> groups digits by the locale of the browser: a parameter.\<close>

definition file_header :: "files_state \<Rightarrow> OpenFile \<Rightarrow> (int \<Rightarrow> string) \<Rightarrow> TFn \<Rightarrow> files_action vnode" where
  "file_header st f toLocale t =
     El ''div'' []
       ([El ''button'' [Attr ''title'' (t ''Copy path'' (zh [0x590D, 0x5236, 0x8DEF, 0x5F84])), On ''click'' (FEv CopyClick)] [Txt (of_path f)]] @
        shown (fs_dirty st) [El ''span'' [Attr ''aria-label'' (t ''Unsaved changes'' (zh [0x672A, 0x4FDD, 0x5B58, 0x7684, 0x66F4, 0x6539]))] []] @
        [El ''span'' [] ([Txt (toLocale (of_size f) @ '' B'')] @
           shown (of_readOnly f) [Txt (('' '' @ zh [0xB7] @ '' '') @ t ''read-only (large file)'' (zh [0x53EA, 0x8BFB, 0xFF08, 0x5927, 0x6587, 0x4EF6, 0xFF09]))])] @
        Tip (Some [Txt (t ''Download'' (zh [0x4E0B, 0x8F7D]))]) None False
          [IconButton (t ''Download file'' (zh [0x4E0B, 0x8F7D, 0x6587, 0x4EF6])) (Some (FEv DownloadClick)) False False [Icon ''IconDownload'' (Some 13)]] @
        [Button (button0\<lparr>bp_size := Some Sm, bp_kind := Some Primary,
                   bp_disabled := \<not> fs_dirty st \<or> of_readOnly f \<or> of_binary f, bp_busy := fs_saving st,
                   bp_onClick := Some (FEv SaveClick), bp_title := Some (t ''Save'' (zh [0x4FDD, 0x5B58]) @ ('' ('' @ zh [0x2318] @ ''S)''))\<rparr>)
           [Txt (t ''Save'' (zh [0x4FDD, 0x5B58]))]])"

definition download_button :: "TFn \<Rightarrow> files_action vnode" where
  "download_button t =
     Button (button0\<lparr>bp_onClick := Some (FEv DownloadClick)\<rparr>)
       [Icon ''IconDownload'' (Some 13), Txt ('' '' @ t ''Download'' (zh [0x4E0B, 0x8F7D]))]"

definition file_body :: "files_state \<Rightarrow> (int \<Rightarrow> string) \<Rightarrow> TFn \<Rightarrow> files_action vnode" where
  "file_body st toLocale t =
     El ''div'' []
       (shown (fs_busy st) [El ''div'' [] [Spinner]] @
        (case fs_file st of
           None \<Rightarrow>
             [Empty [El ''div'' []
                [El ''p'' [] [Txt (t ''Select a file to view or edit it.'' (zh [0x9009, 0x62E9, 0x4E00, 0x4E2A, 0x6587, 0x4EF6, 0x4EE5, 0x67E5, 0x770B, 0x6216, 0x7F16, 0x8F91, 0x3002]))],
                 El ''p'' [] [Txt (t ''Saves go straight to the guest disk'' (zh [0x4FDD, 0x5B58, 0x76F4, 0x63A5, 0x5199, 0x5165] @ '' guest '' @ zh [0x78C1, 0x76D8]) @ '' (''),
                              Mono [Txt ''PUT /files''] None, Txt '').'']]]]
         | Some f \<Rightarrow>
             shown (of_binary f)
               [Empty [El ''div'' []
                  [El ''p'' [] [Mono [Txt (baseName (of_path f))] None,
                     Txt ('' '' @ t ''looks binary'' (zh [0x770B, 0x8D77, 0x6765, 0x662F, 0x4E8C, 0x8FDB, 0x5236, 0x6587, 0x4EF6]) @ '' ('' @ toLocale (of_size f) @ '' B).'')],
                   download_button t]]] @
             shown (of_tooLarge f \<and> \<not> of_binary f)
               [Empty [El ''div'' []
                  [El ''p'' [] [Mono [Txt (baseName (of_path f))] None,
                     Txt ('' '' @ t ''is'' (zh [0x4E3A]) @ '' '' @ toFixed (of_int (of_size f) / 1048576) 1 @ ('' MiB '' @ zh [0x2014] @ '' '') @
                        t ''too large to edit here'' (zh [0x8FC7, 0x5927, 0xFF0C, 0x65E0, 0x6CD5, 0x5728, 0x6B64, 0x7F16, 0x8F91]) @ ''.'')],
                   download_button t]]] @
             shown_opt (fs_editor st) (\<lambda>e. [El ''Editor'' [Flag ''readOnly'' (ed_readOnly e), On ''save'' (FEv ModS)]
                                              [Txt (ed_doc e)]])))"

definition FilesTab ::
  "nat \<Rightarrow> SandboxState \<Rightarrow> files_state \<Rightarrow> string list \<Rightarrow> (string \<Rightarrow> dir_query) \<Rightarrow> string \<Rightarrow> rat \<Rightarrow> (int \<Rightarrow> string) \<Rightarrow> TFn \<Rightarrow>
   files_action vnode list" where
  "FilesTab fuel state st ops dirs newPath leftW toLocale t =
     (if state \<noteq> RUNNING then
        [Empty [El ''div'' []
           [Icon ''IconFile'' (Some 22),
            El ''p'' [] [Txt (t ''The file browser needs a running guest.'' (zh [0x6587, 0x4EF6, 0x6D4F, 0x89C8, 0x5668, 0x9700, 0x8981, 0x8FD0, 0x884C, 0x4E2D, 0x7684] @ '' guest'' @ zh [0x3002]))],
            El ''p'' [] [Txt (t ''Resume the sandbox from the header to browse its disk.'' (zh [0x4ECE, 0x9876, 0x90E8, 0x6062, 0x590D, 0x6C99, 0x7BB1, 0x5373, 0x53EF, 0x6D4F, 0x89C8, 0x5176, 0x78C1, 0x76D8, 0x3002]))]]]]
      else
        [SplitPane t (split_defaults ''files'') leftW
           [El ''div'' []
              [files_toolbar st t,
               El ''div'' [] (shown_opt (FileTree fuel t dirs ops (map_option of_path (fs_file st)))
                 (\<lambda>v. [map_actions FTree v]))]]
           [El ''div'' []
              (shown_opt (fs_file st) (\<lambda>f. [file_header st f toLocale t]) @ [file_body st toLocale t])]] @
        shown (fs_pendingOpen st \<noteq> None)
          [ConfirmDialog t (t ''Discard unsaved changes?'' (zh [0x653E, 0x5F03, 0x672A, 0x4FDD, 0x5B58, 0x7684, 0x66F4, 0x6539, 0xFF1F]))
             [Mono [Txt (case fs_file st of None \<Rightarrow> '''' | Some f \<Rightarrow> baseName (of_path f))] (Some ''text-ink''),
              Txt ('' '' @ t ''has unsaved changes. Opening another file discards them.'' (zh [0x6709, 0x672A, 0x4FDD, 0x5B58, 0x7684, 0x66F4, 0x6539, 0x3002, 0x6253, 0x5F00, 0x5176, 0x4ED6, 0x6587, 0x4EF6, 0x5C06, 0x4E22, 0x5F03, 0x5B83, 0x4EEC, 0x3002]))]
             (t ''Discard changes'' (zh [0x653E, 0x5F03, 0x66F4, 0x6539])) False (FEv ConfirmDiscard) (FEv CloseDiscard)] @
        shown (fs_newFileOpen st) [map_actions FNew (NewFileDialog newPath t)])"

section \<open>Invariant\<close>

definition files_inv :: "files_state \<Rightarrow> bool" where
  "files_inv st \<longleftrightarrow>
     (\<forall>e. fs_editor st = Some e \<longrightarrow> fs_running st \<and>
        (\<exists>f. fs_file st = Some f \<and> \<not> of_binary f \<and> \<not> of_tooLarge f \<and> ed_key e = file_key f)) \<and>
     (\<forall>f. fs_file st = Some f \<longrightarrow> \<not> of_binary f \<longrightarrow> \<not> of_tooLarge f \<longrightarrow> fs_running st \<longrightarrow> fs_editor st \<noteq> None) \<and>
     (\<forall>(f, txt) \<in> set (fs_saves st). \<not> of_binary f \<and> \<not> of_readOnly f) \<and>
     (\<forall>f. fs_file st = Some f \<longrightarrow> of_generation f < fs_gen st) \<and>
     (\<forall>(f, txt) \<in> set (fs_saves st). of_generation f < fs_gen st)"

text \<open>No edit is out of sight: what the save button would write is what the editor shows.\<close>

definition in_sight :: "files_state \<Rightarrow> bool" where
  "in_sight st \<longleftrightarrow> (fs_dirty st \<longrightarrow> fs_running st \<and> (\<forall>e. fs_editor st = Some e \<longrightarrow> fs_latest st = ed_doc e))"

text \<open>The sandbox left the running state, somewhere in the run, with unsaved edits in the buffer.\<close>

fun paused_dirty :: "TFn \<Rightarrow> files_state \<Rightarrow> files_event list \<Rightarrow> bool" where
  "paused_dirty t st [] = False"
| "paused_dirty t st (e # es) = (e = Running False \<and> fs_dirty st \<or> paused_dirty t (files_handle t st e) es)"

lemma set_remove_nth: "set (remove_nth i xs) \<subseteq> set xs"
  unfolding remove_nth_def using set_take_subset [of i xs] set_drop_subset [of "Suc i" xs] by auto

lemma mount_editor_props:
  assumes "mount_editor (Some f) ed = Some e"
  shows "\<not> of_binary f \<and> \<not> of_tooLarge f \<and> ed_key e = file_key f \<and>
    (ed = Some e \<or> ed_doc e = of_text f)"
  using assms by (auto simp: mount_editor_def Editor_mount_def Let_def split: if_splits option.splits)

lemma mount_editor_None: "mount_editor (Some f) ed = None \<longleftrightarrow> of_binary f \<or> of_tooLarge f"
  by (auto simp: mount_editor_def Let_def split: option.splits)

lemmas files_ops = openFile_def save_def createFile_def createFile_written_def upload_def upload_done_def

text \<open>Only four events touch what the invariant speaks of; the others keep it by this rule.\<close>

lemma files_inv_cong:
  "files_inv st \<Longrightarrow> fs_editor st' = fs_editor st \<Longrightarrow> fs_file st' = fs_file st \<Longrightarrow> fs_running st' = fs_running st \<Longrightarrow>
   fs_gen st' = fs_gen st \<Longrightarrow> set (fs_saves st') \<subseteq> set (fs_saves st) \<Longrightarrow> files_inv st'"
  unfolding files_inv_def by auto

lemma in_sight_cong:
  "in_sight st \<Longrightarrow> fs_editor st' = fs_editor st \<Longrightarrow> fs_running st' = fs_running st \<Longrightarrow> fs_latest st' = fs_latest st \<Longrightarrow>
   (fs_dirty st' \<Longrightarrow> fs_dirty st) \<Longrightarrow> in_sight st'"
  unfolding in_sight_def by auto

lemma inv_openFile: "files_inv st \<Longrightarrow> files_inv (fst (openFile p force st))"
  by (rule files_inv_cong [of st]) (auto simp: openFile_def split: if_splits)

lemma sight_openFile: "in_sight st \<Longrightarrow> in_sight (fst (openFile p force st))"
  by (rule in_sight_cong [of st]) (auto simp: openFile_def split: if_splits)

lemma inv_save: "files_inv st \<Longrightarrow> files_inv (fst (save txt st))"
  unfolding files_inv_def by (auto simp: save_def split: option.splits)

lemma sight_save: "in_sight st \<Longrightarrow> in_sight (fst (save txt st))"
  by (rule in_sight_cong [of st]) (auto simp: save_def split: option.splits if_splits)

lemma inv_setFile:
  assumes "files_inv st" and "fs_file st' = Some f" and "fs_running st' = fs_running st"
    and "fs_editor st' = (if fs_running st then mount_editor (Some f) (fs_editor st) else None)"
    and "of_generation f < fs_gen st'" "fs_gen st \<le> fs_gen st'" "set (fs_saves st') \<subseteq> set (fs_saves st)"
  shows "files_inv st'"
  unfolding files_inv_def
proof (intro conjI allI impI)
  show "\<forall>(f, txt) \<in> set (fs_saves st'). \<not> of_binary f \<and> \<not> of_readOnly f"
    using assms(1,7) by (fastforce simp: files_inv_def)
  show "\<forall>(f, txt) \<in> set (fs_saves st'). of_generation f < fs_gen st'"
    using assms(1,6,7) by (fastforce simp: files_inv_def)
qed (use assms mount_editor_None mount_editor_props [of f "fs_editor st"] in \<open>auto split: if_splits\<close>)

lemma inv_openFile_done:
  assumes "files_inv st"
  shows "files_inv (openFile_done p outcome t st)"
proof (cases outcome)
  case (Inl e)
  then show ?thesis by (intro files_inv_cong [OF assms]) (auto simp: openFile_done_def)
next
  case (Inr bytes)
  show ?thesis
    unfolding openFile_done_def Inr sum.case Let_def setFile_def by (rule inv_setFile [OF assms]) auto
qed

text \<open>A file that is read gets a generation of its own, so its editor is mounted afresh.\<close>

lemma sight_openFile_done:
  assumes "files_inv st" and "in_sight st"
  shows "in_sight (openFile_done p outcome t st)"
proof (cases outcome)
  case (Inl e)
  then show ?thesis by (intro in_sight_cong [OF assms(2)]) (auto simp: openFile_done_def)
next
  case (Inr bytes)
  have old: "ed_key e \<noteq> (p, fs_gen st)" if "fs_editor st = Some e" for e
    using assms(1) that by (auto simp: files_inv_def file_key_def)
  have ed: "mount_editor (Some f) (fs_editor st) = Some e \<Longrightarrow> of_text f = ed_doc e"
    if "of_path f = p" "of_generation f = fs_gen st" for f e
    using mount_editor_props [of f "fs_editor st" e] old that by (auto simp: file_key_def)
  from assms(2) show ?thesis
    unfolding openFile_done_def Inr sum.case Let_def setFile_def in_sight_def
    by (auto split del: if_split dest!: ed [rotated -1])
qed

lemma inv_save_done:
  assumes "files_inv st" and "of_generation f < fs_gen st"
  shows "files_inv (save_done f txt outcome t st)"
proof (cases outcome)
  case (Inl e)
  then show ?thesis by (intro files_inv_cong [OF assms(1)]) (auto simp: save_done_def)
next
  case (Inr u)
  show ?thesis
    unfolding save_done_def Inr sum.case setFile_def
    by (rule inv_setFile [OF assms(1), of _ "f\<lparr>of_text := txt, of_size := int (length txt)\<rparr>"])
       (use assms(2) in auto)
qed

lemma sight_save_done: "in_sight st \<Longrightarrow> in_sight (save_done f txt outcome t st)"
  by (cases outcome) (auto simp: save_done_def in_sight_def)

text \<open>The mount of the editor that a state calls for is the one it has.\<close>

lemma mount_idle: "files_inv st \<Longrightarrow> fs_running st \<Longrightarrow> mount_editor (fs_file st) (fs_editor st) = fs_editor st"
  by (cases "fs_editor st"; cases "fs_file st")
     (auto simp: files_inv_def mount_editor_def Let_def split: option.splits)

lemma inv_running:
  assumes "files_inv st"
  shows "files_inv (st\<lparr>fs_running := b, fs_editor := (if b then mount_editor (fs_file st) (fs_editor st) else None)\<rparr>)"
  using assms mount_editor_None mount_editor_props [of _ "fs_editor st"]
  by (cases "fs_file st") (auto simp: files_inv_def mount_editor_def [of None])

text \<open>Bookkeeping of the requests in flight.\<close>

lemma flight_inv:
  "files_inv st \<Longrightarrow> files_inv (st\<lparr>fs_reads := rs\<rparr>)" "files_inv st \<Longrightarrow> files_inv (st\<lparr>fs_refreshes := qs\<rparr>)"
  "files_inv st \<Longrightarrow> files_inv (st\<lparr>fs_pendingOpen := po\<rparr>)" "files_inv st \<Longrightarrow> files_inv (st\<lparr>fs_saves := remove_nth i (fs_saves st)\<rparr>)"
  by (erule files_inv_cong; simp add: set_remove_nth)+

lemma flight_sight:
  "in_sight st \<Longrightarrow> in_sight (st\<lparr>fs_reads := rs\<rparr>)" "in_sight st \<Longrightarrow> in_sight (st\<lparr>fs_refreshes := qs\<rparr>)"
  "in_sight st \<Longrightarrow> in_sight (st\<lparr>fs_pendingOpen := po\<rparr>)" "in_sight st \<Longrightarrow> in_sight (st\<lparr>fs_saves := ss\<rparr>)"
  by (erule in_sight_cong; simp)+

lemma saved_generation:
  assumes "files_inv st" "i < length (fs_saves st)" "fs_saves st ! i = (f, x)"
  shows "of_generation f < fs_gen st"
proof -
  have "(f, x) \<in> set (fs_saves st)" using assms(2,3) by (metis nth_mem)
  with assms(1) show ?thesis by (auto simp: files_inv_def)
qed

lemma inv_react:
  assumes "files_inv st"
  shows "files_inv (fst (files_react t st ev))"
proof (cases ev)
  case (Edit x)
  with assms show ?thesis by (auto simp: files_inv_def Editor_update_def split: option.splits)
next
  case (ReadSettles i outcome)
  with assms show ?thesis by (simp add: inv_openFile_done flight_inv)
next
  case (SaveSettles i outcome)
  with assms saved_generation [OF assms, of i] show ?thesis
    by (auto simp: inv_save_done flight_inv split: prod.splits)
next
  case ConfirmDiscard
  with assms show ?thesis by (auto simp: Let_def inv_openFile flight_inv split: option.splits)
next
  case (Refreshed i)
  with assms show ?thesis by (simp add: inv_openFile flight_inv)
next
  case ModS
  with assms show ?thesis by (auto simp: inv_save split: option.splits)
next
  case SaveClick
  with assms show ?thesis by (simp add: inv_save)
next
  case (ClickFile p)
  with assms show ?thesis by (simp add: inv_openFile)
next
  case (Running b)
  with inv_running [OF assms, of b] show ?thesis by simp
qed (rule files_inv_cong [OF assms],
     auto simp: createFile_def createFile_written_def upload_def upload_done_def
       split: option.splits sum.splits prod.splits)+

lemma sight_react:
  assumes "files_inv st" and "in_sight st" and "\<not> (ev = Running False \<and> fs_dirty st)" and "fs_running st \<or> settles ev"
  shows "in_sight (fst (files_react t st ev))"
proof (cases ev)
  case (Edit x)
  with assms show ?thesis by (auto simp: in_sight_def Editor_update_def split: option.splits)
next
  case (ReadSettles i outcome)
  with assms show ?thesis by (simp add: sight_openFile_done flight_inv flight_sight)
next
  case (SaveSettles i outcome)
  with assms show ?thesis by (auto simp: sight_save_done flight_sight split: prod.splits)
next
  case ConfirmDiscard
  with assms show ?thesis by (auto simp: Let_def sight_openFile flight_sight split: option.splits)
next
  case (Refreshed i)
  with assms show ?thesis by (simp add: sight_openFile flight_sight)
next
  case ModS
  with assms show ?thesis by (auto simp: sight_save split: option.splits)
next
  case SaveClick
  with assms show ?thesis by (simp add: sight_save)
next
  case (ClickFile p)
  with assms show ?thesis by (simp add: sight_openFile)
next
  case (Running b)
  with assms mount_idle [OF assms(1)] show ?thesis by (cases b) (auto simp: in_sight_def)
qed (rule in_sight_cong [OF assms(2)],
     auto simp: createFile_def createFile_written_def upload_def upload_done_def
       split: option.splits sum.splits prod.splits)+

lemma inv_handle: "files_inv st \<Longrightarrow> files_inv (files_handle t st ev)"
  by (simp add: files_handle_def files_step_def inv_react)

lemma sight_handle:
  "files_inv st \<Longrightarrow> in_sight st \<Longrightarrow> \<not> (ev = Running False \<and> fs_dirty st) \<Longrightarrow> in_sight (files_handle t st ev)"
  by (simp add: files_handle_def files_step_def sight_react)

interpretation files_machine: deterministic_machine files_init "files_handle t" files_inv for t
  by unfold_locales (simp add: files_inv_def files_init_def, rule inv_handle)

lemma sight_run: "files_inv st \<Longrightarrow> in_sight st \<Longrightarrow> \<not> paused_dirty t st es \<Longrightarrow> in_sight (files_run t es st)"
  by (induction es arbitrary: st) (auto simp: inv_handle sight_handle)

lemma ends_slash: "js_endsWith s ''/'' \<Longrightarrow> last s = CHR ''/''"
  by (auto simp: js_endsWith_iff)

section \<open>Properties\<close>

text \<open>C9: What a save writes, in any run of clicks, edits, answers and changes of the sandbox's state.  A save
  request goes to the path of the file on display, never for a binary or read-only file and never while the
  sandbox does not run.  The key in the editor writes the text the editor shows.  The button writes the same
  text unless the file is too large for the editor or the sandbox has left the running state over unsaved
  edits before; in every case it writes the text typed or loaded last.  A click on another file while the
  buffer is marked dirty only asks for confirmation.\<close>

theorem save_writes_buffer:
  assumes "st = files_run t es files_init" and "ev = SaveClick \<or> ev = ModS"
    and "WriteCall p c \<in> set (snd (files_step t st ev))"
  shows "(\<exists>f. fs_file st = Some f \<and> p = of_path f \<and> \<not> of_binary f \<and> \<not> of_readOnly f \<and> fs_running st \<and>
      (ev = ModS \<or> \<not> of_tooLarge f \<and> \<not> paused_dirty t files_init es \<longrightarrow>
         (\<exists>e. fs_editor st = Some e \<and> ed_key e = file_key f \<and> c = Text (ed_doc e))) \<and>
      (ev = SaveClick \<longrightarrow> fs_dirty st \<and> c = Text (fs_latest st))) \<and>
    (fs_dirty st \<longrightarrow> files_step t st (ClickFile q) = (st\<lparr>fs_pendingOpen := Some q\<rparr>, []))"
proof -
  have inv: "files_inv st" unfolding assms(1) by (rule files_machine.run_inv)
  have sight: "\<not> paused_dirty t files_init es \<Longrightarrow> in_sight st"
    unfolding assms(1) by (rule sight_run) (simp_all add: in_sight_def files_inv_def files_init_def)
  from assms(2,3) obtain f where f: "fs_file st = Some f" "p = of_path f" "\<not> of_binary f" "\<not> of_readOnly f" "fs_running st"
    and c: "ev = SaveClick \<Longrightarrow> c = Text (fs_latest st) \<and> fs_dirty st"
      "ev = ModS \<Longrightarrow> \<exists>e. fs_editor st = Some e \<and> c = Text (ed_doc e)"
    by (auto simp: files_step_def save_def save_enabled_def split: option.splits if_splits)
  have key: "ed_key e = file_key f" if "fs_editor st = Some e" for e
    using inv that f(1) by (auto simp: files_inv_def)
  have "\<exists>e. fs_editor st = Some e \<and> c = Text (ed_doc e)" if "ev = SaveClick" "\<not> of_tooLarge f" "\<not> paused_dirty t files_init es"
    using inv f(1,3,5) that c(1) sight by (auto simp: files_inv_def in_sight_def)
  with c key assms(2) f show ?thesis by (auto simp: openFile_def files_step_def)
qed

text \<open>A session on one small file.\<close>

definition ok_read :: "string \<Rightarrow> js_error + string" where
  "ok_read bytes = Inr bytes"

definition edit_session :: "files_event list" where
  "edit_session = [ClickFile ''/a'', ReadSettles 0 (ok_read ''1''), Edit ''2'']"

lemma small_texts: "looksBinary ''1'' = False" "TextDecoder ''1'' = ''1''"
  "looksBinary ''s'' = False" "TextDecoder ''s'' = ''s''"
  by code_simp+

lemmas run_simps = files_handle_def files_step_def files_init_def openFile_def openFile_done_def save_def save_done_def
  setFile_def mount_editor_def Editor_mount_def Editor_update_def file_key_def ok_read_def
  small_texts EDIT_MAX_BYTES_def EDIT_WARN_BYTES_def remove_nth_def save_enabled_def edit_session_def Let_def

theorem save_writes_buffer_witness:
  "\<exists>f e. fs_file (files_run (tr En) edit_session files_init) = Some f \<and>
     fs_editor (files_run (tr En) edit_session files_init) = Some e \<and>
     Text ''2'' = Text (ed_doc e) \<and> ''/a'' = of_path f"
proof -
  let ?st = "files_run (tr En) edit_session files_init"
  have "WriteCall ''/a'' (Text ''2'') \<in> set (snd (files_step (tr En) ?st SaveClick))"
    and f: "\<And>f. fs_file ?st = Some f \<Longrightarrow> \<not> of_tooLarge f" and d: "\<not> paused_dirty (tr En) files_init edit_session"
    by (simp_all add: run_simps)
  from save_writes_buffer [OF refl disjI1 [OF refl] this(1)] f d show ?thesis by blast
qed

text \<open>C12: Two reads in flight can destroy a file: with a large and a small file requested together,
  the small one answered and edited, the answer for the large one replaces the display but leaves the
  dirty mark and an empty buffer, and the save button, still enabled, writes the empty text over the
  large file.\<close>

theorem save_truncates_large_file:
  "\<exists>bytes. int (length bytes) > EDIT_MAX_BYTES \<and>
     (let st = foldl (files_handle t) files_init
            [ClickFile ''/big'', ClickFile ''/s'', ReadSettles 1 (ok_read ''s''), Edit ''x'',
             ReadSettles 0 (ok_read bytes)]
      in save_enabled st \<and> snd (files_step t st SaveClick) = [WriteCall ''/big'' (Text '''')])"
proof -
  obtain n where n: "int n > EDIT_MAX_BYTES" by (rule that [of "nat (EDIT_MAX_BYTES + 1)"]) (simp add: EDIT_MAX_BYTES_def)
  have "b = CHR ''a''" if "b \<in> set (take 8192 (replicate n (CHR ''a'')))" for b
    using in_set_takeD [OF that] by (simp only: in_set_replicate)
  then have "\<not> looksBinary (replicate n (CHR ''a''))" by (auto simp: looksBinary_iff)
  then obtain bytes where b: "int (length bytes) > EDIT_MAX_BYTES" "\<not> looksBinary bytes"
    using n length_replicate by metis
  then show ?thesis
    by (intro exI [of _ bytes]) (simp add: run_simps)
qed

text \<open>A save that was issued last and succeeds, whatever was typed meanwhile.\<close>

lemma save_roundtrip:
  assumes "files_inv st" and "fs_editor st = Some e" and "fs_file st = Some f" and "\<not> of_readOnly f"
    and "st1 = files_handle t st ModS"
  shows "fs_saves st1 = fs_saves st @ [(f, ed_doc e)]" "fs_editor st1 = Some e" "fs_running st1" "fs_dirty st1 = fs_dirty st"
    "files_inv st1" "fs_file st1 = Some f"
proof -
  have r: "fs_running st" "\<not> of_binary f" using assms(1-3) by (auto simp: files_inv_def)
  with assms(2-4) have m: "st1 = st\<lparr>fs_saving := True, fs_saves := fs_saves st @ [(f, ed_doc e)]\<rparr>"
    by (simp add: assms(5) files_handle_def files_step_def save_def)
  show "fs_saves st1 = fs_saves st @ [(f, ed_doc e)]" "fs_editor st1 = Some e" "fs_running st1" "fs_dirty st1 = fs_dirty st"
    "fs_file st1 = Some f" using r assms(2,3) by (simp_all add: m)
  show "files_inv st1" unfolding assms(5) by (rule inv_handle) (rule assms(1))
qed

lemma save_lands:
  assumes "files_inv st" and "fs_editor st = Some e" and "fs_saves st ! i = (f, x)" "i < length (fs_saves st)" "fs_running st"
    and "ed_key e = file_key f" "\<not> of_binary f" "\<not> of_tooLarge f"
    and "st2 = files_handle t st (SaveSettles i (Inr ()))"
  shows "fs_editor st2 = Some e" "fs_file st2 = Some (f\<lparr>of_text := x, of_size := int (length x)\<rparr>)" "\<not> fs_dirty st2" "fs_running st2"
  using assms
  by (simp_all add: files_handle_def files_step_def save_done_def setFile_def mount_editor_def file_key_def)

text \<open>C22: The dirty mark can be wrong after a save, from any state with an editable file on display.  Text
  typed while a save is under way is marked clean when the save succeeds, although the disk holds the
  earlier text, and the next click on a file reads it at once, discarding the text without asking.  And
  because the listener compares with the text at mount, typing that text back after a save of another one
  marks the buffer clean although the disk differs, so that it cannot be saved with the button.\<close>

theorem dirty_mark_lies:
  assumes "st = files_run t es files_init" and "fs_editor st = Some e" "\<not> ed_readOnly e" and "fs_file st = Some f" "\<not> of_readOnly f"
    and "x \<noteq> ed_doc e" and "i = length (fs_saves st)"
    and "u = files_run t [ModS, Edit x, SaveSettles i (Inr ())] st"
    and "v = files_run t [ModS, SaveSettles i (Inr ()), Edit (ed_initial e)] st"
  shows "map_option ed_doc (fs_editor u) = Some x \<and> map_option of_text (fs_file u) = Some (ed_doc e) \<and> \<not> fs_dirty u \<and>
    snd (files_step t u (ClickFile q)) = [ReadCall q] \<and>
    (ed_initial e \<noteq> ed_doc e \<longrightarrow>
      map_option ed_doc (fs_editor v) = Some (ed_initial e) \<and> map_option of_text (fs_file v) = Some (ed_doc e) \<and>
      \<not> save_enabled v)"
proof -
  have inv: "files_inv st" unfolding assms(1) by (rule files_machine.run_inv)
  define a where "a = files_handle t st ModS"
  note a = save_roundtrip [OF inv assms(2,4,5) a_def]
  have f: "ed_key e = file_key f" "\<not> of_binary f" "\<not> of_tooLarge f"
    using inv assms(2,4) by (auto simp: files_inv_def)
  define b where "b = files_handle t a (Edit x)"
  have b: "b = a\<lparr>fs_editor := Some (e\<lparr>ed_doc := x\<rparr>), fs_dirty := (x \<noteq> ed_initial e), fs_latest := x\<rparr>"
    using a(2,3) assms(3,6) by (simp add: b_def files_handle_def files_step_def Editor_update_def)
  have u: "u = files_handle t b (SaveSettles i (Inr ()))" by (simp add: assms(8) a_def b_def)
  have "files_inv b" unfolding b_def by (rule inv_handle) (rule a(5))
  note u = save_lands [OF this _ _ _ _ _ f(2,3) u, of "e\<lparr>ed_doc := x\<rparr>" "ed_doc e"]
  define w where "w = files_handle t a (SaveSettles i (Inr ()))"
  note w = save_lands [OF a(5,2) _ _ a(3) f w_def, of "ed_doc e"]
  have v: "v = files_handle t w (Edit (ed_initial e))" by (simp add: assms(9) a_def w_def)
  show ?thesis
    using u w a f(1) assms(3,7) by (auto simp: v b files_handle_def files_step_def openFile_def Editor_update_def save_enabled_def split: option.splits)
qed

theorem dirty_mark_lies_witness:
  "let st = files_run (tr En) (edit_session @ [ModS, Edit ''3'', SaveSettles 0 (Inr ())]) files_init
   in map_option ed_doc (fs_editor st) = Some ''3'' \<and> map_option of_text (fs_file st) = Some ''2'' \<and> \<not> fs_dirty st"
proof -
  let ?st = "files_run (tr En) edit_session files_init"
  obtain e f where e: "fs_editor ?st = Some e" "\<not> ed_readOnly e" "fs_file ?st = Some f" "\<not> of_readOnly f" "ed_doc e = ''2''"
    and s: "length (fs_saves ?st) = 0"
    by (simp add: run_simps)
  then have "''3'' \<noteq> ed_doc e" by simp
  from dirty_mark_lies [OF refl e(1-4) this refl refl refl] e(5) s show ?thesis by (simp add: Let_def)
qed

text \<open>Pausing and resuming the sandbox loses sight of unsaved edits, from any state with an editable file
  that is marked dirty: the remounted editor shows the last saved text, the buffer is still marked dirty, and
  the save button, unless a save is under way, writes the text that is no longer shown.\<close>

theorem resume_hides_edits:
  assumes "st = files_run t es files_init" and "fs_editor st = Some e" "fs_file st = Some f" "\<not> of_readOnly f"
    and "fs_dirty st" "\<not> fs_saving st" and "u = files_run t [Running False, Running True] st"
  shows "map_option ed_doc (fs_editor u) = Some (of_text f) \<and>
    snd (files_step t u SaveClick) = [WriteCall (of_path f) (Text (fs_latest st))]"
proof -
  have "files_inv st" unfolding assms(1) by (rule files_machine.run_inv)
  then have "\<not> of_binary f" "\<not> of_tooLarge f" using assms(2,3) by (auto simp: files_inv_def)
  with assms(3-6) show ?thesis
    by (simp add: assms(7) files_handle_def files_step_def mount_editor_def Editor_mount_def save_enabled_def save_def)
qed

theorem resume_hides_edits_witness:
  "map_option ed_doc (fs_editor (files_run (tr En) [Running False, Running True] (files_run (tr En) edit_session files_init))) = Some ''1''"
proof -
  let ?st = "files_run (tr En) edit_session files_init"
  obtain e f where e: "fs_editor ?st = Some e" "fs_file ?st = Some f" "\<not> of_readOnly f" "fs_dirty ?st" "\<not> fs_saving ?st"
    and "of_text f = ''1''"
    by (simp add: run_simps)
  with resume_hides_edits [OF refl e refl] show ?thesis by simp
qed

text \<open>A new file is created under a canonical path in the directory it was typed in: the dialog
  starts from the directory of the open file, accepts exactly absolute paths that do not end in a slash,
  and the path sent is canonical.\<close>

theorem newfile_canonical:
  "(newfile_submit path = Some ev \<longrightarrow>
      js_startsWith path ''/'' \<and> ev = CreateFile (normalizePath path) \<and> canonical (normalizePath path)) \<and>
   \<not> newfile_valid (newfile_start dir) \<and>
   (canonical dir \<longrightarrow> plain_name n \<longrightarrow> newfile_submit (newfile_start dir @ n) = Some (CreateFile (joinPath dir n)))"
proof (intro conjI impI)
  have c: "canonical (normalizePath path)"
    unfolding normalizePath_parts by (rule canonical_path_of) (rule path_parts_plain)
  show "js_startsWith path ''/''" "ev = CreateFile (normalizePath path)" "canonical (normalizePath path)"
    if "newfile_submit path = Some ev"
    using that c by (auto simp: newfile_submit_def newfile_valid_def split: if_splits)
  show "\<not> newfile_valid (newfile_start dir)"
    by (auto simp: newfile_valid_def newfile_start_def js_endsWith_iff)
  assume d: "canonical dir" and n: "plain_name n"
  then have n': "n \<noteq> []" "last n \<noteq> CHR ''/''" by (auto simp: plain_name_def dest: last_in_set)
  have start: "newfile_start dir @ n = (if js_endsWith dir ''/'' then dir @ n else dir @ ''/'' @ n)"
  proof (cases "dir = ''/''")
    case False
    from d obtain ps where ps: "list_all plain_name ps" "dir = path_of ps" by (auto simp: canonical_iff)
    with False have "ps \<noteq> []" by auto
    with ps(1) have l: "plain_name (last ps)" by (simp add: list_all_iff)
    have "last dir = last (last ps)"
      using \<open>ps \<noteq> []\<close> l ps(2) path_of_snoc [of "butlast ps" "last ps"] by (simp add: plain_name_def)
    with l have "last dir \<noteq> CHR ''/''" by (auto simp: plain_name_def dest: last_in_set)
    then have "\<not> js_endsWith dir ''/''" by (auto simp: js_endsWith_iff)
    with False show ?thesis by (simp add: newfile_start_def)
  qed (simp add: newfile_start_def js_endsWith_iff)
  moreover have "newfile_valid (newfile_start dir @ n)"
  proof -
    have "hd (newfile_start dir) = CHR ''/''" "newfile_start dir \<noteq> []"
      using d by (auto simp: newfile_start_def canonical_iff)
    then obtain r where "newfile_start dir = CHR ''/'' # r" by (cases "newfile_start dir") auto
    with n' show ?thesis by (auto simp: newfile_valid_def dest: ends_slash)
  qed
  ultimately show "newfile_submit (newfile_start dir @ n) = Some (CreateFile (joinPath dir n))"
    by (simp add: newfile_submit_def joinPath_def)
qed

theorem newfile_canonical_witness: "newfile_submit ''/home/x'' = Some (CreateFile (joinPath ''/home'' ''x''))"
proof -
  have "canonical ''/home''" "plain_name ''x''" "newfile_start ''/home'' = ''/home/''" by code_simp+
  with newfile_canonical [of "[]" CloseDiscard "''/home''" "''x''"] show ?thesis by simp
qed

end
