(* ===== verification/Shell.thy ===== *)
theory Shell
  imports Ui Term Proxy Hooks
begin

text \<open>
  The shell of the console (\<open>web/src/App.tsx\<close>) and the sign-in page (\<open>web/src/pages/Login.tsx\<close>): the
  signed-in flag, signing in and out across the stores, the sidebar and the choice of the page.  The
  router is not part of the repository: matching a route pattern is the parameter \<open>matches\<close>.
\<close>

section \<open>Navigation\<close>

record nav_item =
  nv_to :: string
  nv_label :: string
  nv_zh :: string
  nv_end :: bool

definition NAV :: "nav_item list" where
  "NAV = [\<lparr>nv_to = ''/'', nv_label = ''Overview'', nv_zh = (zh [0x603B, 0x89C8]), nv_end = True\<rparr>,
    \<lparr>nv_to = ''/sandboxes'', nv_label = ''Sandboxes'', nv_zh = (zh [0x6C99, 0x7BB1]), nv_end = False\<rparr>,
    \<lparr>nv_to = ''/nodes'', nv_label = ''Nodes'', nv_zh = (zh [0x8282, 0x70B9]), nv_end = False\<rparr>,
    \<lparr>nv_to = ''/templates'', nv_label = ''Templates'', nv_zh = (zh [0x6A21, 0x677F]), nv_end = False\<rparr>,
    \<lparr>nv_to = ''/storage'', nv_label = ''Storage'', nv_zh = (zh [0x5B58, 0x50A8]), nv_end = False\<rparr>]"

datatype shell_action = Logout | GoTo string | PickLocale Locale

definition Sidebar :: "TFn \<Rightarrow> Locale \<Rightarrow> (string \<Rightarrow> bool) \<Rightarrow> shell_action vnode" where
  "Sidebar t current isActive =
     El ''aside'' []
       [El ''div'' []
          [El ''span'' [Flag ''aria-hidden'' True] [El ''span'' [] []],
           El ''div'' [] [El ''div'' [] [Txt ''EmberVM''], El ''div'' [] [Txt (t ''console'' (zh [0x63A7, 0x5236, 0x53F0]))]]],
        El ''nav'' []
          (map (\<lambda>n. El ''a'' [On ''click'' (GoTo (nv_to n)), Attr ''href'' (nv_to n), Flag ''end'' (nv_end n),
                              Flag ''active'' (isActive (nv_to n))] [Txt (t (nv_label n) (nv_zh n))]) NAV),
        El ''div'' []
          [El ''div'' []
             [El ''div'' [] (map (\<lambda>(l, label, pressed). El ''button'' [Flag ''aria-pressed'' pressed, On ''click'' (PickLocale l)]
                 [Txt label]) (LangToggle current)),
              KBD [Txt (zh [0x2318] @ ''K'')]],
           El ''button'' [On ''click'' Logout] [Txt (t ''Sign out'' (zh [0x9000, 0x51FA, 0x767B, 0x5F55]))]]]"

text \<open>\<open>/^\/sandboxes\/[^/]+/\<close>.\<close>

definition workspace_route :: "string \<Rightarrow> bool" where
  "workspace_route pathname \<longleftrightarrow>
     js_startsWith pathname ''/sandboxes/'' \<and>
     (case drop 11 pathname of [] \<Rightarrow> False | c # _ \<Rightarrow> c \<noteq> CHR ''/'')"

definition boundary_key :: "string \<Rightarrow> string" where
  "boundary_key pathname =
     (if workspace_route pathname then js_join ''/'' (js_slice (js_split (CHR ''/'') pathname) 0 3) else pathname)"

datatype page = WorkspacePage | OverviewPage | SandboxesPg | NodesPage | TemplatesPage | StoragePage | RedirectHome

definition page_routes :: "(string \<times> page) list" where
  "page_routes = [(''/'', OverviewPage), (''/sandboxes'', SandboxesPg), (''/nodes'', NodesPage),
     (''/templates'', TemplatesPage), (''/storage'', StoragePage), (''*'', RedirectHome)]"

text \<open>What is routed: the boundary's key and the page; no page when no pattern matches.\<close>

definition Routed :: "(string \<Rightarrow> string \<Rightarrow> bool) \<Rightarrow> string \<Rightarrow> string \<times> page option" where
  "Routed matches pathname =
     (boundary_key pathname,
      if workspace_route pathname
      then (if matches ''/sandboxes/:id/*'' pathname then Some WorkspacePage else None)
      else map_option snd (find (\<lambda>(pat, _). matches pat pathname) page_routes))"

section \<open>Signing in and out\<close>

record login_state =
  lg_token :: string
  lg_busy :: bool
  lg_error :: "js_error option"

definition login_init :: login_state where
  "login_init = \<lparr>lg_token = '''', lg_busy = False, lg_error = None\<rparr>"

record app_state =
  as_authed :: bool
  as_world :: world
  as_login :: login_state
  as_terms :: term_state
  as_term_queue :: "term_event list"
  as_proxy :: proxy_state
  as_cache :: "query_key \<rightharpoonup> query_data"
  as_sent :: "request list"

text \<open>The initial flag is read from storage.\<close>

definition app_authed :: "local_storage \<Rightarrow> bool" where
  "app_authed m = truthy_str (getToken m)"

definition app_load :: "local_storage \<Rightarrow> bool \<Rightarrow> string \<Rightarrow> app_state" where
  "app_load m https host =
     \<lparr>as_authed = app_authed m, as_world = \<lparr>w_storage = m, w_events = []\<rparr>, as_login = login_init,
      as_terms = term_init (getToken m) https host, as_term_queue = [], as_proxy = proxy_init,
      as_cache = Map.empty, as_sent = []\<rparr>"

text \<open>\<open>connect\<close>, up to the await: the token is stored before the probe.\<close>

definition login_connect :: "app_state \<Rightarrow> app_state" where
  "login_connect s =
     (let m = setToken (js_trim (lg_token (as_login s))) (w_storage (as_world s))
      in s\<lparr>as_login := (as_login s)\<lparr>lg_busy := True, lg_error := None\<rparr>,
           as_world := (as_world s)\<lparr>w_storage := m\<rparr>,
           as_sent := as_sent s @ [api_request m ''GET'' ''/templates'' None]\<rparr>)"

definition token_rejected :: "TFn \<Rightarrow> js_error" where
  "token_rejected t = PlatformError
     (t (''Token rejected. Tokens are defined in the apiserver'' @ [CHR 0x27] @ ''s --tokens-file.'')
        (zh [0x4EE4, 0x724C, 0x88AB, 0x62D2, 0x7EDD, 0x3002, 0x4EE4, 0x724C, 0x5728] @ '' apiserver '' @ zh [0x7684] @ '' --tokens-file '' @ zh [0x4E2D, 0x5B9A, 0x4E49, 0x3002]))"

text \<open>On success \<open>onDone\<close> takes the page away; the next sign-in page is mounted with a fresh state.\<close>

definition login_settles :: "TFn \<Rightarrow> fetch_outcome \<Rightarrow> app_state \<Rightarrow> app_state" where
  "login_settles t out s =
     (case api (as_world s) out of
        (w, Inr _) \<Rightarrow> s\<lparr>as_world := w, as_authed := True, as_login := login_init\<rparr>
      | (w, Inl e) \<Rightarrow>
          s\<lparr>as_world := w,
            as_login := (as_login s)\<lparr>lg_busy := False,
              lg_error := Some (case e of ApiError st _ \<Rightarrow> if st = 401 then token_rejected t else e | _ \<Rightarrow> e)\<rparr>\<rparr>)"

text \<open>The listener for the 401 event.\<close>

definition app_unauthorized :: "app_state \<Rightarrow> app_state" where
  "app_unauthorized s = s\<lparr>as_authed := False, as_proxy := proxy_unauthorized (as_proxy s)\<rparr>"

text \<open>Signing out, in the order of the source.  The terminal facade only queues its call.\<close>

definition app_logout :: "app_state \<Rightarrow> app_state" where
  "app_logout s =
     (let s1 = s\<lparr>as_term_queue := as_term_queue s @ [disposeAllTerms]\<rparr>;
          s2 = s1\<lparr>as_proxy := endProxySession (as_proxy s1),
                  as_sent := as_sent s1 @ [api_request (w_storage (as_world s1)) ''DELETE'' ''/proxy-session'' None]\<rparr>;
          s3 = s2\<lparr>as_world := (as_world s2)\<lparr>w_storage := clearToken (w_storage (as_world s2))\<rparr>\<rparr>;
          s4 = s3\<lparr>as_cache := Map.empty\<rparr>
      in s4\<lparr>as_authed := False\<rparr>)"

text \<open>A later turn runs the queued calls.\<close>

definition app_turn :: "app_state \<Rightarrow> app_state" where
  "app_turn s = s\<lparr>as_terms := foldl term_handle (as_terms s) (as_term_queue s), as_term_queue := []\<rparr>"

datatype login_action = LgSubmit | LgToken

definition Login :: "login_state \<Rightarrow> TFn \<Rightarrow> login_action vnode" where
  "Login s t =
     El ''div'' []
       [El ''div'' []
          [El ''span'' [Flag ''aria-hidden'' True] [El ''span'' [] []],
           El ''div'' []
             [El ''h1'' [] [Txt (t ''EmberVM console'' (''EmberVM '' @ zh [0x63A7, 0x5236, 0x53F0]))],
              El ''p'' [] [Txt (t (''sandbox cloud '' @ zh [0xB7] @ '' operator'') (zh [0x6C99, 0x7BB1, 0x4E91] @ '' '' @ zh [0xB7] @ '' '' @ zh [0x64CD, 0x4F5C, 0x5458]))]]],
        El ''form'' [On ''submit'' LgSubmit]
          [El ''div'' []
             ([Field (t ''API token'' (''API '' @ zh [0x4EE4, 0x724C]))
                 [Txt (t (''Sent as a Bearer token to this host'' @ [CHR 0x27] @ ''s /v0 API.'') (zh [0x4F5C, 0x4E3A] @ '' Bearer '' @ zh [0x4EE4, 0x724C, 0x53D1, 0x9001, 0x5230, 0x672C, 0x673A] @ '' /v0 API'' @ zh [0x3002]))]
                 [El ''input'' [Attr ''type'' ''password'', Attr ''autoComplete'' ''off'', Attr ''value'' (lg_token s),
                                On ''change'' LgToken, Attr ''placeholder'' ''dev-token''] []]] @
              ErrorNote (lg_error s) @
              [Button (button0\<lparr>bp_kind := Some Primary, bp_submit := True, bp_busy := lg_busy s,
                         bp_disabled := (js_trim (lg_token s) = [])\<rparr>) [Txt (t ''Connect'' (zh [0x8FDE, 0x63A5]))]])]]"

text \<open>What the root component shows.\<close>

datatype root_view = LoginView "login_action vnode" | ConsoleView "shell_action vnode" "string \<times> page option"

definition App :: "(string \<Rightarrow> string \<Rightarrow> bool) \<Rightarrow> (string \<Rightarrow> bool) \<Rightarrow> TFn \<Rightarrow> Locale \<Rightarrow> string \<Rightarrow> app_state \<Rightarrow> root_view" where
  "App matches isActive t current pathname s =
     (if \<not> as_authed s then LoginView (Login (as_login s) t)
      else ConsoleView (Sidebar t current isActive) (Routed matches pathname))"

section \<open>Facts\<close>

lemma set_obj_bySandbox [simp]: "tm_bySandbox (end_session a s) = tm_bySandbox s"
  by (simp add: end_session_def Let_def set_obj_def set_socket_def split: option.splits)

lemma fold_end_bySandbox [simp]: "tm_bySandbox (fold end_session as s) = tm_bySandbox s"
  by (induction as arbitrary: s) simp_all

lemma dispose_bySandbox: "tm_bySandbox (disposeSandbox sid s) = filter (\<lambda>(k, _). k \<noteq> sid) (tm_bySandbox s)"
  by (simp add: disposeSandbox_def Let_def term_publish_def)

lemma fold_dispose_bySandbox:
  "tm_bySandbox (fold disposeSandbox sids s) = filter (\<lambda>(k, _). k \<notin> set sids) (tm_bySandbox s)"
  by (induction sids arbitrary: s) (auto simp: dispose_bySandbox intro!: filter_cong)

lemma disposeAll_empty: "tm_bySandbox (disposeAll s) = []"
  unfolding disposeAll_def fold_dispose_bySandbox by (force simp: filter_empty_conv)

lemma workspace_split:
  assumes "sid \<noteq> []" and "CHR ''/'' \<notin> set sid" and "rest = [] \<or> hd rest = CHR ''/''"
  shows "workspace_route (''/sandboxes/'' @ sid @ rest) \<and> boundary_key (''/sandboxes/'' @ sid @ rest) = ''/sandboxes/'' @ sid"
proof -
  obtain c r where c: "sid = c # r" "c \<noteq> CHR ''/''" using assms(1,2) by (cases sid) auto
  have w: "workspace_route (''/sandboxes/'' @ sid @ rest)" using c by (simp add: workspace_route_def)
  have "\<exists>tl. js_split (CHR ''/'') (sid @ rest) = sid # tl"
  proof (cases rest)
    case Nil
    then show ?thesis using assms(2) by (simp add: js_split_plain)
  next
    case (Cons x xs)
    then show ?thesis using assms(2,3) by (simp add: js_split_append_sep js_split_plain)
  qed
  then obtain tl where "js_split (CHR ''/'') (sid @ rest) = sid # tl" by blast
  then have "js_split (CHR ''/'') (''/sandboxes/'' @ sid @ rest) = [] # ''sandboxes'' # sid # tl"
    by simp
  with w show ?thesis by (simp add: boundary_key_def js_slice_def js_bound_def)
qed

lemma api_cases:
  "(\<exists>m. snd (api w out) = Inl (ApiError 401 m)) \<longrightarrow> getToken (w_storage (fst (api w out))) = None"
  "(\<forall>m. snd (api w out) \<noteq> Inl (ApiError 401 m)) \<longrightarrow> fst (api w out) = w"
  by (auto simp: api_def Let_def dispatch_unauthorized_def clearToken_def getToken_def ls_get_def ls_remove_def
      split: fetch_outcome.splits body_text.splits)

section \<open>Properties\<close>

text \<open>C4: Signing out leaves nothing behind, and in the right order: the request that ends the proxy
  session still carries the token; afterwards storage holds no token, the cache is empty, the proxy
  session is forgotten, the sign-in page is shown (also after a reload), and once the queued call has
  run no terminal session is left.\<close>

theorem logout_complete:
  assumes "getToken (w_storage (as_world s)) = Some tok" and "s' = app_logout s"
  shows "(\<exists>r. as_sent s' = as_sent s @ [r] \<and> rq_method r = ''DELETE'' \<and> rq_url r = ''/v0/proxy-session'' \<and>
      (''Authorization'', ''Bearer '' @ tok) \<in> set (rq_headers r)) \<and>
    getToken (w_storage (as_world s')) = None \<and> as_cache s' = Map.empty \<and> px_session (as_proxy s') = None \<and>
    (\<exists>v. App matches isActive t l pathname s' = LoginView v) \<and>
    \<not> as_authed (app_load (w_storage (as_world s')) https host) \<and>
    tm_bySandbox (as_terms (app_turn s')) = []"
  using assms(1)
  by (simp add: assms(2) app_logout_def Let_def api_request_def auth_header_def clearToken_def getToken_def
      ls_get_def ls_remove_def endProxySession_def App_def app_load_def app_authed_def app_turn_def
      disposeAllTerms_def disposeAll_empty)

theorem logout_complete_witness:
  "getToken (w_storage (as_world (app_logout (app_load [TOKEN_KEY \<mapsto> ''dev-token''] True ''h'')))) = None"
  by (rule logout_complete [OF _ refl, of _ "''dev-token''", THEN conjunct2, THEN conjunct1])
     (simp add: app_load_def getToken_def ls_get_def)

text \<open>C24: The three outcomes of signing in.  A successful probe opens the console with the trimmed token
  in storage.  A 401 answer takes the token out of storage again and explains it.  Any other failure
  shows its own message and keeps the sign-in page, but leaves the token stored, so that a reload
  opens the console without a successful probe.\<close>

theorem login_outcomes:
  assumes "tok = js_trim (lg_token (as_login s))" and "s' = login_settles t out (login_connect s)"
    and "r = snd (api (as_world (login_connect s)) out)"
  shows "(\<forall>d. r = Inr d \<longrightarrow> as_authed s' \<and> getToken (w_storage (as_world s')) = Some tok) \<and>
    (\<forall>m. r = Inl (ApiError 401 m) \<longrightarrow> getToken (w_storage (as_world s')) = None \<and>
       as_authed s' = as_authed s \<and> lg_error (as_login s') = Some (token_rejected t)) \<and>
    (\<forall>e. r = Inl e \<longrightarrow> (\<forall>m. e \<noteq> ApiError 401 m) \<longrightarrow> as_authed s' = as_authed s \<and>
       lg_error (as_login s') = Some e \<and> getToken (w_storage (as_world s')) = Some tok \<and>
       (tok \<noteq> [] \<longrightarrow> as_authed (app_load (w_storage (as_world s')) https host)))"
proof -
  let ?w = "as_world (login_connect s)"
  have w: "getToken (w_storage ?w) = Some tok"
    by (simp add: login_connect_def Let_def setToken_def getToken_def ls_get_def ls_set_def assms(1))
  obtain w where a: "api ?w out = (w, r)" using assms(3) by (cases "api ?w out") simp
  note c = api_cases [of ?w out, unfolded a fst_conv snd_conv]
  have s': "s' = (case r of
       Inr _ \<Rightarrow> (login_connect s)\<lparr>as_world := w, as_authed := True, as_login := login_init\<rparr>
     | Inl e \<Rightarrow> (login_connect s)\<lparr>as_world := w, as_login := (as_login (login_connect s))\<lparr>lg_busy := False,
              lg_error := Some (case e of ApiError st _ \<Rightarrow> if st = 401 then token_rejected t else e | _ \<Rightarrow> e)\<rparr>\<rparr>)"
    by (simp add: assms(2) login_settles_def a split: sum.splits)
  have same: "as_authed (login_connect s) = as_authed s" by (simp add: login_connect_def Let_def)
  show ?thesis
  proof (cases r)
    case (Inr d)
    with s' c w show ?thesis by simp
  next
    case (Inl e)
    with c have "(\<exists>m. e = ApiError 401 m) \<longrightarrow> getToken (w_storage w) = None"
      "(\<forall>m. e \<noteq> ApiError 401 m) \<longrightarrow> w = ?w" by auto
    with s' same w Inl show ?thesis
      by (cases e) (auto simp: app_load_def app_authed_def)
  qed
qed

definition typed_token :: app_state where
  "typed_token = (app_load Map.empty True ''h'')\<lparr>as_login := \<lparr>lg_token = ''t'', lg_busy = False, lg_error = None\<rparr>\<rparr>"

theorem login_outcomes_witness:
  "getToken (w_storage (as_world (login_settles (tr En) (NetworkError ''offline'') (login_connect typed_token)))) = Some ''t''"
proof -
  have "js_trim (lg_token (as_login typed_token)) = ''t''"
    by (simp add: typed_token_def js_trim_def js_space_def)
  moreover have "snd (api (as_world (login_connect typed_token)) (NetworkError ''offline'')) = Inl (PlatformError ''offline'')"
    by (simp add: api_def)
  ultimately show ?thesis
    using login_outcomes [OF refl refl refl, of typed_token "NetworkError ''offline''" "tr En"] by simp
qed

text \<open>Switching tabs keeps a workspace mounted and switching sandboxes remounts it: the key of the
  error boundary is the same for all tabs of one sandbox and differs between sandboxes.\<close>

theorem workspace_identity:
  assumes "a \<noteq> []" "CHR ''/'' \<notin> set a" "b \<noteq> []" "CHR ''/'' \<notin> set b"
    and "u = [] \<or> hd u = CHR ''/''" "v = [] \<or> hd v = CHR ''/''"
  shows "fst (Routed matches (''/sandboxes/'' @ a @ u)) = fst (Routed matches (''/sandboxes/'' @ b @ v)) \<longleftrightarrow> a = b"
  using workspace_split [OF assms(1,2,5)] workspace_split [OF assms(3,4,6)] by (simp add: Routed_def)

theorem workspace_identity_witness:
  "fst (Routed (\<lambda>_ _. True) (''/sandboxes/'' @ ''ab'' @ ''/files'')) =
   fst (Routed (\<lambda>_ _. True) (''/sandboxes/'' @ ''ab'' @ ''''))"
  using workspace_identity [of "''ab''" "''ab''" "''/files''" "''''" "\<lambda>_ _. True"] by simp

end
