(* ===== verification/Palette.thy ===== *)
theory Palette
  imports Shortcuts SandboxesPage Shell
begin

text \<open>
  The command palette (\<open>web/src/components/palette.tsx\<close>): the shortcuts it subscribes to, the items it
  offers and what they do.  The route parameters are the argument \<open>currentId\<close>, the answer of
  \<open>useParams().id\<close>.
\<close>

record palette_state =
  pl_open :: bool
  pl_helpOpen :: bool
  pl_creating :: bool

definition palette_init :: palette_state where
  "palette_init = \<lparr>pl_open = False, pl_helpOpen = False, pl_creating = False\<rparr>"

text \<open>What a shortcut or an item does.\<close>

datatype palette_effect =
    TogglePalette | OpenHelp | OpenCreate | NavTo string | PauseCurrent | ResumeCurrent | SnapshotCurrent
  | ResizeCurrent | AutoscaleCurrent

text \<open>The subscriptions, in order; the handler of the bus is the position in the list.\<close>

definition palette_subs :: "(string \<times> palette_effect) list" where
  "palette_subs =
     [(''palette:open'', TogglePalette), (''help:open'', OpenHelp), (''go:overview'', NavTo ''/''),
      (''go:sandboxes'', NavTo ''/sandboxes''), (''go:nodes'', NavTo ''/nodes''),
      (''go:templates'', NavTo ''/templates''), (''go:storage'', NavTo ''/storage'')]"

definition palette_mount :: "shortcut_state \<Rightarrow> shortcut_state" where
  "palette_mount s = fold (\<lambda>(i, (ev, _)). onShortcut ev i) (enumerate 0 palette_subs) s"

definition palette_unmount :: "shortcut_state \<Rightarrow> shortcut_state" where
  "palette_unmount s = fold (\<lambda>(i, (ev, _)). offShortcut ev i) (enumerate 0 palette_subs) s"

definition sub_effects :: "nat list \<Rightarrow> palette_effect list" where
  "sub_effects fns = map (\<lambda>i. snd (palette_subs ! i)) (filter (\<lambda>i. i < length palette_subs) fns)"

definition palette_apply :: "palette_effect \<Rightarrow> palette_state \<Rightarrow> palette_state" where
  "palette_apply e s = (case e of
     TogglePalette \<Rightarrow> s\<lparr>pl_open := \<not> pl_open s\<rparr>
   | OpenHelp \<Rightarrow> s\<lparr>pl_helpOpen := True\<rparr>
   | OpenCreate \<Rightarrow> s\<lparr>pl_creating := True\<rparr>
   | _ \<Rightarrow> s)"

text \<open>Navigation closes the palette.\<close>

definition palette_navigated :: "palette_state \<Rightarrow> palette_state" where
  "palette_navigated s = s\<lparr>pl_open := False\<rparr>"

definition palette_run :: "palette_effect \<Rightarrow> palette_state \<Rightarrow> palette_state" where
  "palette_run e s = palette_apply e (s\<lparr>pl_open := False\<rparr>)"

definition palette_pause :: "string option \<Rightarrow> TFn \<Rightarrow> row_mutation" where
  "palette_pause currentId t =
     \<lparr>rm_call = verb_pause (nullish currentId ''undefined''),
      rm_opts = \<lparr>ao_sandboxId = currentId, ao_optimistic = Some (\<lambda>_. no_patch\<lparr>pa_state := Some PAUSING\<rparr>)\<rparr>,
      rm_onSuccess = (\<lambda>_. []), rm_onError = (\<lambda>e. [ErrorToast (t ''Pause failed'' (zh [0x6682, 0x505C, 0x5931, 0x8D25])) (message e)])\<rparr>"

definition palette_resume :: "string option \<Rightarrow> TFn \<Rightarrow> row_mutation" where
  "palette_resume currentId t =
     \<lparr>rm_call = verb_resume (nullish currentId ''undefined''),
      rm_opts = \<lparr>ao_sandboxId = currentId, ao_optimistic = Some (\<lambda>_. no_patch\<lparr>pa_state := Some RESUMING\<rparr>)\<rparr>,
      rm_onSuccess = (\<lambda>_. []), rm_onError = (\<lambda>e. [ErrorToast (t ''Resume failed'' (zh [0x6062, 0x590D, 0x5931, 0x8D25])) (message e)])\<rparr>"

definition palette_snapshot :: "string option \<Rightarrow> TFn \<Rightarrow> row_mutation" where
  "palette_snapshot currentId t =
     \<lparr>rm_call = verb_snapshot (nullish currentId ''undefined'') ''console'',
      rm_opts = \<lparr>ao_sandboxId = None, ao_optimistic = None\<rparr>,
      rm_onSuccess = (\<lambda>_. [SuccessToast (t ''Snapshot taken'' (zh [0x5DF2, 0x5FEB, 0x7167]))]),
      rm_onError = (\<lambda>e. [ErrorToast (t ''Snapshot failed'' (zh [0x5FEB, 0x7167, 0x5931, 0x8D25])) (message e)])\<rparr>"

definition palette_current :: "string option \<Rightarrow> Sandbox list option \<Rightarrow> Sandbox option" where
  "palette_current currentId data = find (\<lambda>sb. Some (sb_id sb) = currentId) (nullish data [])"

definition currentElastic :: "Sandbox option \<Rightarrow> bool" where
  "currentElastic cur = (case cur of None \<Rightarrow> False
     | Some sb \<Rightarrow> nullish (sb_max_memory_mib sb) 0 > 0 \<or> nullish (sb_max_vcpus sb) 0 > 0)"

definition current_autoscale :: "Sandbox option \<Rightarrow> bool" where
  "current_autoscale cur = (case cur of None \<Rightarrow> False | Some sb \<Rightarrow> truthy_bool (sb_autoscale sb))"

text \<open>The answer to the toggle is passed on as the flag it carries.\<close>

definition palette_autoscale :: "string option \<Rightarrow> Sandbox option \<Rightarrow> TFn \<Rightarrow> api_call \<times> action_opts \<times> (bool \<Rightarrow> row_effect list)" where
  "palette_autoscale currentId cur t =
     (verb_setAutoscale (nullish currentId ''undefined'') (\<not> current_autoscale cur),
      \<lparr>ao_sandboxId = currentId, ao_optimistic = None\<rparr>,
      \<lambda>out. [SuccessToast (if out then t ''Autoscale on'' (zh [0x81EA, 0x52A8, 0x4F38, 0x7F29, 0x5DF2, 0x5F00, 0x542F]) else t ''Autoscale off'' (zh [0x81EA, 0x52A8, 0x4F38, 0x7F29, 0x5DF2, 0x5173, 0x95ED]))])"

definition Item :: "'a \<Rightarrow> string option \<Rightarrow> 'a vnode list \<Rightarrow> 'a vnode" where
  "Item onSelect value children =
     El ''Command.Item'' (shown_opt value (\<lambda>v. [Attr ''value'' v]) @ [attr.On ''select'' onSelect]) children"

definition group :: "string \<Rightarrow> 'a vnode list \<Rightarrow> 'a vnode" where
  "group heading items = El ''Command.Group'' [Attr ''heading'' heading] items"

definition current_items :: "string \<Rightarrow> Sandbox option \<Rightarrow> TFn \<Rightarrow> palette_effect vnode list" where
  "current_items sid cur t =
     [Item PauseCurrent None [Txt (t ''Pause this sandbox'' (zh [0x6682, 0x505C, 0x6B64, 0x6C99, 0x7BB1]))],
      Item ResumeCurrent None [Txt (t ''Resume this sandbox'' (zh [0x6062, 0x590D, 0x6B64, 0x6C99, 0x7BB1]))],
      Item SnapshotCurrent None [Txt (t ''Snapshot this sandbox'' (zh [0x4E3A, 0x6B64, 0x6C99, 0x7BB1, 0x5FEB, 0x7167]))],
      Item (NavTo (''/sandboxes/'' @ sid @ ''/terminal'')) None [Txt (t ''Open terminal'' (zh [0x6253, 0x5F00, 0x7EC8, 0x7AEF]))],
      Item ResizeCurrent None [Txt (t ''Resize this sandbox'' (zh [0x8C03, 0x6574, 0x6B64, 0x6C99, 0x7BB1, 0x89C4, 0x683C]))]] @
     shown (currentElastic cur)
       [Item AutoscaleCurrent None [Txt (if current_autoscale cur then t ''Turn off autoscale'' (zh [0x5173, 0x95ED, 0x81EA, 0x52A8, 0x4F38, 0x7F29])
                                         else t ''Turn on autoscale'' (zh [0x5F00, 0x542F, 0x81EA, 0x52A8, 0x4F38, 0x7F29]))]] @
     [Item (NavTo (''/sandboxes/'' @ sid @ ''/settings'')) None [Txt (t ''Migrate to another node'' (zh [0x8FC1, 0x79FB, 0x5230, 0x5176, 0x4ED6, 0x8282, 0x70B9]))]]"

definition sandbox_item :: "TFn \<Rightarrow> Sandbox \<Rightarrow> palette_effect vnode" where
  "sandbox_item t sb =
     Item (NavTo (''/sandboxes/'' @ sb_id sb))
       (Some (''sandbox '' @ sb_id sb @ '' '' @ sb_template_id sb @ '' '' @ state_text (sb_state sb)))
       [El ''span'' []
          [El ''span'' [Flag ''aria-hidden'' True, Attr ''background'' (me_color (STATE_META (sb_state sb)))] [],
           El ''span'' [] [Txt (js_slice (sb_id sb) 0 8)],
           El ''span'' [] [Txt (stateLabel (sb_state sb) t)]]]"

definition CommandPalette :: "string option \<Rightarrow> Sandbox list option \<Rightarrow> TFn \<Rightarrow> palette_effect vnode" where
  "CommandPalette currentId data t =
     (let xs = nullish data []
      in El ''Command.Dialog'' [Attr ''label'' (t ''Command palette'' (zh [0x547D, 0x4EE4, 0x9762, 0x677F]))]
       [El ''Command.Input'' [Attr ''placeholder'' (t (''Search sandboxes, run a command'' @ zh [0x2026]) (zh [0x641C, 0x7D22, 0x6C99, 0x7BB1, 0x3001, 0x6267, 0x884C, 0x547D, 0x4EE4, 0x2026]))] [],
        El ''Command.List'' []
          ([El ''Command.Empty'' [] [Txt (t ''No matches.'' (zh [0x65E0, 0x5339, 0x914D, 0x3002]))],
            group (t ''Navigate'' (zh [0x5BFC, 0x822A]))
              [Item (NavTo ''/'') None [Txt (t ''Overview'' (zh [0x603B, 0x89C8]))],
               Item (NavTo ''/sandboxes'') None [Txt (t ''Sandboxes'' (zh [0x6C99, 0x7BB1]))],
               Item (NavTo ''/nodes'') None [Txt (t ''Nodes'' (zh [0x8282, 0x70B9]))],
               Item (NavTo ''/templates'') None [Txt (t ''Templates'' (zh [0x6A21, 0x677F]))],
               Item (NavTo ''/storage'') None [Txt (t ''Storage'' (zh [0x5B58, 0x50A8]))]],
            group (t ''Actions'' (zh [0x64CD, 0x4F5C]))
              ([Item OpenCreate None [Txt (t (''Create sandbox'' @ zh [0x2026]) (zh [0x521B, 0x5EFA, 0x6C99, 0x7BB1, 0x2026]))]] @
               shown (truthy_str currentId) (current_items (nullish currentId '''') (palette_current currentId data) t) @
               [Item OpenHelp None [Txt (t ''Keyboard shortcuts'' (zh [0x952E, 0x76D8, 0x5FEB, 0x6377, 0x952E]))]])] @
           shown (xs \<noteq> []) [group (t ''Sandboxes'' (zh [0x6C99, 0x7BB1])) (map (sandbox_item t) (js_slice xs 0 50))])])"

definition HelpDialog :: "TFn \<Rightarrow> 'a \<Rightarrow> 'a vnode" where
  "HelpDialog t onClose =
     (let rws =
        [([KBD [Txt (zh [0x2318] @ ''K'')]], t ''Command palette'' (zh [0x547D, 0x4EE4, 0x9762, 0x677F])),
         ([El ''span'' [] [KBD [Txt ''g''], KBD [Txt ''o/s/n/t/g'']]],
          t ''Go to Overview / Sandboxes / Nodes / Templates / storaGe'' (zh [0x8DF3, 0x8F6C, 0x5230] @ '' '' @ zh [0x603B, 0x89C8] @ '' / '' @ zh [0x6C99, 0x7BB1] @ '' / '' @ zh [0x8282, 0x70B9] @ '' / '' @ zh [0x6A21, 0x677F] @ '' / '' @ zh [0x5B58, 0x50A8] @ ''(storaGe)'')),
         ([KBD [Txt (zh [0x2318] @ ''S'')]], t ''Save file (in the editor)'' (zh [0x4FDD, 0x5B58, 0x6587, 0x4EF6, 0xFF08, 0x5728, 0x7F16, 0x8F91, 0x5668, 0x4E2D, 0xFF09])),
         ([KBD [Txt (zh [0x2318, 0x21B5])]], t ''Run (in a command field)'' (zh [0x8FD0, 0x884C, 0xFF08, 0x5728, 0x547D, 0x4EE4, 0x8F93, 0x5165, 0x6846, 0x4E2D, 0xFF09])),
         ([KBD [Txt ''?'']], t ''This help'' (zh [0x672C, 0x5E2E, 0x52A9]))]
      in Dialog t (t ''Keyboard shortcuts'' (zh [0x952E, 0x76D8, 0x5FEB, 0x6377, 0x952E])) onClose
           [El ''dl'' [] (map (\<lambda>(keys, desc). El ''div'' [] [El ''dt'' [] keys, El ''dd'' [] [Txt desc]]) rws)])"

section \<open>Properties\<close>

definition per_sandbox :: "palette_effect \<Rightarrow> bool" where
  "per_sandbox e \<longleftrightarrow> e \<in> {PauseCurrent, ResumeCurrent, SnapshotCurrent, ResizeCurrent, AutoscaleCurrent}"

lemma enabled_Item [simp]: "enabled_actions (Item h v ns) = (''select'', h) # enabled_of ns"
  by (cases v) (simp_all add: Item_def attr_actions_def)

lemma enabled_group [simp]: "enabled_actions (group h ns) = enabled_of ns"
  by (simp add: group_def attr_actions_def)

lemma enabled_sandbox_item [simp]: "enabled_actions (sandbox_item t sb) = [(''select'', NavTo (''/sandboxes/'' @ sb_id sb))]"
  by (simp add: sandbox_item_def attr_actions_def)

lemma enabled_sandbox_items: "enabled_of (map (sandbox_item t) xs) = map (\<lambda>sb. (''select'', NavTo (''/sandboxes/'' @ sb_id sb))) xs"
  by (induction xs) simp_all

text \<open>The palette and the keyboard reach the same pages: with the palette mounted on a fresh bus,
  each key of the \<open>g\<close> sequence has exactly one effect, a route of the sidebar, and the palette lists
  exactly these routes, the first 50 sandboxes, and the two dialogs.  Outside a route (where the
  component is mounted, so that it never has a current sandbox) none of the items that act on one
  sandbox is offered.\<close>

theorem palette_reach:
  "(\<forall>k ev. GO_MAP k = Some ev \<longrightarrow>
      (\<exists>n \<in> set NAV. sub_effects (emit ev (palette_mount shortcut_init)) = [NavTo (nv_to n)])) \<and>
   set (map snd (enabled_actions (CommandPalette None data t))) =
     (NavTo \<circ> nv_to) ` set NAV \<union> {OpenCreate, OpenHelp} \<union>
     (\<lambda>sb. NavTo (''/sandboxes/'' @ sb_id sb)) ` set (take 50 (nullish data [])) \<and>
   (\<forall>e \<in> set (map snd (enabled_actions (CommandPalette None data t))). \<not> per_sandbox e)"
proof -
  have go: "\<exists>n \<in> set NAV. sub_effects (emit ev (palette_mount shortcut_init)) = [NavTo (nv_to n)]"
    if "GO_MAP k = Some ev" for k ev
  proof -
    have "\<forall>(k, ev) \<in> set [(''o'', ''go:overview''), (''s'', ''go:sandboxes''), (''n'', ''go:nodes''),
        (''t'', ''go:templates''), (''g'', ''go:storage'')].
        \<exists>n \<in> set NAV. sub_effects (emit ev (palette_mount shortcut_init)) = [NavTo (nv_to n)]"
      by (simp add: NAV_def palette_mount_def palette_subs_def sub_effects_def emit_def onShortcut_def
          set_add_def shortcut_init_def)
    with that show ?thesis unfolding GO_MAP_def by (fast dest: map_of_SomeD)
  qed
  have items: "map snd (enabled_actions (CommandPalette None data t)) =
      map (NavTo \<circ> nv_to) NAV @ [OpenCreate, OpenHelp] @
      map (\<lambda>sb. NavTo (''/sandboxes/'' @ sb_id sb)) (take 50 (nullish data []))"
    by (simp add: CommandPalette_def Let_def attr_actions_def NAV_def shown_def enabled_sandbox_items
        js_slice_take comp_def)
  show ?thesis using go unfolding items by (auto simp: per_sandbox_def)
qed

theorem palette_reach_witness:
  "\<exists>n \<in> set NAV. sub_effects (emit ''go:storage'' (palette_mount shortcut_init)) = [NavTo (nv_to n)]"
proof -
  have "GO_MAP ''g'' = Some ''go:storage''" by code_simp
  with palette_reach [of None "tr En"] show ?thesis by blast
qed

end
