(* ===== verification/Charts.thy ===== *)
theory Charts
  imports Ui
begin

text \<open>
  The sparkline (\<open>web/src/components/charts.tsx\<close>): the scale of its axes, the drawn path, the summary
  for screen readers, the point under the pointer and the rendered chart.  Coordinates are rationals,
  shown as attributes of the view; time of day in the local format is the parameter \<open>localTime\<close>.
\<close>

record SeriesPoint =
  pt_at :: int
  pt_value :: rat

definition chart_W :: rat where "chart_W = 300"

definition chart_H :: rat where "chart_H = 64"

definition PAD_Y :: rat where "PAD_Y = 6"

record chart_scale =
  sc_t0 :: int
  sc_tSpan :: int
  sc_lo :: rat
  sc_hi :: rat

definition list_min :: "rat list \<Rightarrow> rat" where
  "list_min vs = fold min (tl vs) (hd vs)"

definition list_max :: "rat list \<Rightarrow> rat" where
  "list_max vs = fold max (tl vs) (hd vs)"

definition scale :: "SeriesPoint list \<Rightarrow> rat option \<Rightarrow> rat option \<Rightarrow> chart_scale" where
  "scale points yMin yMax =
     (let t0 = pt_at (hd points);
          t1 = pt_at (last points);
          tSpan = max 1 (t1 - t0);
          lo = nullish yMin (list_min (map pt_value points));
          hi = nullish yMax (list_max (map pt_value points))
      in if hi - lo < 1 / 10 ^ 9
         then \<lparr>sc_t0 = t0, sc_tSpan = tSpan, sc_lo = max (nullish yMin (lo - 1)) (lo - 1), sc_hi = lo + 1\<rparr>
         else \<lparr>sc_t0 = t0, sc_tSpan = tSpan, sc_lo = lo, sc_hi = hi\<rparr>)"

definition scale_x :: "chart_scale \<Rightarrow> int \<Rightarrow> rat" where
  "scale_x s ms = of_int (ms - sc_t0 s) / of_int (sc_tSpan s) * chart_W"

definition scale_y :: "chart_scale \<Rightarrow> rat \<Rightarrow> rat" where
  "scale_y s v = chart_H - PAD_Y - (v - sc_lo s) / (sc_hi s - sc_lo s) * (chart_H - 2 * PAD_Y)"

definition chart_line :: "chart_scale \<Rightarrow> SeriesPoint list \<Rightarrow> string" where
  "chart_line s pts =
     concat (map (\<lambda>(i, p). (if i = 0 then ''M'' else ''L'') @ toFixed (scale_x s (pt_at p)) 2 @ '','' @
                            toFixed (scale_y s (pt_value p)) 2) (enumerate 0 pts))"

definition chart_area :: "string \<Rightarrow> string" where
  "chart_area line = line @ ''L300,58L0,58Z''"

definition chart_built :: "SeriesPoint list \<Rightarrow> rat option \<Rightarrow> rat option \<Rightarrow> (string \<times> string \<times> chart_scale) option" where
  "chart_built pts yMin yMax =
     (if length pts < 2 then None
      else let s = scale pts yMin yMax; line = chart_line s pts in Some (line, chart_area line, s))"

definition chart_trend :: "SeriesPoint list \<Rightarrow> string \<times> string \<times> string \<Rightarrow> string" where
  "chart_trend pts words =
     (let lst = pt_value (last pts);
          prev = pt_value (pts ! (length pts - 13));
          (fall, steady, rise) = words
      in if \<bar>lst - prev\<bar> < max (1 / 10 ^ 9) (\<bar>prev\<bar> * 3 / 100) then steady
         else if lst > prev then rise else fall)"

definition chart_aria ::
  "SeriesPoint list \<Rightarrow> string \<Rightarrow> (rat \<Rightarrow> string) \<Rightarrow> (string \<times> string \<times> string) option \<Rightarrow> TFn \<Rightarrow> string" where
  "chart_aria pts label format trendWords t =
     (if pts = [] then label @ '': '' @ t ''no data'' (zh [0x65E0, 0x6570, 0x636E])
      else label @ '': '' @ format (pt_value (last pts)) @ '', '' @
        chart_trend pts (nullish trendWords (t ''falling'' (zh [0x4E0B, 0x964D]), t ''steady'' (zh [0x5E73, 0x7A33]), t ''rising'' (zh [0x4E0A, 0x5347]))))"

text \<open>The loop of \<open>onMove\<close>: the best distance starts at infinity (\<open>None\<close>).\<close>

fun nearest :: "(SeriesPoint \<Rightarrow> rat) \<Rightarrow> SeriesPoint list \<Rightarrow> SeriesPoint \<Rightarrow> rat option \<Rightarrow> SeriesPoint" where
  "nearest gap [] best bestD = best"
| "nearest gap (p # ps) best bestD =
     (let d = gap p
      in if (case bestD of None \<Rightarrow> True | Some b \<Rightarrow> d < b) then nearest gap ps p (Some d)
         else nearest gap ps best bestD)"

text \<open>A hover at \<open>clientX\<close> over a chart that starts at \<open>left\<close> and is \<open>width\<close> wide.  A width of 0 makes
  \<open>fx\<close> infinite or \<open>NaN\<close>; then no distance is below \<open>bestD\<close> and the first point stays the best.\<close>

definition chart_onMove :: "chart_scale \<Rightarrow> SeriesPoint list \<Rightarrow> rat \<Rightarrow> rat \<Rightarrow> rat \<Rightarrow> SeriesPoint option" where
  "chart_onMove s pts left width clientX =
     (if pts = [] then None
      else if width = 0 then Some (hd pts)
      else let fx = (clientX - left) / width * chart_W
           in Some (nearest (\<lambda>p. \<bar>scale_x s (pt_at p) - fx\<bar>) pts (hd pts) None))"

record chart_props =
  ch_points :: "SeriesPoint list"
  ch_label :: string
  ch_format :: "rat \<Rightarrow> string"
  ch_yMin :: "rat option"
  ch_yMax :: "rat option"
  ch_color :: "string option"
  ch_trendWords :: "(string \<times> string \<times> string) option"
  ch_refLines :: "(rat \<times> string) list"

definition ref_line :: "chart_scale \<Rightarrow> rat \<times> string \<Rightarrow> 'a vnode list" where
  "ref_line s r =
     (let ry = scale_y s (fst r)
      in if ry < PAD_Y - 1 / 2 \<or> ry > chart_H - PAD_Y + 1 / 2 then []
         else [El ''g'' []
                 [El ''line'' [Num ''x1'' 0, Num ''x2'' 300, Pct ''y1'' (Some ry), Pct ''y2'' (Some ry),
                               Attr ''strokeDasharray'' ''4 3''] [],
                  El ''text'' [Num ''x'' 298, Pct ''y'' (Some (ry - 2)), Attr ''textAnchor'' ''end''] [Txt (snd r)]]])"

definition grid_lines :: "'a vnode list" where
  "grid_lines = map (\<lambda>f. El ''line'' [Num ''x1'' 0, Num ''x2'' 300, Pct ''y1'' (Some (PAD_Y + f * (chart_H - 2 * PAD_Y))),
       Pct ''y2'' (Some (PAD_Y + f * (chart_H - 2 * PAD_Y)))] []) [1 / 4, 1 / 2, 3 / 4]"

datatype chart_action = HoverMove | HoverLeave

definition chart_svg :: "chart_props \<Rightarrow> SeriesPoint option \<Rightarrow> TFn \<Rightarrow> string \<Rightarrow> string \<Rightarrow> chart_scale \<Rightarrow> chart_action vnode" where
  "chart_svg p hover t line area s =
     (let col = nullish (ch_color p) ''var(--color-accent)''
      in El ''svg''
       [Attr ''role'' ''img'', Attr ''aria-label'' (chart_aria (ch_points p) (ch_label p) (ch_format p) (ch_trendWords p) t),
        Attr ''viewBox'' ''0 0 300 64'', Attr ''preserveAspectRatio'' ''none'', On ''pointermove'' HoverMove,
        On ''pointerleave'' HoverLeave]
       (grid_lines @ concat (map (ref_line s) (ch_refLines p)) @
        [El ''path'' [Attr ''d'' area, Attr ''fill'' col, Attr ''opacity'' ''0.08''] [],
         El ''path'' [Attr ''d'' line, Attr ''fill'' ''none'', Attr ''stroke'' col] []] @
        shown_opt hover (\<lambda>h.
          [El ''line'' [Pct ''x1'' (Some (scale_x s (pt_at h))), Pct ''x2'' (Some (scale_x s (pt_at h))), Num ''y1'' 6, Num ''y2'' 58] [],
           El ''circle'' [Pct ''cx'' (Some (scale_x s (pt_at h))), Pct ''cy'' (Some (scale_y s (pt_value h))), Num ''r'' 3,
                          Attr ''fill'' col] []])))"

definition Sparkline :: "chart_props \<Rightarrow> SeriesPoint option \<Rightarrow> (int \<Rightarrow> string) \<Rightarrow> TFn \<Rightarrow> chart_action vnode" where
  "Sparkline p hover localTime t =
     (case chart_built (ch_points p) (ch_yMin p) (ch_yMax p) of
        None \<Rightarrow>
          El ''div'' [Attr ''role'' ''img'',
                      Attr ''aria-label'' (chart_aria (ch_points p) (ch_label p) (ch_format p) (ch_trendWords p) t)]
            [Txt (t (''collecting'' @ zh [0x2026]) (zh [0x91C7, 0x96C6, 0x4E2D, 0x2026]))]
      | Some (line, area, s) \<Rightarrow>
          El ''div'' []
            ([chart_svg p hover t line area s] @
             shown_opt hover (\<lambda>h.
               [El ''div'' [Pct ''left'' (Some (scale_x s (pt_at h) / chart_W * 100))]
                  [Txt (ch_format p (pt_value h)), El ''span'' [] [Txt (localTime (pt_at h))]]])))"

section \<open>Facts\<close>

lemma fold_min_le: "fold min vs (a :: rat) \<le> a \<and> (\<forall>v \<in> set vs. fold min vs a \<le> v)"
proof (induction vs arbitrary: a)
  case (Cons x vs)
  from Cons [of "min x a"] show ?case by auto
qed simp

lemma fold_max_ge: "(a :: rat) \<le> fold max vs a \<and> (\<forall>v \<in> set vs. v \<le> fold max vs a)"
proof (induction vs arbitrary: a)
  case (Cons x vs)
  from Cons [of "max x a"] show ?case by auto
qed simp

lemma list_min_max: "v \<in> set vs \<Longrightarrow> list_min vs \<le> v \<and> v \<le> list_max vs"
  using fold_min_le [of "tl vs" "hd vs"] fold_max_ge [of "hd vs" "tl vs"]
  by (cases vs) (auto simp: list_min_def list_max_def)

lemma scale_bounds:
  assumes "v \<in> set (map pt_value pts)"
    and "\<And>m. yMin = Some m \<Longrightarrow> m \<le> v" and "\<And>m. yMax = Some m \<Longrightarrow> v \<le> m"
  shows "sc_lo (scale pts yMin yMax) \<le> v \<and> v \<le> sc_hi (scale pts yMin yMax) \<and>
    sc_lo (scale pts yMin yMax) < sc_hi (scale pts yMin yMax)"
proof -
  let ?lo = "nullish yMin (list_min (map pt_value pts))" and ?hi = "nullish yMax (list_max (map pt_value pts))"
  have b: "?lo \<le> v" "v \<le> ?hi"
    using assms list_min_max [OF assms(1)] by (cases yMin; cases yMax; auto)+
  show ?thesis
  proof (cases "?hi - ?lo < 1 / 10 ^ 9")
    case True
    moreover have "max (nullish yMin (?lo - 1)) (?lo - 1) \<le> ?lo" by (cases yMin) simp_all
    moreover have "?hi < ?lo + 1" using True by simp
    ultimately show ?thesis using b by (simp add: scale_def Let_def)
  next
    case False
    moreover have "0 < (1 / 10 ^ 9 :: rat)" by simp
    ultimately have "?lo < ?hi" by linarith
    with False b show ?thesis by (simp add: scale_def Let_def)
  qed
qed

lemma sorted_ends: "sorted (map f xs) \<Longrightarrow> x \<in> set xs \<Longrightarrow> f (hd xs) \<le> f x \<and> f x \<le> f (last xs)"
  by (induction xs) force+

lemma unit_share: "(a :: rat) \<le> v \<Longrightarrow> v \<le> b \<Longrightarrow> a < b \<Longrightarrow> 0 \<le> (v - a) / (b - a) \<and> (v - a) / (b - a) \<le> 1"
  by (simp add: divide_le_eq)

lemma nearest_best:
  "(case bestD of None \<Rightarrow> best \<in> set ps | Some b \<Rightarrow> b = gap best) \<Longrightarrow>
   (nearest gap ps best bestD \<in> insert best (set ps)) \<and>
   (\<forall>p \<in> set ps. gap (nearest gap ps best bestD) \<le> gap p) \<and>
   (\<forall>b. bestD = Some b \<longrightarrow> gap (nearest gap ps best bestD) \<le> b)"
proof (induction ps arbitrary: best bestD)
  case (Cons p ps)
  show ?case
  proof (cases "case bestD of None \<Rightarrow> True | Some b \<Rightarrow> gap p < b")
    case True
    with Cons.IH [of p "Some (gap p)"] show ?thesis by (auto split: option.splits)
  next
    case False
    then obtain b where "bestD = Some b" "b \<le> gap p" by (auto split: option.splits)
    with Cons.IH [of best bestD] Cons.prems False show ?thesis by auto
  qed
qed (auto split: option.splits)

section \<open>Properties\<close>

text \<open>C40: A chart of points in time order stays inside its frame: every point is drawn between the
  left and right edge and between the upper and lower padding, whenever the values respect the
  bounds given for the axis, also when all values are equal; and the pointer selects a point of the
  series that no other point is closer to.\<close>

theorem chart_in_frame:
  assumes "s = scale pts yMin yMax" and "p \<in> set pts" and "sorted (map pt_at pts)"
    and "\<And>m. yMin = Some m \<Longrightarrow> m \<le> pt_value p" and "\<And>m. yMax = Some m \<Longrightarrow> pt_value p \<le> m"
  shows "0 \<le> scale_x s (pt_at p) \<and> scale_x s (pt_at p) \<le> chart_W \<and>
    PAD_Y \<le> scale_y s (pt_value p) \<and> scale_y s (pt_value p) \<le> chart_H - PAD_Y \<and>
    (\<exists>q \<in> set pts. chart_onMove s pts left width cx = Some q \<and>
       \<bar>scale_x s (pt_at q) - (cx - left) / width * chart_W\<bar> \<le> \<bar>scale_x s (pt_at p) - (cx - left) / width * chart_W\<bar>)"
proof -
  have ne: "pts \<noteq> []" using assms(2) by auto
  have "pt_at (hd pts) \<le> pt_at p" and "pt_at p \<le> pt_at (last pts)"
    using sorted_ends [OF assms(3,2)] by simp_all
  moreover have "sc_t0 s = pt_at (hd pts)" "sc_tSpan s = max 1 (pt_at (last pts) - pt_at (hd pts))"
    by (simp_all add: assms(1) scale_def Let_def)
  ultimately have t: "0 \<le> pt_at p - sc_t0 s" "pt_at p - sc_t0 s \<le> sc_tSpan s" "0 < sc_tSpan s" by auto
  then have r: "0 \<le> (of_int (pt_at p - sc_t0 s) / of_int (sc_tSpan s) :: rat)"
    "(of_int (pt_at p - sc_t0 s) / of_int (sc_tSpan s) :: rat) \<le> 1"
    by (simp_all add: divide_le_eq flip: of_int_diff)
  have v: "pt_value p \<in> set (map pt_value pts)" using assms(2) by simp
  have "sc_lo s \<le> pt_value p \<and> pt_value p \<le> sc_hi s \<and> sc_lo s < sc_hi s"
    unfolding assms(1) using assms(4,5) by (intro scale_bounds [OF v]) auto
  then have u: "0 \<le> (pt_value p - sc_lo s) / (sc_hi s - sc_lo s) \<and> (pt_value p - sc_lo s) / (sc_hi s - sc_lo s) \<le> 1"
    using unit_share by blast
  have first: "scale_x s (pt_at (hd pts)) = 0"
    by (simp add: scale_x_def \<open>sc_t0 s = pt_at (hd pts)\<close>)
  have n: "\<exists>q \<in> set pts. chart_onMove s pts left width cx = Some q \<and>
       \<bar>scale_x s (pt_at q) - (cx - left) / width * chart_W\<bar> \<le> \<bar>scale_x s (pt_at p) - (cx - left) / width * chart_W\<bar>"
    using nearest_best [of "hd pts" pts "\<lambda>p. \<bar>scale_x s (pt_at p) - (cx - left) / width * chart_W\<bar>" None]
      assms(2) ne first by (cases "width = 0") (auto simp: chart_onMove_def Let_def)
  obtain x y where x: "x = (of_int (pt_at p - sc_t0 s) / of_int (sc_tSpan s) :: rat)"
    and y: "y = (pt_value p - sc_lo s) / (sc_hi s - sc_lo s)" by blast
  show ?thesis
    using n r u unfolding scale_x_def [of s "pt_at p"] scale_y_def x [symmetric] y [symmetric]
    by (simp add: chart_W_def chart_H_def PAD_Y_def)
qed

theorem chart_in_frame_witness:
  "PAD_Y \<le> scale_y (scale [\<lparr>pt_at = 0, pt_value = 5\<rparr>, \<lparr>pt_at = 10, pt_value = 5\<rparr>] None None) 5"
  using chart_in_frame [OF refl, of "\<lparr>pt_at = 0, pt_value = 5\<rparr>" "[\<lparr>pt_at = 0, pt_value = 5\<rparr>, \<lparr>pt_at = 10, pt_value = 5\<rparr>]" None None]
  by simp

end
