(* ===== verification/Workspace.thy ===== *)
theory Workspace
  imports SandboxesPage Charts Health Term
begin

text \<open>
  The workspace of one sandbox (\<open>web/src/pages/workspace/Workspace.tsx\<close>): the tab in the route, the
  header with its verbs, the health pill and the state banner.  The panes of the tabs are named, not
  expanded here.
\<close>

section \<open>Tabs\<close>

definition TABS :: "(string \<times> string \<times> string) list" where
  "TABS = [(''overview'', ''Overview'', (zh [0x603B, 0x89C8])), (''terminal'', ''Terminal'', (zh [0x7EC8, 0x7AEF])), (''files'', ''Files'', (zh [0x6587, 0x4EF6])),
     (''preview'', ''Preview'', (zh [0x9884, 0x89C8])), (''checkpoints'', ''Checkpoints'', (zh [0x68C0, 0x67E5, 0x70B9])), (''settings'', ''Settings'', (zh [0x8BBE, 0x7F6E]))]"

text \<open>The argument is the splat parameter of the route.\<close>

definition workspace_tab :: "string option \<Rightarrow> string" where
  "workspace_tab splat =
     (let rawTab = hd (js_split (CHR ''/'') (nullish splat ''''))
      in if rawTab \<in> set (map fst TABS) then rawTab else ''overview'')"

definition tab_url :: "string \<Rightarrow> string \<Rightarrow> string" where
  "tab_url sid v = ''/sandboxes/'' @ sid @ ''/'' @ (if v = ''overview'' then '''' else v)"

section \<open>Header\<close>

datatype ws_action =
    WsPause | WsResume | WsSnapshot | WsFork | WsMigrate | WsCopyId | WsAskKill | WsConfirmKill | WsCloseKill
  | WsTab string

datatype ws_effect =
    WGoto string | WDispose string | WSuccess string "string option" | WAction string string string
  | WError string string | WInfo string | WCopy string

record ws_mutation =
  wm_call :: api_call
  wm_opts :: action_opts
  wm_onSuccess :: "Sandbox \<Rightarrow> ws_effect list"
  wm_onError :: "js_error \<Rightarrow> ws_effect list"

definition ws_error :: "string \<Rightarrow> js_error \<Rightarrow> ws_effect list" where
  "ws_error title e = [WError title (message e)]"

definition plain_opts :: "string option \<Rightarrow> action_opts" where
  "plain_opts sid = \<lparr>ao_sandboxId = sid, ao_optimistic = None\<rparr>"

definition ws_pause :: "Sandbox \<Rightarrow> TFn \<Rightarrow> ws_mutation" where
  "ws_pause sb t = \<lparr>wm_call = verb_pause (sb_id sb), wm_opts = state_opts (sb_id sb) PAUSING,
     wm_onSuccess = (\<lambda>_. []), wm_onError = ws_error (t ''Pause failed'' (zh [0x6682, 0x505C, 0x5931, 0x8D25]))\<rparr>"

definition ws_resume :: "Sandbox \<Rightarrow> TFn \<Rightarrow> ws_mutation" where
  "ws_resume sb t = \<lparr>wm_call = verb_resume (sb_id sb), wm_opts = state_opts (sb_id sb) RESUMING,
     wm_onSuccess = (\<lambda>_. []), wm_onError = ws_error (t ''Resume failed'' (zh [0x6062, 0x590D, 0x5931, 0x8D25]))\<rparr>"

definition ws_snapshot :: "Sandbox \<Rightarrow> TFn \<Rightarrow> ws_mutation" where
  "ws_snapshot sb t = \<lparr>wm_call = verb_snapshot (sb_id sb) ''console'', wm_opts = plain_opts (Some (sb_id sb)),
     wm_onSuccess = (\<lambda>_. [WSuccess (t ''Snapshot taken'' (zh [0x5DF2, 0x5FEB, 0x7167]))
        (Some (t (''pause '' @ zh [0x2192] @ '' checkpoint '' @ zh [0x2192] @ '' resume'') (zh [0x6682, 0x505C] @ '' '' @ zh [0x2192] @ '' '' @ zh [0x68C0, 0x67E5, 0x70B9] @ '' '' @ zh [0x2192] @ '' '' @ zh [0x6062, 0x590D])))]),
     wm_onError = ws_error (t ''Snapshot failed'' (zh [0x5FEB, 0x7167, 0x5931, 0x8D25]))\<rparr>"

definition ws_fork :: "Sandbox \<Rightarrow> TFn \<Rightarrow> ws_mutation" where
  "ws_fork sb t = \<lparr>wm_call = verb_fork (sb_id sb) None, wm_opts = plain_opts (Some (sb_id sb)),
     wm_onSuccess = (\<lambda>child. [WGoto (''/sandboxes/'' @ sb_id child),
        WAction (t ''Forked to'' (zh [0x5DF2, 0x6D3E, 0x751F, 0x5230]) @ '' '' @ js_slice (sb_id child) 0 8) (t ''Back to parent'' (zh [0x8FD4, 0x56DE, 0x7236, 0x6C99, 0x7BB1]))
          (''/sandboxes/'' @ sb_id sb)]),
     wm_onError = ws_error (t ''Fork failed'' (zh [0x6D3E, 0x751F, 0x5931, 0x8D25]))\<rparr>"

definition ws_migrate :: "Sandbox \<Rightarrow> TFn \<Rightarrow> ws_mutation" where
  "ws_migrate sb t = \<lparr>wm_call = verb_migrate (sb_id sb) None, wm_opts = plain_opts (Some (sb_id sb)),
     wm_onSuccess = (\<lambda>moved. [WSuccess (t ''Migrated'' (zh [0x5DF2, 0x8FC1, 0x79FB]))
        (Some (t ''now on node'' (zh [0x73B0, 0x5728, 0x4F4D, 0x4E8E, 0x8282, 0x70B9]) @ '' '' @ nullish (sb_node_id moved) ''?''))]),
     wm_onError = ws_error (t ''Migrate failed'' (zh [0x8FC1, 0x79FB, 0x5931, 0x8D25]))\<rparr>"

definition ws_kill :: "Sandbox \<Rightarrow> TFn \<Rightarrow> ws_mutation" where
  "ws_kill sb t = \<lparr>wm_call = verb_kill (sb_id sb), wm_opts = plain_opts None,
     wm_onSuccess = (\<lambda>_. [WDispose (sb_id sb),
        WSuccess (t ''Sandbox'' (zh [0x6C99, 0x7BB1]) @ '' '' @ js_slice (sb_id sb) 0 8 @ '' '' @ t ''destroyed'' (zh [0x5DF2, 0x9500, 0x6BC1])) None,
        WGoto ''/sandboxes'']),
     wm_onError = ws_error (t ''Kill failed'' (zh [0x9500, 0x6BC1, 0x5931, 0x8D25]))\<rparr>"

text \<open>What an action does: the pending confirmation, the mutation it starts, its other effects.  The
  function the dialog confirms is \<open>kill.mutate\<close>, so the pending value is \<open>()\<close>.\<close>

definition ws_handle ::
  "Sandbox \<Rightarrow> TFn \<Rightarrow> ws_action \<Rightarrow> unit option \<Rightarrow> unit option \<times> ws_mutation list \<times> ws_effect list" where
  "ws_handle sb t a pending = (case a of
     WsPause \<Rightarrow> (pending, [ws_pause sb t], [])
   | WsResume \<Rightarrow> (pending, [ws_resume sb t], [])
   | WsSnapshot \<Rightarrow> (pending, [ws_snapshot sb t], [])
   | WsFork \<Rightarrow> (pending, [ws_fork sb t], [])
   | WsMigrate \<Rightarrow> (pending, [ws_migrate sb t], [])
   | WsCopyId \<Rightarrow> (pending, [], [WCopy (sb_id sb), WInfo (t ''Sandbox id copied'' (zh [0x5DF2, 0x590D, 0x5236, 0x6C99, 0x7BB1] @ '' id''))])
   | WsAskKill \<Rightarrow> (confirm_ask () pending, [], [])
   | WsConfirmKill \<Rightarrow> (case confirm_confirm pending of (fns, p) \<Rightarrow> (p, map (\<lambda>_. ws_kill sb t) fns, []))
   | WsCloseKill \<Rightarrow> (confirm_close pending, [], [])
   | WsTab v \<Rightarrow> (pending, [], [WGoto (tab_url (sb_id sb) v)]))"

text \<open>Which mutations are in flight.\<close>

record ws_pending =
  wp_pause :: bool
  wp_resume :: bool
  wp_snapshot :: bool
  wp_fork :: bool
  wp_kill :: bool

definition sm_button :: "'a \<Rightarrow> bool \<Rightarrow> bool \<Rightarrow> btn_kind option \<Rightarrow> 'a vnode list \<Rightarrow> 'a vnode" where
  "sm_button onClick busy disabled kind children =
     Button (button0\<lparr>bp_size := Some Sm, bp_onClick := Some onClick, bp_busy := busy, bp_disabled := disabled,
               bp_kind := kind\<rparr>) children"

definition header_verbs :: "Sandbox \<Rightarrow> ws_pending \<Rightarrow> TFn \<Rightarrow> ws_action vnode list" where
  "header_verbs sb p t =
     (let running = (sb_state sb = RUNNING)
      in [if running
          then sm_button WsPause (wp_pause p) False None [Icon ''IconPause'' (Some 13), Txt ('' '' @ t ''Pause'' (zh [0x6682, 0x505C]))]
          else sm_button WsResume (wp_resume p) (\<not> pausedLike (sb_state sb)) (Some Primary)
                 [Icon ''IconPlay'' (Some 13), Txt ('' '' @ t ''Resume'' (zh [0x6062, 0x590D]))]] @
         Tip (Some [Txt (t (''Pause '' @ zh [0x2192] @ '' checkpoint '' @ zh [0x2192] @ '' resume'') (zh [0x6682, 0x505C] @ '' '' @ zh [0x2192] @ '' '' @ zh [0x68C0, 0x67E5, 0x70B9] @ '' '' @ zh [0x2192] @ '' '' @ zh [0x6062, 0x590D]))]) None False
           [sm_button WsSnapshot (wp_snapshot p) (\<not> running) None [Icon ''IconCamera'' (Some 13), Txt ('' '' @ t ''Snapshot'' (zh [0x5FEB, 0x7167]))]] @
         Tip (Some [Txt (t ''Checkpoint now, branch a new sandbox from it'' (zh [0x7ACB, 0x5373, 0x68C0, 0x67E5, 0x70B9, 0xFF0C, 0x4ECE, 0x4E2D, 0x6D3E, 0x751F, 0x65B0, 0x6C99, 0x7BB1]))]) None False
           [sm_button WsFork (wp_fork p) (\<not> running) None [Icon ''IconBranch'' (Some 13), Txt ('' '' @ t ''Fork'' (zh [0x6D3E, 0x751F]))]] @
         [Menu (El ''button'' [Attr ''aria-label'' (t ''More actions'' (zh [0x66F4, 0x591A, 0x64CD, 0x4F5C]))] [Icon ''IconDots'' None]) None
            [MenuItem WsMigrate False (\<not> running \<and> sb_state sb \<noteq> PAUSED_HOT) [] [Txt (t ''Migrate to another node'' (zh [0x8FC1, 0x79FB, 0x5230, 0x5176, 0x4ED6, 0x8282, 0x70B9]))],
             MenuItem WsCopyId False False [] [Txt (t ''Copy sandbox id'' (zh [0x590D, 0x5236, 0x6C99, 0x7BB1] @ '' id''))],
             MenuSeparator,
             MenuItem WsAskKill True False [] [Txt (t (''Kill sandbox'' @ zh [0x2026]) (zh [0x9500, 0x6BC1, 0x6C99, 0x7BB1, 0x2026]))]]])"

definition kill_dialog :: "Sandbox \<Rightarrow> bool \<Rightarrow> TFn \<Rightarrow> ws_action vnode" where
  "kill_dialog sb busy t =
     ConfirmDialog t (t ''Kill sandbox'' (zh [0x9500, 0x6BC1, 0x6C99, 0x7BB1]))
       [Txt (t ''Destroy '' (zh [0x6C38, 0x4E45, 0x9500, 0x6BC1] @ '' '')), Mono [Txt (js_slice (sb_id sb) 0 8)] (Some ''text-ink''),
        Txt (t '' permanently? Its disk, checkpoints and snapshots are deleted. Sandboxes with live forks are protected server-side.''
               (zh [0xFF1F, 0x5176, 0x78C1, 0x76D8, 0x3001, 0x68C0, 0x67E5, 0x70B9, 0x4E0E, 0x5FEB, 0x7167, 0x90FD, 0x4F1A, 0x88AB, 0x5220, 0x9664, 0x3002, 0x5B58, 0x5728, 0x6D3B, 0x52A8, 0x6D3E, 0x751F, 0x7684, 0x6C99, 0x7BB1, 0x5728, 0x670D, 0x52A1, 0x7AEF, 0x53D7, 0x4FDD, 0x62A4, 0x3002]))]
       (t ''Kill sandbox'' (zh [0x9500, 0x6BC1, 0x6C99, 0x7BB1])) busy WsConfirmKill WsCloseKill"

section \<open>Health pill\<close>

definition mem_used :: "SandboxHealth \<Rightarrow> rat" where
  "mem_used h = 1 - of_int (nullish (h_mem_available_kib h) 0) / of_int (nullish (h_mem_total_kib h) 1)"

definition psi_of :: "SandboxHealth \<Rightarrow> rat" where
  "psi_of h = max (nullish (h_psi_mem_some10 h) 0) (nullish (h_psi_cpu_some10 h) 0)"

definition pill_level :: "rat \<Rightarrow> rat \<Rightarrow> string" where
  "pill_level memUsed psi =
     (if memUsed > 9 / 10 \<or> psi > 25 then ''var(--color-danger)''
      else if memUsed > 8 / 10 \<or> psi > 10 then ''var(--color-transit)''
      else ''var(--color-ok)'')"

definition pill_points :: "HealthSample list \<Rightarrow> SeriesPoint list" where
  "pill_points samples =
     map (\<lambda>s. \<lparr>pt_at = hs_at s, pt_value = mem_used (hs_health s)\<rparr>)
       (filter (\<lambda>s. h_ok (hs_health s) \<and> truthy_num (h_mem_total_kib (hs_health s))) samples)"

definition pill_chart :: "HealthSample list \<Rightarrow> TFn \<Rightarrow> chart_props" where
  "pill_chart samples t =
     \<lparr>ch_points = pill_points samples, ch_label = t ''memory used'' (zh [0x5185, 0x5B58, 0x5360, 0x7528]), ch_format = fmtPct,
      ch_yMin = Some 0, ch_yMax = Some 1, ch_color = None, ch_trendWords = None, ch_refLines = []\<rparr>"

definition HealthPill :: "SandboxState \<Rightarrow> HealthSeries \<Rightarrow> (chart_props \<Rightarrow> 'a vnode) \<Rightarrow> TFn \<Rightarrow> 'a vnode list" where
  "HealthPill state hs chart t =
     (if state \<noteq> RUNNING then []
      else if hv_unreachable hs then [El ''span'' [] [Txt (t ''guest unreachable'' (''guest '' @ zh [0x4E0D, 0x53EF, 0x8FBE]))]]
      else case hv_latest hs of
        None \<Rightarrow> []
      | Some l \<Rightarrow>
          let h = hs_health l
          in if \<not> h_ok h \<or> \<not> truthy_num (h_mem_total_kib h) then []
             else let memUsed = mem_used h; psi = psi_of h; level = pill_level memUsed psi
                  in Tip (Some [El ''div'' []
                        [El ''div'' [] [El ''span'' [] [Txt (t ''mem used'' (zh [0x5185, 0x5B58, 0x5360, 0x7528]))], El ''span'' [] [Txt (fmtPct memUsed)]],
                         El ''div'' [] [El ''span'' [] [Txt (t (''psi mem'' @ zh [0xB7] @ ''cpu'') (''psi '' @ zh [0x5185, 0x5B58, 0xB7] @ ''cpu''))],
                           El ''span'' [] [Txt (toFixed (nullish (h_psi_mem_some10 h) 0) 1 @ ('' '' @ zh [0xB7] @ '' '') @
                                               toFixed (nullish (h_psi_cpu_some10 h) 0) 1)]],
                         chart (pill_chart (hv_samples hs) t)]]) None True
                       [El ''span'' [Attr ''color'' level, Attr ''borderColor'' (color level ''35%''), Attr ''background'' (color level ''10%'')]
                          [Txt (''mem '' @ fmtPct memUsed @ ('' '' @ zh [0xB7] @ '' psi '') @ toFixed psi 1)]])"

definition WorkspaceHeader ::
  "Sandbox \<Rightarrow> ws_pending \<Rightarrow> unit option \<Rightarrow> HealthSeries \<Rightarrow> (chart_props \<Rightarrow> ws_action vnode) \<Rightarrow> TFn \<Rightarrow> ws_action vnode" where
  "WorkspaceHeader sb p pending hs chart t =
     El ''header'' []
       ([El ''div'' []
           ([El ''h1'' []
               [El ''a'' [Attr ''href'' ''/sandboxes''] [Txt (t ''Sandboxes'' (zh [0x6C99, 0x7BB1]))], El ''span'' [] [Txt ''/''],
                Mono [Txt (js_slice (sb_id sb) 0 8)] (Some ''text-[14px]'')],
             StateBadge t (sb_state sb)] @ HealthPill (sb_state sb) hs chart t),
         El ''div'' [] (header_verbs sb p t)] @
        shown (confirm_open pending) [kill_dialog sb (wp_kill p) t])"

section \<open>Banner and page\<close>

definition banner_message :: "Sandbox \<Rightarrow> TFn \<Rightarrow> string" where
  "banner_message sb t = (case sb_state sb of
     PAUSED_HOT \<Rightarrow> t (''Paused '' @ zh [0xB7] @ '' hot '' @ zh [0x2014] @ '' resume is sub-second.'') (zh [0x5DF2, 0x6682, 0x505C] @ '' '' @ zh [0xB7] @ '' '' @ zh [0x70ED] @ '' '' @ zh [0x2014, 0x2014] @ '' '' @ zh [0x6062, 0x590D, 0x5728, 0x4E9A, 0x79D2, 0x7EA7, 0x3002])
   | PAUSED_WARM \<Rightarrow> t (''Paused '' @ zh [0xB7] @ '' warm '' @ zh [0x2014] @ '' state lives in the chunk store; resume restores it.'') (zh [0x5DF2, 0x6682, 0x505C] @ '' '' @ zh [0xB7] @ '' '' @ zh [0x6E29] @ '' '' @ zh [0x2014, 0x2014] @ '' '' @ zh [0x72B6, 0x6001, 0x5B58, 0x4E8E, 0x5206, 0x5757, 0x5B58, 0x50A8, 0xFF1B, 0x6062, 0x590D, 0x65F6, 0x8FD8, 0x539F, 0x3002])
   | ARCHIVED_COLD \<Rightarrow> t (''Archived '' @ zh [0xB7] @ '' cold '' @ zh [0x2014] @ '' resume rehydrates from the cold store.'') (zh [0x5DF2, 0x5F52, 0x6863] @ '' '' @ zh [0xB7] @ '' '' @ zh [0x51B7] @ '' '' @ zh [0x2014, 0x2014] @ '' '' @ zh [0x6062, 0x590D, 0x65F6, 0x4ECE, 0x51B7, 0x5B58, 0x50A8, 0x91CD, 0x65B0, 0x52A0, 0x8F7D, 0x3002])
   | FAILED \<Rightarrow> (if truthy_str (sb_error sb) then t ''Failed'' (zh [0x5931, 0x8D25]) @ '': '' @ nullish (sb_error sb) ''''
                else t (''Failed '' @ zh [0x2014] @ '' resume retries from the last snapshot.'') (zh [0x5931, 0x8D25] @ '' '' @ zh [0x2014, 0x2014] @ '' '' @ zh [0x6062, 0x590D, 0x5C06, 0x4ECE, 0x4E0A, 0x4E00, 0x4E2A, 0x5FEB, 0x7167, 0x91CD, 0x8BD5, 0x3002]))
   | RECYCLED \<Rightarrow> t (''Recycled '' @ zh [0x2014] @ '' only extracted artifacts remain.'') (zh [0x5DF2, 0x56DE, 0x6536] @ '' '' @ zh [0x2014, 0x2014] @ '' '' @ zh [0x4EC5, 0x4FDD, 0x7559, 0x63D0, 0x53D6, 0x7684, 0x4EA7, 0x7269, 0x3002])
   | STOPPED \<Rightarrow> t ''Stopped.'' (zh [0x5DF2, 0x505C, 0x6B62, 0x3002])
   | s \<Rightarrow> state_text s @ ('' '' @ zh [0x2014] @ '' '') @ t (''hold on'' @ zh [0x2026]) (zh [0x8BF7, 0x7A0D, 0x5019, 0x2026]))"

definition StateBanner :: "Sandbox \<Rightarrow> TFn \<Rightarrow> 'a vnode list" where
  "StateBanner sb t =
     (if sb_state sb = RUNNING then []
      else [El ''div'' []
        [Icon ''IconTerminal'' (Some 14),
         El ''span'' [] ([Txt (banner_message sb t)] @
           shown (pausedLike (sb_state sb))
             [Txt (t '' Terminal, files and live gauges need a running guest.'' ('' '' @ zh [0x7EC8, 0x7AEF, 0x3001, 0x6587, 0x4EF6, 0x4E0E, 0x5B9E, 0x65F6, 0x4EEA, 0x8868, 0x90FD, 0x9700, 0x8981, 0x8FD0, 0x884C, 0x4E2D, 0x7684] @ '' guest'' @ zh [0x3002]))])]])"

text \<open>The effect that tells the terminal manager about the state.\<close>

definition workspace_note :: "Sandbox option \<Rightarrow> term_event list" where
  "workspace_note data = (case data of None \<Rightarrow> [] | Some sb \<Rightarrow> [noteTermState (sb_id sb) (sb_state sb)])"

definition tab_pane :: "string \<Rightarrow> 'a vnode list" where
  "tab_pane tab =
     (if tab = ''overview'' then [El ''div'' [] [El ''OverviewTab'' [] []]]
      else if tab = ''terminal'' then [El ''Suspense'' [] [El ''TerminalTab'' [] []]]
      else if tab = ''files'' then [El ''Suspense'' [] [El ''FilesTab'' [] []]]
      else if tab = ''preview'' then [El ''PreviewTab'' [] []]
      else if tab = ''checkpoints'' then [El ''div'' [] [El ''CheckpointsTab'' [] []]]
      else if tab = ''settings'' then [El ''div'' [] [El ''SettingsTab'' [] []]]
      else [])"

definition Workspace ::
  "string option \<Rightarrow> Sandbox option \<Rightarrow> bool \<Rightarrow> js_error option \<Rightarrow> ws_pending \<Rightarrow> unit option \<Rightarrow> HealthSeries \<Rightarrow>
   (chart_props \<Rightarrow> ws_action vnode) \<Rightarrow> TFn \<Rightarrow> ws_action vnode" where
  "Workspace splat data isLoading err p pending hs chart t =
     (let tab = workspace_tab splat
      in if isLoading then
           El ''div'' [] [Skeleton (Some ''h-7 w-72''), Skeleton (Some ''h-9 w-full max-w-lg''), Skeleton (Some ''h-40 w-full'')]
         else case (err, data) of
           (None, Some sb) \<Rightarrow>
             El ''div'' []
               ([WorkspaceHeader sb p pending hs chart t,
                 TabBar t (map (\<lambda>(v, l, z). \<lparr>tb_value = v, tb_label = [Txt (t l z)], tb_icon = [], tb_disabled = False\<rparr>) TABS)
                   tab WsTab []] @ StateBanner sb t @ [El ''div'' [] (tab_pane tab)])
         | _ \<Rightarrow>
             El ''div'' []
               (ErrorNote (Some (nullish err (PlatformError (t ''sandbox not found'' (zh [0x672A, 0x627E, 0x5230, 0x6C99, 0x7BB1]))))) @
                [El ''a'' [Attr ''href'' ''/sandboxes''] [Txt (t (zh [0x2190] @ '' back to sandboxes'') (zh [0x2190] @ '' '' @ zh [0x8FD4, 0x56DE, 0x6C99, 0x7BB1, 0x5217, 0x8868]))]]))"

section \<open>Facts\<close>

lemma enabled_Tip [simp]: "enabled_of (Tip c side m children) =
  enabled_of children @ (case c of None \<Rightarrow> [] | Some ns \<Rightarrow> enabled_of ns)"
  by (simp add: Tip_def attr_actions_def split: option.splits)

lemma enabled_sm_button [simp]: "enabled_of children = [] \<Longrightarrow> enabled_actions (sm_button h busy dis k children) =
  (if dis \<or> busy then [] else [(''click'', h)])"
  by (simp add: sm_button_def)

lemma verbs_enabled: "map snd (enabled_of (header_verbs sb p t)) =
  (if sb_state sb = RUNNING then shown (\<not> wp_pause p) [WsPause]
   else shown (pausedLike (sb_state sb) \<and> \<not> wp_resume p) [WsResume]) @
  shown (sb_state sb = RUNNING \<and> \<not> wp_snapshot p) [WsSnapshot] @ shown (sb_state sb = RUNNING \<and> \<not> wp_fork p) [WsFork] @
  shown (sb_state sb = RUNNING \<or> sb_state sb = PAUSED_HOT) [WsMigrate] @ [WsCopyId, WsAskKill]"
  by (simp add: header_verbs_def Let_def shown_def view_actions attr_actions_def)

lemma tab_names: "map fst TABS = [''overview'', ''terminal'', ''files'', ''preview'', ''checkpoints'', ''settings'']"
  by (simp add: TABS_def)

section \<open>Properties\<close>

text \<open>C2: The header refines the lifecycle: every state it shows ahead of the server's answer is one
  legal step from the current one; pausing and resuming are offered exactly when the lifecycle allows
  them (and no such request is under way); a kill request starts only from an open confirm dialog,
  and confirming closes it.\<close>

theorem header_refines_lifecycle:
  "(\<forall>a m f pending. a \<in> set (map snd (enabled_of (header_verbs sb p t))) \<longrightarrow>
      m \<in> set (fst (snd (ws_handle sb t a pending))) \<longrightarrow> ao_optimistic (wm_opts m) = Some f \<longrightarrow>
      lifecycle_step (sb_state sb) (sb_state (apply_patch (f sb) sb))) \<and>
   (WsPause \<in> set (map snd (enabled_of (header_verbs sb p t))) \<longleftrightarrow>
      lifecycle_step (sb_state sb) PAUSING \<and> \<not> wp_pause p) \<and>
   (WsResume \<in> set (map snd (enabled_of (header_verbs sb p t))) \<longleftrightarrow>
      lifecycle_step (sb_state sb) RESUMING \<and> \<not> wp_resume p) \<and>
   (\<forall>a m pending. m \<in> set (fst (snd (ws_handle sb t a pending))) \<longrightarrow> ac_method (wm_call m) = ''DELETE'' \<longrightarrow>
      confirm_open pending \<and> \<not> confirm_open (fst (ws_handle sb t a pending)))"
proof (intro conjI allI impI)
  note legal = legal_moves [unfolded Validate_step]
  fix a m f pending
  assume a: "a \<in> set (map snd (enabled_of (header_verbs sb p t)))"
    and m: "m \<in> set (fst (snd (ws_handle sb t a pending)))" and f: "ao_optimistic (wm_opts m) = Some f"
  from m f have "a = WsPause \<and> f = (\<lambda>_. no_patch\<lparr>pa_state := Some PAUSING\<rparr>) \<or>
      a = WsResume \<and> f = (\<lambda>_. no_patch\<lparr>pa_state := Some RESUMING\<rparr>)"
    by (cases a) (auto simp: ws_handle_def ws_pause_def ws_resume_def ws_snapshot_def ws_fork_def ws_migrate_def
        ws_kill_def state_opts_def plain_opts_def confirm_confirm_def split: option.splits)
  with a show "lifecycle_step (sb_state sb) (sb_state (apply_patch (f sb) sb))"
    unfolding verbs_enabled
    by (auto simp: shown_def legal apply_patch_def no_patch_def split: if_splits)
next
  note legal = legal_moves [unfolded Validate_step]
  show "WsPause \<in> set (map snd (enabled_of (header_verbs sb p t))) \<longleftrightarrow> lifecycle_step (sb_state sb) PAUSING \<and> \<not> wp_pause p"
    unfolding verbs_enabled legal by (auto simp: shown_def)
  have "pausedLike (sb_state sb) \<Longrightarrow> sb_state sb \<noteq> RUNNING" by (auto simp: pausedLike_def)
  then show "WsResume \<in> set (map snd (enabled_of (header_verbs sb p t))) \<longleftrightarrow> lifecycle_step (sb_state sb) RESUMING \<and> \<not> wp_resume p"
    unfolding verbs_enabled legal by (auto simp: shown_def)
next
  fix a m pending
  assume "m \<in> set (fst (snd (ws_handle sb t a pending)))" and "ac_method (wm_call m) = ''DELETE''"
  then have "a = WsConfirmKill \<and> pending \<noteq> None"
    by (cases a) (auto simp: ws_handle_def ws_pause_def ws_resume_def ws_snapshot_def ws_fork_def ws_migrate_def
        verb_pause_def verb_resume_def verb_snapshot_def verb_fork_def verb_migrate_def call_def
        confirm_confirm_def split: option.splits if_splits)
  then show "confirm_open pending" "\<not> confirm_open (fst (ws_handle sb t a pending))"
    by (auto simp: confirm_open_def ws_handle_def confirm_confirm_def)
qed

theorem header_refines_lifecycle_witness:
  "lifecycle_step RUNNING (sb_state (apply_patch (no_patch\<lparr>pa_state := Some PAUSING\<rparr>) sandbox0))"
proof -
  let ?p = "\<lparr>wp_pause = False, wp_resume = False, wp_snapshot = False, wp_fork = False, wp_kill = False\<rparr>"
  let ?f = "\<lambda>_. no_patch\<lparr>pa_state := Some PAUSING\<rparr>"
  have s: "sb_state sandbox0 = RUNNING" by (simp add: sandbox0_def)
  have "WsPause \<in> set (map snd (enabled_of (header_verbs sandbox0 ?p (tr En))))"
    unfolding verbs_enabled by (simp add: s)
  moreover have "ws_pause sandbox0 (tr En) \<in> set (fst (snd (ws_handle sandbox0 (tr En) WsPause None)))"
    by (simp add: ws_handle_def)
  moreover have "ao_optimistic (wm_opts (ws_pause sandbox0 (tr En))) = Some ?f"
    by (simp add: ws_pause_def state_opts_def)
  ultimately have "lifecycle_step (sb_state sandbox0) (sb_state (apply_patch (?f sandbox0) sandbox0))"
    using header_refines_lifecycle [of sandbox0 ?p "tr En", THEN conjunct1] by blast
  then show ?thesis by (simp add: s)
qed

text \<open>The tab is the route: the route of a tab leads back to that tab, every other route shows the
  overview, and whatever the route the page shows one of the panes.\<close>

theorem tab_route:
  "(v \<in> set (map fst TABS) \<longrightarrow> tab_url sid v = ''/sandboxes/'' @ sid @ ''/'' @ splat \<longrightarrow>
      workspace_tab (Some splat) = v) \<and>
   (hd (js_split (CHR ''/'') raw) \<notin> set (map fst TABS) \<longrightarrow> workspace_tab (Some raw) = ''overview'') \<and>
   length (tab_pane (workspace_tab r) :: unit vnode list) = 1"
proof (intro conjI impI)
  have tabs: "\<forall>w \<in> set (map fst TABS). workspace_tab (Some (if w = ''overview'' then '''' else w)) = w \<and>
      length (tab_pane w :: unit vnode list) = 1"
    unfolding workspace_tab_def tab_names by (simp add: tab_pane_def)
  show "workspace_tab (Some splat) = v"
    if "v \<in> set (map fst TABS)" "tab_url sid v = ''/sandboxes/'' @ sid @ ''/'' @ splat"
  proof -
    from that(2) have "splat = (if v = ''overview'' then '''' else v)" by (simp add: tab_url_def)
    with tabs that(1) show ?thesis by blast
  qed
  show "workspace_tab (Some raw) = ''overview''" if "hd (js_split (CHR ''/'') raw) \<notin> set (map fst TABS)"
    using that by (simp add: workspace_tab_def)
  have "''overview'' \<in> set (map fst TABS)" unfolding tab_names by simp
  then have "workspace_tab r \<in> set (map fst TABS)" by (simp add: workspace_tab_def Let_def)
  with tabs show "length (tab_pane (workspace_tab r) :: unit vnode list) = 1" by blast
qed

theorem tab_route_witness: "workspace_tab (Some ''files'') = ''files''"
proof -
  have "''files'' \<in> set (map fst TABS)" "tab_url ''x'' ''files'' = ''/sandboxes/'' @ ''x'' @ ''/'' @ ''files''"
    unfolding tab_names tab_url_def by simp_all
  then show ?thesis using tab_route [of "''files''" "''x''" "''files''" "''''" None] by blast
qed

end
