(* ===== verification/TabKit.thy ===== *)
theory TabKit
  imports Workspace
begin

text \<open>
  What the pages and tabs share: the effects of a settled request, the command line of the exec
  forms, and facts about the actions a view offers.
\<close>

datatype tab_effect =
    EInvalidate query_key | ESuccess string "string option" | EError string string | EInfo string
  | EGoto string | EAction string string string

text \<open>\<open>a ?? b\<close> of two errors.\<close>

definition first_error :: "js_error option \<Rightarrow> js_error option \<Rightarrow> js_error option" where
  "first_error a b = (case a of None \<Rightarrow> b | Some e \<Rightarrow> Some e)"

definition exec_opts0 :: ExecOptions where
  "exec_opts0 = \<lparr>eo_env = None, eo_cwd = None, eo_timeout_s = None, eo_checkpoint = None\<rparr>"

section \<open>Command lines\<close>

text \<open>Splitting a trimmed command line: the words are not empty, hold no white space, and together
  hold every other character of the line in order.\<close>

lemma words_aux_nonempty [simp]: "js_words_aux insp s \<noteq> []"
  by (induction insp s rule: js_words_aux.induct) (auto split: list.splits)

lemma words_aux_concat: "concat (js_words_aux insp s) = filter (\<lambda>c. \<not> js_space c) s"
  by (induction insp s rule: js_words_aux.induct) (auto split: list.splits)

lemma words_aux_plain: "w \<in> set (js_words_aux insp s) \<Longrightarrow> c \<in> set w \<Longrightarrow> \<not> js_space c"
  by (induction insp s arbitrary: w rule: js_words_aux.induct) (fastforce split: list.splits if_splits)+

lemma words_aux_parts:
  "s \<noteq> [] \<Longrightarrow> \<not> js_space (last s) \<Longrightarrow>
   (\<forall>w \<in> set (tl (js_words_aux insp s)). w \<noteq> []) \<and>
   (hd (js_words_aux insp s) \<noteq> [] \<longleftrightarrow> insp \<or> \<not> js_space (hd s))"
proof (induction insp s rule: js_words_aux.induct)
  case (2 insp x s)
  show ?case
  proof (cases "js_space x")
    case True
    with 2 have s: "s \<noteq> []" "\<not> js_space (last s)" by (auto split: if_splits)
    have "\<forall>w \<in> set (js_words_aux True s). w \<noteq> []"
      using 2(1,2) True s by (cases "js_words_aux True s"; cases insp) auto
    with True show ?thesis by (auto dest: list.set_sel(2) [OF words_aux_nonempty])
  next
    case False
    with 2 show ?thesis by (cases "s = []") (auto split: list.splits)
  qed
qed simp

lemma trim_prefix: "\<exists>r. dropWhile js_space s = js_trim s @ r"
  unfolding js_trim_def
  by (metis rev_append rev_rev_ident takeWhile_dropWhile_id)

lemma trim_ends: "js_trim s \<noteq> [] \<Longrightarrow> \<not> js_space (hd (js_trim s)) \<and> \<not> js_space (last (js_trim s))"
proof
  assume n: "js_trim s \<noteq> []"
  obtain r where r: "dropWhile js_space s = js_trim s @ r" using trim_prefix by blast
  with n have "hd (js_trim s) = hd (dropWhile js_space s)" "dropWhile js_space s \<noteq> []" by auto
  then show "\<not> js_space (hd (js_trim s))" by (metis hd_dropWhile)
  show "\<not> js_space (last (js_trim s))" using n by (simp add: js_trim_def last_rev hd_dropWhile)
qed

lemma filter_drop_spaces: "filter (\<lambda>c. \<not> js_space c) (dropWhile js_space s) = filter (\<lambda>c. \<not> js_space c) s"
  by (induction s) auto

lemma trim_filter: "filter (\<lambda>c. \<not> js_space c) (js_trim s) = filter (\<lambda>c. \<not> js_space c) s"
  by (simp add: js_trim_def filter_drop_spaces flip: rev_filter)

lemma command_words:
  assumes "js_trim s \<noteq> []" and "w \<in> set (js_words (js_trim s))"
  shows "w \<noteq> [] \<and> (\<forall>c \<in> set w. \<not> js_space c)"
proof -
  note e = trim_ends [OF assms(1)]
  have "\<forall>w \<in> set (js_words_aux False (js_trim s)). w \<noteq> []"
    using words_aux_parts [of "js_trim s" False] e assms(1)
    by (cases "js_words_aux False (js_trim s)") auto
  then show ?thesis using assms(2) words_aux_plain by (auto simp: js_words_def)
qed

lemma words_concat: "concat (js_words (js_trim s)) = filter (\<lambda>c. \<not> js_space c) s"
  by (simp add: js_words_def words_aux_concat trim_filter)

section \<open>Offered actions\<close>

text \<open>The actions a list of nodes offers, without the event names.\<close>

definition offers :: "'a vnode list \<Rightarrow> 'a list" where
  "offers ns = map snd (enabled_of ns)"

definition offer :: "'a vnode \<Rightarrow> 'a list" where
  "offer n = map snd (enabled_actions n)"

lemma shown_Nil [simp]: "shown c [] = []" "shown_opt x (\<lambda>_. []) = []"
  by (simp_all add: shown_def shown_opt_def split: option.splits)

lemma map_shown [simp]: "map f (shown c xs) = shown c (map f xs)"
  by (simp add: shown_def)

lemma set_shown [simp]: "set (shown c xs) = (if c then set xs else {})"
  by (simp add: shown_def)

lemma set_shown_opt [simp]: "set (shown_opt x f) = (case x of None \<Rightarrow> {} | Some v \<Rightarrow> set (f v))"
  by (simp add: shown_opt_def split: option.splits)

lemma offers_simps [simp]:
  "offers [] = []" "offers (n # ns) = offer n @ offers ns" "offers (ns @ ms) = offers ns @ offers ms"
  by (simp_all add: offers_def offer_def)

lemma offers_shown [simp]: "offers (shown c ns) = shown c (offers ns)"
  by (simp add: offers_def shown_def)

lemma offers_shown_opt [simp]: "offers (shown_opt x f) = shown_opt x (\<lambda>v. offers (f v))"
  by (simp add: offers_def shown_opt_def split: option.splits)

lemma offers_map: "offers (map f xs) = concat (map (\<lambda>x. offer (f x)) xs)"
  by (induction xs) simp_all

lemma offer_El [simp]: "offer (El tag attrs ns) = map snd (attr_actions attrs) @ offers ns"
  by (simp add: offer_def offers_def)

lemma offer_Txt [simp]: "offer (Txt s) = []"
  by (simp add: offer_def)

lemma attrs_Nil [simp]: "attr_actions [] = []"
  by (simp add: attr_actions_def)

lemma offer_Card [simp]: "offer (Card title acts pad ns) =
  shown (title \<noteq> [] \<or> acts \<noteq> []) (offers title @ offers acts) @ offers ns"
  by (simp add: Card_def attr_actions_def shown_def)

lemma offer_Stat [simp]: "offer (Stat name value sub accent) = offers name @ offers value @ offers sub"
  by (auto simp: Stat_def attr_actions_def shown_def)

lemma offer_PageHeader [simp]: "offer (PageHeader title subtitle actions) = offers title @ offers subtitle @ offers actions"
  by (auto simp: PageHeader_def shown_def)

lemma offer_Field [simp]: "offer (Field name hint ns) = offers ns @ offers hint"
  by (auto simp: Field_def shown_def)

lemma offer_Toggle [simp]: "offer (Toggle b h ns) = h (\<not> b) # offers ns"
  by (simp add: Toggle_def attr_actions_def)

lemma offers_ErrorNote [simp]: "offers (ErrorNote err) = []"
  by (simp add: ErrorNote_def attr_actions_def split: option.splits)

lemma offers_Tip [simp]: "offers (Tip c side m ns) = offers ns @ (case c of None \<Rightarrow> [] | Some cs \<Rightarrow> offers cs)"
  by (simp add: Tip_def attr_actions_def split: option.splits)

lemma offer_plain [simp]:
  "offer (Empty ns) = offers ns" "offer (Mono ns cls) = offers ns" "offer (Skeleton cls) = []"
  "offer (Icon name sz) = []" "offer (StateBadge t s) = []" "offer (AutoscaleBadge t b d) = []"
  "offer (MemGauge s m bs mx w) = []"
  by (simp_all add: Empty_def Mono_def Skeleton_def attr_actions_def)
     (simp_all add: offer_def view_actions)

lemma offer_CpuGauge [simp]: "offer (CpuGauge s m b mx w) = []"
  by (simp add: CpuGauge_def gauge_def Let_def attr_actions_def shown_def)

lemma offer_Button [simp]: "offer (Button p children) =
  shown (\<not> bp_disabled p \<and> \<not> bp_busy p) (shown_opt (bp_onClick p) (\<lambda>h. [h])) @ offers children"
  by (auto simp: offer_def offers_def shown_def shown_opt_def split: option.splits)

lemma offer_sm_button [simp]: "offer (sm_button h busy dis k children) = shown (\<not> dis \<and> \<not> busy) [h] @ offers children"
  by (simp add: sm_button_def)

lemma offer_IconButton [simp]: "offer (IconButton name h dis danger children) =
  shown (\<not> dis) (shown_opt h (\<lambda>h. [h])) @ offers children"
  by (auto simp: offer_def offers_def shown_def shown_opt_def split: option.splits)

lemma offer_MenuItem [simp]: "offer (MenuItem h danger dis icon children) =
  shown (\<not> dis) [h] @ offers icon @ offers children"
  by (simp add: offer_def offers_def shown_def)

lemma offer_Confirm [simp]: "offer (ConfirmDialog t title body name busy yes no) =
  [no, no, no] @ offers body @ [no] @ shown (\<not> busy) [yes]"
  by (simp add: offer_def offers_def enabled_Confirm shown_def)

lemma offer_Dialog [simp]: "offer (Dialog t title no ns) = [no, no, no] @ offers ns"
  by (simp add: Dialog_def attr_actions_def)

lemma offer_Table [simp]: "offer (Table head body) = concat (map offers head) @ offers body"
proof -
  have "offers (map (\<lambda>h. El ''th'' [] h) head) = concat (map offers head)"
    by (induction head) simp_all
  then show ?thesis by (simp add: Table_def)
qed

lemma offer_bars [simp]:
  "offer (CapacityBar name used whole fmt) = []" "offer (OversellBar name b u c cap bud fmt title) = []"
  by (simp_all add: CapacityBar_def OversellBar_def Let_def attr_actions_def shown_def split: option.splits)

lemma offer_Drawer [simp]: "offer (Drawer t title no ns) = [no, no] @ offers title @ [no] @ offers ns"
  by (simp add: Drawer_def attr_actions_def)

end
