(* ===== verification/CheckpointsTab.thy ===== *)
theory CheckpointsTab
  imports TabKit
begin

text \<open>
  The Checkpoints tab (\<open>web/src/pages/workspace/CheckpointsTab.tsx\<close>): the composer that runs a
  command after a checkpoint, and the timeline that merges the sandbox's checkpoints with its events.
  Whether a mutation is under way and its last error come from TanStack Query and are parameters of
  the views; a handler gives the new state and the requests it starts, a settled request its effects.
\<close>

definition fork_effects :: "Sandbox \<Rightarrow> TFn \<Rightarrow> Sandbox \<Rightarrow> tab_effect list" where
  "fork_effects sb t child =
     [EGoto (''/sandboxes/'' @ sb_id child),
      EAction (t ''Forked to'' (zh [0x5DF2, 0x6D3E, 0x751F, 0x5230]) @ '' '' @ js_slice (sb_id child) 0 8) (t ''Back to parent'' (zh [0x8FD4, 0x56DE, 0x7236, 0x6C99, 0x7BB1]))
        (''/sandboxes/'' @ sb_id sb)]"

section \<open>Composer\<close>

record composer_state =
  co_cmdline :: string
  co_withCheckpoint :: bool
  co_tag :: string
  co_result :: "ExecResponse option"

definition composer_init :: composer_state where
  "composer_init = \<lparr>co_cmdline = '''', co_withCheckpoint = True, co_tag = '''', co_result = None\<rparr>"

definition composer_invalidate :: "Sandbox \<Rightarrow> tab_effect list" where
  "composer_invalidate sb =
     [EInvalidate [KStr ''sandboxes'', KStr (sb_id sb), KStr ''checkpoints''],
      EInvalidate [KStr ''sandboxes'', KStr (sb_id sb), KStr ''events'']]"

text \<open>The command line is split at white space; \<open>split\<close> never gives an empty array, so the
  destructuring has a head.\<close>

definition composer_exec :: "Sandbox \<Rightarrow> composer_state \<Rightarrow> api_call" where
  "composer_exec sb st =
     (let ws = js_words (js_trim (co_cmdline st))
      in verb_exec (sb_id sb) (hd ws) (tl ws)
           (if co_withCheckpoint st then exec_opts0\<lparr>eo_checkpoint := Some True\<rparr> else exec_opts0))"

definition composer_exec_done ::
  "Sandbox \<Rightarrow> TFn \<Rightarrow> js_error + ExecResponse \<Rightarrow> composer_state \<Rightarrow> composer_state \<times> tab_effect list" where
  "composer_exec_done sb t outcome st = (case outcome of
     Inl err \<Rightarrow> (st, [EError (t ''Exec failed'' (zh [0x6267, 0x884C, 0x5931, 0x8D25])) (message err)])
   | Inr out \<Rightarrow> (st\<lparr>co_result := Some out\<rparr>,
       composer_invalidate sb @
       shown (truthy_str (ex_checkpoint out))
         [ESuccess (t ''Step checkpointed as'' (zh [0x6B65, 0x9AA4, 0x5DF2, 0x68C0, 0x67E5, 0x70B9, 0x4E3A]) @ '' '' @ nullish (ex_checkpoint out) '''')
            (Some (t ''roll back to undo this step'' (zh [0x56DE, 0x6EDA, 0x5373, 0x53EF, 0x64A4, 0x9500, 0x6B64, 0x6B65])))]))"

definition composer_checkpoint :: "Sandbox \<Rightarrow> composer_state \<Rightarrow> api_call" where
  "composer_checkpoint sb st =
     (let tag = js_trim (co_tag st) in verb_checkpoint (sb_id sb) (if tag = [] then None else Some tag))"

definition composer_checkpoint_done ::
  "Sandbox \<Rightarrow> TFn \<Rightarrow> js_error + Checkpoint \<Rightarrow> composer_state \<Rightarrow> composer_state \<times> tab_effect list" where
  "composer_checkpoint_done sb t outcome st = (case outcome of
     Inl err \<Rightarrow> (st, [EError (t ''Checkpoint failed'' (zh [0x68C0, 0x67E5, 0x70B9, 0x5931, 0x8D25])) (message err)])
   | Inr cp \<Rightarrow> (st\<lparr>co_tag := ''''\<rparr>,
       composer_invalidate sb @
       [ESuccess (t ''Checkpoint'' (zh [0x68C0, 0x67E5, 0x70B9]) @ '' '' @ cp_tag cp) (Some (t ''layer'' (zh [0x5C42]) @ '' '' @ cp_layer cp))]))"

definition composer_fork_done ::
  "Sandbox \<Rightarrow> TFn \<Rightarrow> js_error + Sandbox \<Rightarrow> composer_state \<Rightarrow> composer_state \<times> tab_effect list" where
  "composer_fork_done sb t outcome st = (case outcome of
     Inl err \<Rightarrow> (st, [EError (t ''Fork failed'' (zh [0x6D3E, 0x751F, 0x5931, 0x8D25])) (message err)])
   | Inr child \<Rightarrow> (st, fork_effects sb t child))"

datatype composer_action = CmdChange string | WithCheckpoint bool | TagChange string | SubmitCmd | MarkNow | ForkNow

definition composer_handle :: "Sandbox \<Rightarrow> composer_action \<Rightarrow> composer_state \<Rightarrow> composer_state \<times> api_call list" where
  "composer_handle sb a st = (case a of
     CmdChange v \<Rightarrow> (st\<lparr>co_cmdline := v\<rparr>, [])
   | WithCheckpoint b \<Rightarrow> (st\<lparr>co_withCheckpoint := b\<rparr>, [])
   | TagChange v \<Rightarrow> (st\<lparr>co_tag := v\<rparr>, [])
   | SubmitCmd \<Rightarrow> (st, shown (js_trim (co_cmdline st) \<noteq> [] \<and> sb_state sb = RUNNING) [composer_exec sb st])
   | MarkNow \<Rightarrow> (st, [composer_checkpoint sb st])
   | ForkNow \<Rightarrow> (st, [verb_fork (sb_id sb) None]))"

definition composer_result :: "ExecResponse \<Rightarrow> TFn \<Rightarrow> 'a vnode" where
  "composer_result r t =
     El ''div'' []
       ([El ''div'' []
           ([Txt (t ''exit'' (zh [0x9000, 0x51FA, 0x7801]) @ '' ''),
             El ''span'' [Attr ''class'' (if ex_exit_code r = 0 then ''text-ok'' else ''text-danger'')] [Txt (js_num (ex_exit_code r))],
             Txt ('' '' @ zh [0xB7] @ '' ''), Txt (js_num (ex_duration_ms r) @ ''ms'')] @
            shown (truthy_str (ex_checkpoint r))
              [El ''span'' [] [Txt (('' '' @ zh [0xB7] @ '' '') @ t ''checkpoint'' (zh [0x68C0, 0x67E5, 0x70B9]) @ '' '' @ nullish (ex_checkpoint r) '''')]] @
            shown (truthy_bool (ex_timed_out r)) [El ''span'' [] [Txt (('' '' @ zh [0xB7] @ '' '') @ t ''timed out'' (zh [0x5DF2, 0x8D85, 0x65F6]))]] @
            shown (truthy_bool (ex_truncated r)) [El ''span'' [] [Txt (('' '' @ zh [0xB7] @ '' '') @ t ''truncated'' (zh [0x5DF2, 0x622A, 0x65AD]))]]),
         El ''pre'' []
           (if decodeBytes (ex_stdout r) \<noteq> [] then [Txt (decodeBytes (ex_stdout r))]
            else [El ''span'' [] [Txt (t ''(no stdout)'' (zh [0xFF08, 0x65E0, 0x6807, 0x51C6, 0x8F93, 0x51FA, 0xFF09]))]])] @
        shown (truthy_str (ex_stderr r)) [El ''pre'' [] [Txt (decodeBytes (ex_stderr r))]])"

record composer_pending =
  cq_exec :: bool
  cq_checkpoint :: bool
  cq_fork :: bool
  cq_execErr :: "js_error option"
  cq_checkpointErr :: "js_error option"
  cq_forkErr :: "js_error option"

definition Composer :: "Sandbox \<Rightarrow> composer_state \<Rightarrow> composer_pending \<Rightarrow> TFn \<Rightarrow> composer_action vnode" where
  "Composer sb st p t =
     (let running = (sb_state sb = RUNNING)
      in Card [Txt (t ''Time travel'' (zh [0x65F6, 0x95F4, 0x65C5, 0x884C]))] [] None
        [El ''div'' []
          ([El ''form'' [On ''submit'' SubmitCmd]
             [El ''input'' [Attr ''value'' (co_cmdline st), Attr ''placeholder'' ''python3 train.py --step 7'',
                 Attr ''aria-label'' (t ''Command to run'' (zh [0x8981, 0x8FD0, 0x884C, 0x7684, 0x547D, 0x4EE4])), On ''change'' (CmdChange (co_cmdline st))] [],
              Button (button0\<lparr>bp_kind := Some Primary, bp_submit := True, bp_busy := cq_exec p, bp_disabled := \<not> running\<rparr>)
                [Txt (t ''Run'' (zh [0x8FD0, 0x884C]))]],
            El ''div'' []
             [Toggle (co_withCheckpoint st) WithCheckpoint
                [El ''span'' [] [Txt (t ''Checkpoint before running'' (zh [0x8FD0, 0x884C, 0x524D, 0x5148, 0x68C0, 0x67E5, 0x70B9]) @ '' ''),
                   El ''span'' [] [Txt (t (zh [0x2014] @ '' the step becomes a rollback anchor'') (zh [0x2014, 0x2014] @ '' '' @ zh [0x8BE5, 0x6B65, 0x9AA4, 0x6210, 0x4E3A, 0x56DE, 0x6EDA, 0x951A, 0x70B9]))]]],
              El ''div'' []
                ([El ''input'' [Attr ''value'' (co_tag st), Attr ''placeholder'' (t ''checkpoint tag'' (zh [0x68C0, 0x67E5, 0x70B9, 0x6807, 0x7B7E])),
                    Attr ''aria-label'' (t ''Checkpoint tag'' (zh [0x68C0, 0x67E5, 0x70B9, 0x6807, 0x7B7E])), On ''change'' (TagChange (co_tag st))] [],
                  sm_button MarkNow (cq_checkpoint p) (\<not> running) None [Txt (t ''Checkpoint'' (zh [0x68C0, 0x67E5, 0x70B9]))]] @
                 Tip (Some [Txt (t ''Checkpoint now, then branch a new sandbox'' (zh [0x7ACB, 0x5373, 0x68C0, 0x67E5, 0x70B9, 0xFF0C, 0x518D, 0x6D3E, 0x751F, 0x4E00, 0x4E2A, 0x65B0, 0x6C99, 0x7BB1]))]) None False
                   [sm_button ForkNow (cq_fork p) (\<not> running) None
                      [Icon ''IconBranch'' (Some 12), Txt ('' '' @ t ''Fork now'' (zh [0x7ACB, 0x5373, 0x6D3E, 0x751F]))]])]] @
           shown (\<not> running) [El ''p'' [] [Txt (t ''time travel needs RUNNING'' (zh [0x65F6, 0x95F4, 0x65C5, 0x884C, 0x9700, 0x8981] @ '' RUNNING''))]] @
           ErrorNote (first_error (cq_execErr p) (first_error (cq_checkpointErr p) (cq_forkErr p))) @
           shown_opt (co_result st) (\<lambda>r. [composer_result r t]))])"

section \<open>Timeline\<close>

datatype Item = CheckpointItem Checkpoint | EventItem SandboxEvent

fun item_at :: "Item \<Rightarrow> string" where
  "item_at (CheckpointItem cp) = cp_created_at cp"
| "item_at (EventItem ev) = ev_at ev"

text \<open>The newest item first; a difference that is \<open>NaN\<close> counts as 0 in \<open>sort\<close>.\<close>

definition item_cmp :: "Item \<Rightarrow> Item \<Rightarrow> rat" where
  "item_cmp a b = (case (date_ms (item_at b), date_ms (item_at a)) of
     (Some tb, Some ta) \<Rightarrow> of_int tb - of_int ta
   | _ \<Rightarrow> 0)"

definition timeline_items :: "Checkpoint list option \<Rightarrow> SandboxEvents option \<Rightarrow> Item list" where
  "timeline_items checkpoints events =
     js_sort item_cmp
       (map CheckpointItem (nullish checkpoints []) @
        map EventItem (nullish (case events of None \<Rightarrow> None | Some es \<Rightarrow> evs_events es) []))"


datatype timeline_action = ForkFrom string | AskRollback string | ConfirmRollback | CloseRollback


definition timeline_fork_done :: "Sandbox \<Rightarrow> TFn \<Rightarrow> js_error + Sandbox \<Rightarrow> tab_effect list" where
  "timeline_fork_done sb t outcome = (case outcome of
     Inl err \<Rightarrow> [EError (t ''Fork failed'' (zh [0x6D3E, 0x751F, 0x5931, 0x8D25])) (message err)]
   | Inr child \<Rightarrow> fork_effects sb t child)"

definition timeline_rollback_done :: "Sandbox \<Rightarrow> TFn \<Rightarrow> string \<Rightarrow> js_error + Sandbox \<Rightarrow> tab_effect list" where
  "timeline_rollback_done sb t tag outcome = (case outcome of
     Inl err \<Rightarrow> [EError (t ''Rollback failed'' (zh [0x56DE, 0x6EDA, 0x5931, 0x8D25])) (message err)]
   | Inr out \<Rightarrow>
       [EInvalidate [KStr ''sandboxes''],
        EInvalidate [KStr ''sandboxes'', KStr (sb_id sb), KStr ''checkpoints''],
        EInvalidate [KStr ''sandboxes'', KStr (sb_id sb), KStr ''events''],
        ESuccess (t ''Rolled back to'' (zh [0x5DF2, 0x56DE, 0x6EDA, 0x5230]) @ '' '' @ tag) None])"













datatype checkpoints_action = InComposer composer_action | InTimeline timeline_action

definition CheckpointsTab :: "composer_action vnode \<Rightarrow> timeline_action vnode \<Rightarrow> checkpoints_action vnode" where
  "CheckpointsTab composer timeline =
     El ''div'' [] [map_actions InComposer composer, map_actions InTimeline timeline]"

section \<open>Facts\<close>

text \<open>The order of the timeline as a key sort.\<close>

definition item_time :: "Item \<Rightarrow> int" where
  "item_time it = (case date_ms (item_at it) of None \<Rightarrow> 0 | Some ms \<Rightarrow> ms)"

lemma timeline_key:
  assumes "\<forall>it \<in> set xs. date_ms (item_at it) \<noteq> None"
  shows "js_sort item_cmp xs = sort_key (\<lambda>it. - of_int (item_time it) :: rat) xs"
  unfolding js_sort_key [symmetric]
  by (rule js_sort_cong) (use assms in \<open>auto simp: item_cmp_def item_time_def split: option.splits\<close>)




definition event_list :: "SandboxEvents option \<Rightarrow> SandboxEvent list" where
  "event_list evs = nullish (case evs of None \<Rightarrow> None | Some es \<Rightarrow> evs_events es) []"

lemma items_eq: "timeline_items cps evs =
  js_sort item_cmp (map CheckpointItem (nullish cps []) @ map EventItem (event_list evs))"
  by (simp add: timeline_items_def event_list_def)

lemma item_times:
  assumes "\<forall>it \<in> set xs. date_ms (item_at it) \<noteq> None"
  shows "filter (\<lambda>it. item_time it = ms) xs = filter (\<lambda>it. date_ms (item_at it) = Some ms) xs"
  by (rule filter_cong [OF refl]) (use assms in \<open>auto simp: item_time_def split: option.splits\<close>)

section \<open>Properties\<close>

text \<open>C31: The timeline loses and invents nothing: its items are exactly the checkpoints and the events.
  When every time stamp parses they run from the newest to the oldest, and among items of the same
  instant the checkpoints come first, each group in the order of the server's answer.\<close>

theorem timeline_complete:
  "mset (timeline_items cps evs) = mset (map CheckpointItem (nullish cps [])) + mset (map EventItem (event_list evs)) \<and>
   ((\<forall>it \<in> set (timeline_items cps evs). date_ms (item_at it) \<noteq> None) \<longrightarrow>
     sorted_wrt (\<lambda>a b. item_time b \<le> item_time a) (timeline_items cps evs) \<and>
     (\<forall>ms. filter (\<lambda>it. date_ms (item_at it) = Some ms) (timeline_items cps evs) =
        map CheckpointItem (filter (\<lambda>cp. date_ms (cp_created_at cp) = Some ms) (nullish cps [])) @
        map EventItem (filter (\<lambda>ev. date_ms (ev_at ev) = Some ms) (event_list evs))))"
proof (intro conjI impI allI)
  let ?xs = "map CheckpointItem (nullish cps []) @ map EventItem (event_list evs)"
  let ?k = "\<lambda>it. - of_int (item_time it) :: rat"
  show "mset (timeline_items cps evs) = mset (map CheckpointItem (nullish cps [])) + mset (map EventItem (event_list evs))"
    unfolding items_eq by simp
  assume d: "\<forall>it \<in> set (timeline_items cps evs). date_ms (item_at it) \<noteq> None"
  then have dx: "\<forall>it \<in> set ?xs. date_ms (item_at it) \<noteq> None" unfolding items_eq js_sort_set .
  note key = timeline_key [OF dx, folded items_eq]
  show "sorted_wrt (\<lambda>a b. item_time b \<le> item_time a) (timeline_items cps evs)"
    using sorted_sort_key [of ?k ?xs] unfolding key sorted_map by simp
  fix ms
  have "filter (\<lambda>it. item_time it = ms) (timeline_items cps evs) = filter (\<lambda>it. item_time it = ms) ?xs"
    using sort_key_stable [of ?k "- of_int ms" ?xs] unfolding key by simp
  then show "filter (\<lambda>it. date_ms (item_at it) = Some ms) (timeline_items cps evs) =
      map CheckpointItem (filter (\<lambda>cp. date_ms (cp_created_at cp) = Some ms) (nullish cps [])) @
      map EventItem (filter (\<lambda>ev. date_ms (ev_at ev) = Some ms) (event_list evs))"
    unfolding item_times [OF d] item_times [OF dx] by (simp add: filter_map comp_def)
qed

theorem timeline_complete_witness:
  "let cp = \<lparr>cp_tag = ''a'', cp_layer = ''l'', cp_seq = 1, cp_created_at = ''2026-01-02T03:04:05Z''\<rparr>
   in timeline_items (Some [cp]) None = [CheckpointItem cp] \<and>
      sorted_wrt (\<lambda>a b. item_time b \<le> item_time a) (timeline_items (Some [cp]) None)"
proof -
  define cp where "cp = \<lparr>cp_tag = ''a'', cp_layer = ''l'', cp_seq = 1, cp_created_at = ''2026-01-02T03:04:05Z''\<rparr>"
  have items: "timeline_items (Some [cp]) None = [CheckpointItem cp]" by (simp add: timeline_items_def js_sort_def)
  moreover have "date_ms (cp_created_at cp) \<noteq> None" unfolding cp_def by code_simp
  ultimately show ?thesis using timeline_complete [of "Some [cp]" None] unfolding cp_def by (simp add: Let_def)
qed










text \<open>The composer runs the line that was typed, and only on a running sandbox: submitting sends one
  exec request exactly when the sandbox runs and the line is not blank; its words are not empty, hold
  no white space and together spell the line; the checkpoint flag is the switch.\<close>

theorem composer_runs_line:
  "(snd (composer_handle sb SubmitCmd st) \<noteq> [] \<longleftrightarrow>
      sb_state sb = RUNNING \<and> (\<exists>c \<in> set (co_cmdline st). \<not> js_space c)) \<and>
   (c \<in> set (snd (composer_handle sb SubmitCmd st)) \<longrightarrow>
      (\<exists>cmd args. c = verb_exec (sb_id sb) cmd args
           (exec_opts0\<lparr>eo_checkpoint := (if co_withCheckpoint st then Some True else None)\<rparr>) \<and>
         (\<forall>w \<in> set (cmd # args). w \<noteq> [] \<and> (\<forall>x \<in> set w. \<not> js_space x)) \<and>
         concat (cmd # args) = filter (\<lambda>x. \<not> js_space x) (co_cmdline st)))"
proof (intro conjI impI)
  have "js_trim (co_cmdline st) \<noteq> [] \<longleftrightarrow> (\<exists>c \<in> set (co_cmdline st). \<not> js_space c)"
    using trim_filter [of "co_cmdline st"] trim_ends [of "co_cmdline st"]
    by (metis (mono_tags, lifting) filter_empty_conv filter.simps(1) hd_in_set)
  then show "snd (composer_handle sb SubmitCmd st) \<noteq> [] \<longleftrightarrow>
      sb_state sb = RUNNING \<and> (\<exists>c \<in> set (co_cmdline st). \<not> js_space c)"
    by (auto simp: composer_handle_def shown_def)
next
  assume "c \<in> set (snd (composer_handle sb SubmitCmd st))"
  then have n: "js_trim (co_cmdline st) \<noteq> []" and c: "c = composer_exec sb st"
    by (auto simp: composer_handle_def split: if_splits)
  obtain cmd args where w: "js_words (js_trim (co_cmdline st)) = cmd # args"
    using words_aux_nonempty by (metis js_words_def neq_Nil_conv)
  have "c = verb_exec (sb_id sb) cmd args (exec_opts0\<lparr>eo_checkpoint := (if co_withCheckpoint st then Some True else None)\<rparr>)"
    by (simp add: c composer_exec_def w exec_opts0_def)
  then show "\<exists>cmd args. c = verb_exec (sb_id sb) cmd args
           (exec_opts0\<lparr>eo_checkpoint := (if co_withCheckpoint st then Some True else None)\<rparr>) \<and>
         (\<forall>w \<in> set (cmd # args). w \<noteq> [] \<and> (\<forall>x \<in> set w. \<not> js_space x)) \<and>
         concat (cmd # args) = filter (\<lambda>x. \<not> js_space x) (co_cmdline st)"
    using command_words [OF n, unfolded w] words_concat [of "co_cmdline st", unfolded w] by blast
qed

theorem composer_runs_line_witness:
  "snd (composer_handle sandbox0 SubmitCmd (composer_init\<lparr>co_cmdline := '' ls -l ''\<rparr>)) \<noteq> []"
proof -
  have "\<not> js_space (CHR ''l'')" by (simp add: js_space_def)
  then show ?thesis
    using composer_runs_line [of sandbox0 "composer_init\<lparr>co_cmdline := '' ls -l ''\<rparr>"]
    by (auto simp: sandbox0_def)
qed

end
