(* ===== verification/ResourcesPanel.thy ===== *)
theory ResourcesPanel
  imports TabKit
begin

text \<open>
  The resources panel of the Overview tab (\<open>ResourcesPanel\<close> in
  \<open>web/src/pages/workspace/OverviewTab.tsx\<close>): resizing, the autoscale switch with its hand-written
  rollback, migrating and retrying, and the checks of \<open>resizeSandbox\<close> in
  \<open>pkg/controlplane/server.go\<close> that answer it.  The numbers of the two inputs are what
  \<open>Number(e.target.value)\<close> gives; fractions typed into the vCPU field are left out.
\<close>

section \<open>Samples over time\<close>

fun series :: "HealthSample list \<Rightarrow> (HealthSample \<Rightarrow> rat option) \<Rightarrow> SeriesPoint list" where
  "series [] pick = []"
| "series (s # ss) pick =
     (if \<not> h_ok (hs_health s) then series ss pick
      else case pick s of
        None \<Rightarrow> series ss pick
      | Some v \<Rightarrow> \<lparr>pt_at = hs_at s, pt_value = v\<rparr> # series ss pick)"

definition memHistory :: "HealthSample list \<Rightarrow> SeriesPoint list" where
  "memHistory samples =
     series samples (\<lambda>s. if truthy_num (h_mem_total_kib (hs_health s))
                        then Some (of_int (nullish (h_mem_total_kib (hs_health s)) 0) / 1024) else None)"

section \<open>State and requests\<close>

record panel_state =
  rp_mem :: int
  rp_cpu :: int
  rp_noCapacity :: bool
  rp_toggleSupported :: bool

text \<open>The state is made when the panel mounts; later answers of the server do not change it.\<close>

definition panel_init :: "Sandbox \<Rightarrow> panel_state" where
  "panel_init sb = \<lparr>rp_mem = sb_memory_mib sb, rp_cpu = sb_vcpus sb, rp_noCapacity = False, rp_toggleSupported = True\<rparr>"

definition panel_base :: "Sandbox \<Rightarrow> int" where
  "panel_base sb = or_num (sb_base_memory_mib sb) (sb_memory_mib sb)"

definition panel_baseCPU :: "Sandbox \<Rightarrow> int" where
  "panel_baseCPU sb = or_num (sb_base_vcpus sb) 1"

definition panel_maxMem :: "Sandbox \<Rightarrow> int" where
  "panel_maxMem sb = nullish (sb_max_memory_mib sb) 0"

definition panel_maxCPU :: "Sandbox \<Rightarrow> int" where
  "panel_maxCPU sb = nullish (sb_max_vcpus sb) 0"

definition resizable :: "Sandbox \<Rightarrow> bool" where
  "resizable sb \<longleftrightarrow> panel_maxMem sb > panel_base sb \<or> panel_maxCPU sb > panel_baseCPU sb"

definition panel_dirty :: "Sandbox \<Rightarrow> panel_state \<Rightarrow> bool" where
  "panel_dirty sb st \<longleftrightarrow> rp_mem st \<noteq> sb_memory_mib sb \<or> rp_cpu st \<noteq> sb_vcpus sb"

definition resize_call :: "Sandbox \<Rightarrow> panel_state \<Rightarrow> api_call" where
  "resize_call sb st =
     verb_resize (sb_id sb) (if rp_mem st \<noteq> sb_memory_mib sb then Some (rp_mem st) else None)
       (if rp_cpu st \<noteq> sb_vcpus sb then Some (rp_cpu st) else None)"

definition resize_opts :: "Sandbox \<Rightarrow> panel_state \<Rightarrow> action_opts" where
  "resize_opts sb st = \<lparr>ao_sandboxId = Some (sb_id sb),
     ao_optimistic = Some (\<lambda>_. no_patch\<lparr>pa_memory_mib := Some (rp_mem st), pa_vcpus := Some (rp_cpu st)\<rparr>)\<rparr>"

definition geometry_text :: "Sandbox \<Rightarrow> string" where
  "geometry_text out = fmtMiB (sb_memory_mib out) @ ('' '' @ zh [0xB7] @ '' '') @ js_num (sb_vcpus out) @ '' vCPU''"

text \<open>\<open>err instanceof ApiError \&\& err.status === 409 \&\& !err.message.includes(...)\<close>.\<close>

definition capacity_error :: "js_error \<Rightarrow> bool" where
  "capacity_error err = (case err of
     ApiError status msg \<Rightarrow> status = 409 \<and> \<not> js_includes msg ''outside resize ceiling''
   | PlatformError _ \<Rightarrow> False)"

definition resize_done :: "TFn \<Rightarrow> js_error + Sandbox \<Rightarrow> panel_state \<Rightarrow> panel_state \<times> tab_effect list" where
  "resize_done t outcome st = (case outcome of
     Inr out \<Rightarrow> (st\<lparr>rp_noCapacity := False\<rparr>, [ESuccess (t ''Resized'' (zh [0x5DF2, 0x8C03, 0x6574])) (Some (geometry_text out))])
   | Inl err \<Rightarrow>
       if capacity_error err then (st\<lparr>rp_noCapacity := True\<rparr>, [])
       else (st, [EError (t ''Resize failed'' (zh [0x8C03, 0x6574, 0x5931, 0x8D25])) (message err)]))"

definition autoscale_opts :: "Sandbox \<Rightarrow> action_opts" where
  "autoscale_opts sb = \<lparr>ao_sandboxId = Some (sb_id sb), ao_optimistic = None\<rparr>"

definition unsupported_error :: "js_error \<Rightarrow> bool" where
  "unsupported_error err = (case err of
     ApiError status msg \<Rightarrow> status = 404 \<or> status = 405
   | PlatformError _ \<Rightarrow> False)"

definition autoscale_done :: "TFn \<Rightarrow> js_error + Sandbox \<Rightarrow> panel_state \<Rightarrow> panel_state \<times> tab_effect list" where
  "autoscale_done t outcome st = (case outcome of
     Inr out \<Rightarrow> (st, [ESuccess
       (if truthy_bool (sb_autoscale out)
        then t (''Autoscale on '' @ zh [0x2014] @ '' grows/shrinks between base and ceiling'') (zh [0x81EA, 0x52A8, 0x4F38, 0x7F29, 0x5DF2, 0x5F00, 0x542F] @ '' '' @ zh [0x2014, 0x2014] @ '' '' @ zh [0x5728, 0x57FA, 0x7840, 0x4E0E, 0x4E0A, 0x9650, 0x4E4B, 0x95F4, 0x81EA, 0x52A8, 0x8C03, 0x6574])
        else t (''Autoscale off '' @ zh [0x2014] @ '' geometry only moves when you resize'') (zh [0x81EA, 0x52A8, 0x4F38, 0x7F29, 0x5DF2, 0x5173, 0x95ED] @ '' '' @ zh [0x2014, 0x2014] @ '' '' @ zh [0x4EC5, 0x624B, 0x52A8, 0x8C03, 0x6574, 0x65F6, 0x6539, 0x53D8, 0x89C4, 0x683C])) None])
   | Inl err \<Rightarrow>
       if unsupported_error err
       then (st\<lparr>rp_toggleSupported := False\<rparr>,
             [EInfo (t ''This server predates the autoscale toggle'' (zh [0x5F53, 0x524D, 0x670D, 0x52A1, 0x7AEF, 0x4E0D, 0x652F, 0x6301, 0x8FD0, 0x884C, 0x65F6, 0x5207, 0x6362, 0x81EA, 0x52A8, 0x4F38, 0x7F29]))])
       else (st, [EError (t ''Autoscale toggle failed'' (zh [0x5207, 0x6362, 0x81EA, 0x52A8, 0x4F38, 0x7F29, 0x5931, 0x8D25])) (message err)]))"

text \<open>The switch patches the detail query before the request and puts the old value back when the
  request fails; between the two runs the mutation itself.  The result is the value of the promise.\<close>

definition flip_patch :: "'q query_client \<Rightarrow> string \<Rightarrow> bool \<Rightarrow> 'q \<Rightarrow> 'q" where
  "flip_patch Q sid on q = (case get_one Q sid q of
     None \<Rightarrow> q
   | Some p \<Rightarrow> qc_set Q (one_key sid) (DSandbox (p\<lparr>sb_autoscale := Some on\<rparr>)) q)"

definition flipAutoscale ::
  "'q query_client \<Rightarrow> Sandbox \<Rightarrow> bool \<Rightarrow> js_error + Sandbox \<Rightarrow> 'q \<Rightarrow> Sandbox option \<times> 'q" where
  "flipAutoscale Q sb on outcome q =
     (let prev = get_one Q (sb_id sb) q;
          q1 = flip_patch Q (sb_id sb) on q;
          q2 = useSandboxAction Q (autoscale_opts sb) outcome q1
      in case outcome of
           Inr out \<Rightarrow> (Some out, q2)
         | Inl err \<Rightarrow> (None, case prev of None \<Rightarrow> q2 | Some p \<Rightarrow> qc_set Q (one_key (sb_id sb)) (DSandbox p) q2))"

text \<open>\<open>Turn off autoscale & apply\<close>: the resize starts only when the switch landed.  The argument
  \<open>resized\<close> is the outcome of the resize request, if it is sent.\<close>

definition turn_off_and_apply ::
  "'q query_client \<Rightarrow> Sandbox \<Rightarrow> panel_state \<Rightarrow> js_error + Sandbox \<Rightarrow> js_error + Sandbox \<Rightarrow> 'q \<Rightarrow> api_call list \<times> 'q" where
  "turn_off_and_apply Q sb st toggled resized q =
     (case flipAutoscale Q sb False toggled q of
        (None, q1) \<Rightarrow> ([verb_setAutoscale (sb_id sb) False], q1)
      | (Some out, q1) \<Rightarrow>
          ([verb_setAutoscale (sb_id sb) False, resize_call sb st], useSandboxAction Q (resize_opts sb st) resized q1))"

text \<open>\<open>migrateRetry\<close>: the migration is awaited before the resize is sent.\<close>

definition migrate_retry :: "Sandbox \<Rightarrow> panel_state \<Rightarrow> js_error + Sandbox \<Rightarrow> api_call list" where
  "migrate_retry sb st migrated = (case migrated of
     Inl _ \<Rightarrow> [verb_migrate (sb_id sb) None]
   | Inr _ \<Rightarrow> [verb_migrate (sb_id sb) None, resize_call sb st])"

definition migrate_retry_done :: "TFn \<Rightarrow> js_error + Sandbox \<Rightarrow> panel_state \<Rightarrow> panel_state \<times> tab_effect list" where
  "migrate_retry_done t outcome st = (case outcome of
     Inr out \<Rightarrow> (st\<lparr>rp_noCapacity := False\<rparr>,
       [ESuccess (t ''Migrated & resized'' (zh [0x5DF2, 0x8FC1, 0x79FB, 0x5E76, 0x8C03, 0x6574])) (Some (geometry_text out)),
        EInvalidate [KStr ''sandboxes''], EInvalidate [KStr ''nodes'']])
   | Inl err \<Rightarrow> (st, [EError (t ''Migrate & retry failed'' (zh [0x8FC1, 0x79FB, 0x91CD, 0x8BD5, 0x5931, 0x8D25])) (message err)]))"

section \<open>The view\<close>

datatype panel_action = SetMem int | SetCPU int | ApplyResize | TurnOffAndApply | FlipAutoscale bool | MigrateRetry

definition panel_update :: "panel_action \<Rightarrow> panel_state \<Rightarrow> panel_state" where
  "panel_update a st = (case a of SetMem v \<Rightarrow> st\<lparr>rp_mem := v\<rparr> | SetCPU v \<Rightarrow> st\<lparr>rp_cpu := v\<rparr> | _ \<Rightarrow> st)"

text \<open>The listener of \<open>embervm:focus-resize\<close>: what it does to the page.\<close>

datatype focus_call = ScrollIntoView | FocusSlider

definition focus_resize :: "bool \<Rightarrow> bool \<Rightarrow> focus_call list" where
  "focus_resize panelMounted sliderMounted =
     shown panelMounted [ScrollIntoView] @ shown sliderMounted [FocusSlider]"

definition fixed_note :: "TFn \<Rightarrow> 'a vnode" where
  "fixed_note t =
     El ''p'' []
       [Txt (t (''Fixed geometry '' @ zh [0x2014] @ '' this sandbox was created with explicit vcpus/memory_mib. Omit them (elastic is the default) or set '')
               (zh [0x56FA, 0x5B9A, 0x89C4, 0x683C] @ '' '' @ zh [0x2014, 0x2014] @ '' '' @ zh [0x8BE5, 0x6C99, 0x7BB1, 0x521B, 0x5EFA, 0x65F6, 0x663E, 0x5F0F, 0x6307, 0x5B9A, 0x4E86] @ '' vcpus/memory_mib'' @ zh [0x3002, 0x7701, 0x7565, 0x5B83, 0x4EEC, 0xFF08, 0x5F39, 0x6027, 0x662F, 0x9ED8, 0x8BA4, 0x884C, 0x4E3A, 0xFF09, 0x6216, 0x8BBE, 0x7F6E] @ '' '')),
        Mono [Txt ''max_memory_mib''] None, Txt '' / '', Mono [Txt ''max_vcpus''] None,
        Txt (t '' to get runtime resize.'' ('' '' @ zh [0x5373, 0x53EF, 0x83B7, 0x5F97, 0x8FD0, 0x884C, 0x65F6, 0x8C03, 0x6574, 0x3002]))]"

definition panel_chart :: "Sandbox \<Rightarrow> HealthSample list \<Rightarrow> TFn \<Rightarrow> chart_props" where
  "panel_chart sb samples t =
     (let base = panel_base sb; maxMem = panel_maxMem sb
      in \<lparr>ch_points = memHistory samples, ch_label = t ''effective memory'' (zh [0x6709, 0x6548, 0x5185, 0x5B58]),
          ch_format = (\<lambda>v. fmtMiB (js_round v)), ch_yMin = Some 0,
          ch_yMax = Some (of_int (max maxMem (sb_memory_mib sb)) * (106 / 100)), ch_color = None,
          ch_trendWords = Some (t ''shrinking'' (zh [0x6536, 0x7F29]), t ''steady'' (zh [0x5E73, 0x7A33]), t ''growing'' (zh [0x589E, 0x957F])),
          ch_refLines = shown (maxMem > base) [(of_int maxMem, ''max '' @ fmtMiB maxMem)] @
                        [(of_int base, ''base '' @ fmtMiB base)]\<rparr>)"

definition size_fields :: "Sandbox \<Rightarrow> panel_state \<Rightarrow> TFn \<Rightarrow> panel_action vnode list" where
  "size_fields sb st t =
     (let base = panel_base sb; maxMem = panel_maxMem sb; maxCPU = panel_maxCPU sb;
          roundHint = (if maxMem > base then slotRoundingHint base (rp_mem st) t else None)
      in shown (maxMem > base)
           [Field (t ''Memory'' (zh [0x5185, 0x5B58]) @ ('' '' @ zh [0xB7] @ '' '') @ fmtMiB base @ ('' '' @ zh [0x2013] @ '' '') @ fmtMiB maxMem)
              (shown_opt roundHint (\<lambda>h. [Txt h]))
              [El ''div'' []
                 [El ''input'' [Attr ''type'' ''range'', Num ''min'' base, Num ''max'' maxMem, Num ''step'' 128,
                    Num ''value'' (rp_mem st), On ''change'' (SetMem (rp_mem st))] [],
                  Mono [Txt (fmtMiB (rp_mem st))] (Some ''w-20 text-right tabular-nums'')]]] @
         shown (maxCPU > 0)
           [Field ((''vCPUs '' @ zh [0xB7] @ '' '') @ js_num (panel_baseCPU sb) @ ('' '' @ zh [0x2013] @ '' '') @ js_num maxCPU) []
              [El ''input'' [Attr ''type'' ''number'', Num ''min'' (panel_baseCPU sb), Num ''max'' maxCPU,
                 Num ''value'' (rp_cpu st), On ''change'' (SetCPU (rp_cpu st))] []]])"

text \<open>Which mutations are under way, and the last error of the resize.\<close>

record panel_pending =
  pp_resize :: bool
  pp_autoscale :: bool
  pp_migrate :: bool
  pp_resizeErr :: "js_error option"

definition panel_buttons :: "Sandbox \<Rightarrow> panel_state \<Rightarrow> panel_pending \<Rightarrow> TFn \<Rightarrow> panel_action vnode list" where
  "panel_buttons sb st p t =
     (let dirty = panel_dirty sb st; stopped = (sb_state sb \<noteq> RUNNING); auto_on = truthy_bool (sb_autoscale sb)
      in [Button (button0\<lparr>bp_kind := Some Primary, bp_onClick := Some ApplyResize, bp_busy := pp_resize p,
                    bp_disabled := \<not> dirty \<or> stopped\<rparr>) [Txt (t ''Apply resize'' (zh [0x5E94, 0x7528, 0x8C03, 0x6574]))]] @
         shown (auto_on \<and> dirty \<and> rp_toggleSupported st)
           [Button (button0\<lparr>bp_onClick := Some TurnOffAndApply, bp_busy := pp_autoscale p, bp_disabled := stopped\<rparr>)
              [Txt (t ''Turn off autoscale & apply'' (zh [0x5173, 0x95ED, 0x81EA, 0x52A8, 0x4F38, 0x7F29, 0x5E76, 0x5E94, 0x7528]))]] @
         shown stopped [El ''span'' [] [Txt (t ''resize needs RUNNING'' (zh [0x8C03, 0x6574, 0x9700, 0x8981] @ '' RUNNING''))]] @
         shown (rp_toggleSupported st \<and> \<not> dirty)
           [Toggle auto_on FlipAutoscale [Txt (t ''Autoscale on guest pressure'' (zh [0x6309] @ '' guest '' @ zh [0x538B, 0x529B, 0x81EA, 0x52A8, 0x4F38, 0x7F29]))]])"

definition capacity_note :: "Sandbox \<Rightarrow> panel_pending \<Rightarrow> TFn \<Rightarrow> panel_action vnode" where
  "capacity_note sb p t =
     El ''div'' []
       [El ''p'' [] [Txt (t ''The node is out of budget for this growth. Your options:'' (zh [0x5F53, 0x524D, 0x8282, 0x70B9, 0x9884, 0x7B97, 0x4E0D, 0x8DB3, 0x4EE5, 0x5B8C, 0x6210, 0x6B64, 0x6B21, 0x6269, 0x5BB9, 0x3002, 0x53EF, 0x9009, 0x9879, 0xFF1A]))],
        El ''div'' []
          [Button (button0\<lparr>bp_kind := Some Primary, bp_onClick := Some MigrateRetry, bp_busy := pp_migrate p\<rparr>)
             [Txt (t ''Migrate & retry (scheduler picks)'' (zh [0x8FC1, 0x79FB, 0x5E76, 0x91CD, 0x8BD5, 0xFF08, 0x8C03, 0x5EA6, 0x5668, 0x9009, 0x70B9, 0xFF09]))],
           El ''a'' [Attr ''href'' (''/sandboxes/'' @ sb_id sb @ ''/settings'')] [Txt (t (''Choose target node'' @ zh [0x2026]) (zh [0x9009, 0x62E9, 0x76EE, 0x6807, 0x8282, 0x70B9, 0x2026]))],
           El ''span'' [] [Txt (t (''or pause/resume '' @ zh [0x2014] @ '' resume re-places on a roomier node'') (zh [0x6216] @ '' '' @ zh [0x6682, 0x505C] @ ''/'' @ zh [0x6062, 0x590D] @ '' '' @ zh [0x2014, 0x2014] @ '' '' @ zh [0x6062, 0x590D, 0x65F6, 0x4F1A, 0x91CD, 0x65B0, 0x653E, 0x7F6E, 0x5230, 0x66F4, 0x5BBD, 0x88D5, 0x7684, 0x8282, 0x70B9]))]]]"

definition ResourcesPanel ::
  "Sandbox \<Rightarrow> panel_state \<Rightarrow> panel_pending \<Rightarrow> HealthSample list \<Rightarrow> (chart_props \<Rightarrow> panel_action vnode) \<Rightarrow> TFn \<Rightarrow>
   panel_action vnode" where
  "ResourcesPanel sb st p samples chart t =
     (if \<not> resizable sb then fixed_note t
      else El ''div'' []
        ([El ''div'' []
            [El ''div'' []
               [MemGauge (sb_state sb) (sb_memory_mib sb) (sb_base_memory_mib sb) (sb_max_memory_mib sb) True,
                CpuGauge (sb_state sb) (sb_vcpus sb) (sb_base_vcpus sb) (sb_max_vcpus sb) True],
             AutoscaleBadge t (truthy_bool (sb_autoscale sb)) False]] @
         shown (sb_state sb = RUNNING \<and> length (memHistory samples) \<ge> 2)
           [El ''div'' [] [El ''div'' [] [Txt (t (''Effective memory '' @ zh [0xB7] @ '' ~10 min'') (zh [0x6709, 0x6548, 0x5185, 0x5B58] @ '' '' @ zh [0xB7] @ '' '' @ zh [0x7EA6] @ '' 10 '' @ zh [0x5206, 0x949F]))], chart (panel_chart sb samples t)]] @
         [El ''div'' [] (size_fields sb st t)] @
         shown (truthy_bool (sb_autoscale sb) \<and> panel_dirty sb st)
           [El ''p'' [] [Txt (t (''Autoscale stays in control: it treats your new size as the current point '' @ zh [0x2014] @ '' it may grow it further under pressure, and shrinks it back toward base within ~5 minutes when idle.'')
              (zh [0x81EA, 0x52A8, 0x4F38, 0x7F29, 0x4ECD, 0x5728, 0x63A5, 0x7BA1, 0xFF1A, 0x5B83, 0x628A, 0x4F60, 0x7684, 0x65B0, 0x89C4, 0x683C, 0x89C6, 0x4E3A, 0x5F53, 0x524D, 0x503C] @ '' '' @ zh [0x2014, 0x2014] @ '' '' @ zh [0x538B, 0x529B, 0x4E0B, 0x53EF, 0x80FD, 0x7EE7, 0x7EED, 0x6269, 0x5BB9, 0xFF0C, 0x7A7A, 0x95F2, 0x7EA6] @ '' 5 '' @ zh [0x5206, 0x949F, 0x540E, 0x4F1A, 0x5411, 0x57FA, 0x7840, 0x89C4, 0x683C, 0x56DE, 0x7F29, 0x3002]))]] @
         [El ''div'' [] (panel_buttons sb st p t)] @
         shown (rp_noCapacity st) [capacity_note sb p t] @
         (if rp_noCapacity st then [] else ErrorNote (pp_resizeErr p))))"

section \<open>The control plane's answer\<close>

text \<open>\<open>resizeSandbox\<close> up to the node agent: a missing member is 0.  The scheduler's verdict on a growth
  (\<open>CanFit\<close>) is a parameter: it fits, the node has no room, or the scheduler failed.\<close>

datatype sched_verdict = Fits | NoCapacity string | SchedError string

definition capacity_reply :: "Sandbox \<Rightarrow> string \<Rightarrow> js_error" where
  "capacity_reply sb txt =
     ApiError 409 (txt @ ('' '' @ zh [0x2014] @ '' pause/resume re-places the sandbox on a roomier node, or POST /v0/sandboxes/'') @ sb_id sb @ ''/migrate'')"

definition sched_reply :: "Sandbox \<Rightarrow> sched_verdict \<Rightarrow> js_error option" where
  "sched_reply sb v = (case v of Fits \<Rightarrow> None | NoCapacity txt \<Rightarrow> Some (capacity_reply sb txt) | SchedError txt \<Rightarrow> Some (ApiError 500 txt))"

definition srv_resize :: "(int \<Rightarrow> int \<Rightarrow> sched_verdict) \<Rightarrow> Sandbox \<Rightarrow> int \<Rightarrow> int \<Rightarrow> js_error option" where
  "srv_resize canFit sb mem cpus =
     (if mem = 0 \<and> cpus = 0 then Some (ApiError 400 ''nothing to resize: set memory_mib and/or vcpus'')
      else if sb_state sb \<noteq> RUNNING then Some (ApiError 409 (''sandbox is '' @ state_text (sb_state sb) @ '', want RUNNING''))
      else if mem \<noteq> 0 \<and> (panel_maxMem sb = 0 \<or> mem < 1 \<or> mem > panel_maxMem sb) then
        Some (ApiError 409 (''memory_mib '' @ js_num mem @ '' outside resize ceiling '' @ js_num (panel_maxMem sb) @
          '' (create the sandbox with max_memory_mib to enable memory resize)''))
      else if cpus \<noteq> 0 \<and> (panel_maxCPU sb = 0 \<or> cpus < 1 \<or> cpus > panel_maxCPU sb) then
        Some (ApiError 409 (''vcpus '' @ js_num cpus @ '' outside resize ceiling '' @ js_num (panel_maxCPU sb) @
          '' (create the sandbox with max_vcpus to enable CPU resize)''))
      else sched_reply sb (canFit (mem - sb_memory_mib sb) (cpus - sb_vcpus sb)))"

text \<open>The numbers of a resize request as the handler reads them.\<close>

definition body_num :: "api_call \<Rightarrow> string \<Rightarrow> int" where
  "body_num c k = (case ac_body c of
     Some (JObj kvs) \<Rightarrow> (case map_of kvs k of Some (JNum n) \<Rightarrow> n | _ \<Rightarrow> 0)
   | _ \<Rightarrow> 0)"

section \<open>Facts\<close>

text \<open>The series keeps the samples that are reachable and picked, in order.\<close>

lemma series_eq: "series ss pick =
  map (\<lambda>s. \<lparr>pt_at = hs_at s, pt_value = the (pick s)\<rparr>) (filter (\<lambda>s. h_ok (hs_health s) \<and> pick s \<noteq> None) ss)"
  by (induction ss) (auto split: option.splits)

lemma body_resize [simp]:
  "body_num (verb_resize sid m v) ''memory_mib'' = nullish m 0"
  "body_num (verb_resize sid m v) ''vcpus'' = nullish v 0"
  by (auto simp: body_num_def verb_resize_def call_def member_def split: option.splits)

lemma includes_infix: "js_includes (a @ p @ b) p"
proof (induction a)
  case Nil
  have "js_startsWith (p @ b) p" by simp
  then show ?case by (cases "p @ b") (auto simp del: js_startsWith_append)
qed simp

lemma includes_ceiling: "js_includes (a @ '' outside resize ceiling '' @ b) ''outside resize ceiling''"
  using includes_infix [of "a @ '' ''" "''outside resize ceiling''" "'' '' @ b"] by simp

lemma state_conflict: "capacity_error (ApiError 409 (''sandbox is '' @ state_text s @ '', want RUNNING''))"
  by (cases s) (simp_all add: capacity_error_def)

lemma srv_in_range:
  assumes "m = 0 \<or> 1 \<le> m \<and> m \<le> panel_maxMem sb" and "v = 0 \<or> 1 \<le> v \<and> v \<le> panel_maxCPU sb" and "m \<noteq> 0 \<or> v \<noteq> 0"
  shows "srv_resize canFit sb m v =
    (if sb_state sb \<noteq> RUNNING then Some (ApiError 409 (''sandbox is '' @ state_text (sb_state sb) @ '', want RUNNING''))
     else sched_reply sb (canFit (m - sb_memory_mib sb) (v - sb_vcpus sb)))"
  using assms by (auto simp: srv_resize_def)

lemma srv_over_ceiling:
  assumes "m = 0 \<or> 1 \<le> m \<and> m \<le> panel_maxMem sb" and "panel_maxCPU sb < v" and "0 < v" and "sb_state sb = RUNNING"
  shows "\<exists>a b. srv_resize canFit sb m v = Some (ApiError 409 (a @ '' outside resize ceiling '' @ b))"
  by (rule exI [of _ "''vcpus '' @ js_num v"],
      rule exI [of _ "js_num (panel_maxCPU sb) @ '' (create the sandbox with max_vcpus to enable CPU resize)''"])
     (use assms in \<open>auto simp: srv_resize_def\<close>)

lemma note_iff: "rp_noCapacity (fst (resize_done t (Inl e) (st\<lparr>rp_noCapacity := False\<rparr>))) \<longleftrightarrow> capacity_error e"
  by (simp add: resize_done_def)

lemma resize_body:
  "body_num (resize_call sb st) ''memory_mib'' = (if rp_mem st \<noteq> sb_memory_mib sb then rp_mem st else 0)"
  "body_num (resize_call sb st) ''vcpus'' = (if rp_cpu st \<noteq> sb_vcpus sb then rp_cpu st else 0)"
  by (simp_all add: resize_call_def)

lemma panel_offers:
  assumes "resizable sb" and "\<And>ps. offer (chart ps) = []"
  shows "offer (ResourcesPanel sb st p samples chart t) =
    shown (panel_maxMem sb > panel_base sb) [SetMem (rp_mem st)] @ shown (panel_maxCPU sb > 0) [SetCPU (rp_cpu st)] @
    shown (panel_dirty sb st \<and> sb_state sb = RUNNING \<and> \<not> pp_resize p) [ApplyResize] @
    shown (truthy_bool (sb_autoscale sb) \<and> panel_dirty sb st \<and> rp_toggleSupported st \<and> sb_state sb = RUNNING \<and> \<not> pp_autoscale p)
      [TurnOffAndApply] @
    shown (rp_toggleSupported st \<and> \<not> panel_dirty sb st) [FlipAutoscale (\<not> truthy_bool (sb_autoscale sb))] @
    shown (rp_noCapacity st \<and> \<not> pp_migrate p) [MigrateRetry]"
proof -
  have fields: "offers (size_fields sb st t) =
      shown (panel_maxMem sb > panel_base sb) [SetMem (rp_mem st)] @ shown (panel_maxCPU sb > 0) [SetCPU (rp_cpu st)]"
    by (simp add: size_fields_def Let_def attr_actions_def)
  have buttons: "offers (panel_buttons sb st p t) =
      shown (panel_dirty sb st \<and> sb_state sb = RUNNING \<and> \<not> pp_resize p) [ApplyResize] @
      shown (truthy_bool (sb_autoscale sb) \<and> panel_dirty sb st \<and> rp_toggleSupported st \<and> sb_state sb = RUNNING \<and> \<not> pp_autoscale p)
        [TurnOffAndApply] @
      shown (rp_toggleSupported st \<and> \<not> panel_dirty sb st) [FlipAutoscale (\<not> truthy_bool (sb_autoscale sb))]"
    by (simp add: panel_buttons_def Let_def shown_def)
  have opens: "offers (shown (rp_noCapacity st) [capacity_note sb p t]) = shown (rp_noCapacity st \<and> \<not> pp_migrate p) [MigrateRetry]"
    by (simp add: capacity_note_def attr_actions_def shown_def)
  show ?thesis
    unfolding ResourcesPanel_def using assms by (simp add: fields buttons opens [simplified])
qed

context query_cache
begin

lemma get_one_set: "get_one Q sid (qc_set Q (one_key sid) (DSandbox p) q) = Some p"
  by (simp add: get_one_def get_set)

lemma get_one_action: "ao_optimistic opts = None \<Longrightarrow> qc_get Q k (useSandboxAction Q opts outcome q) = qc_get Q k q"
  by (auto simp: useSandboxAction_def action_onMutate_def action_onError_def settled_get split: option.splits sum.splits)

lemma flip_failed: "fst (flipAutoscale Q sb on (Inl err) q) = None \<and>
  qc_get Q k (snd (flipAutoscale Q sb on (Inl err) q)) = qc_get Q k q"
  by (auto simp: flipAutoscale_def flip_patch_def Let_def get_set get_one_action autoscale_opts_def get_one_def
      split: option.splits query_data.splits)

lemma flip_landed:
  assumes "get_one Q (sb_id sb) q = Some p"
  shows "fst (flipAutoscale Q sb on (Inr out) q) = Some out \<and>
    get_one Q (sb_id sb) (snd (flipAutoscale Q sb on (Inr out) q)) = Some (p\<lparr>sb_autoscale := Some on\<rparr>)"
proof -
  have "get_one Q sid (useSandboxAction Q (autoscale_opts sb) (Inr out :: js_error + Sandbox) q') = get_one Q sid q'" for q' sid
    by (simp add: get_one_def get_one_action autoscale_opts_def)
  then show ?thesis using assms by (simp add: flipAutoscale_def flip_patch_def Let_def get_one_set)
qed

lemma landed_then_refused:
  assumes "get_one Q (sb_id sb) q = Some p"
  shows "get_one Q (sb_id sb) (snd (turn_off_and_apply Q sb st (Inr out) (Inl err) q)) = Some (p\<lparr>sb_autoscale := Some False\<rparr>)"
proof -
  obtain q1 where q1: "flipAutoscale Q sb False (Inr out) q = (Some out, q1)"
    "get_one Q (sb_id sb) q1 = Some (p\<lparr>sb_autoscale := Some False\<rparr>)"
    using flip_landed [OF assms, of False out] by (metis prod.collapse)
  then show ?thesis
    by (simp add: turn_off_and_apply_def get_one_def failed_action)
qed

end

section \<open>Properties\<close>

text \<open>C17: The autoscale switch is all or nothing.  A failed request leaves every key of the cache as it
  was; one that lands shows the new setting.  \<open>Turn off autoscale & apply\<close> sends the resize only after
  the switch landed, and a resize that is then refused takes back its own patch but not the switch.\<close>

theorem autoscale_switch:
  assumes "query_cache Q"
  shows "qc_get Q k (snd (flipAutoscale Q sb on (Inl err) q)) = qc_get Q k q \<and>
    (get_one Q (sb_id sb) q = Some p \<longrightarrow>
      get_one Q (sb_id sb) (snd (flipAutoscale Q sb on (Inr out) q)) = Some (p\<lparr>sb_autoscale := Some on\<rparr>)) \<and>
    (resize_call sb st \<in> set (fst (turn_off_and_apply Q sb st toggled resized q)) \<longleftrightarrow> (\<exists>out. toggled = Inr out)) \<and>
    (get_one Q (sb_id sb) q = Some p \<longrightarrow>
      get_one Q (sb_id sb) (snd (turn_off_and_apply Q sb st (Inr out) (Inl err) q)) = Some (p\<lparr>sb_autoscale := Some False\<rparr>))"
proof -
  have sent: "resize_call sb st \<in> set (fst (turn_off_and_apply Q sb st toggled resized q)) \<longleftrightarrow> (\<exists>out. toggled = Inr out)"
    by (cases toggled)
       (auto simp: turn_off_and_apply_def flipAutoscale_def Let_def resize_call_def verb_resize_def verb_setAutoscale_def
          call_def sandbox_path_def)
  then show ?thesis
    using query_cache.flip_failed [OF assms] query_cache.flip_landed [OF assms] query_cache.landed_then_refused [OF assms]
    by blast
qed

theorem autoscale_switch_witness:
  "get_one map_client (sb_id sandbox0)
     (snd (flipAutoscale map_client sandbox0 True (Inr sandbox0) ([one_key (sb_id sandbox0) \<mapsto> DSandbox sandbox0], [])))
   = Some (sandbox0\<lparr>sb_autoscale := Some True\<rparr>)"
  using autoscale_switch [OF map_cache.query_cache_axioms, of "[]" sandbox0 True "PlatformError ''x''"
      "([one_key (sb_id sandbox0) \<mapsto> DSandbox sandbox0], [])" sandbox0 sandbox0 "panel_init sandbox0" "Inr sandbox0" "Inr sandbox0"]
  by (simp add: get_one_def map_client_def)

text \<open>C34: What a refused resize tells the user.  Inside the ceilings a refusal of the control plane opens
  the note on the node's capacity exactly when the scheduler found no room, or when the sandbox has left
  RUNNING in the meantime: there the note is wrong, the node was never asked.  And the vCPU field does not keep inside the ceiling: a larger number is sent
  and refused for the ceiling.\<close>

theorem resize_diagnosis:
  assumes "panel_dirty sb st" and "srv = sb\<lparr>sb_state := s\<rparr>"
    and "rp_mem st = sb_memory_mib sb \<or> 1 \<le> rp_mem st \<and> rp_mem st \<le> panel_maxMem sb"
    and "\<And>m v txt. canFit m v = NoCapacity txt \<Longrightarrow> \<not> js_includes (message (capacity_reply sb txt)) ''outside resize ceiling''"
    and "m = body_num (resize_call sb st) ''memory_mib''" and "v = body_num (resize_call sb st) ''vcpus''"
  shows "(rp_cpu st = sb_vcpus sb \<or> 1 \<le> rp_cpu st \<and> rp_cpu st \<le> panel_maxCPU sb \<longrightarrow>
      (\<forall>e. srv_resize canFit srv m v = Some e \<longrightarrow>
         (rp_noCapacity (fst (resize_done t (Inl e) (st\<lparr>rp_noCapacity := False\<rparr>))) \<longleftrightarrow>
          s \<noteq> RUNNING \<or> (\<exists>txt. canFit (m - sb_memory_mib sb) (v - sb_vcpus sb) = NoCapacity txt))) \<and>
      (srv_resize canFit srv m v = None \<longleftrightarrow>
         s = RUNNING \<and> canFit (m - sb_memory_mib sb) (v - sb_vcpus sb) = Fits)) \<and>
    (s = RUNNING \<longrightarrow> rp_cpu st \<noteq> sb_vcpus sb \<longrightarrow> panel_maxCPU sb < rp_cpu st \<longrightarrow> 0 < rp_cpu st \<longrightarrow>
      (\<exists>e. srv_resize canFit srv m v = Some e \<and> \<not> rp_noCapacity (fst (resize_done t (Inl e) (st\<lparr>rp_noCapacity := False\<rparr>)))))"
proof (intro conjI impI)
  have srv: "panel_maxMem srv = panel_maxMem sb" "panel_maxCPU srv = panel_maxCPU sb" "sb_state srv = s"
    "sb_memory_mib srv = sb_memory_mib sb" "sb_vcpus srv = sb_vcpus sb" "capacity_reply srv = capacity_reply sb"
    "sched_reply srv = sched_reply sb"
    by (auto simp: assms(2) panel_maxMem_def panel_maxCPU_def capacity_reply_def sched_reply_def fun_eq_iff split: sched_verdict.splits)
  have mem: "m = 0 \<or> 1 \<le> m \<and> m \<le> panel_maxMem srv" using assms(3) by (auto simp: assms(5) resize_body srv)
  {
    assume cpu: "rp_cpu st = sb_vcpus sb \<or> 1 \<le> rp_cpu st \<and> rp_cpu st \<le> panel_maxCPU sb"
    have v: "v = 0 \<or> 1 \<le> v \<and> v \<le> panel_maxCPU srv" using cpu by (auto simp: assms(6) resize_body srv)
    have some: "m \<noteq> 0 \<or> v \<noteq> 0" using assms(1,3) cpu by (auto simp: assms(5,6) resize_body panel_dirty_def)
    note ans = srv_in_range [OF mem v some, of canFit, unfolded srv]
    have full: "capacity_error (capacity_reply sb z)" if "canFit x y = NoCapacity z" for x y z
      using assms(4) [OF that] by (simp add: capacity_error_def capacity_reply_def)
    show "\<forall>e. srv_resize canFit srv m v = Some e \<longrightarrow>
         (rp_noCapacity (fst (resize_done t (Inl e) (st\<lparr>rp_noCapacity := False\<rparr>))) \<longleftrightarrow>
          s \<noteq> RUNNING \<or> (\<exists>txt. canFit (m - sb_memory_mib sb) (v - sb_vcpus sb) = NoCapacity txt))"
      unfolding ans using full state_conflict
      by (auto simp: note_iff sched_reply_def capacity_error_def split: if_splits sched_verdict.splits)
    show "srv_resize canFit srv m v = None \<longleftrightarrow> s = RUNNING \<and> canFit (m - sb_memory_mib sb) (v - sb_vcpus sb) = Fits"
      unfolding ans by (simp add: sched_reply_def split: sched_verdict.splits)
  }
  assume s: "s = RUNNING" "rp_cpu st \<noteq> sb_vcpus sb" "panel_maxCPU sb < rp_cpu st" "0 < rp_cpu st"
  then obtain a b where "srv_resize canFit srv m v = Some (ApiError 409 (a @ '' outside resize ceiling '' @ b))"
    using srv_over_ceiling [OF mem, of v canFit] by (auto simp: assms(6) resize_body srv)
  then show "\<exists>e. srv_resize canFit srv m v = Some e \<and> \<not> rp_noCapacity (fst (resize_done t (Inl e) (st\<lparr>rp_noCapacity := False\<rparr>)))"
    using includes_ceiling by (auto simp: resize_done_def capacity_error_def)
qed

text \<open>A sandbox with room to grow, for the examples.\<close>

definition elastic0 :: Sandbox where
  "elastic0 = sandbox0\<lparr>sb_memory_mib := 512, sb_vcpus := 1, sb_base_memory_mib := Some 512, sb_base_vcpus := Some 1,
     sb_max_memory_mib := Some 2048, sb_max_vcpus := Some 4\<rparr>"

lemma elastic0_sel [simp]:
  "sb_state elastic0 = RUNNING" "sb_memory_mib elastic0 = 512" "sb_vcpus elastic0 = 1"
  "panel_maxMem elastic0 = 2048" "panel_maxCPU elastic0 = 4" "panel_base elastic0 = 512" "panel_baseCPU elastic0 = 1"
  by (simp_all add: elastic0_def sandbox0_def panel_maxMem_def panel_maxCPU_def panel_base_def panel_baseCPU_def)

theorem resize_diagnosis_witness:
  "rp_noCapacity (fst (resize_done (tr En)
     (Inl (ApiError 409 (''sandbox is '' @ state_text PAUSING @ '', want RUNNING''))) ((panel_init elastic0)\<lparr>rp_mem := 1024\<rparr>)))"
proof -
  let ?st = "(panel_init elastic0)\<lparr>rp_mem := 1024\<rparr>"
  have "srv_resize (\<lambda>_ _. Fits) (elastic0\<lparr>sb_state := PAUSING\<rparr>) (body_num (resize_call elastic0 ?st) ''memory_mib'')
      (body_num (resize_call elastic0 ?st) ''vcpus'') = Some (ApiError 409 (''sandbox is '' @ state_text PAUSING @ '', want RUNNING''))"
    by (simp add: srv_resize_def resize_body panel_init_def)
  then show ?thesis
    using resize_diagnosis [of elastic0 ?st "elastic0\<lparr>sb_state := PAUSING\<rparr>" PAUSING "\<lambda>_ _. Fits", OF _ _ _ _ refl refl, of "tr En"]
    by (simp add: panel_init_def panel_dirty_def)
qed

text \<open>The panel keeps the size it was mounted with.  When the server's view of the sandbox moves (the
  autoscaler grew it, or a migration changed it) an untouched panel counts as edited: the autoscale
  switch disappears, \<open>Apply resize\<close> is offered, and its request is the old size.\<close>

theorem stale_panel:
  assumes "sb_memory_mib sb' \<noteq> sb_memory_mib sb" and "resizable sb'" and "sb_state sb' = RUNNING"
    and "\<And>ps. offer (chart ps) = []" and "\<not> pp_resize p"
    and "as = set (offer (ResourcesPanel sb' (panel_init sb) p samples chart t))"
  shows "ApplyResize \<in> as \<and> FlipAutoscale on \<notin> as \<and>
    body_num (resize_call sb' (panel_init sb)) ''memory_mib'' = sb_memory_mib sb"
proof -
  have "panel_dirty sb' (panel_init sb)" using assms(1) by (simp add: panel_dirty_def panel_init_def)
  with assms(1,3,5) show ?thesis
    unfolding assms(6) panel_offers [OF assms(2,4)] by (simp add: resize_body panel_init_def)
qed

theorem stale_panel_witness:
  "body_num (resize_call (elastic0\<lparr>sb_memory_mib := 768\<rparr>) (panel_init elastic0)) ''memory_mib'' = 512"
  using stale_panel [of "elastic0\<lparr>sb_memory_mib := 768\<rparr>" elastic0 "\<lambda>_. Txt []"
      "\<lparr>pp_resize = False, pp_autoscale = False, pp_migrate = False, pp_resizeErr = None\<rparr>" _ "[]" "tr En" True, OF _ _ _ _ _ refl]
  by (simp add: resizable_def elastic0_def sandbox0_def panel_maxMem_def panel_base_def)

end
