(* ===== verification/OverviewTab.thy ===== *)
theory OverviewTab
  imports ResourcesPanel
begin

text \<open>
  The Overview tab of a sandbox (\<open>web/src/pages/workspace/OverviewTab.tsx\<close>) around the resources
  panel: scaling activity, recent events, live gauges, metadata, storage footprint and the one-shot
  exec form.
\<close>

section \<open>Events\<close>

definition EVENT_ICONS :: "event_icon \<Rightarrow> string" where
  "EVENT_ICONS i = (case i of
     IconGrow \<Rightarrow> (zh [0x2191]) | IconShrink \<Rightarrow> (zh [0x2193]) | IconMigrate \<Rightarrow> (zh [0x21C4]) | IconConfig \<Rightarrow> (zh [0x2699]) | IconDeferred \<Rightarrow> (zh [0x23F3]))"

definition tab_events :: "SandboxEvents option \<Rightarrow> SandboxEvent list" where
  "tab_events data = nullish (case data of None \<Rightarrow> None | Some es \<Rightarrow> evs_events es) []"

definition scaling_rows :: "SandboxEvents option \<Rightarrow> (SandboxEvent \<times> ResourceEventDetail) list" where
  "scaling_rows data =
     js_slice (map (\<lambda>(ev, d). (ev, the d))
       (filter (\<lambda>(ev, d). d \<noteq> None) (map (\<lambda>ev. (ev, parseResourceEvent ev)) (tab_events data)))) 0 6"

datatype overview_action = GoSettings string

definition tone_color :: "event_tone \<Rightarrow> string" where
  "tone_color tone = (if tone = ToneWarn then ''var(--color-warm)'' else ''var(--color-ok)'')"

definition age_cell :: "string \<Rightarrow> TFn \<Rightarrow> int \<Rightarrow> 'a vnode" where
  "age_cell stamp t now = El ''span'' [] [Txt (fmtAge now stamp @ '' '' @ t ''ago'' (zh [0x524D]))]"

definition scaling_row :: "Sandbox \<Rightarrow> TFn \<Rightarrow> int \<Rightarrow> SandboxEvent \<times> ResourceEventDetail \<Rightarrow> overview_action vnode" where
  "scaling_row sb t now r =
     (let ev = fst r; view = describeResourceEvent (snd r) t
      in El ''li'' [Num ''key'' (ev_id ev)]
           ([El ''span'' [Flag ''aria-hidden'' True, Attr ''color'' (tone_color (rv_tone view))] [Txt (EVENT_ICONS (rv_icon view))],
             El ''span'' [] ([Txt (rv_text view)] @
               shown (truthy_str (rv_actor view)) [El ''span'' [] [Txt (nullish (rv_actor view) '''')]])] @
            shown (rv_icon view = IconDeferred)
              [El ''button'' [On ''click'' (GoSettings (''/sandboxes/'' @ sb_id sb @ ''/settings''))] [Txt (t (''migrate '' @ zh [0x2192]) (zh [0x8FC1, 0x79FB] @ '' '' @ zh [0x2192]))]] @
            [age_cell (ev_at ev) t now]))"

definition ScalingActivity :: "Sandbox \<Rightarrow> SandboxEvents option \<Rightarrow> TFn \<Rightarrow> int \<Rightarrow> overview_action vnode" where
  "ScalingActivity sb data t now =
     (let rs = scaling_rows data
      in Card [Txt (t ''Scaling activity'' (zh [0x4F38, 0x7F29, 0x8BB0, 0x5F55]))] [] (Some False)
           [if rs = [] then Empty [Txt (t ''No scaling activity recorded.'' (zh [0x6682, 0x65E0, 0x4F38, 0x7F29, 0x8BB0, 0x5F55, 0x3002]))]
            else El ''ul'' [] (map (scaling_row sb t now) rs)])"

definition recent_row :: "TFn \<Rightarrow> int \<Rightarrow> SandboxEvent \<Rightarrow> 'a vnode" where
  "recent_row t now ev = (case parseResourceEvent ev of
     Some res \<Rightarrow>
       let view = describeResourceEvent res t
       in El ''li'' [Num ''key'' (ev_id ev)]
            [El ''span'' [Flag ''aria-hidden'' True, Attr ''color'' (tone_color (rv_tone view))] [Txt (EVENT_ICONS (rv_icon view))],
             El ''span'' [] ([Txt (rv_text view)] @
               shown (truthy_str (rv_actor view)) [El ''span'' [] [Txt (nullish (rv_actor view) '''')]]),
             age_cell (ev_at ev) t now]
   | None \<Rightarrow>
       El ''li'' [Num ''key'' (ev_id ev)]
         [El ''span'' [Flag ''aria-hidden'' True, Attr ''background'' (me_color (STATE_META (ev_to_state ev)))] [],
          El ''span'' [] ([Txt (stateLabel (ev_to_state ev) t)] @
            shown_opt (ev_from_state ev) (\<lambda>s. [El ''span'' [] [Txt (t ''from'' (zh [0x6765, 0x81EA]) @ '' '' @ state_text s)]])),
          age_cell (ev_at ev) t now])"

definition RecentEvents :: "Sandbox \<Rightarrow> SandboxEvents option \<Rightarrow> TFn \<Rightarrow> int \<Rightarrow> 'a vnode" where
  "RecentEvents sb data t now =
     (let evs = js_slice (tab_events data) 0 5
      in Card [Txt (t ''Recent events'' (zh [0x8FD1, 0x671F, 0x4E8B, 0x4EF6]))]
           [El ''a'' [Attr ''href'' (''/sandboxes/'' @ sb_id sb @ ''/checkpoints'')] [Txt (t (''full timeline '' @ zh [0x2192]) (zh [0x5B8C, 0x6574, 0x65F6, 0x95F4, 0x7EBF] @ '' '' @ zh [0x2192]))]] (Some False)
           [if evs = [] then Empty [Txt (t ''No transitions recorded yet.'' (zh [0x6682, 0x65E0, 0x72B6, 0x6001, 0x8F6C, 0x6362, 0x8BB0, 0x5F55, 0x3002]))]
            else El ''ul'' [] (map (recent_row t now) evs)])"

section \<open>Live gauges\<close>

definition mem_pick :: "HealthSample \<Rightarrow> rat option" where
  "mem_pick s =
     (let h = hs_health s
      in if truthy_num (h_mem_total_kib h)
         then Some (1 - of_int (nullish (h_mem_available_kib h) 0) / of_int (nullish (h_mem_total_kib h) 0)) else None)"

definition psi_mem_pick :: "HealthSample \<Rightarrow> rat option" where
  "psi_mem_pick s = Some (nullish (h_psi_mem_some10 (hs_health s)) 0)"

definition psi_cpu_pick :: "HealthSample \<Rightarrow> rat option" where
  "psi_cpu_pick s = Some (nullish (h_psi_cpu_some10 (hs_health s)) 0)"

text \<open>\<open>Math.max(10, ...psiMem, ...psiCPU)\<close>.\<close>

definition psiMax :: "HealthSample list \<Rightarrow> rat" where
  "psiMax samples = list_max (10 # map pt_value (series samples psi_mem_pick) @ map pt_value (series samples psi_cpu_pick))"

definition GaugeCard :: "string \<Rightarrow> string \<Rightarrow> string option \<Rightarrow> 'a vnode list \<Rightarrow> 'a vnode" where
  "GaugeCard title value sub children =
     El ''div'' []
       ([El ''div'' [] [El ''div'' [] [Txt title], El ''div'' [] [Txt value]], El ''div'' [] children] @
        shown (truthy_str sub) [El ''div'' [] [Txt (nullish sub '''')]])"

definition mem_chart :: "HealthSample list \<Rightarrow> TFn \<Rightarrow> chart_props" where
  "mem_chart samples t =
     \<lparr>ch_points = series samples mem_pick, ch_label = t ''memory used'' (zh [0x5185, 0x5B58, 0x5360, 0x7528]), ch_format = fmtPct,
      ch_yMin = Some 0, ch_yMax = Some 1, ch_color = None, ch_trendWords = None, ch_refLines = []\<rparr>"

definition psi_chart :: "HealthSample list \<Rightarrow> (HealthSample \<Rightarrow> rat option) \<Rightarrow> string \<Rightarrow> TFn \<Rightarrow> chart_props" where
  "psi_chart samples pick name t =
     \<lparr>ch_points = series samples pick, ch_label = name, ch_format = (\<lambda>v. toFixed v 1),
      ch_yMin = Some 0, ch_yMax = Some (psiMax samples), ch_color = None,
      ch_trendWords = Some (t ''easing'' (zh [0x56DE, 0x843D]), t ''steady'' (zh [0x5E73, 0x7A33]), t ''climbing'' (zh [0x6500, 0x5347])), ch_refLines = []\<rparr>"

text \<open>An absent \<open>seq\<close> prints as \<open>undefined\<close>.\<close>

definition mem_sub :: "HealthSeries \<Rightarrow> TFn \<Rightarrow> string" where
  "mem_sub hs t = (case map_option hs_health (hv_latest hs) of
     Some h \<Rightarrow>
       if truthy_num (h_mem_total_kib h) then
         fmtKiB (nullish (h_mem_total_kib h) 0 - nullish (h_mem_available_kib h) 0) @ '' '' @ t ''of'' ''/'' @ '' '' @
         fmtKiB (nullish (h_mem_total_kib h) 0)
       else if hv_unreachable hs then t ''guest unreachable'' (''guest '' @ zh [0x4E0D, 0x53EF, 0x8FBE]) else t ''waiting for first sample'' (zh [0x7B49, 0x5F85, 0x9996, 0x4E2A, 0x91C7, 0x6837])
   | None \<Rightarrow>
       if hv_unreachable hs then t ''guest unreachable'' (''guest '' @ zh [0x4E0D, 0x53EF, 0x8FBE]) else t ''waiting for first sample'' (zh [0x7B49, 0x5F85, 0x9996, 0x4E2A, 0x91C7, 0x6837]))"

definition Gauges :: "Sandbox \<Rightarrow> HealthSeries \<Rightarrow> (chart_props \<Rightarrow> 'a vnode) \<Rightarrow> TFn \<Rightarrow> 'a vnode" where
  "Gauges sb hs chart t =
     (if sb_state sb \<noteq> RUNNING then
        Card [Txt (t ''Live guest telemetry'' (zh [0x5B9E, 0x65F6] @ '' guest '' @ zh [0x9065, 0x6D4B]))] [] None
          [Empty [Txt (t (''Gauges resume with the sandbox '' @ zh [0x2014] @ '' the guest is not running.'') (zh [0x4EEA, 0x8868, 0x968F, 0x6C99, 0x7BB1, 0x6062, 0x590D] @ '' '' @ zh [0x2014, 0x2014] @ '' guest '' @ zh [0x672A, 0x5728, 0x8FD0, 0x884C, 0x3002]))]]
      else
        let h = map_option hs_health (hv_latest hs); samples = hv_samples hs
        in El ''div'' []
             [GaugeCard (t ''Memory used'' (zh [0x5185, 0x5B58, 0x5360, 0x7528]))
                (case h of Some x \<Rightarrow> if truthy_num (h_mem_total_kib x)
                    then fmtPct (1 - of_int (nullish (h_mem_available_kib x) 0) / of_int (nullish (h_mem_total_kib x) 0)) else (zh [0x2014])
                 | None \<Rightarrow> (zh [0x2014]))
                (Some (mem_sub hs t)) [chart (mem_chart samples t)],
              GaugeCard (t ''Memory pressure'' (zh [0x5185, 0x5B58, 0x538B, 0x529B]))
                (case h of Some x \<Rightarrow> toFixed (nullish (h_psi_mem_some10 x) 0) 1 | None \<Rightarrow> (zh [0x2014]))
                (Some (t (''PSI some avg10 '' @ zh [0x2014] @ '' what autoscale watches'') (''PSI some avg10 '' @ zh [0x2014, 0x2014] @ '' '' @ zh [0x81EA, 0x52A8, 0x4F38, 0x7F29, 0x7684, 0x89C2, 0x6D4B, 0x6307, 0x6807])))
                [chart (psi_chart samples psi_mem_pick (t ''memory pressure'' (zh [0x5185, 0x5B58, 0x538B, 0x529B])) t)],
              GaugeCard (t ''CPU pressure'' (''CPU '' @ zh [0x538B, 0x529B]))
                (case h of Some x \<Rightarrow> toFixed (nullish (h_psi_cpu_some10 x) 0) 1 | None \<Rightarrow> (zh [0x2014]))
                (case h of Some x \<Rightarrow> map_option (\<lambda>r. js_num r @ '' '' @ t ''resumes'' (zh [0x6062, 0x590D, 0x6B21, 0x6570]) @ ('' '' @ zh [0xB7] @ '' seq '') @
                     (case h_seq x of None \<Rightarrow> ''undefined'' | Some n \<Rightarrow> js_num n)) (h_resumes x)
                 | None \<Rightarrow> None)
                [chart (psi_chart samples psi_cpu_pick (t ''cpu pressure'' (''CPU '' @ zh [0x538B, 0x529B])) t)]])"

section \<open>Metadata and storage\<close>

definition fact_grid :: "(string \<times> string) list \<Rightarrow> 'a vnode" where
  "fact_grid rs = El ''dl'' [] (map (\<lambda>(k, v). El ''div'' [Attr ''key'' k] [El ''dt'' [] [Txt k], El ''dd'' [] [Txt v]]) rs)"

definition meta_rows :: "Sandbox \<Rightarrow> TFn \<Rightarrow> int \<Rightarrow> (string \<times> string) list" where
  "meta_rows sb t now =
     [(t ''node'' (zh [0x8282, 0x70B9]), or_str (sb_node_id sb) (zh [0x2014])),
      (t ''template'' (zh [0x6A21, 0x677F]), js_slice (sb_template_id sb) 0 8),
      (t ''disk'' (zh [0x78C1, 0x76D8]), js_num (sb_data_disk_gib sb) @ '' GiB''),
      (''vcpus'', js_num (sb_vcpus sb) @ (if truthy_num (sb_max_vcpus sb) then '' / '' @ js_num (nullish (sb_max_vcpus sb) 0) else '''')),
      (t ''age'' (zh [0x521B, 0x5EFA, 0x65F6, 0x957F]), fmtAge now (sb_created_at sb)),
      (t ''updated'' (zh [0x66F4, 0x65B0, 0x4E8E]), fmtAge now (sb_updated_at sb) @ '' '' @ t ''ago'' (zh [0x524D]))] @
     shown (truthy_str (sb_paused_at sb))
       [(t ''paused'' (zh [0x6682, 0x505C, 0x4E8E]), fmtAge now (nullish (sb_paused_at sb) '''') @ '' '' @ t ''ago'' (zh [0x524D]))] @
     shown (truthy_bool (sb_autoscale sb)) [(t ''autoscale'' (zh [0x81EA, 0x52A8, 0x4F38, 0x7F29]), t ''on'' (zh [0x5F00, 0x542F]))]"

definition MetaGrid :: "Sandbox \<Rightarrow> TFn \<Rightarrow> int \<Rightarrow> 'a vnode" where
  "MetaGrid sb t now =
     El ''div'' []
       ([fact_grid (meta_rows sb t now)] @
        shown (truthy_str (sb_forked_from sb))
          [El ''p'' [] [Txt (t ''forked from'' (zh [0x6D3E, 0x751F, 0x81EA]) @ '' ''),
             El ''a'' [Attr ''href'' (''/sandboxes/'' @ nullish (sb_parent_id sb) '''')] [Txt (nullish (sb_forked_from sb) '''')]]] @
        (if truthy_str (sb_error sb) then ErrorNote (Some (PlatformError (nullish (sb_error sb) ''''))) else []))"

definition tier_text :: "Tier \<Rightarrow> string" where
  "tier_text tier = (case tier of
     TierHot \<Rightarrow> ''hot'' | TierWarm \<Rightarrow> ''warm'' | TierCold \<Rightarrow> ''cold'' | TierRecycled \<Rightarrow> ''recycled'' | TierNone \<Rightarrow> ''none'')"

definition StorageCard :: "StorageReport option \<Rightarrow> TFn \<Rightarrow> 'a vnode" where
  "StorageCard data t = (case data of
     None \<Rightarrow> Empty [Txt (t (''Loading'' @ zh [0x2026]) (zh [0x52A0, 0x8F7D, 0x4E2D, 0x2026]))]
   | Some d \<Rightarrow> fact_grid
       [(''tier'', tier_text (sr_tier d)), (''logical'', fmtBytes (sr_logical_bytes d)), (''stored'', fmtBytes (sr_stored_bytes d)),
        (''stored / logical'', if sr_logical_bytes d > 0 then toFixed (sr_stored_ratio d * 100) 1 @ ''%'' else (zh [0x2014])),
        (''chunks'', js_num (sr_chunk_count d)), (''layers'', js_num (sr_layers d))])"

section \<open>One-shot exec\<close>

record exec_state =
  xs_cmdline :: string
  xs_result :: "ExecResponse option"

definition exec_init :: exec_state where
  "exec_init = \<lparr>xs_cmdline = '''', xs_result = None\<rparr>"

datatype exec_action = ExecChange string | ExecSubmit

definition exec_call :: "Sandbox \<Rightarrow> exec_state \<Rightarrow> api_call" where
  "exec_call sb st =
     (let ws = js_words (js_trim (xs_cmdline st)) in verb_exec (sb_id sb) (hd ws) (tl ws) exec_opts0)"

definition exec_handle :: "Sandbox \<Rightarrow> exec_action \<Rightarrow> exec_state \<Rightarrow> exec_state \<times> api_call list" where
  "exec_handle sb a st = (case a of
     ExecChange v \<Rightarrow> (st\<lparr>xs_cmdline := v\<rparr>, [])
   | ExecSubmit \<Rightarrow> (st, shown (js_trim (xs_cmdline st) \<noteq> []) [exec_call sb st]))"

definition exec_done :: "js_error + ExecResponse \<Rightarrow> exec_state \<Rightarrow> exec_state" where
  "exec_done outcome st = (case outcome of Inl _ \<Rightarrow> st | Inr out \<Rightarrow> st\<lparr>xs_result := Some out\<rparr>)"

definition exec_result :: "ExecResponse \<Rightarrow> TFn \<Rightarrow> 'a vnode" where
  "exec_result r t =
     El ''div'' []
       ([El ''div'' []
           ([Txt ''exit '',
             El ''span'' [Attr ''class'' (if ex_exit_code r = 0 then ''text-ok'' else ''text-danger'')] [Txt (js_num (ex_exit_code r))],
             Txt ('' '' @ zh [0xB7] @ '' ''), Txt (js_num (ex_duration_ms r) @ ''ms'')] @
            shown (truthy_bool (ex_timed_out r)) [El ''span'' [] [Txt (t ('' '' @ zh [0xB7] @ '' timed out'') ('' '' @ zh [0xB7] @ '' '' @ zh [0x5DF2, 0x8D85, 0x65F6]))]] @
            shown (truthy_bool (ex_truncated r)) [El ''span'' [] [Txt (t ('' '' @ zh [0xB7] @ '' truncated'') ('' '' @ zh [0xB7] @ '' '' @ zh [0x5DF2, 0x622A, 0x65AD]))]]),
         El ''pre'' []
           (if decodeBytes (ex_stdout r) \<noteq> [] then [Txt (decodeBytes (ex_stdout r))]
            else [El ''span'' [] [Txt (t ''(no stdout)'' (zh [0xFF08, 0x65E0, 0x6807, 0x51C6, 0x8F93, 0x51FA, 0xFF09]))]])] @
        shown (truthy_str (ex_stderr r)) [El ''pre'' [] [Txt (decodeBytes (ex_stderr r))]])"

definition ExecPanel :: "Sandbox \<Rightarrow> exec_state \<Rightarrow> bool \<Rightarrow> js_error option \<Rightarrow> TFn \<Rightarrow> exec_action vnode" where
  "ExecPanel sb st pending err t =
     El ''div'' []
       ([El ''form'' [On ''submit'' ExecSubmit]
           [El ''input'' [Attr ''value'' (xs_cmdline st), Attr ''placeholder'' ''uname -a'',
               Attr ''aria-label'' (t ''Command'' (zh [0x547D, 0x4EE4])), On ''change'' (ExecChange (xs_cmdline st))] [],
            Button (button0\<lparr>bp_kind := Some Primary, bp_submit := True, bp_busy := pending,
                      bp_disabled := (sb_state sb \<noteq> RUNNING)\<rparr>) [Txt (t ''Run'' (zh [0x8FD0, 0x884C]))]],
         El ''p'' [] [Txt (t (''Buffered request/response '' @ zh [0x2014] @ '' for a live shell use the Terminal tab.'') (zh [0x7F13, 0x51B2, 0x5F0F, 0x8BF7, 0x6C42] @ ''/'' @ zh [0x54CD, 0x5E94] @ '' '' @ zh [0x2014, 0x2014] @ '' '' @ zh [0x9700, 0x8981, 0x4EA4, 0x4E92, 0x5F0F] @ '' shell '' @ zh [0x8BF7, 0x7528, 0x300C, 0x7EC8, 0x7AEF, 0x300D, 0x6807, 0x7B7E, 0x3002]))]] @
        ErrorNote err @
        shown_opt (xs_result st) (\<lambda>r. [exec_result r t]))"

section \<open>The tab\<close>

datatype tab_action = InPanel panel_action | InScaling overview_action | InExec exec_action

definition OverviewTab ::
  "tab_action vnode \<Rightarrow> panel_action vnode \<Rightarrow> tab_action vnode \<Rightarrow> overview_action vnode \<Rightarrow> tab_action vnode \<Rightarrow>
   exec_action vnode \<Rightarrow> tab_action vnode \<Rightarrow> TFn \<Rightarrow> tab_action vnode" where
  "OverviewTab gauges panel metagrid scaling storage execp recent t =
     El ''div'' []
       [gauges,
        El ''div'' []
          [Card [Txt (t ''Resources'' (zh [0x8D44, 0x6E90]))] [] None [map_actions InPanel panel],
           El ''div'' [] [Card [Txt (t ''About'' (zh [0x5173, 0x4E8E]))] [] None [metagrid], map_actions InScaling scaling]],
        El ''div'' []
          [Card [Txt (t ''Storage'' (zh [0x5B58, 0x50A8]))] [] None [storage],
           Card [Txt (t ''One-shot exec'' (zh [0x4E00, 0x6B21, 0x6027, 0x6267, 0x884C]))] [] None [map_actions InExec execp]],
        recent]"

section \<open>Facts\<close>

text \<open>The two pressure charts share a scale that holds every point.\<close>

lemma psi_in_scale:
  assumes "p \<in> set (series samples psi_mem_pick) \<or> p \<in> set (series samples psi_cpu_pick)"
  shows "pt_value p \<le> psiMax samples \<and> 10 \<le> psiMax samples"
proof -
  let ?vs = "10 # map pt_value (series samples psi_mem_pick) @ map pt_value (series samples psi_cpu_pick)"
  have "pt_value p \<in> set ?vs" and "(10 :: rat) \<in> set ?vs" using assms by auto
  then show ?thesis unfolding psiMax_def by (blast dest: list_min_max)
qed

lemma series_points: "map pt_at (series samples psi_mem_pick) = map hs_at (filter (\<lambda>s. h_ok (hs_health s)) samples)"
  by (simp add: series_eq psi_mem_pick_def)

text \<open>At most six rows, each of an event the parser accepts, in the order of the answer.\<close>

lemma scaling_rows_parsed:
  "length (scaling_rows data) \<le> 6 \<and> (r \<in> set (scaling_rows data) \<longrightarrow> parseResourceEvent (fst r) = Some (snd r))"
proof
  show "length (scaling_rows data) \<le> 6" unfolding scaling_rows_def using js_slice_length_le [of 6] by simp
  have "set (scaling_rows data) \<subseteq> set (map (\<lambda>(ev, d). (ev, the d))
       (filter (\<lambda>(ev, d). d \<noteq> None) (map (\<lambda>ev. (ev, parseResourceEvent ev)) (tab_events data))))"
    unfolding scaling_rows_def by (simp only: js_slice_take set_take_subset)
  then show "r \<in> set (scaling_rows data) \<longrightarrow> parseResourceEvent (fst r) = Some (snd r)"
    by (auto dest!: subsetD [of _ _ r] simp: eq_commute [of "Some _"])
qed

end
