(* ===== verification/TerminalTab.thy ===== *)
theory TerminalTab
  imports TabKit
begin

text \<open>
  The Terminal tab (\<open>web/src/pages/workspace/TerminalTab.tsx\<close>): the session strip over the terminal
  manager, and the mounting of a session's container.  The size a new xterm starts with is a pair of
  parameters, as in \<open>Term\<close>.
\<close>

definition STATUS_COLOR :: "SessionStatus \<Rightarrow> string" where
  "STATUS_COLOR s = (case s of
     Connecting \<Rightarrow> ''var(--color-transit)'' | Open \<Rightarrow> ''var(--color-ok)'' | Reconnecting \<Rightarrow> ''var(--color-transit)''
   | Closed \<Rightarrow> ''var(--color-idle)'')"

section \<open>The strip\<close>

text \<open>The state is the id of the chosen session beside the state of the manager.\<close>

type_synonym terminal_state = "string option \<times> term_state"

text \<open>The hook reads the snapshot of the manager's store, an empty list before the first one.\<close>

definition useTermSessions :: "string \<Rightarrow> term_state \<Rightarrow> TermSession list" where
  "useTermSessions sandboxId s = nullish (tm_snapshots s sandboxId) []"

lemma useTermSessions_eq [simp]: "useTermSessions sid s = sessionsOf sid s"
  by (simp add: useTermSessions_def sessionsOf_def)

definition terminal_active :: "string option \<Rightarrow> TermSession list \<Rightarrow> TermSession option" where
  "terminal_active activeID ss =
     (case find (\<lambda>s. Some (ss_id s) = activeID) ss of
        Some s \<Rightarrow> Some s
      | None \<Rightarrow> if ss = [] then None else Some (last ss))"

text \<open>\<open>const s = TermManager.open(sb.id); if (s) setActiveID(s.id);\<close>\<close>

definition terminal_open :: "Sandbox \<Rightarrow> int \<Rightarrow> int \<Rightarrow> terminal_state \<Rightarrow> terminal_state" where
  "terminal_open sb cols rws st =
     (case open_session (sb_id sb) cols rws (snd st) of
        (None, s) \<Rightarrow> (fst st, s)
      | (Some a, s) \<Rightarrow> (Some (ss_id (in_session (obj s a))), s))"

text \<open>The body of the effect.\<close>

definition terminal_effect :: "Sandbox \<Rightarrow> int \<Rightarrow> int \<Rightarrow> terminal_state \<Rightarrow> terminal_state" where
  "terminal_effect sb cols rws st =
     (if sb_state sb = RUNNING \<and> useTermSessions (sb_id sb) (snd st) = [] then terminal_open sb cols rws st else st)"

datatype terminal_action = Choose string | CloseIt string | NewSession | RestartIt string

definition terminal_handle :: "Sandbox \<Rightarrow> int \<Rightarrow> int \<Rightarrow> terminal_action \<Rightarrow> terminal_state \<Rightarrow> terminal_state" where
  "terminal_handle sb cols rws a st = (case a of
     Choose x \<Rightarrow> (Some x, snd st)
   | CloseIt x \<Rightarrow> (if fst st = Some x then None else fst st, close_session (sb_id sb) x (snd st))
   | NewSession \<Rightarrow> terminal_open sb cols rws st
   | RestartIt x \<Rightarrow> (fst st, restart (sb_id sb) x (snd st)))"

definition session_tab :: "TermSession option \<Rightarrow> TFn \<Rightarrow> TermSession \<Rightarrow> terminal_action vnode" where
  "session_tab active t s =
     El ''div'' [Attr ''key'' (ss_id s),
         Attr ''class'' (if Some (ss_id s) = map_option ss_id active then ''bg-raised text-ink'' else ''text-muted hover:bg-raised/60'')]
       [El ''button'' [On ''click'' (Choose (ss_id s))]
          ([El ''span'' [Flag ''aria-hidden'' True, Attr ''background'' (STATUS_COLOR (ss_status s))] [],
            El ''span'' [] [Txt (ss_title s)]] @
           shown (ss_status s = Reconnecting) [El ''span'' [] [Txt (t (''reconnecting'' @ zh [0x2026]) (zh [0x91CD, 0x8FDE, 0x4E2D, 0x2026]))]]),
        El ''button'' [Attr ''aria-label'' (t ''Close'' (zh [0x5173, 0x95ED]) @ '' '' @ ss_title s), On ''click'' (CloseIt (ss_id s))]
          [Icon ''IconClose'' (Some 11)]]"

definition exited_note :: "TermSession \<Rightarrow> bool \<Rightarrow> TFn \<Rightarrow> terminal_action vnode" where
  "exited_note s running t =
     El ''div'' [] [El ''div'' []
       [Txt (t ''process exited'' (zh [0x8FDB, 0x7A0B, 0x5DF2, 0x9000, 0x51FA])),
        Txt (case ss_exitCode s of None \<Rightarrow> '''' | Some c \<Rightarrow> '' ('' @ js_num c @ '')''),
        sm_button (RestartIt (ss_id s)) False (\<not> running) None [Txt (t ''Restart session'' (zh [0x91CD, 0x542F, 0x4F1A, 0x8BDD]))]]]"

definition TerminalTab :: "Sandbox \<Rightarrow> terminal_state \<Rightarrow> TFn \<Rightarrow> terminal_action vnode" where
  "TerminalTab sb st t =
     (let ss = useTermSessions (sb_id sb) (snd st); active = terminal_active (fst st) ss; running = (sb_state sb = RUNNING)
      in if \<not> running \<and> ss = [] then
           Empty [El ''div'' []
             [Icon ''IconTerminal'' (Some 22),
              El ''p'' [] [Txt (t ''The interactive shell needs a running guest.'' (zh [0x4EA4, 0x4E92, 0x5F0F] @ '' shell '' @ zh [0x9700, 0x8981, 0x8FD0, 0x884C, 0x4E2D, 0x7684] @ '' guest'' @ zh [0x3002]))],
              El ''p'' [] [Txt (t ''Resume the sandbox from the header to open a terminal.'' (zh [0x4ECE, 0x9876, 0x90E8, 0x6062, 0x590D, 0x6C99, 0x7BB1, 0x5373, 0x53EF, 0x6253, 0x5F00, 0x7EC8, 0x7AEF, 0x3002]))]]]
         else El ''div'' []
           [El ''div'' []
              (map (session_tab active t) ss @
               Tip (Some [Txt (if running then t ''New shell session'' (zh [0x65B0, 0x5EFA] @ '' shell '' @ zh [0x4F1A, 0x8BDD]) else t ''Needs a running guest'' (zh [0x9700, 0x8981, 0x8FD0, 0x884C, 0x4E2D, 0x7684] @ '' guest''))]) None False
                 [El ''button'' [Attr ''aria-label'' (t ''New session'' (zh [0x65B0, 0x5EFA, 0x4F1A, 0x8BDD])), Flag ''disabled'' (\<not> running), On ''click'' NewSession]
                    [Icon ''IconPlus'' (Some 13)]]),
            El ''div'' []
              ([case active of
                  Some s \<Rightarrow> El ''TermMount'' [Attr ''key'' (ss_id s)] []
                | None \<Rightarrow> Empty [Txt (t (''No open sessions '' @ zh [0x2014] @ '' start one with the + button.'') (zh [0x6682, 0x65E0, 0x4F1A, 0x8BDD] @ '' '' @ zh [0x2014, 0x2014] @ '' '' @ zh [0x7528] @ '' + '' @ zh [0x6309, 0x94AE, 0x65B0, 0x5EFA, 0x3002]))]] @
               shown_opt active (\<lambda>s. shown (ss_status s = Closed) [exited_note s running t]))])"

section \<open>The mounted tab\<close>

text \<open>React keeps the dependency list of the effect's last run and runs the effect after a render whose
  list differs from it, and after the first render.  The manager's store is read with
  \<open>useSyncExternalStore\<close>, so that the session the effect opens is rendered at once: an event is followed
  by two renders, and \<open>settled\<close> below shows that a third one changes nothing.\<close>

type_synonym effect_deps = "bool \<times> nat \<times> string"

record terminal_tab =
  tt_sb :: Sandbox
  tt_state :: terminal_state
  tt_deps :: "effect_deps option"

definition terminal_deps :: "terminal_tab \<Rightarrow> effect_deps" where
  "terminal_deps tb =
     (sb_state (tt_sb tb) = RUNNING, length (useTermSessions (sb_id (tt_sb tb)) (snd (tt_state tb))), sb_id (tt_sb tb))"

definition terminal_render :: "int \<Rightarrow> int \<Rightarrow> terminal_tab \<Rightarrow> terminal_tab" where
  "terminal_render cols rws tb =
     (if tt_deps tb = Some (terminal_deps tb) then tb
      else tb\<lparr>tt_deps := Some (terminal_deps tb), tt_state := terminal_effect (tt_sb tb) cols rws (tt_state tb)\<rparr>)"

definition terminal_settle :: "int \<Rightarrow> int \<Rightarrow> terminal_tab \<Rightarrow> terminal_tab" where
  "terminal_settle cols rws tb = terminal_render cols rws (terminal_render cols rws tb)"

definition terminal_mount :: "int \<Rightarrow> int \<Rightarrow> Sandbox \<Rightarrow> term_state \<Rightarrow> terminal_tab" where
  "terminal_mount cols rws sb s = terminal_settle cols rws \<lparr>tt_sb = sb, tt_state = (None, s), tt_deps = None\<rparr>"

text \<open>What happens to a mounted tab: a click, a new sandbox from the query, or a turn of the manager that
  something else caused (a socket, a timer, another page's dispose).\<close>

datatype terminal_tab_event = TabClick terminal_action | TabSandbox Sandbox | TabTerm term_event

fun terminal_react :: "int \<Rightarrow> int \<Rightarrow> terminal_tab \<Rightarrow> terminal_tab_event \<Rightarrow> terminal_tab" where
  "terminal_react cols rws tb (TabClick a) = tb\<lparr>tt_state := terminal_handle (tt_sb tb) cols rws a (tt_state tb)\<rparr>"
| "terminal_react cols rws tb (TabSandbox sb) = tb\<lparr>tt_sb := sb\<rparr>"
| "terminal_react cols rws tb (TabTerm e) = tb\<lparr>tt_state := (fst (tt_state tb), term_handle (snd (tt_state tb)) e)\<rparr>"

definition terminal_step :: "int \<Rightarrow> int \<Rightarrow> terminal_tab \<Rightarrow> terminal_tab_event \<Rightarrow> terminal_tab" where
  "terminal_step cols rws tb e = terminal_settle cols rws (terminal_react cols rws tb e)"

abbreviation tab_sessions :: "terminal_tab \<Rightarrow> TermSession list" where
  "tab_sessions tb \<equiv> sessionsOf (sb_id (tt_sb tb)) (snd (tt_state tb))"

section \<open>Mounting\<close>

text \<open>Where each session's container hangs.  \<open>appendChild\<close> moves a node that is elsewhere; the cleanup
  detaches only what still hangs in its own host.\<close>

type_synonym containers = "string \<rightharpoonup> nat"

definition mount_term :: "nat \<Rightarrow> string \<Rightarrow> containers \<Rightarrow> containers" where
  "mount_term host x m = m(x \<mapsto> host)"

definition unmount_term :: "nat \<Rightarrow> string \<Rightarrow> containers \<Rightarrow> containers" where
  "unmount_term host x m = (if m x = Some host then m(x := None) else m)"

section \<open>Facts\<close>

lemma late_cleanup: "h \<noteq> h' \<Longrightarrow> unmount_term h x (mount_term h' x m) = mount_term h' x m"
  by (simp add: mount_term_def unmount_term_def)

lemma active_listed: "ss \<noteq> [] \<Longrightarrow> \<exists>s \<in> set ss. terminal_active act ss = Some s"
  by (auto simp: terminal_active_def find_Some_iff split: option.splits intro: last_in_set)

lemma sessions_connect [simp]: "sessions sid (connect a s) = sessions sid s"
  by (auto simp: connect_def Let_def sessions_def set_obj_def term_publish_def)

lemma open_empty:
  assumes "sessions sid s = []"
  shows "\<exists>a s'. open_session sid cols rws s = (Some a, s') \<and> sessionsOf sid s' = [in_session (obj s' a)]"
proof -
  have "obj (term_publish k s') a = obj s' a" for k s' a by (simp add: term_publish_def)
  then show ?thesis
    using assms by (auto simp: open_session_def MAX_SESSIONS_def Let_def sessionsOf_publish split: prod.splits)
qed

lemma reached_snapshot: "term_inv s \<Longrightarrow> sessionsOf sid s = [] \<longleftrightarrow> sessions sid s = []"
  by (metis AB_def emptyE map_is_Nil_conv snaps_ok_def term_inv_def)

lemma effect_opens:
  assumes "term_inv (snd st)" and "sb_state sb = RUNNING"
  shows "sessionsOf (sb_id sb) (snd (terminal_effect sb cols rws st)) \<noteq> [] \<and>
    (sessionsOf (sb_id sb) (snd st) = [] \<longrightarrow> length (sessionsOf (sb_id sb) (snd (terminal_effect sb cols rws st))) = 1)"
  using open_empty [of "sb_id sb" "snd st" cols rws] assms
  by (auto simp: terminal_effect_def terminal_open_def reached_snapshot)

lemma effect_idle:
  "(sb_state sb = RUNNING \<Longrightarrow> sessionsOf (sb_id sb) (snd st) \<noteq> []) \<Longrightarrow> terminal_effect sb cols rws st = st"
  by (auto simp: terminal_effect_def)

lemma tab_open_inv: "term_inv (snd st) \<Longrightarrow> term_inv (snd (terminal_open sb cols rws st))"
  using term_inv_handle [of "snd st" "TOpen (sb_id sb) cols rws"]
  by (auto simp: terminal_open_def split: prod.splits option.splits)

lemma tab_handle_inv: "term_inv (snd st) \<Longrightarrow> term_inv (snd (terminal_handle sb cols rws a st))"
  using term_inv_handle [of "snd st" "TClose (sb_id sb) x" for x] term_inv_handle [of "snd st" "TRestart (sb_id sb) x" for x]
  by (cases a) (auto simp: terminal_handle_def tab_open_inv)

lemma react_inv: "term_inv (snd (tt_state tb)) \<Longrightarrow> term_inv (snd (tt_state (terminal_react cols rws tb e)))"
  by (cases e) (simp_all add: tab_handle_inv term_inv_handle)

lemma effect_inv: "term_inv (snd st) \<Longrightarrow> term_inv (snd (terminal_effect sb cols rws st))"
  by (simp add: terminal_effect_def tab_open_inv)

text \<open>What holds between events: the last list is the current one, and a running sandbox has a session.\<close>

definition tab_inv :: "terminal_tab \<Rightarrow> bool" where
  "tab_inv tb \<longleftrightarrow> term_inv (snd (tt_state tb)) \<and> tt_deps tb = Some (terminal_deps tb) \<and>
     (sb_state (tt_sb tb) = RUNNING \<longrightarrow> tab_sessions tb \<noteq> [])"

lemma settle_inv:
  assumes "term_inv (snd (tt_state tb))"
    and "tt_deps tb = Some (terminal_deps tb) \<Longrightarrow> sb_state (tt_sb tb) = RUNNING \<Longrightarrow> tab_sessions tb \<noteq> []"
  shows "tab_inv (terminal_settle cols rws tb)"
proof (cases "tt_deps tb = Some (terminal_deps tb)")
  case True
  with assms show ?thesis by (simp add: terminal_settle_def terminal_render_def tab_inv_def)
next
  case False
  let ?tb = "tb\<lparr>tt_deps := Some (terminal_deps tb), tt_state := terminal_effect (tt_sb tb) cols rws (tt_state tb)\<rparr>"
  have inv: "term_inv (snd (tt_state ?tb))" using effect_inv [OF assms(1)] by simp
  have ne: "sb_state (tt_sb tb) = RUNNING \<Longrightarrow> tab_sessions ?tb \<noteq> []" using effect_opens [OF assms(1)] by simp
  then have id: "terminal_effect (tt_sb tb) cols rws (tt_state ?tb) = tt_state ?tb" by (intro effect_idle) simp
  have "terminal_settle cols rws tb = ?tb\<lparr>tt_deps := Some (terminal_deps ?tb)\<rparr>"
    using False id by (simp add: terminal_settle_def terminal_render_def)
  with inv ne show ?thesis by (simp add: tab_inv_def terminal_deps_def)
qed

lemma mount_inv: "term_inv s \<Longrightarrow> tab_inv (terminal_mount cols rws sb s)"
  unfolding terminal_mount_def by (rule settle_inv) simp_all

lemma react_deps: "tt_deps (terminal_react cols rws tb e) = tt_deps tb"
  by (cases e) simp_all

lemma step_inv:
  assumes "tab_inv tb"
  shows "tab_inv (terminal_step cols rws tb e)"
  unfolding terminal_step_def
proof (rule settle_inv)
  show "term_inv (snd (tt_state (terminal_react cols rws tb e)))" using assms by (simp add: react_inv tab_inv_def)
  assume "tt_deps (terminal_react cols rws tb e) = Some (terminal_deps (terminal_react cols rws tb e))"
    "sb_state (tt_sb (terminal_react cols rws tb e)) = RUNNING"
  with assms show "tab_sessions (terminal_react cols rws tb e) \<noteq> []"
    by (simp add: react_deps tab_inv_def terminal_deps_def) (metis length_0_conv)
qed

lemma settled: "tab_inv tb \<Longrightarrow> terminal_render cols rws tb = tb"
  by (simp add: tab_inv_def terminal_render_def)

lemma settle_keeps:
  assumes "tab_sessions tb \<noteq> []"
  shows "tt_state (terminal_settle cols rws tb) = tt_state tb" and "tt_sb (terminal_settle cols rws tb) = tt_sb tb"
  using assms by (auto simp: terminal_settle_def terminal_render_def terminal_effect_def)

lemma settle_opens:
  assumes "term_inv (snd (tt_state tb))" and "sb_state (tt_sb tb) = RUNNING" and "tab_sessions tb = []"
    and "tt_deps tb \<noteq> Some (terminal_deps tb)"
  shows "tt_state (terminal_settle cols rws tb) = terminal_open (tt_sb tb) cols rws (tt_state tb)"
    and "tt_sb (terminal_settle cols rws tb) = tt_sb tb"
proof -
  let ?tb = "tb\<lparr>tt_deps := Some (terminal_deps tb), tt_state := terminal_open (tt_sb tb) cols rws (tt_state tb)\<rparr>"
  have r: "terminal_render cols rws tb = ?tb" using assms by (simp add: terminal_render_def terminal_effect_def)
  have "tab_sessions ?tb \<noteq> []"
    using effect_opens [OF assms(1,2), of cols rws] assms(2,3) by (simp add: terminal_effect_def)
  then show "tt_state (terminal_settle cols rws tb) = terminal_open (tt_sb tb) cols rws (tt_state tb)"
    "tt_sb (terminal_settle cols rws tb) = tt_sb tb"
    by (simp_all add: terminal_settle_def r) (auto simp: terminal_render_def terminal_effect_def)
qed

interpretation tabs: deterministic_machine
  "terminal_mount cols rws sb (foldl term_handle (term_init token https host) es)" "terminal_step cols rws" tab_inv
  by unfold_locales (rule mount_inv, rule terms.run_inv, rule step_inv)

text \<open>The session opened in place of the last one is a new one.\<close>

lemma open_fresh:
  assumes "sessions sid s = []"
  shows "map ss_id (sessionsOf sid (snd (open_session sid cols rws s))) = [''sh-'' @ js_num (tm_seq s)]"
proof -
  obtain a s1 where n: "newSession sid cols rws s = (a, s1)" by (cases "newSession sid cols rws s")
  then have "a = length (tm_heap s)" "id_of s1 a = ''sh-'' @ js_num (tm_seq s)" "a < length (tm_heap s1)"
    by (auto simp: newSession_def Let_def)
  then have "id_of (connect a (set_sessions sid [a] s1)) a = ''sh-'' @ js_num (tm_seq s)"
    by (simp add: connect_def Let_def set_status_def)
  then show ?thesis using assms n by (simp add: open_session_def MAX_SESSIONS_def Let_def sessionsOf_publish)
qed

lemma close_only:
  assumes "term_inv s" and "sessionsOf sid s = [x]"
  shows "sessionsOf sid (close_session sid (ss_id x) s) = []" and "tm_seq (close_session sid (ss_id x) s) = tm_seq s"
    and "ss_id x \<noteq> ''sh-'' @ js_num (tm_seq s)"
proof -
  have ok: "lists_ok {} s" "map ss_id (sessionsOf sid s) = map (id_of s) (sessions sid s)"
    using assms(1) by (simp_all add: term_inv_def AB_def snaps_ok_def)
  then obtain a where a: "sessions sid s = [a]" "ss_id x = id_of s a" using assms(2) by (cases "sessions sid s") auto
  then have l: "a < length (tm_heap s)" using ok(1) unfolding lists_ok_def by (metis list.set_intros(1))
  then have "ss_id x = ''sh-'' @ js_num (int a + 1)" "tm_seq s = int (length (tm_heap s)) + 1"
    using ok(1) a(2) unfolding lists_ok_def by simp_all
  then show "ss_id x \<noteq> ''sh-'' @ js_num (tm_seq s)" using js_num_inject [of "int a + 1" "tm_seq s"] l by auto
  show "sessionsOf sid (close_session sid (ss_id x) s) = []" "tm_seq (close_session sid (ss_id x) s) = tm_seq s"
    using a by (simp_all add: close_session_def find_session_def sessionsOf_publish)
qed

section \<open>Properties\<close>

text \<open>C16: On a running sandbox the tab never stays without a shell.  From the moment it is mounted, on
  whatever sessions there are, and through clicks, new states of the sandbox, a change of sandbox and
  everything else the terminal manager does, it shows one of the sandbox's own sessions whenever the
  sandbox runs.  A mount without sessions opens exactly one; an event that leaves a session opens none;
  and closing the only session, although it is no first visit, opens another one with a new id.\<close>

theorem terminal_never_empty:
  assumes "s = foldl term_handle (term_init token https host) es0"
    and "tb = foldl (terminal_step cols rws) (terminal_mount cols rws sb s) es" and "sb_state (tt_sb tb) = RUNNING"
  shows "(\<exists>x \<in> set (tab_sessions tb). terminal_active (fst (tt_state tb)) (tab_sessions tb) = Some x) \<and>
    (es = [] \<longrightarrow> sessionsOf (sb_id sb) s = [] \<longrightarrow> length (tab_sessions tb) = 1) \<and>
    (\<forall>e. tab_sessions (terminal_react cols rws tb e) \<noteq> [] \<longrightarrow>
       tt_state (terminal_step cols rws tb e) = tt_state (terminal_react cols rws tb e)) \<and>
    (\<forall>x. tab_sessions tb = [x] \<longrightarrow>
       (\<exists>y. tab_sessions (terminal_step cols rws tb (TabClick (CloseIt (ss_id x)))) = [y] \<and> ss_id y \<noteq> ss_id x))"
proof (intro conjI allI impI)
  have s: "term_inv s" unfolding assms(1) by (rule terms.run_inv)
  have inv: "tab_inv tb" unfolding assms(1,2) by (rule tabs.run_inv)
  then show "\<exists>x \<in> set (tab_sessions tb). terminal_active (fst (tt_state tb)) (tab_sessions tb) = Some x"
    using assms(3) by (intro active_listed) (simp add: tab_inv_def)
  show "tt_state (terminal_step cols rws tb e) = tt_state (terminal_react cols rws tb e)"
    if "tab_sessions (terminal_react cols rws tb e) \<noteq> []" for e
    using that unfolding terminal_step_def by (rule settle_keeps)
  let ?i = "\<lparr>tt_sb = sb, tt_state = (None, s), tt_deps = None\<rparr>"
  show "length (tab_sessions tb) = 1" if "es = []" "sessionsOf (sb_id sb) s = []"
  proof -
    have r: "sb_state sb = RUNNING" using assms(2,3) that(1)
      by (simp add: terminal_mount_def terminal_settle_def terminal_render_def split: if_splits)
    have "tt_state tb = terminal_open sb cols rws (None, s)" "tt_sb tb = sb"
      using settle_opens [of ?i cols rws] s r that assms(2) by (simp_all add: terminal_mount_def)
    then show ?thesis
      using effect_opens [of "(None, s)" sb cols rws] s r that by (simp add: terminal_effect_def)
  qed
  show "\<exists>y. tab_sessions (terminal_step cols rws tb (TabClick (CloseIt (ss_id x)))) = [y] \<and> ss_id y \<noteq> ss_id x"
    if x: "tab_sessions tb = [x]" for x
  proof -
    let ?c = "terminal_react cols rws tb (TabClick (CloseIt (ss_id x)))"
    have t: "term_inv (snd (tt_state tb))" "tt_deps tb = Some (terminal_deps tb)" using inv by (simp_all add: tab_inv_def)
    note c = close_only [OF t(1) x]
    have e: "tab_sessions ?c = []" "tt_sb ?c = tt_sb tb" using c(1) by (simp_all add: terminal_handle_def)
    have "tt_deps ?c \<noteq> Some (terminal_deps ?c)" using t(2) x e by (simp add: terminal_deps_def)
    from settle_opens [OF react_inv [OF t(1)] _ e(1) this, of cols rws] assms(3) e(2)
    have step: "tab_sessions (terminal_step cols rws tb (TabClick (CloseIt (ss_id x)))) =
        sessionsOf (sb_id (tt_sb tb)) (snd (open_session (sb_id (tt_sb tb)) cols rws (snd (tt_state ?c))))"
      by (simp add: terminal_step_def terminal_open_def split: prod.split option.split)
    have "sessions (sb_id (tt_sb tb)) (snd (tt_state ?c)) = []"
      using reached_snapshot [OF react_inv [OF t(1), of cols rws "TabClick (CloseIt (ss_id x))"]] e by simp
    from open_fresh [OF this, of cols rws] show ?thesis unfolding step using c(2,3)
      by (auto simp: terminal_handle_def map_eq_Cons_conv)
  qed
qed

theorem terminal_never_empty_witness:
  "length (tab_sessions (terminal_mount 80 24 sandbox0 (term_init (Some ''t'') True ''h''))) = 1"
proof -
  have "sb_state (tt_sb (terminal_mount 80 24 sandbox0 (term_init (Some ''t'') True ''h''))) = RUNNING"
    by (simp add: terminal_mount_def terminal_settle_def terminal_render_def sandbox0_def)
  then show ?thesis
    using terminal_never_empty [of "term_init (Some ''t'') True ''h''" "Some ''t''" True "''h''" "[]" _ 80 24 sandbox0 "[]", OF _ refl]
    by (simp add: sessionsOf_def term_init_def)
qed

end
