(* ===== verification/SettingsTab.thy ===== *)
theory SettingsTab
  imports OverviewTab
begin

text \<open>
  The Settings tab (\<open>web/src/pages/workspace/SettingsTab.tsx\<close>): placement with its node picker,
  restoring the artifacts of a recycled sandbox, the geometry readout and the danger zone.
\<close>

section \<open>Placement\<close>

definition movable :: "Sandbox \<Rightarrow> bool" where
  "movable sb \<longleftrightarrow> sb_state sb = RUNNING \<or> sb_state sb = PAUSED_HOT"

text \<open>\<open>n.id !== sb.node_id\<close>, where an absent node differs from every id.\<close>

definition candidates :: "NodeView list option \<Rightarrow> Sandbox \<Rightarrow> NodeView list" where
  "candidates nodes sb = filter (\<lambda>n. nd_state n = Up \<and> Some (nd_id n) \<noteq> sb_node_id sb) (nullish nodes [])"

text \<open>The state of the card is the chosen node, the empty string for the scheduler's choice.\<close>

definition migrate_call :: "Sandbox \<Rightarrow> string \<Rightarrow> api_call" where
  "migrate_call sb target = verb_migrate (sb_id sb) (if target = [] then None else Some target)"

definition migrate_done :: "TFn \<Rightarrow> js_error + Sandbox \<Rightarrow> tab_effect list" where
  "migrate_done t outcome = (case outcome of
     Inr moved \<Rightarrow> [ESuccess (t ''Migrated'' (zh [0x5DF2, 0x8FC1, 0x79FB])) (Some (t ''now on node'' (zh [0x73B0, 0x4F4D, 0x4E8E, 0x8282, 0x70B9]) @ '' '' @ nullish (sb_node_id moved) ''?''))]
   | Inl err \<Rightarrow> [EError (t ''Migrate failed'' (zh [0x8FC1, 0x79FB, 0x5931, 0x8D25])) (message err)])"

datatype placement_action = PickNode string | DoMigrate

definition placement_handle :: "Sandbox \<Rightarrow> placement_action \<Rightarrow> string \<Rightarrow> string \<times> api_call list" where
  "placement_handle sb a target = (case a of
     PickNode v \<Rightarrow> (v, [])
   | DoMigrate \<Rightarrow> (target, [migrate_call sb target]))"

definition node_option :: "TFn \<Rightarrow> NodeView \<Rightarrow> 'a vnode" where
  "node_option t n =
     El ''option'' [Attr ''value'' (nd_id n)]
       [Txt (nd_id n @ ('' '' @ zh [0x2014] @ '' '') @
          (if nullish (nd_mem_budget_mib n) 0 > 0
           then fmtMiB (max 0 (nullish (nd_mem_budget_mib n) 0 - nd_used_mib n)) @ '' '' @ t ''free of budget'' (zh [0x9884, 0x7B97, 0x4F59, 0x91CF])
           else fmtMiB (nd_used_mib n) @ (if nd_capacity_mib n > 0 then '' / '' @ fmtMiB (nd_capacity_mib n) else '''') @ '' '' @
             t ''used'' (zh [0x5DF2, 0x7528])) @
          ('' '' @ zh [0xB7] @ '' '') @ js_num (nd_active_sandboxes n) @ '' '' @ t ''active'' (zh [0x6D3B, 0x8DC3]))]"

text \<open>The values of the options of the picker.\<close>

definition picker_values :: "NodeView list option \<Rightarrow> Sandbox \<Rightarrow> string list" where
  "picker_values nodes sb = '''' # map nd_id (candidates nodes sb)"

definition PlacementCard ::
  "Sandbox \<Rightarrow> NodeView list option \<Rightarrow> string \<Rightarrow> bool \<Rightarrow> js_error option \<Rightarrow> TFn \<Rightarrow> placement_action vnode" where
  "PlacementCard sb nodes target pending err t =
     Card [Txt (t ''Placement'' (zh [0x90E8, 0x7F72, 0x4F4D, 0x7F6E]))] [] None
       [El ''div'' []
          ([El ''p'' []
              [Txt (t ''Currently on'' (zh [0x5F53, 0x524D, 0x4F4D, 0x4E8E]) @ '' ''), Mono [Txt (or_str (sb_node_id sb) (zh [0x2014]))] (Some ''text-ink''),
               Txt (t (''. Migration moves the live VM '' @ zh [0x2014] @ '' snapshot, cross-node restore, resume; open terminals reconnect after the move.'')
                      (zh [0x3002, 0x8FC1, 0x79FB, 0x4F1A, 0x79FB, 0x52A8, 0x8FD0, 0x884C, 0x4E2D, 0x7684] @ '' VM '' @ zh [0x2014, 0x2014] @ '' '' @ zh [0x5FEB, 0x7167, 0x3001, 0x8DE8, 0x8282, 0x70B9, 0x6062, 0x590D, 0x3001, 0x6062, 0x590D, 0x8FD0, 0x884C, 0xFF1B, 0x6253, 0x5F00, 0x7684, 0x7EC8, 0x7AEF, 0x4F1A, 0x5728, 0x8FC1, 0x79FB, 0x540E, 0x91CD, 0x65B0, 0x8FDE, 0x63A5, 0x3002]))],
            El ''div'' []
              [El ''div'' [] [Field (t ''Target node'' (zh [0x76EE, 0x6807, 0x8282, 0x70B9])) []
                 [El ''select'' [Attr ''value'' target, On ''change'' (PickNode target), Attr ''aria-label'' (t ''Target node'' (zh [0x76EE, 0x6807, 0x8282, 0x70B9]))]
                    (El ''option'' [Attr ''value'' ''''] [Txt (t ''let the scheduler pick (bin-pack)'' (zh [0x7531, 0x8C03, 0x5EA6, 0x5668, 0x9009, 0x62E9, 0xFF08, 0x88C5, 0x7BB1, 0xFF09]))] #
                     map (node_option t) (candidates nodes sb))]],
               Button (button0\<lparr>bp_onClick := Some DoMigrate, bp_busy := pending,
                         bp_disabled := \<not> movable sb \<or>
                           candidates nodes sb = [] \<and> target = '''' \<and> length (nullish nodes []) \<le> 1\<rparr>)
                 [Icon ''IconNode'' (Some 13), Txt ('' '' @ t ''Migrate'' (zh [0x8FC1, 0x79FB]))]]] @
           shown (\<not> movable sb) [El ''p'' [] [Txt (t ''migration needs RUNNING or PAUSED_HOT'' (zh [0x8FC1, 0x79FB, 0x9700, 0x8981] @ '' RUNNING '' @ zh [0x6216] @ '' PAUSED_HOT''))]] @
           ErrorNote err)]"

section \<open>Restore, geometry, danger\<close>

definition restore_done :: "TFn \<Rightarrow> js_error + Sandbox \<Rightarrow> tab_effect list" where
  "restore_done t outcome = (case outcome of
     Inr fresh \<Rightarrow> [ESuccess (t ''Artifacts restored'' (zh [0x4EA7, 0x7269, 0x5DF2, 0x6062, 0x590D])) (Some (t ''new sandbox'' (zh [0x65B0, 0x6C99, 0x7BB1]) @ '' '' @ js_slice (sb_id fresh) 0 8)),
                   EGoto (''/sandboxes/'' @ sb_id fresh)]
   | Inl err \<Rightarrow> [EError (t ''Restore failed'' (zh [0x6062, 0x590D, 0x5931, 0x8D25])) (message err)])"

definition RestoreCard :: "'a \<Rightarrow> bool \<Rightarrow> js_error option \<Rightarrow> TFn \<Rightarrow> 'a vnode" where
  "RestoreCard onRestore pending err t =
     Card [Txt (t (''Recycled '' @ zh [0x2014] @ '' restore artifacts'') (zh [0x5DF2, 0x56DE, 0x6536] @ '' '' @ zh [0x2014, 0x2014] @ '' '' @ zh [0x6062, 0x590D, 0x4EA7, 0x7269]))] [] None
       ([El ''div'' []
           [El ''p'' []
              [Txt (t ''This sandbox was recycled: only its extracted artifacts remain in the cold store. Restore seeds a''
                      (zh [0x6B64, 0x6C99, 0x7BB1, 0x5DF2, 0x88AB, 0x56DE, 0x6536, 0xFF1A, 0x4EC5, 0x5176, 0x63D0, 0x53D6, 0x7684, 0x4EA7, 0x7269, 0x4FDD, 0x7559, 0x5728, 0x51B7, 0x5B58, 0x50A8, 0x4E2D, 0x3002, 0x6062, 0x590D, 0x4F1A, 0x4EE5, 0x8FD9, 0x4E9B, 0x6587, 0x4EF6, 0x521B, 0x5EFA, 0x4E00, 0x4E2A]) @ '' ''),
               El ''em'' [] [Txt (t ''new'' (zh [0x65B0]))], Txt ('' '' @ t ''sandbox with those files.'' (zh [0x6C99, 0x7BB1, 0x3002]))],
            Button (button0\<lparr>bp_kind := Some Primary, bp_onClick := Some onRestore, bp_busy := pending\<rparr>)
              [Icon ''IconArrowRight'' (Some 13), Txt ('' '' @ t ''Restore into new sandbox'' (zh [0x6062, 0x590D, 0x5230, 0x65B0, 0x6C99, 0x7BB1]))]]] @
        ErrorNote err)"

definition geometry_rows :: "Sandbox \<Rightarrow> TFn \<Rightarrow> (string \<times> string) list" where
  "geometry_rows sb t =
     [(t ''memory'' (zh [0x5185, 0x5B58]), fmtMiB (sb_memory_mib sb)),
      (t ''base memory'' (zh [0x57FA, 0x7840, 0x5185, 0x5B58]), fmtMiB (or_num (sb_base_memory_mib sb) (sb_memory_mib sb))),
      (t ''memory ceiling'' (zh [0x5185, 0x5B58, 0x4E0A, 0x9650]), if truthy_num (sb_max_memory_mib sb) then fmtMiB (nullish (sb_max_memory_mib sb) 0) else t ''fixed'' (zh [0x56FA, 0x5B9A])),
      (t ''vcpus'' ''vCPU'', js_num (sb_vcpus sb)),
      (t ''base vcpus'' (zh [0x57FA, 0x7840] @ '' vCPU''), js_num (or_num (sb_base_vcpus sb) (sb_vcpus sb))),
      (t ''vcpu ceiling'' (''vCPU '' @ zh [0x4E0A, 0x9650]), if truthy_num (sb_max_vcpus sb) then js_num (nullish (sb_max_vcpus sb) 0) else t ''fixed'' (zh [0x56FA, 0x5B9A])),
      (t ''data disk'' (zh [0x6570, 0x636E, 0x76D8]), js_num (sb_data_disk_gib sb) @ '' GiB''),
      (t ''autoscale'' (zh [0x81EA, 0x52A8, 0x4F38, 0x7F29]), if truthy_bool (sb_autoscale sb) then t ''on (guest pressure)'' (zh [0x5F00, 0x542F, 0xFF08, 0x6309] @ '' guest '' @ zh [0x538B, 0x529B, 0xFF09]) else t ''off'' (zh [0x5173, 0x95ED]))]"

definition GeometryCard :: "Sandbox \<Rightarrow> TFn \<Rightarrow> 'a vnode" where
  "GeometryCard sb t =
     Card [Txt (t ''Geometry'' (zh [0x89C4, 0x683C]))] [] None
       [fact_grid (geometry_rows sb t),
        El ''p'' [] [Txt (t (''Ceilings are fixed at create; live values move on the Overview tab'' @ [CHR 0x27] @ ''s resize panel.'')
            (zh [0x4E0A, 0x9650, 0x5728, 0x521B, 0x5EFA, 0x65F6, 0x56FA, 0x5B9A, 0xFF1B, 0x5B9E, 0x65F6, 0x503C, 0x53EF, 0x5728, 0x300C, 0x603B, 0x89C8, 0x300D, 0x6807, 0x7B7E, 0x7684, 0x8C03, 0x6574, 0x9762, 0x677F, 0x4E2D, 0x4FEE, 0x6539, 0x3002]))]]"

datatype danger_action = AskDanger | ConfirmDanger | CloseDanger

text \<open>The confirmed function is \<open>kill.mutate\<close>, the mutation of the workspace header.\<close>

definition danger_handle :: "Sandbox \<Rightarrow> TFn \<Rightarrow> danger_action \<Rightarrow> unit option \<Rightarrow> unit option \<times> ws_mutation list" where
  "danger_handle sb t a pending = (case a of
     AskDanger \<Rightarrow> (confirm_ask () pending, [])
   | ConfirmDanger \<Rightarrow> (case confirm_confirm pending of (fns, p) \<Rightarrow> (p, map (\<lambda>_. ws_kill sb t) fns))
   | CloseDanger \<Rightarrow> (confirm_close pending, []))"

definition DangerCard :: "Sandbox \<Rightarrow> unit option \<Rightarrow> bool \<Rightarrow> TFn \<Rightarrow> danger_action vnode" where
  "DangerCard sb pending busy t =
     Card [Txt (t ''Danger zone'' (zh [0x5371, 0x9669, 0x64CD, 0x4F5C]))] [] None
       ([El ''div'' []
           [El ''p'' [] [Txt (t ''Killing destroys the VM, its disk, checkpoints and snapshots. Sandboxes with live forks are protected server-side.''
                               (zh [0x9500, 0x6BC1, 0x5C06, 0x5220, 0x9664] @ '' VM '' @ zh [0x53CA, 0x5176, 0x78C1, 0x76D8, 0x3001, 0x68C0, 0x67E5, 0x70B9, 0x548C, 0x5FEB, 0x7167, 0x3002, 0x5B58, 0x5728, 0x6D3B, 0x8DC3, 0x6D3E, 0x751F, 0x7684, 0x6C99, 0x7BB1, 0x5728, 0x670D, 0x52A1, 0x7AEF, 0x53D7, 0x4FDD, 0x62A4, 0x3002]))],
            Button (button0\<lparr>bp_kind := Some Danger, bp_onClick := Some AskDanger, bp_busy := busy\<rparr>) [Txt (t (''Kill sandbox'' @ zh [0x2026]) (zh [0x9500, 0x6BC1, 0x6C99, 0x7BB1, 0x2026]))]]] @
        shown (confirm_open pending)
          [ConfirmDialog t (t ''Kill sandbox'' (zh [0x9500, 0x6BC1, 0x6C99, 0x7BB1]))
             [Txt (t ''Destroy'' (zh [0x6C38, 0x4E45, 0x9500, 0x6BC1]) @ '' ''), Mono [Txt (js_slice (sb_id sb) 0 8)] (Some ''text-ink''),
              Txt (t '' permanently? This cannot be undone.'' (zh [0xFF1F, 0x6B64, 0x64CD, 0x4F5C, 0x4E0D, 0x53EF, 0x64A4, 0x9500, 0x3002]))]
             (t ''Kill sandbox'' (zh [0x9500, 0x6BC1, 0x6C99, 0x7BB1])) busy ConfirmDanger CloseDanger])"

datatype settings_action = InPlacement placement_action | Restore | InDanger danger_action

definition SettingsTab ::
  "Sandbox \<Rightarrow> placement_action vnode \<Rightarrow> settings_action vnode \<Rightarrow> danger_action vnode \<Rightarrow> TFn \<Rightarrow> settings_action vnode" where
  "SettingsTab sb placement restorec danger t =
     El ''div'' []
       ([map_actions InPlacement placement] @ shown (sb_state sb = RECYCLED) [restorec] @
        [GeometryCard sb t, map_actions InDanger danger])"

section \<open>Facts\<close>

lemma candidates_other: "n \<in> set (candidates nodes sb) \<Longrightarrow>
  n \<in> set (nullish nodes []) \<and> nd_state n = Up \<and> sb_node_id sb \<noteq> Some (nd_id n)"
  by (auto simp: candidates_def)

lemma offers_options [simp]: "offers (map (node_option t) ns) = []"
  by (simp add: offers_map node_option_def attr_actions_def)

lemma placement_offers: "DoMigrate \<in> set (offer (PlacementCard sb nodes target pending err t)) \<longleftrightarrow>
  movable sb \<and> \<not> pending \<and> (candidates nodes sb \<noteq> [] \<or> target \<noteq> [] \<or> 1 < length (nullish nodes []))"
  by (auto simp: PlacementCard_def attr_actions_def)

lemma migrate_path: "ac_body (migrate_call sb x) = Some (JObj (if x = [] then [] else [(''node_id'', JStr x)]))"
  by (simp add: migrate_call_def verb_migrate_def call_def)

section \<open>Properties\<close>

text \<open>A node picked from the menu is up and not the sandbox's own, and the request names it.  But the
  choice outlives the move: once the sandbox runs on the picked node, no option of the menu stands for
  that node any more, while the card still holds it, offers \<open>Migrate\<close>, and would ask for a migration to
  the node the sandbox is on.\<close>

theorem stale_target:
  assumes "target \<in> set (picker_values nodes sb)" and "target \<noteq> []"
    and "moved = sb\<lparr>sb_node_id := Some target\<rparr>" and "movable moved"
  shows "(\<exists>n \<in> set (nullish nodes []). nd_id n = target \<and> nd_state n = Up) \<and> sb_node_id sb \<noteq> Some target \<and>
    placement_handle sb DoMigrate (fst (placement_handle sb (PickNode target) s0)) = (target, [migrate_call sb target]) \<and>
    ac_body (migrate_call sb target) = Some (JObj [(''node_id'', JStr target)]) \<and>
    target \<notin> set (picker_values nodes moved) \<and>
    DoMigrate \<in> set (offer (PlacementCard moved nodes target False err t)) \<and>
    ac_body (migrate_call moved target) = Some (JObj [(''node_id'', JStr target)])"
proof -
  from assms(1,2) obtain n where n: "n \<in> set (candidates nodes sb)" "nd_id n = target"
    by (auto simp: picker_values_def)
  note c = candidates_other [OF n(1)]
  have "target \<notin> set (picker_values nodes moved)"
    using assms(2) by (auto simp: picker_values_def candidates_def assms(3))
  then show ?thesis
    using assms(2,4) n c by (auto simp: placement_handle_def migrate_path placement_offers)
qed

definition node_b :: NodeView where
  "node_b = \<lparr>nd_id = ''b'', nd_addr = None, nd_state = Up, nd_capacity_mib = 4096, nd_cpu_cores = None, nd_last_seen = '''',
     nd_used_mib = 0, nd_used_vcpus = 0, nd_active_sandboxes = 0, nd_base_mib = None, nd_base_vcpus = None,
     nd_ceiling_mib = None, nd_ceiling_vcpus = None, nd_mem_budget_mib = None, nd_vcpu_budget = None\<rparr>"

theorem stale_target_witness:
  "''b'' \<notin> set (picker_values (Some [node_b]) (sandbox0\<lparr>sb_node_id := Some ''b''\<rparr>)) \<and>
   DoMigrate \<in> set (offer (PlacementCard (sandbox0\<lparr>sb_node_id := Some ''b''\<rparr>) (Some [node_b]) ''b'' False None (tr En)))"
  using stale_target [of "''b''" "Some [node_b]" sandbox0 "sandbox0\<lparr>sb_node_id := Some ''b''\<rparr>" "[]" None "tr En"]
  by (simp add: picker_values_def candidates_def node_b_def movable_def sandbox0_def)

end
