(* ===== verification/UrlPath.thy ===== *)
theory UrlPath
  imports Prelude
begin

text \<open>
  How a browser reads the path of an address that starts with a slash (the URL standard, for \<open>http\<close> and
  \<open>https\<close>): white space at the ends and every tab and line break are dropped, the path ends at the first
  question mark or hash sign, a backslash counts as a slash, and segments of one or two dots, also written
  with \<open>%2e\<close>, are resolved.  Escaping of the remaining characters moves no segment and is left out.
\<close>

definition url_ctrl :: "char \<Rightarrow> bool" where
  "url_ctrl c \<longleftrightarrow> (of_char c :: nat) \<le> 32"

definition url_trim :: "string \<Rightarrow> string" where
  "url_trim u = rev (dropWhile url_ctrl (rev (dropWhile url_ctrl u)))"

definition url_clean :: "string \<Rightarrow> string" where
  "url_clean u = filter (\<lambda>c. c \<notin> {CHR 0x09, CHR 0x0A, CHR 0x0D}) (url_trim u)"

definition url_path :: "string \<Rightarrow> string" where
  "url_path u = map (\<lambda>c. if c = CHR 0x5C then CHR ''/'' else c) (takeWhile (\<lambda>c. c \<noteq> CHR 0x3F \<and> c \<noteq> CHR 0x23) (url_clean u))"

definition url_segments :: "string \<Rightarrow> string list" where
  "url_segments u = tl (js_split (CHR ''/'') (url_path u))"

fun undot :: "string \<Rightarrow> string" where
  "undot (a # b # c # s) =
     (if a = CHR 0x25 \<and> b = CHR ''2'' \<and> c \<in> {CHR ''e'', CHR ''E''} then CHR ''.'' # undot s else a # undot (b # c # s))"
| "undot s = s"

definition single_dot :: "string \<Rightarrow> bool" where
  "single_dot s \<longleftrightarrow> undot s = ''.''"

definition double_dot :: "string \<Rightarrow> bool" where
  "double_dot s \<longleftrightarrow> undot s = ''..''"

text \<open>The path under construction is kept in reverse; a dot segment at the end leaves an empty segment.\<close>

fun resolve_segments :: "string list \<Rightarrow> string list \<Rightarrow> string list" where
  "resolve_segments acc [] = rev acc"
| "resolve_segments acc [s] =
     rev (if double_dot s then [] # tl acc else if single_dot s then [] # acc else s # acc)"
| "resolve_segments acc (s # r # rs) =
     resolve_segments (if double_dot s then tl acc else if single_dot s then acc else s # acc) (r # rs)"

definition loaded_path :: "string \<Rightarrow> string list" where
  "loaded_path u = resolve_segments [] (url_segments u)"

text \<open>The segments climb out of the directory they start in.\<close>

fun climbs :: "nat \<Rightarrow> string list \<Rightarrow> bool" where
  "climbs n [] = False"
| "climbs n (s # r) =
     (if double_dot s then (case n of 0 \<Rightarrow> True | Suc m \<Rightarrow> climbs m r)
      else if single_dot s then climbs n r
      else climbs (Suc n) r)"

section \<open>Facts\<close>

text \<open>Characters that stand for themselves in every step.\<close>

definition url_word :: "string \<Rightarrow> bool" where
  "url_word s \<longleftrightarrow> s \<noteq> [] \<and>
     list_all (\<lambda>c. \<not> url_ctrl c \<and> c \<notin> {CHR ''/'', CHR 0x5C, CHR 0x3F, CHR 0x23, CHR 0x25, CHR ''.''}) s"

lemma undot_word: "CHR 0x25 \<notin> set s \<Longrightarrow> undot s = s"
  by (induction s rule: undot.induct) auto

lemma word_no_dots: "url_word s \<Longrightarrow> \<not> double_dot s \<and> \<not> single_dot s"
proof -
  assume w: "url_word s"
  then have "CHR 0x25 \<notin> set s" by (auto simp: url_word_def list_all_iff)
  then have "undot s = s" by (rule undot_word)
  moreover have "CHR ''.'' \<notin> set s" using w by (auto simp: url_word_def list_all_iff)
  ultimately show ?thesis unfolding double_dot_def single_dot_def by (metis list.set_intros(1))
qed

lemma ctrl_chars: "\<not> url_ctrl (CHR ''/'')" "url_ctrl (CHR 0x09)" "url_ctrl (CHR 0x0A)" "url_ctrl (CHR 0x0D)"
  by (simp_all add: url_ctrl_def)

lemma url_trim_append:
  assumes "list_all (\<lambda>c. \<not> url_ctrl c) p" and "\<not> url_ctrl d"
  shows "url_trim (p @ d # s) = p @ url_trim (d # s)"
proof -
  have lead: "dropWhile url_ctrl (p @ d # s) = p @ d # s" "dropWhile url_ctrl (d # s) = d # s"
    using assms by (cases p; simp)+
  have "dropWhile url_ctrl (rev (d # s) @ rev p) = dropWhile url_ctrl (rev (d # s)) @ rev p"
    by (rule dropWhile_append1 [of d]) (use assms(2) in simp_all)
  then show ?thesis unfolding url_trim_def lead by simp
qed

lemma url_trim_slash: "\<exists>r. url_trim (CHR ''/'' # s) = CHR ''/'' # r"
proof -
  have "dropWhile url_ctrl (rev s @ [CHR ''/'']) = dropWhile url_ctrl (rev s) @ [CHR ''/'']"
    by (simp add: dropWhile_append ctrl_chars(1))
  then show ?thesis by (simp add: url_trim_def ctrl_chars(1))
qed

text \<open>A word in front of the first slash is a segment of its own.\<close>

lemma url_path_word:
  assumes "url_word w"
  shows "url_path (CHR ''/'' # w @ CHR ''/'' # s) = CHR ''/'' # w @ url_path (CHR ''/'' # s)"
proof -
  let ?p = "CHR ''/'' # w"
  have w: "list_all (\<lambda>c. \<not> url_ctrl c) ?p" using assms by (auto simp: url_word_def list_all_iff ctrl_chars(1))
  have "url_clean (?p @ CHR ''/'' # s) = ?p @ url_clean (CHR ''/'' # s)"
    using w ctrl_chars unfolding url_clean_def url_trim_append [OF w ctrl_chars(1)] filter_append
    by (auto simp: list_all_iff filter_id_conv)
  moreover have "\<forall>c \<in> set ?p. c \<noteq> CHR 0x3F \<and> c \<noteq> CHR 0x23 \<and> c \<noteq> CHR 0x5C"
    using assms by (auto simp: url_word_def list_all_iff)
  ultimately show ?thesis by (simp add: url_path_def takeWhile_append map_idI)
qed

lemma url_path_slash: "\<exists>r. url_path (CHR ''/'' # s) = CHR ''/'' # r"
  using url_trim_slash [of s] by (auto simp: url_path_def url_clean_def)

lemma segments_word: "url_word w \<Longrightarrow> url_segments (CHR ''/'' # w @ CHR ''/'' # s) = w # url_segments (CHR ''/'' # s)"
proof -
  assume w: "url_word w"
  obtain r where r: "url_path (CHR ''/'' # s) = CHR ''/'' # r" using url_path_slash by blast
  have "js_split (CHR ''/'') (CHR ''/'' # w @ CHR ''/'' # r) = [] # w # js_split (CHR ''/'') r"
    using js_split_append_sep [of "CHR ''/''" w r] js_split_plain [of "CHR ''/''" w] w
    by (auto simp: url_word_def list_all_iff)
  then show ?thesis unfolding url_segments_def url_path_word [OF w] r by simp
qed

lemma segments_dots: "url_segments (''/../'' @ s) = ''..'' # url_segments (CHR ''/'' # s)"
proof -
  obtain r where r: "url_path (CHR ''/'' # s) = CHR ''/'' # r" using url_path_slash by blast
  have "list_all (\<lambda>c. \<not> url_ctrl c) ''/..''" by (simp add: url_ctrl_def)
  from url_trim_append [OF this ctrl_chars(1), of s]
  have "url_path (''/..'' @ CHR ''/'' # s) = ''/..'' @ url_path (CHR ''/'' # s)"
    by (simp add: url_path_def url_clean_def)
  then show ?thesis unfolding url_segments_def using r by simp
qed

lemma segments_nonempty: "url_segments (CHR ''/'' # s) \<noteq> []"
proof -
  obtain r where r: "url_path (CHR ''/'' # s) = CHR ''/'' # r" using url_path_slash by blast
  then show ?thesis by (simp add: url_segments_def)
qed

text \<open>Segments that do not climb stay below where they start.\<close>

lemma resolve_below:
  "segs \<noteq> [] \<Longrightarrow> \<not> climbs (length ys) segs \<Longrightarrow> \<exists>zs. zs \<noteq> [] \<and> resolve_segments (ys @ rev pre) segs = pre @ zs"
proof (induction segs arbitrary: ys rule: induct_list012)
  case (2 s)
  then show ?case by (cases ys) (auto split: if_splits)
next
  case (3 s r rs)
  let ?ys = "if double_dot s then tl ys else if single_dot s then ys else s # ys"
  have "\<not> climbs (length ?ys) (r # rs)" using 3(4) by (cases ys) (auto split: if_splits)
  from 3(2) [OF _ this] obtain zs where "zs \<noteq> []" "resolve_segments (?ys @ rev pre) (r # rs) = pre @ zs" by auto
  moreover have "(if double_dot s then tl (ys @ rev pre) else if single_dot s then ys @ rev pre else s # ys @ rev pre) = ?ys @ rev pre"
    using 3(4) by (cases ys) (auto split: if_splits)
  ultimately show ?case by auto
qed simp

lemma resolve_words:
  "list_all url_word ws \<Longrightarrow> segs \<noteq> [] \<Longrightarrow> resolve_segments acc (ws @ segs) = resolve_segments (rev ws @ acc) segs"
proof (induction ws arbitrary: acc)
  case (Cons w ws)
  then obtain r rs where "ws @ segs = r # rs" by (cases "ws @ segs") auto
  with Cons show ?case by (simp add: word_no_dots)
qed simp

lemma double_dots: "double_dot ''..''"
  by (simp add: double_dot_def)

lemma resolve_ups:
  "segs \<noteq> [] \<Longrightarrow> resolve_segments acc (replicate n ''..'' @ segs) = resolve_segments (drop n acc) segs"
proof (induction n arbitrary: acc)
  case (Suc n)
  then obtain r rs where "replicate n ''..'' @ segs = r # rs" by (cases "replicate n ''..'' @ segs") auto
  with Suc show ?case by (simp add: double_dots drop_Suc)
qed simp

end
