(* ===== verification/PreviewTab.thy ===== *)
theory PreviewTab
  imports TabKit Proxy UrlPath
begin

text \<open>
  The Preview tab (\<open>web/src/pages/workspace/PreviewTab.tsx\<close>): the recent ports kept in
  \<open>localStorage\<close> as JSON, the port form, the proxy session and the sandboxed frame.  The first part
  is \<open>JSON.parse\<close> and \<open>JSON.stringify\<close> as far as the tab uses them.
\<close>

section \<open>JSON texts\<close>

datatype jsval = VNull | VBool bool | VNum rat | VStr string | VArr "jsval list" | VObj "(string \<times> jsval) list"

definition json_space :: "char \<Rightarrow> bool" where
  "json_space c \<longleftrightarrow> of_char c \<in> {9, 10, 13, 32 :: nat}"

definition skip_ws :: "string \<Rightarrow> string" where
  "skip_ws s = dropWhile json_space s"

definition js_strip :: "string \<Rightarrow> string \<Rightarrow> string option" where
  "js_strip p s = (if js_startsWith s p then Some (drop (length p) s) else None)"

definition json_sign :: "string \<Rightarrow> rat \<times> string" where
  "json_sign s = (case s of c # r \<Rightarrow> if c = CHR ''-'' then (-1, r) else (1, s) | [] \<Rightarrow> (1, s))"

definition json_frac :: "string \<Rightarrow> (rat \<times> string) option" where
  "json_frac s = (case s of
     c # r \<Rightarrow>
       if c = CHR ''.'' then
         (let ds = takeWhile is_digit r
          in if ds = [] then None else Some (of_int (digits_val ds) / 10 ^ length ds, dropWhile is_digit r))
       else Some (0, s)
   | [] \<Rightarrow> Some (0, s))"

definition json_exp :: "string \<Rightarrow> (rat \<times> string) option" where
  "json_exp s = (case s of
     c # r \<Rightarrow>
       if c = CHR ''e'' \<or> c = CHR ''E'' then
         (let sr = (case r of x # r' \<Rightarrow> if x = CHR ''-'' then (True, r') else if x = CHR ''+'' then (False, r') else (False, r)
                    | [] \<Rightarrow> (False, r));
              ds = takeWhile is_digit (snd sr); p = 10 ^ nat (digits_val ds)
          in if ds = [] then None else Some (if fst sr then 1 / p else p, dropWhile is_digit (snd sr)))
       else Some (1, s)
   | [] \<Rightarrow> Some (1, s))"

definition json_number :: "string \<Rightarrow> (rat \<times> string) option" where
  "json_number s =
     (let (sg, s1) = json_sign s; ds = takeWhile is_digit s1
      in if ds = [] \<or> (hd ds = CHR ''0'' \<and> length ds > 1) then None
         else case json_frac (dropWhile is_digit s1) of
           None \<Rightarrow> None
         | Some (f, s2) \<Rightarrow>
             (case json_exp s2 of
                None \<Rightarrow> None
              | Some (e, s3) \<Rightarrow> Some (sg * (of_int (digits_val ds) + f) * e, s3)))"

definition hex_val :: "char \<Rightarrow> nat option" where
  "hex_val c =
     (let n = of_char c :: nat
      in if 48 \<le> n \<and> n \<le> 57 then Some (n - 48) else if 97 \<le> n \<and> n \<le> 102 then Some (n - 87)
         else if 65 \<le> n \<and> n \<le> 70 then Some (n - 55) else None)"

definition json_escape :: "char \<Rightarrow> string option" where
  "json_escape c =
     (if c = CHR 0x22 \<or> c = CHR 0x5C \<or> c = CHR ''/'' then Some [c]
      else if c = CHR ''b'' then Some [CHR 0x08] else if c = CHR ''f'' then Some [CHR 0x0C]
      else if c = CHR ''n'' then Some [CHR 0x0A] else if c = CHR ''r'' then Some [CHR 0x0D]
      else if c = CHR ''t'' then Some [CHR 0x09] else None)"

text \<open>The rest of a string literal after its opening quote.\<close>

fun json_string :: "string \<Rightarrow> (string \<times> string) option" where
  "json_string [] = None"
| "json_string [c] = (if c = CHR 0x22 then Some ([], []) else None)"
| "json_string (c # d # s) =
     (if c = CHR 0x22 then Some ([], d # s)
      else if (of_char c :: nat) < 32 then None
      else if c = CHR 0x5C then
        (if d = CHR ''u'' then
           (case s of
              a # b # x # y # s' \<Rightarrow>
                (case (hex_val a, hex_val b, hex_val x, hex_val y, json_string s') of
                   (Some h1, Some h2, Some h3, Some h4, Some (t, r)) \<Rightarrow>
                     Some (utf8_char (((h1 * 16 + h2) * 16 + h3) * 16 + h4) @ t, r)
                 | _ \<Rightarrow> None)
            | _ \<Rightarrow> None)
         else case (json_escape d, json_string s) of
           (Some e, Some (t, r)) \<Rightarrow> Some (e @ t, r)
         | _ \<Rightarrow> None)
      else map_option (\<lambda>(t, r). (c # t, r)) (json_string (d # s)))"

text \<open>Values, with fuel: a step that does not consume a character is followed by one that does, so twice the
  length of the text is enough.\<close>

fun json_value :: "nat \<Rightarrow> string \<Rightarrow> (jsval \<times> string) option"
  and json_elems :: "nat \<Rightarrow> string \<Rightarrow> (jsval list \<times> string) option"
  and json_members :: "nat \<Rightarrow> string \<Rightarrow> ((string \<times> jsval) list \<times> string) option" where
  "json_value 0 s = None"
| "json_value (Suc n) s =
     (case skip_ws s of
        [] \<Rightarrow> None
      | c # r \<Rightarrow>
          if c = CHR ''['' then
            (case skip_ws r of
               [] \<Rightarrow> None
             | d # r' \<Rightarrow> if d = CHR '']'' then Some (VArr [], r')
                         else map_option (\<lambda>(vs, z). (VArr vs, z)) (json_elems n r))
          else if c = CHR 0x7B then
            (case skip_ws r of
               [] \<Rightarrow> None
             | d # r' \<Rightarrow> if d = CHR 0x7D then Some (VObj [], r')
                         else map_option (\<lambda>(kvs, z). (VObj kvs, z)) (json_members n r))
          else if c = CHR 0x22 then map_option (\<lambda>(t, z). (VStr t, z)) (json_string r)
          else case js_strip ''null'' (c # r) of Some z \<Rightarrow> Some (VNull, z)
          | None \<Rightarrow> (case js_strip ''true'' (c # r) of Some z \<Rightarrow> Some (VBool True, z)
          | None \<Rightarrow> (case js_strip ''false'' (c # r) of Some z \<Rightarrow> Some (VBool False, z)
          | None \<Rightarrow> map_option (\<lambda>(v, z). (VNum v, z)) (json_number (c # r)))))"
| "json_elems 0 s = None"
| "json_elems (Suc n) s =
     (case json_value n s of
        None \<Rightarrow> None
      | Some (v, r) \<Rightarrow>
          (case skip_ws r of
             [] \<Rightarrow> None
           | c # r' \<Rightarrow> if c = CHR '']'' then Some ([v], r')
                       else if c = CHR '','' then map_option (\<lambda>(vs, z). (v # vs, z)) (json_elems n r')
                       else None))"
| "json_members 0 s = None"
| "json_members (Suc n) s =
     (case skip_ws s of
        [] \<Rightarrow> None
      | q # r \<Rightarrow>
          if q \<noteq> CHR 0x22 then None
          else case json_string r of
            None \<Rightarrow> None
          | Some (k, r1) \<Rightarrow>
              (case skip_ws r1 of
                 [] \<Rightarrow> None
               | c # r2 \<Rightarrow>
                   if c \<noteq> CHR '':'' then None
                   else case json_value n r2 of
                     None \<Rightarrow> None
                   | Some (v, r3) \<Rightarrow>
                       (case skip_ws r3 of
                          [] \<Rightarrow> None
                        | d # r4 \<Rightarrow> if d = CHR 0x7D then Some ([(k, v)], r4)
                                    else if d = CHR '','' then map_option (\<lambda>(kvs, z). ((k, v) # kvs, z)) (json_members n r4)
                                    else None)))"

definition JSON_parse :: "string \<Rightarrow> jsval option" where
  "JSON_parse s = (case json_value (2 * length s + 2) s of
     Some (v, r) \<Rightarrow> if skip_ws r = [] then Some v else None
   | None \<Rightarrow> None)"

definition JSON_stringify_ints :: "int list \<Rightarrow> string" where
  "JSON_stringify_ints ns = ''['' @ js_join '','' (map js_num ns) @ '']''"

section \<open>Recent ports\<close>

definition QUICK_PORTS :: "int list" where
  "QUICK_PORTS = [3000, 5173, 8000, 8080]"

definition recentKey :: "string \<Rightarrow> string" where
  "recentKey sid = ''embervm.ports.'' @ sid"

text \<open>\<open>Number.isInteger\<close>.\<close>

definition js_isInteger :: "jsval \<Rightarrow> bool" where
  "js_isInteger v = (case v of VNum r \<Rightarrow> r = of_int \<lfloor>r\<rfloor> | _ \<Rightarrow> False)"

definition num_of :: "jsval \<Rightarrow> int" where
  "num_of v = (case v of VNum r \<Rightarrow> \<lfloor>r\<rfloor> | _ \<Rightarrow> 0)"

definition loadRecent :: "string \<Rightarrow> local_storage \<Rightarrow> int list" where
  "loadRecent sid m = (case JSON_parse (nullish (ls_get (recentKey sid) m) ''[]'') of
     Some (VArr vs) \<Rightarrow> map num_of (filter js_isInteger vs)
   | _ \<Rightarrow> [])"

text \<open>\<open>[...new Set(xs)]\<close>.\<close>

definition js_uniq :: "'a list \<Rightarrow> 'a list" where
  "js_uniq xs = foldl (\<lambda>acc x. set_add x acc) [] xs"

definition port_chips :: "int list \<Rightarrow> int list" where
  "port_chips recent = js_slice (js_uniq (recent @ QUICK_PORTS)) 0 6"

section \<open>The tab\<close>

text \<open>\<open>pv_recent\<close> is the memo made when the tab mounts for this sandbox.\<close>

record preview_state =
  pv_port :: "int option"
  pv_portInput :: string
  pv_path :: string
  pv_sessionReady :: bool
  pv_sessionErr :: "js_error option"
  pv_generation :: int
  pv_recent :: "int list"
  pv_storage :: local_storage

definition preview_init :: "string \<Rightarrow> local_storage \<Rightarrow> preview_state" where
  "preview_init sid m =
     (let recent = loadRecent sid m; port = (case recent of [] \<Rightarrow> None | p # _ \<Rightarrow> Some p)
      in \<lparr>pv_port = port, pv_portInput = (if truthy_num port then js_num (nullish port 0) else ''''), pv_path = ''/'',
          pv_sessionReady = False, pv_sessionErr = None, pv_generation = 0, pv_recent = recent, pv_storage = m\<rparr>)"

text \<open>The mount effect asks for the session; these are the two ways its promise settles.\<close>

definition preview_session :: "js_error + unit \<Rightarrow> preview_state \<Rightarrow> preview_state" where
  "preview_session outcome st = (case outcome of
     Inr _ \<Rightarrow> st\<lparr>pv_sessionReady := True\<rparr>
   | Inl err \<Rightarrow> st\<lparr>pv_sessionErr := Some err\<rparr>)"

definition preview_open :: "string \<Rightarrow> int option \<Rightarrow> preview_state \<Rightarrow> preview_state" where
  "preview_open sid p st = (case p of
     None \<Rightarrow> st
   | Some n \<Rightarrow>
       if n \<le> 0 \<or> n > 65535 then st
       else
         let next = js_slice (n # filter (\<lambda>x. x \<noteq> n) (loadRecent sid (pv_storage st))) 0 5
         in st\<lparr>pv_port := Some n, pv_portInput := js_num n, pv_generation := pv_generation st + 1,
               pv_storage := ls_set (recentKey sid) (JSON_stringify_ints next) (pv_storage st)\<rparr>)"

datatype preview_action = PortInput string | PathInput string | SubmitPort | OpenChip int | ReloadFrame

text \<open>\<open>e.target.value.replace(/\D/g, "")\<close> keeps the digits.\<close>

definition preview_update :: "string \<Rightarrow> preview_action \<Rightarrow> preview_state \<Rightarrow> preview_state" where
  "preview_update sid a st = (case a of
     PortInput v \<Rightarrow> st\<lparr>pv_portInput := filter is_digit v\<rparr>
   | PathInput v \<Rightarrow> st\<lparr>pv_path := v\<rparr>
   | SubmitPort \<Rightarrow> preview_open sid (js_Number (pv_portInput st)) st
   | OpenChip p \<Rightarrow> preview_open sid (Some p) st
   | ReloadFrame \<Rightarrow> st\<lparr>pv_generation := pv_generation st + 1\<rparr>)"

definition preview_src :: "string \<Rightarrow> preview_state \<Rightarrow> string option" where
  "preview_src sid st =
     (if truthy_num (pv_port st) \<and> pv_sessionReady st then Some (proxyURL sid (nullish (pv_port st) 0) (pv_path st)) else None)"

definition port_bar :: "string \<Rightarrow> preview_state \<Rightarrow> TFn \<Rightarrow> preview_action vnode" where
  "port_bar sid st t =
     El ''div'' []
       [El ''form'' [On ''submit'' SubmitPort]
          [El ''label'' [] [Txt (t ''port'' (zh [0x7AEF, 0x53E3]))],
           El ''input'' [Attr ''value'' (pv_portInput st), On ''change'' (PortInput (pv_portInput st)), Attr ''placeholder'' ''8080'',
             Attr ''inputMode'' ''numeric'', Attr ''aria-label'' (t ''Guest port'' (''guest '' @ zh [0x7AEF, 0x53E3]))] [],
           El ''label'' [] [Txt (t ''path'' (zh [0x8DEF, 0x5F84]))],
           El ''input'' [Attr ''value'' (pv_path st), On ''change'' (PathInput (pv_path st)), Attr ''aria-label'' (t ''Path'' (zh [0x8DEF, 0x5F84]))] [],
           Button (button0\<lparr>bp_size := Some Sm, bp_kind := Some Primary, bp_submit := True, bp_disabled := (pv_portInput st = [])\<rparr>)
             [Txt (t ''Open'' (zh [0x6253, 0x5F00]))]],
        El ''div'' []
          (map (\<lambda>p. El ''button'' [Num ''key'' p, On ''click'' (OpenChip p),
             Attr ''class'' (if Some p = pv_port st then ''border-accent/50 bg-accent-weak text-accent''
                             else ''border-border text-muted hover:border-accent/40 hover:text-ink'')] [Txt (js_num p)])
             (port_chips (pv_recent st))),
        El ''div'' []
          (Tip (Some [Txt (t ''Reload preview'' (zh [0x5237, 0x65B0, 0x9884, 0x89C8]))]) None False
             [IconButton (t ''Reload'' (zh [0x5237, 0x65B0])) (Some ReloadFrame) (preview_src sid st = None) False [Icon ''IconRefresh'' (Some 13)]])]"

definition preview_hint :: "TFn \<Rightarrow> 'a vnode" where
  "preview_hint t =
     Empty [El ''div'' []
       [El ''p'' [] [Txt (t ''Anything listening inside the guest is one URL away.'' (''guest '' @ zh [0x91CC, 0x4EFB, 0x4F55, 0x76D1, 0x542C, 0x7684, 0x670D, 0x52A1, 0xFF0C, 0x90FD, 0x53EA, 0x6709, 0x4E00, 0x4E2A] @ '' URL '' @ zh [0x4E4B, 0x9065, 0x3002]))],
        El ''p'' [] [Txt (t (''Start a server in the Terminal tab, then open its port here '' @ zh [0x2014] @ '' for example:'')
                            (zh [0x5728, 0x300C, 0x7EC8, 0x7AEF, 0x300D, 0x6807, 0x7B7E, 0x91CC, 0x8D77, 0x4E00, 0x4E2A, 0x670D, 0x52A1, 0xFF0C, 0x7136, 0x540E, 0x5728, 0x8FD9, 0x91CC, 0x6253, 0x5F00, 0x5B83, 0x7684, 0x7AEF, 0x53E3] @ '' '' @ zh [0x2014, 0x2014] @ '' '' @ zh [0x4F8B, 0x5982, 0xFF1A]))],
        El ''pre'' [] [Txt ''python3 -m http.server 8000''],
        El ''p'' [] [Txt (t ''The proxy is WebSocket-transparent, so dev servers with HMR work too. External REST clients can hit''
                            (zh [0x4EE3, 0x7406, 0x5BF9] @ '' WebSocket '' @ zh [0x900F, 0x660E, 0xFF0C, 0x56E0, 0x6B64, 0x5E26] @ '' HMR '' @ zh [0x7684, 0x5F00, 0x53D1, 0x670D, 0x52A1, 0x5668, 0x4E5F, 0x80FD, 0x7528, 0x3002, 0x5916, 0x90E8] @ '' REST '' @ zh [0x5BA2, 0x6237, 0x7AEF, 0x53EF, 0x643A, 0x5E26] @ '' bearer '' @ zh [0x4EE4, 0x724C, 0x8BBF, 0x95EE]) @ '' ''),
          Mono [Txt (''/v0/sandboxes/:id/proxy/:port/'' @ zh [0x2026])] (Some ''text-ink''), Txt (t '' with a bearer token.'' (zh [0x3002]))]]]"

definition preview_frame :: "string \<Rightarrow> preview_state \<Rightarrow> TFn \<Rightarrow> string \<Rightarrow> 'a vnode" where
  "preview_frame sid st t src =
     El ''iframe''
       [Attr ''key'' (js_num (nullish (pv_port st) 0) @ ''#'' @ js_num (pv_generation st)), Attr ''src'' src,
        Attr ''title'' (t ''Guest port'' (''guest '' @ zh [0x7AEF, 0x53E3]) @ '' '' @ js_num (nullish (pv_port st) 0)),
        Attr ''sandbox'' ''allow-scripts allow-forms''] []"

definition PreviewTab :: "Sandbox \<Rightarrow> preview_state \<Rightarrow> TFn \<Rightarrow> preview_action vnode" where
  "PreviewTab sb st t =
     (if sb_state sb \<noteq> RUNNING then
        Empty [El ''div'' [] [Icon ''IconGlobe'' (Some 22), El ''p'' [] [Txt (t ''Preview needs a running guest.'' (zh [0x9884, 0x89C8, 0x9700, 0x8981, 0x8FD0, 0x884C, 0x4E2D, 0x7684] @ '' guest'' @ zh [0x3002]))]]]
      else El ''div'' []
        [port_bar (sb_id sb) st t,
         El ''div'' []
           ((if pv_sessionErr st = None then [] else [El ''div'' [] (ErrorNote (pv_sessionErr st))]) @
            shown (\<not> truthy_num (pv_port st) \<and> pv_sessionErr st = None) [preview_hint t] @
            shown_opt (preview_src (sb_id sb) st) (\<lambda>src. [preview_frame (sb_id sb) st t src]))])"

section \<open>Facts about the JSON texts\<close>

declare json_value.simps [simp del] json_elems.simps [simp del] json_members.simps [simp del]

lemma digit_plain: "is_digit c \<Longrightarrow> \<not> json_space c \<and> c \<noteq> CHR ''-'' \<and> c \<noteq> CHR ''['' \<and> c \<noteq> CHR 0x7B \<and> c \<noteq> CHR 0x22 \<and>
    c \<noteq> CHR ''n'' \<and> c \<noteq> CHR ''t'' \<and> c \<noteq> CHR ''f'' \<and> c \<noteq> CHR '']''"
  by (auto simp: is_digit_def json_space_def)

lemma nat_digits_lead: "hd (nat_digits n) = CHR ''0'' \<Longrightarrow> n = 0"
proof (induction n rule: nat_digits.induct)
  case (1 n)
  show ?case
  proof (cases "n < 10")
    case True
    then have "nat_digits n = [char_of (48 + n)]" by (simp add: nat_digits.simps [of n])
    with 1(2) have "of_char (char_of (48 + n) :: char) = (of_char (CHR ''0'') :: nat)" by simp
    with True show ?thesis by (simp del: of_char_of)
  next
    case False
    then have "hd (nat_digits n) = hd (nat_digits (n div 10))" by (simp add: nat_digits.simps [of n])
    with 1 False show ?thesis by auto
  qed
qed

lemma js_num_first: "\<exists>c s. js_num i = c # s \<and> (is_digit c \<or> c = CHR ''-'')"
proof (cases "i < 0")
  case False
  obtain c s where cs: "nat_digits (nat i) = c # s" using nat_digits_nonempty by (metis neq_Nil_conv)
  then have "is_digit c" using nat_digits_digits [of "nat i"] by simp
  with False cs show ?thesis by (simp add: js_num_def)
qed (simp add: js_num_def)

text \<open>What may follow a number in an array.\<close>

definition closes :: "string \<Rightarrow> bool" where
  "closes r \<longleftrightarrow> (\<exists>c z. r = c # z \<and> (c = CHR '','' \<or> c = CHR '']''))"

lemma closes_plain: "closes r \<Longrightarrow> takeWhile is_digit r = [] \<and> dropWhile is_digit r = r \<and> json_frac r = Some (0, r) \<and> json_exp r = Some (1, r)"
  by (auto simp: closes_def is_digit_def json_frac_def json_exp_def)

lemma digits_span:
  assumes "closes r"
  shows "takeWhile is_digit (nat_digits n @ r) = nat_digits n" "dropWhile is_digit (nat_digits n @ r) = r"
  using nat_digits_digits [of n] closes_plain [OF assms]
  by (simp_all add: list_all_iff takeWhile_append2 dropWhile_append2)

lemma json_number_num:
  assumes "closes r"
  shows "json_number (js_num i @ r) = Some (of_int i, r)"
proof -
  obtain n where n: "n = nat (if i < 0 then - i else i)" by blast
  obtain c s where cs: "nat_digits n = c # s" using nat_digits_nonempty by (metis neq_Nil_conv)
  then have "is_digit c" using nat_digits_digits [of n] by simp
  then have sign: "json_sign (js_num i @ r) = (if i < 0 then -1 else 1, nat_digits n @ r)"
    using cs by (auto simp: json_sign_def js_num_def n dest: digit_plain)
  have lead: "\<not> (hd (nat_digits n) = CHR ''0'' \<and> length (nat_digits n) > 1)"
    using nat_digits_lead [of n] by (auto simp: nat_digits_numeral)
  have "of_int (int n) * (if i < 0 then -1 else 1) = (of_int i :: rat)" by (simp add: n)
  then show ?thesis
    using lead digits_span [OF assms, of n] closes_plain [OF assms]
    by (auto simp: json_number_def sign nat_digits_val mult.commute)
qed

lemma json_value_num:
  assumes "closes r"
  shows "json_value (Suc k) (js_num i @ r) = Some (VNum (of_int i), r)"
proof -
  obtain c s where c: "js_num i = c # s" "is_digit c \<or> c = CHR ''-''" using js_num_first by blast
  then have plain: "\<not> json_space c" "c \<noteq> CHR ''[''" "c \<noteq> CHR 0x7B" "c \<noteq> CHR 0x22" "c \<noteq> CHR ''n''" "c \<noteq> CHR ''t''" "c \<noteq> CHR ''f''"
    by (auto dest: digit_plain simp: json_space_def)
  have "json_number (c # s @ r) = Some (of_int i, r)" using json_number_num [OF assms, of i] by (simp add: c)
  with plain show ?thesis by (simp add: c skip_ws_def js_strip_def json_value.simps)
qed

lemma json_elems_nums:
  "ns \<noteq> [] \<Longrightarrow> length ns < k \<Longrightarrow>
   json_elems k (js_join '','' (map js_num ns) @ CHR '']'' # z) = Some (map (\<lambda>n. VNum (of_int n)) ns, z)"
proof (induction ns arbitrary: k rule: induct_list012)
  case (2 n)
  then obtain k' where k: "k = Suc (Suc k')" by (cases k; cases "k - 1") auto
  have "closes (CHR '']'' # z)" by (simp add: closes_def)
  from json_value_num [OF this, of k' n] show ?case by (simp add: k skip_ws_def json_space_def json_elems.simps)
next
  case (3 n m ns)
  then obtain k' where k: "k = Suc (Suc k')" by (cases k; cases "k - 1") auto
  let ?r = "CHR '','' # js_join '','' (map js_num (m # ns)) @ CHR '']'' # z"
  have "closes ?r" by (simp add: closes_def)
  note v = json_value_num [OF this, of k' n]
  have ih: "json_elems (Suc k') (js_join '','' (map js_num (m # ns)) @ CHR '']'' # z) =
      Some (map (\<lambda>n. VNum (of_int n)) (m # ns), z)"
    using 3 k by simp
  have "json_elems k (js_num n @ ?r) = Some (map (\<lambda>n. VNum (of_int n)) (n # m # ns), z)"
    unfolding k json_elems.simps(2) [of "Suc k'"] v using ih by (simp add: skip_ws_def json_space_def)
  then show ?case by simp
qed simp

lemma join_length: "\<forall>s \<in> set ss. s \<noteq> [] \<Longrightarrow> length ss \<le> length (js_join sep ss)"
proof (induction sep ss rule: js_join.induct)
  case (2 sep p)
  then show ?case by (cases p) auto
next
  case (3 sep p q ps)
  then show ?case by (cases p) auto
qed simp

lemma js_num_nonempty [simp]: "js_num i \<noteq> []"
  using js_num_first [of i] by auto

lemma JSON_ints: "JSON_parse (JSON_stringify_ints ns) = Some (VArr (map (\<lambda>n. VNum (of_int n)) ns))"
proof (cases "ns = []")
  case True
  moreover have "JSON_parse (JSON_stringify_ints []) = Some (VArr [])" by code_simp
  ultimately show ?thesis by simp
next
  case False
  let ?j = "js_join '','' (map js_num ns)"
  have "length ns \<le> length ?j" using join_length [of "map js_num ns" "'',''"] by simp
  then have e: "json_elems (2 * length (JSON_stringify_ints ns) + 1) (?j @ '']'') = Some (map (\<lambda>n. VNum (of_int n)) ns, [])"
    using json_elems_nums [OF False, of "2 * length (JSON_stringify_ints ns) + 1" "[]"] by (simp add: JSON_stringify_ints_def)
  obtain n ns' where ns: "ns = n # ns'" using False by (cases ns) auto
  obtain c s where c: "js_num n = c # s" "is_digit c \<or> c = CHR ''-''" using js_num_first by blast
  obtain s' where j: "?j = c # s'" unfolding ns by (cases ns') (auto simp: c)
  have "\<not> json_space c" "c \<noteq> CHR '']''" using c(2) by (auto dest: digit_plain simp: json_space_def)
  then have "skip_ws (?j @ '']'') = c # s' @ '']''" by (simp add: j skip_ws_def)
  with e \<open>c \<noteq> CHR '']''\<close>
  have "json_value (2 * length (JSON_stringify_ints ns) + 2) (JSON_stringify_ints ns) = Some (VArr (map (\<lambda>n. VNum (of_int n)) ns), [])"
    by (simp add: JSON_stringify_ints_def skip_ws_def [of "CHR ''['' # _"] json_space_def [of "CHR ''[''"] json_value.simps)
  then show ?thesis by (simp add: JSON_parse_def skip_ws_def)
qed

lemma load_stored: "loadRecent sid (ls_set (recentKey sid) (JSON_stringify_ints ns) m) = ns"
proof -
  have "filter js_isInteger (map (\<lambda>n. VNum (of_int n)) ns) = map (\<lambda>n. VNum (of_int n)) ns"
    by (rule filter_True) (auto simp: js_isInteger_def)
  then show ?thesis by (simp add: loadRecent_def ls.get_put_same JSON_ints num_of_def comp_def)
qed

section \<open>The invariant\<close>

definition port_ok :: "int \<Rightarrow> bool" where
  "port_ok p \<longleftrightarrow> 1 \<le> p \<and> p \<le> 65535"

definition ports_ok :: "int list \<Rightarrow> bool" where
  "ports_ok ps \<longleftrightarrow> length ps \<le> 5 \<and> distinct ps \<and> (\<forall>p \<in> set ps. port_ok p)"

definition preview_inv :: "string \<Rightarrow> preview_state \<Rightarrow> bool" where
  "preview_inv sid st \<longleftrightarrow> ports_ok (loadRecent sid (pv_storage st)) \<and> ports_ok (pv_recent st) \<and>
     (\<forall>p. pv_port st = Some p \<longrightarrow> port_ok p) \<and> list_all is_digit (pv_portInput st)"

datatype preview_event = PAct preview_action | PSession "js_error + unit"

definition preview_handle :: "string \<Rightarrow> preview_state \<Rightarrow> preview_event \<Rightarrow> preview_state" where
  "preview_handle sid st e = (case e of PAct a \<Rightarrow> preview_update sid a st | PSession out \<Rightarrow> preview_session out st)"

text \<open>A tab mounts on a storage whose list of ports is sound: empty at first, and then what the tab wrote.\<close>

definition preview_start :: "string \<Rightarrow> preview_state \<Rightarrow> bool" where
  "preview_start sid st \<longleftrightarrow> (\<exists>m. ports_ok (loadRecent sid m) \<and> st = preview_init sid m)"

definition next_ports :: "int \<Rightarrow> int list \<Rightarrow> int list" where
  "next_ports p ps = js_slice (p # filter (\<lambda>x. x \<noteq> p) ps) 0 5"

lemma next_ports_take: "next_ports p ps = p # take 4 (filter (\<lambda>x. x \<noteq> p) ps)"
  by (simp add: next_ports_def js_slice_take)

lemma next_ports_ok: "ports_ok ps \<Longrightarrow> port_ok p \<Longrightarrow> ports_ok (next_ports p ps)"
  by (auto simp: ports_ok_def next_ports_take dest: in_set_takeD intro: distinct_take)

lemma js_num_digits: "port_ok p \<Longrightarrow> list_all is_digit (js_num p)"
  by (simp add: port_ok_def js_num_def nat_digits_digits)

lemma open_cases: "preview_open sid q st = st \<or> (\<exists>p. q = Some p \<and> port_ok p \<and>
  preview_open sid q st = st\<lparr>pv_port := Some p, pv_portInput := js_num p, pv_generation := pv_generation st + 1,
    pv_storage := ls_set (recentKey sid) (JSON_stringify_ints (next_ports p (loadRecent sid (pv_storage st)))) (pv_storage st)\<rparr>)"
  by (auto simp: preview_open_def port_ok_def next_ports_def Let_def split: option.splits)

lemma open_inv: "preview_inv sid st \<Longrightarrow> preview_inv sid (preview_open sid q st)"
  using open_cases [of sid q st]
  by (auto simp: preview_inv_def load_stored next_ports_ok js_num_digits)

lemma handle_inv: "preview_inv sid st \<Longrightarrow> preview_inv sid (preview_handle sid st e)"
  by (auto simp: preview_handle_def preview_update_def preview_session_def open_inv
      split: preview_event.splits preview_action.splits sum.splits)
     (auto simp: preview_inv_def list_all_iff)

lemma init_inv:
  assumes "preview_start sid st"
  shows "preview_inv sid st"
proof -
  obtain m where m: "ports_ok (loadRecent sid m)" "st = preview_init sid m" using assms by (auto simp: preview_start_def)
  then show ?thesis
    by (cases "loadRecent sid m") (auto simp: preview_init_def preview_inv_def Let_def ports_ok_def js_num_digits)
qed

interpretation preview: transition_system "preview_start sid" "run_step (preview_handle sid)" "preview_inv sid"
  by unfold_locales (auto simp: run_step_def init_inv handle_inv)

text \<open>The elements of a kind in a view.\<close>

fun els :: "string \<Rightarrow> 'a vnode \<Rightarrow> 'a attr list list" where
  "els tag (Txt s) = []"
| "els tag (El x attrs ns) = shown (x = tag) [attrs] @ concat (map (els tag) ns)"

lemma els_Icon: "tag \<notin> {''svg'', ''path'', ''circle'', ''rect''} \<Longrightarrow> els tag (Icon name sz) = []"
proof -
  assume tag: "tag \<notin> {''svg'', ''path'', ''circle'', ''rect''}"
  have all: "list_all (\<lambda>nd. list_all (\<lambda>e. fst e \<in> {''path'', ''circle'', ''rect''}) (snd nd)) ICONS"
    by (simp add: ICONS_def icon_defs svg_path_def svg_dot_def svg_circle_def svg_rect_def)
  have "fst e \<in> {''path'', ''circle'', ''rect''}" if "e \<in> set (drawing_of name)" for e
  proof (cases "map_of ICONS name")
    case (Some d)
    then have "(name, d) \<in> set ICONS" by (rule map_of_SomeD)
    with all that Some show ?thesis unfolding list_all_iff drawing_of_def by fastforce
  qed (use that in \<open>simp add: drawing_of_def\<close>)
  with tag show ?thesis by (force simp: Icon_def svg_draw_def shown_def)
qed

lemma els_bar: "els tag (port_bar sid st t) = [] \<or> tag \<in> {''div'', ''form'', ''label'', ''input'', ''button'', ''span'',
    ''svg'', ''path'', ''circle'', ''rect'', ''RadixTooltip.Root'', ''RadixTooltip.Trigger'', ''RadixTooltip.Portal'', ''RadixTooltip.Content''}"
  by (cases "els tag (Icon ''IconRefresh'' (Some 13) :: preview_action vnode) = []")
     (use els_Icon [of tag] in \<open>auto simp: port_bar_def Button_def Tip_def IconButton_def Let_def Spinner_def shown_def\<close>)

lemma els_shown [simp]: "concat (map (els tag) (shown c ns)) = shown c (concat (map (els tag) ns))"
  by (simp add: shown_def)

lemma els_ErrorNote: "tag \<noteq> ''p'' \<Longrightarrow> tag \<noteq> ''span'' \<Longrightarrow> concat (map (els tag) (ErrorNote e)) = []"
  by (cases e) (simp_all add: ErrorNote_def)

lemma concat_shown [simp]: "concat (shown c xss) = shown c (concat xss)"
  by (simp add: shown_def)

lemma els_preview:
  "els ''iframe'' (PreviewTab sb st t) =
     (case preview_src (sb_id sb) st of
        None \<Rightarrow> []
      | Some src \<Rightarrow> shown (sb_state sb = RUNNING)
          [[Attr ''key'' (js_num (nullish (pv_port st) 0) @ ''#'' @ js_num (pv_generation st)), Attr ''src'' src,
            Attr ''title'' (t ''Guest port'' (''guest '' @ zh [0x7AEF, 0x53E3]) @ '' '' @ js_num (nullish (pv_port st) 0)),
            Attr ''sandbox'' ''allow-scripts allow-forms'']])"
  "els ''a'' (PreviewTab sb st t) = []"
proof -
  have bar: "els ''iframe'' (port_bar sid st t) = []" "els ''a'' (port_bar sid st t) = []" for sid
    using els_bar [of "''iframe''" sid st t] els_bar [of "''a''" sid st t] by auto
  have hint: "els ''iframe'' (preview_hint t :: preview_action vnode) = []" "els ''a'' (preview_hint t :: preview_action vnode) = []"
    by (simp_all add: preview_hint_def Empty_def Mono_def)
  note defs = PreviewTab_def preview_frame_def Empty_def els_Icon els_ErrorNote
  show "els ''iframe'' (PreviewTab sb st t) =
     (case preview_src (sb_id sb) st of
        None \<Rightarrow> []
      | Some src \<Rightarrow> shown (sb_state sb = RUNNING)
          [[Attr ''key'' (js_num (nullish (pv_port st) 0) @ ''#'' @ js_num (pv_generation st)), Attr ''src'' src,
            Attr ''title'' (t ''Guest port'' (''guest '' @ zh [0x7AEF, 0x53E3]) @ '' '' @ js_num (nullish (pv_port st) 0)),
            Attr ''sandbox'' ''allow-scripts allow-forms'']])"
    by (simp add: defs bar hint del: concat_eq_Nil_conv split: option.splits)
  show "els ''a'' (PreviewTab sb st t) = []"
    by (simp add: defs bar hint shown_opt_def del: concat_eq_Nil_conv split: option.splits)
qed

lemma proxy_prefix: "js_startsWith (proxyURL sid p path) (''/v0/sandboxes/'' @ sid @ ''/proxy/'' @ js_num p @ ''/'')"
  by (auto simp: proxyURL_def Let_def js_startsWith_iff simp del: js_startsWith_Cons)

text \<open>Where the browser goes for a proxy URL.  \<open>rooted\<close> is the path as \<open>proxyURL\<close> appends it.\<close>

definition rooted :: "string \<Rightarrow> string" where
  "rooted path = (if js_startsWith path ''/'' then path else CHR ''/'' # path)"

definition proxy_base :: "string \<Rightarrow> int \<Rightarrow> string list" where
  "proxy_base sid p = [''v0'', ''sandboxes'', sid, ''proxy'', js_num p]"

lemma port_word: "1 \<le> p \<Longrightarrow> url_word (js_num p)"
proof -
  assume "1 \<le> p"
  then have "list_all is_digit (js_num p)" "js_num p \<noteq> []" by (simp_all add: js_num_def nat_digits_digits)
  then show ?thesis by (auto simp: url_word_def list_all_iff is_digit_def url_ctrl_def)
qed

lemma base_words: "url_word sid \<Longrightarrow> 1 \<le> p \<Longrightarrow> list_all url_word (proxy_base sid p)"
  using port_word [of p] by (simp add: proxy_base_def url_word_def url_ctrl_def)

lemma rooted_slash: "\<exists>r. rooted path = CHR ''/'' # r"
  by (cases path) (auto simp: rooted_def)

lemma proxy_segments:
  assumes "url_word sid" and "1 \<le> p"
  shows "url_segments (proxyURL sid p path) = proxy_base sid p @ url_segments (rooted path)"
proof -
  obtain r where r: "rooted path = CHR ''/'' # r" using rooted_slash by blast
  have u: "proxyURL sid p path = CHR ''/'' # ''v0'' @ CHR ''/'' # ''sandboxes'' @ CHR ''/'' # sid @ CHR ''/'' # ''proxy'' @
      CHR ''/'' # js_num p @ rooted path"
    by (simp add: proxyURL_def rooted_def Let_def)
  have w: "url_word ''v0''" "url_word ''sandboxes''" "url_word sid" "url_word ''proxy''" "url_word (js_num p)"
    using base_words [OF assms] by (simp_all add: proxy_base_def)
  show ?thesis
    unfolding u r proxy_base_def segments_word [OF w(1)] segments_word [OF w(2)] segments_word [OF w(3)]
      segments_word [OF w(4)] segments_word [OF w(5)] by simp
qed

lemma proxy_loaded:
  assumes "url_word sid" and "1 \<le> p"
  shows "loaded_path (proxyURL sid p path) = resolve_segments (rev (proxy_base sid p)) (url_segments (rooted path))"
proof -
  have "url_segments (rooted path) \<noteq> []" using rooted_slash [of path] segments_nonempty by force
  from resolve_words [OF base_words [OF assms] this] show ?thesis
    unfolding loaded_path_def proxy_segments [OF assms] by simp
qed

lemma proxy_below:
  assumes "url_word sid" and "1 \<le> p" and "\<not> climbs 0 (url_segments (rooted path))"
  shows "\<exists>rest. rest \<noteq> [] \<and> loaded_path (proxyURL sid p path) = proxy_base sid p @ rest"
proof -
  have "url_segments (rooted path) \<noteq> []" using rooted_slash [of path] segments_nonempty by force
  from resolve_below [OF this, of "[]" "proxy_base sid p"] assms show ?thesis by (simp add: proxy_loaded)
qed

lemma proxy_escape:
  assumes "url_word sid" and "1 \<le> p"
  shows "loaded_path (proxyURL sid p (''/../../../../../'' @ r)) = loaded_path (CHR ''/'' # r)"
proof -
  have "url_segments (rooted (''/../../../../../'' @ r)) = replicate 5 ''..'' @ url_segments (CHR ''/'' # r)"
    using segments_dots [of r] segments_dots [of "''../'' @ r"] segments_dots [of "''../../'' @ r"]
      segments_dots [of "''../../../'' @ r"] segments_dots [of "''../../../../'' @ r"]
    by (simp add: rooted_def numeral_eq_Suc)
  then have "loaded_path (proxyURL sid p (''/../../../../../'' @ r)) = resolve_segments (drop 5 (rev (proxy_base sid p))) (url_segments (CHR ''/'' # r))"
    by (simp only: proxy_loaded [OF assms] resolve_ups [OF segments_nonempty])
  moreover have "drop 5 (rev (proxy_base sid p)) = []" by (simp add: proxy_base_def)
  ultimately show ?thesis by (simp only: loaded_path_def [of "CHR ''/'' # r"])
qed

section \<open>Properties\<close>

text \<open>C11: What the preview frame is given.  Whatever was typed, clicked and answered, the tab shows a frame
  only for a running sandbox with an established proxy session and a port from 1 to 65535; its \<open>sandbox\<close>
  attribute never grants the console's origin, and the tab has no link that would open the page outside of
  the frame.  The address is the proxy path of that sandbox and port followed by the typed path; as long as
  the typed path does not climb out with dot segments, in any of the spellings a browser resolves, the page
  that is loaded lies below the proxy path.  Nothing keeps the user from typing such a path: five steps up
  lead to any path of the console's own host, still without its origin.\<close>

theorem preview_frame_confined:
  assumes "reach (preview_start (sb_id sb)) (run_step (preview_handle (sb_id sb))) st"
    and "attrs \<in> set (els ''iframe'' (PreviewTab sb st t))"
  shows "sb_state sb = RUNNING \<and> pv_sessionReady st \<and>
    (\<exists>p src. pv_port st = Some p \<and> 1 \<le> p \<and> p \<le> 65535 \<and> Attr ''src'' src \<in> set attrs \<and>
       js_startsWith src (''/v0/sandboxes/'' @ sb_id sb @ ''/proxy/'' @ js_num p @ ''/'') \<and>
       (url_word (sb_id sb) \<longrightarrow>
         (\<not> climbs 0 (url_segments (rooted (pv_path st))) \<longrightarrow>
            (\<exists>rest. rest \<noteq> [] \<and> loaded_path src = [''v0'', ''sandboxes'', sb_id sb, ''proxy'', js_num p] @ rest)) \<and>
         (\<forall>r. pv_path st = ''/../../../../../'' @ r \<longrightarrow> loaded_path src = loaded_path (CHR ''/'' # r)))) \<and>
    (\<forall>v. Attr ''sandbox'' v \<in> set attrs \<longleftrightarrow> v = ''allow-scripts allow-forms'') \<and>
    els ''a'' (PreviewTab sb st t) = []"
proof -
  have inv: "preview_inv (sb_id sb) st" using assms(1) by (rule preview.reach_inv)
  from assms(2) obtain src where src: "preview_src (sb_id sb) st = Some src" and run: "sb_state sb = RUNNING"
    and attrs: "Attr ''src'' src \<in> set attrs" "\<forall>v. Attr ''sandbox'' v \<in> set attrs \<longleftrightarrow> v = ''allow-scripts allow-forms''"
    by (auto simp: els_preview split: option.splits if_splits)
  from src obtain p where p: "pv_port st = Some p" "pv_sessionReady st" "src = proxyURL (sb_id sb) p (pv_path st)"
    by (auto simp: preview_src_def truthy_num_def split: if_splits option.splits)
  have port: "1 \<le> p" "p \<le> 65535" using inv p(1) by (simp_all add: preview_inv_def port_ok_def)
  have src_at: "js_startsWith src (''/v0/sandboxes/'' @ sb_id sb @ ''/proxy/'' @ js_num p @ ''/'')"
    unfolding p(3) by (rule proxy_prefix)
  have below: "url_word (sb_id sb) \<longrightarrow> \<not> climbs 0 (url_segments (rooted (pv_path st))) \<longrightarrow>
      (\<exists>rest. rest \<noteq> [] \<and> loaded_path src = [''v0'', ''sandboxes'', sb_id sb, ''proxy'', js_num p] @ rest)"
    unfolding p(3) proxy_base_def [symmetric] using proxy_below [OF _ port(1)] by simp
  have escape: "url_word (sb_id sb) \<longrightarrow> (\<forall>r. pv_path st = ''/../../../../../'' @ r \<longrightarrow> loaded_path src = loaded_path (CHR ''/'' # r))"
  proof (intro impI allI)
    fix r
    assume "url_word (sb_id sb)" and "pv_path st = ''/../../../../../'' @ r"
    then show "loaded_path src = loaded_path (CHR ''/'' # r)" by (simp only: p(3) proxy_escape [OF _ port(1)])
  qed
  show ?thesis
    by (intro conjI exI [of _ p] exI [of _ src])
       (rule run, rule p(2), rule p(1), rule port(1), rule port(2), rule attrs(1), rule src_at,
        use below escape in blast, rule attrs(2), rule els_preview(2))
qed

text \<open>C30: The recent ports survive in storage.  The list that a tab reads back is at any time short,
  without duplicates and in range.  Opening a port puts it first, keeps the four most recent others in
  order, leaves the other keys of the storage alone, and a tab mounted later starts on that port; a
  number out of range changes nothing.\<close>

theorem recent_ports:
  assumes "reach (preview_start sid) (run_step (preview_handle sid)) st" and "st' = preview_open sid (Some p) st"
  shows "ports_ok (loadRecent sid (pv_storage st)) \<and>
    (1 \<le> p \<and> p \<le> 65535 \<longrightarrow>
       loadRecent sid (pv_storage st') = p # take 4 (filter (\<lambda>x. x \<noteq> p) (loadRecent sid (pv_storage st))) \<and>
       pv_port (preview_init sid (pv_storage st')) = Some p \<and>
       (\<forall>k. k \<noteq> recentKey sid \<longrightarrow> ls_get k (pv_storage st') = ls_get k (pv_storage st))) \<and>
    (\<not> (1 \<le> p \<and> p \<le> 65535) \<longrightarrow> st' = st)"
proof -
  have inv: "preview_inv sid st" using assms(1) by (rule preview.reach_inv)
  show ?thesis
  proof (cases "port_ok p")
    case True
    then have "pv_storage st' = ls_set (recentKey sid) (JSON_stringify_ints (next_ports p (loadRecent sid (pv_storage st)))) (pv_storage st)"
      by (simp add: assms(2) preview_open_def port_ok_def next_ports_def Let_def)
    then show ?thesis
      using inv True by (simp add: preview_inv_def load_stored next_ports_take port_ok_def preview_init_def Let_def ls.get_put_other)
  next
    case False
    then show ?thesis using inv by (auto simp: preview_inv_def port_ok_def assms(2) preview_open_def)
  qed
qed

lemma fresh_start: "preview_start sid (preview_init sid Map.empty)"
proof -
  have "loadRecent sid Map.empty = []" unfolding loadRecent_def ls_get_def by code_simp
  then show ?thesis by (auto simp: preview_start_def ports_ok_def intro!: exI [of _ Map.empty])
qed

lemma fresh_reach: "reach (preview_start sid) (run_step (preview_handle sid)) (preview_init sid Map.empty)"
  by (rule reach_init) (rule fresh_start)

theorem recent_ports_witness:
  "pv_port (preview_init ''s'' (pv_storage (preview_open ''s'' (Some 8080) (preview_init ''s'' Map.empty)))) = Some 8080"
  using recent_ports [OF fresh_reach refl, of "''s''" 8080] by simp

theorem preview_frame_confined_witness:
  "\<exists>attrs \<in> set (els ''iframe'' (PreviewTab sandbox0
      (preview_session (Inr ()) (preview_open (sb_id sandbox0) (Some 8080) (preview_init (sb_id sandbox0) Map.empty))) (tr En))).
    Attr ''sandbox'' ''allow-scripts allow-forms'' \<in> set attrs"
proof -
  let ?sid = "sb_id sandbox0"
  let ?st = "preview_session (Inr ()) (preview_open ?sid (Some 8080) (preview_init ?sid Map.empty))"
  have "reach (preview_start ?sid) (run_step (preview_handle ?sid)) (preview_open ?sid (Some 8080) (preview_init ?sid Map.empty))"
    by (rule reach_step [OF fresh_reach, of _ "PAct (OpenChip 8080)"])
       (simp add: run_step_def preview_handle_def preview_update_def)
  then have r: "reach (preview_start ?sid) (run_step (preview_handle ?sid)) ?st"
    by (rule reach_step [of _ _ _ "PSession (Inr ())"]) (simp add: run_step_def preview_handle_def)
  have "preview_src ?sid ?st \<noteq> None" by (simp add: preview_src_def preview_session_def preview_open_def Let_def)
  then obtain attrs where "attrs \<in> set (els ''iframe'' (PreviewTab sandbox0 ?st (tr En)))"
    by (auto simp: els_preview sandbox0_def)
  moreover from preview_frame_confined [OF r this]
  have "\<forall>v. Attr ''sandbox'' v \<in> set attrs \<longleftrightarrow> v = ''allow-scripts allow-forms''" by (elim conjE) assumption
  ultimately show ?thesis by blast
qed

end
