(* ===== verification/StoragePage.thy ===== *)
theory StoragePage
  imports OverviewTab
begin

text \<open>
  The storage page (\<open>web/src/pages/Storage.tsx\<close>): the totals, the stored bytes by tier with the bar
  drawn from them, and the table sorted by the chosen column.
\<close>

definition TIER_COLOR :: "Tier \<Rightarrow> string" where
  "TIER_COLOR tier = (case tier of
     TierHot \<Rightarrow> ''var(--color-hot)'' | TierWarm \<Rightarrow> ''var(--color-warm)'' | TierCold \<Rightarrow> ''var(--color-cold)''
   | TierRecycled \<Rightarrow> ''var(--color-idle)'' | TierNone \<Rightarrow> ''var(--color-faint)'')"

definition TIER_ORDER :: "Tier list" where
  "TIER_ORDER = [TierHot, TierWarm, TierCold, TierRecycled, TierNone]"

datatype storage_key = KLogical | KStored | KRatio

record storage_sort =
  so_key :: storage_key
  so_dir :: int

definition storage_init :: storage_sort where
  "storage_init = \<lparr>so_key = KStored, so_dir = -1\<rparr>"

section \<open>Derived data\<close>

definition tier_sums :: "StorageReport list \<Rightarrow> Tier \<rightharpoonup> int" where
  "tier_sums rs = foldl (\<lambda>m r. m(sr_tier r \<mapsto> nullish (m (sr_tier r)) 0 + sr_stored_bytes r)) Map.empty rs"

definition byTier :: "StorageReport list \<Rightarrow> (Tier \<times> int) list" where
  "byTier rs = filter (\<lambda>(_, bytes). bytes > 0) (map (\<lambda>tier. (tier, nullish (tier_sums rs tier) 0)) TIER_ORDER)"

definition tierTotal :: "StorageReport list \<Rightarrow> int" where
  "tierTotal rs = foldl (\<lambda>n (_, bytes). n + bytes) 0 (byTier rs)"

definition storage_val :: "storage_key \<Rightarrow> StorageReport \<Rightarrow> rat" where
  "storage_val key r =
     (if key = KLogical then of_int (sr_logical_bytes r)
      else if key = KStored then of_int (sr_stored_bytes r) else sr_stored_ratio r)"

definition storage_rows :: "storage_sort \<Rightarrow> StorageReport list \<Rightarrow> StorageReport list" where
  "storage_rows so rs = js_sort (\<lambda>a b. (storage_val (so_key so) a - storage_val (so_key so) b) * of_int (so_dir so)) rs"

definition storage_toggle :: "storage_key \<Rightarrow> storage_sort \<Rightarrow> storage_sort" where
  "storage_toggle key so =
     (if so_key so = key then \<lparr>so_key = key, so_dir = (if so_dir so = 1 then -1 else 1)\<rparr>
      else \<lparr>so_key = key, so_dir = -1\<rparr>)"

section \<open>The page\<close>

definition storage_SortHeader :: "string \<Rightarrow> bool \<Rightarrow> int \<Rightarrow> 'a \<Rightarrow> 'a vnode" where
  "storage_SortHeader name active dir onClick =
     El ''button''
       [On ''click'' onClick,
        Attr ''aria-sort'' (if active then (if dir = 1 then ''ascending'' else ''descending'') else ''none'')]
       ([Txt name] @ shown active [El ''span'' [] [Txt (if dir = 1 then (zh [0x25B2]) else (zh [0x25BC]))]])"

definition tier_share :: "int \<Rightarrow> int \<Rightarrow> rat" where
  "tier_share bytes whole = of_int bytes / of_int whole * 100"

definition tier_bar :: "StorageReport list \<Rightarrow> 'a vnode" where
  "tier_bar rs =
     El ''div'' []
       (map (\<lambda>(i, tier, bytes).
          El ''div'' [Pct ''width'' (Some (tier_share bytes (tierTotal rs))), Attr ''background'' (TIER_COLOR tier),
                      Num ''marginLeft'' (if i = 0 then 0 else 2),
                      Attr ''title'' (tier_text tier @ '': '' @ fmtBytes bytes)] [])
        (enumerate 0 (byTier rs)))"

definition tier_legend :: "StorageReport list \<Rightarrow> 'a vnode" where
  "tier_legend rs =
     El ''div'' []
       (map (\<lambda>(tier, bytes).
          El ''span'' []
            [El ''span'' [Attr ''background'' (TIER_COLOR tier)] [], Txt (tier_text tier), El ''span'' [] [Txt (fmtBytes bytes)]])
        (byTier rs))"

definition tier_card :: "StorageReport list \<Rightarrow> TFn \<Rightarrow> 'a vnode" where
  "tier_card rs t = Card [Txt (t ''Stored bytes by tier'' (zh [0x6309, 0x5C42, 0x7EA7, 0x7684, 0x5B58, 0x50A8, 0x5B57, 0x8282]))] [] None [El ''div'' [] [tier_bar rs, tier_legend rs]]"

definition storage_stats :: "int \<Rightarrow> int \<Rightarrow> TFn \<Rightarrow> 'a vnode" where
  "storage_stats logical stored t =
     El ''div'' []
       [Stat [Txt (t ''Logical'' (zh [0x903B, 0x8F91, 0x5927, 0x5C0F]))] [Txt (fmtBytes logical)] [] False,
        Stat [Txt (t ''Stored'' (zh [0x5B9E, 0x9645, 0x5B58, 0x50A8]))] [Txt (fmtBytes stored)] [] True,
        Stat [Txt (t ''Paying for'' (zh [0x5B9E, 0x4ED8, 0x5360, 0x6BD4]))]
          [Txt (if logical > 0 then fmtPct (of_int stored / of_int logical) else (zh [0x2014]))]
          [Txt (t (''stored '' @ zh [0xF7] @ '' logical after dedup'') (zh [0x53BB, 0x91CD, 0x540E] @ '' '' @ zh [0x5B9E, 0x5B58, 0xF7, 0x903B, 0x8F91]))] False]"

definition storage_row :: "StorageReport \<Rightarrow> 'a vnode" where
  "storage_row r =
     El ''tr'' []
       [cell [El ''a'' [Attr ''href'' (''/sandboxes/'' @ sr_sandbox_id r)] [Mono [Txt (js_slice (sr_sandbox_id r) 0 8)] None]],
        cell [El ''span'' [Attr ''color'' (TIER_COLOR (sr_tier r))]
                [El ''span'' [Attr ''background'' (TIER_COLOR (sr_tier r))] [], Txt (tier_text (sr_tier r))]],
        cell [Mono [Txt (fmtBytes (sr_logical_bytes r))] (Some ''tabular-nums'')],
        cell [Mono [Txt (fmtBytes (sr_stored_bytes r))] (Some ''tabular-nums'')],
        cell [Mono [Txt (if sr_logical_bytes r > 0 then fmtPct (sr_stored_ratio r) else (zh [0x2014]))] (Some ''text-muted tabular-nums'')],
        cell [Mono [Txt (js_num (sr_layers r))] (Some ''text-muted tabular-nums'')]]"

definition storage_head :: "storage_sort \<Rightarrow> TFn \<Rightarrow> storage_key vnode list list" where
  "storage_head so t =
     (let sh = (\<lambda>name key. [storage_SortHeader name (so_key so = key) (so_dir so) key])
      in [[Txt (t ''Sandbox'' (zh [0x6C99, 0x7BB1]))], [Txt (t ''Tier'' (zh [0x5C42, 0x7EA7]))], sh (t ''Logical'' (zh [0x903B, 0x8F91, 0x5927, 0x5C0F])) KLogical,
          sh (t ''Stored'' (zh [0x5B9E, 0x9645, 0x5B58, 0x50A8])) KStored, sh (t ''Ratio'' (zh [0x6BD4, 0x7387])) KRatio, [Txt (t ''Layers'' (zh [0x5C42, 0x6570]))]])"

text \<open>The only action of the page is a click on a sortable column.\<close>

definition Storage :: "storage_sort \<Rightarrow> StorageReportAll option \<Rightarrow> bool \<Rightarrow> TFn \<Rightarrow> storage_key vnode" where
  "Storage so data isLoading t =
     (let rs = (case data of None \<Rightarrow> [] | Some d \<Rightarrow> sa_sandboxes d);
          logical = (case data of None \<Rightarrow> 0 | Some d \<Rightarrow> sa_total_logical_bytes d);
          stored = (case data of None \<Rightarrow> 0 | Some d \<Rightarrow> sa_total_stored_bytes d)
      in El ''div'' []
       ([PageHeader [Txt (t ''Storage'' (zh [0x5B58, 0x50A8]))]
           [Txt (t ''What each sandbox's snapshots cost after zero-skip, lz4, and dedup.''
                   (zh [0x6BCF, 0x4E2A, 0x6C99, 0x7BB1, 0x7684, 0x5FEB, 0x7167, 0x5728, 0x96F6, 0x9875, 0x8DF3, 0x8FC7, 0x3001] @ ''lz4 '' @ zh [0x4E0E, 0x53BB, 0x91CD, 0x4E4B, 0x540E, 0x7684, 0x5B9E, 0x9645, 0x5F00, 0x9500, 0x3002]))] [],
         storage_stats logical stored t] @
        shown (tierTotal rs > 0) [tier_card rs t] @
        [Table (storage_head so t) (map storage_row (storage_rows so rs))] @
        shown isLoading [Skeleton (Some ''h-24 w-full'')] @
        shown (\<not> isLoading \<and> rs = [])
          [Empty [Txt (t (''Nothing stored yet '' @ zh [0x2014] @ '' pause a sandbox to see its footprint.'')
                         (zh [0x6682, 0x65E0, 0x5B58, 0x50A8] @ '' '' @ zh [0x2014, 0x2014] @ '' '' @ zh [0x6682, 0x505C, 0x4E00, 0x4E2A, 0x6C99, 0x7BB1, 0x5373, 0x53EF, 0x67E5, 0x770B, 0x5176, 0x5360, 0x7528, 0x3002]))]]))"

section \<open>Facts\<close>

lemma tier_sums_snoc: "tier_sums (rs @ [r]) = (tier_sums rs)(sr_tier r \<mapsto> nullish (tier_sums rs (sr_tier r)) 0 + sr_stored_bytes r)"
  by (simp add: tier_sums_def)

lemma tier_sums_eq: "nullish (tier_sums rs tier) 0 = (\<Sum>r \<leftarrow> filter (\<lambda>r. sr_tier r = tier) rs. sr_stored_bytes r)"
proof (induction rs rule: rev_induct)
  case (snoc r rs)
  then show ?case by (auto simp: tier_sums_snoc)
qed (simp add: tier_sums_def)

lemma sum_tiers: "(\<Sum>tier \<leftarrow> TIER_ORDER. \<Sum>r \<leftarrow> filter (\<lambda>r. sr_tier r = tier) rs. f r) = (\<Sum>r \<leftarrow> rs. f r :: int)"
proof (induction rs)
  case (Cons r rs)
  then show ?case by (cases "sr_tier r") (simp_all add: TIER_ORDER_def)
qed (simp add: TIER_ORDER_def)

lemma sum_positive: "\<forall>x \<in> set xs. (0 :: int) \<le> f x \<Longrightarrow> (\<Sum>x \<leftarrow> filter (\<lambda>x. f x > 0) xs. f x) = (\<Sum>x \<leftarrow> xs. f x)"
  by (induction xs) auto

lemma foldl_sum: "foldl (\<lambda>n (_, b). n + b) a xs = a + (\<Sum>x \<leftarrow> xs. snd x :: int)"
  by (induction xs arbitrary: a) (auto simp: split_beta)

lemma tierTotal_eq:
  assumes "\<forall>r \<in> set rs. 0 \<le> sr_stored_bytes r"
  shows "tierTotal rs = (\<Sum>r \<leftarrow> rs. sr_stored_bytes r)"
proof -
  let ?s = "\<lambda>tier. nullish (tier_sums rs tier) 0"
  have "\<forall>tier \<in> set TIER_ORDER. 0 \<le> ?s tier"
    unfolding tier_sums_eq using assms by (auto intro!: sum_list_nonneg)
  from sum_positive [OF this] have "tierTotal rs = (\<Sum>tier \<leftarrow> TIER_ORDER. ?s tier)"
    by (simp add: tierTotal_def foldl_sum byTier_def filter_map o_def split_beta)
  then show ?thesis unfolding tier_sums_eq sum_tiers .
qed

lemma share_sum: "(\<Sum>x \<leftarrow> xs. tier_share (f x) n) = of_int (\<Sum>x \<leftarrow> xs. f x) / of_int n * 100"
  by (induction xs) (simp_all add: tier_share_def add_divide_distrib algebra_simps)

lemma pcts_bar: "pcts_of (tier_bar rs) = map (\<lambda>(tier, b). (''width'', Some (tier_share b (tierTotal rs)))) (byTier rs)"
proof -
  have "concat (map pcts_of (map (\<lambda>(i, tier, bytes).
          El ''div'' [Pct ''width'' (Some (tier_share bytes n)), Attr ''background'' (TIER_COLOR tier),
                      Num ''marginLeft'' (if i = 0 then 0 else 2),
                      Attr ''title'' (tier_text tier @ '': '' @ fmtBytes bytes)] []) (enumerate k xs)))
      = map (\<lambda>(tier, b). (''width'', Some (tier_share b n))) xs" for n k and xs :: "(Tier \<times> int) list"
    by (induction xs arbitrary: k) auto
  then show ?thesis by (simp add: tier_bar_def)
qed

lemma storage_rows_key: "storage_rows so rs = sort_key (\<lambda>r. of_int (so_dir so) * storage_val (so_key so) r) rs"
  unfolding storage_rows_def js_sort_key [symmetric] by (simp add: algebra_simps)

definition sorted_so :: "storage_sort \<Rightarrow> bool" where
  "sorted_so so \<longleftrightarrow> so_dir so = 1 \<or> so_dir so = -1"

interpretation reports: sorted_view storage_rows "\<lambda>_ _. True" "\<lambda>so. storage_val (so_key so)" so_dir "\<lambda>so _. sorted_so so"
  by unfold_locales (auto simp: storage_rows_key sorted_so_def)

section \<open>Properties\<close>

text \<open>The tier bar accounts for every stored byte.  For reports without negative sizes the tiers of
  the legend are exactly those that store something, each once and in the order from hot to none; a
  tier's number is the sum of its sandboxes and the numbers add up to the sum of all; and when the bar
  is drawn its widths add up to 100 percent, each in proportion to its bytes.\<close>

theorem tier_bar_accounts:
  assumes "\<forall>r \<in> set rs. 0 \<le> sr_stored_bytes r"
  shows "map fst (byTier rs) = filter (\<lambda>tier. \<exists>r \<in> set rs. sr_tier r = tier \<and> sr_stored_bytes r > 0) TIER_ORDER \<and>
    (\<forall>(tier, b) \<in> set (byTier rs). b = (\<Sum>r \<leftarrow> filter (\<lambda>r. sr_tier r = tier) rs. sr_stored_bytes r)) \<and>
    tierTotal rs = (\<Sum>r \<leftarrow> rs. sr_stored_bytes r) \<and>
    (tierTotal rs > 0 \<longrightarrow>
       pcts_of (tier_bar rs) = map (\<lambda>(tier, b). (''width'', Some (of_int b * (100 / of_int (tierTotal rs))))) (byTier rs) \<and>
       (\<Sum>(k, w) \<leftarrow> pcts_of (tier_bar rs). nullish w 0) = 100)"
proof (intro conjI impI)
  have pos: "0 < (\<Sum>r \<leftarrow> filter (\<lambda>r. sr_tier r = tier) rs. sr_stored_bytes r) \<longleftrightarrow>
      (\<exists>r \<in> set rs. sr_tier r = tier \<and> sr_stored_bytes r > 0)" for tier
    using assms
  proof (induction rs)
    case (Cons r rs)
    have "0 \<le> (\<Sum>r \<leftarrow> filter (\<lambda>r. sr_tier r = tier) rs. sr_stored_bytes r)"
      using Cons.prems by (auto intro!: sum_list_nonneg)
    with Cons show ?case by auto
  qed simp
  show "map fst (byTier rs) = filter (\<lambda>tier. \<exists>r \<in> set rs. sr_tier r = tier \<and> sr_stored_bytes r > 0) TIER_ORDER"
    unfolding byTier_def tier_sums_eq by (simp add: filter_map o_def pos)
  show "\<forall>(tier, b) \<in> set (byTier rs). b = (\<Sum>r \<leftarrow> filter (\<lambda>r. sr_tier r = tier) rs. sr_stored_bytes r)"
    unfolding byTier_def tier_sums_eq by auto
  show "tierTotal rs = (\<Sum>r \<leftarrow> rs. sr_stored_bytes r)" by (rule tierTotal_eq [OF assms])
  assume n: "tierTotal rs > 0"
  show "pcts_of (tier_bar rs) = map (\<lambda>(tier, b). (''width'', Some (of_int b * (100 / of_int (tierTotal rs))))) (byTier rs)"
    by (simp add: pcts_bar tier_share_def)
  have "tierTotal rs = (\<Sum>x \<leftarrow> byTier rs. snd x)" by (simp add: tierTotal_def foldl_sum)
  with n share_sum [of snd "tierTotal rs" "byTier rs"]
  show "(\<Sum>(k, w) \<leftarrow> pcts_of (tier_bar rs). nullish w 0) = 100"
    by (simp add: pcts_bar o_def split_beta)
qed

definition report0 :: StorageReport where
  "report0 = \<lparr>sr_sandbox_id = ''aaaa'', sr_state = ''PAUSED_HOT'', sr_tier = TierHot, sr_logical_bytes = 400,
     sr_stored_bytes = 100, sr_chunk_count = 1, sr_stored_ratio = 1 / 4, sr_artifact_bytes = None, sr_layers = 1\<rparr>"

lemma report0_sel [simp]: "sr_tier report0 = TierHot" "sr_stored_bytes report0 = 100"
  by (simp_all add: report0_def)

theorem tier_bar_accounts_witness:
  "(\<Sum>(k, w) \<leftarrow> pcts_of (tier_bar [report0, report0\<lparr>sr_tier := TierCold, sr_stored_bytes := 300\<rparr>]). nullish w 0) = 100"
proof -
  let ?rs = "[report0, report0\<lparr>sr_tier := TierCold, sr_stored_bytes := 300\<rparr>]"
  have "\<forall>r \<in> set ?rs. 0 \<le> sr_stored_bytes r" by simp
  note ok = tier_bar_accounts [OF this]
  have "tierTotal ?rs > 0" unfolding ok [THEN conjunct2, THEN conjunct2, THEN conjunct1] by simp
  with ok show ?thesis by blast
qed

text \<open>The storage table shows every report once, in the order of the chosen column (stably).  A click
  on another column sorts it from large to small, a second click turns the order around, and after a
  third the table is as after the first.\<close>

theorem storage_table:
  assumes "so_dir so = 1 \<or> so_dir so = -1" and "once = storage_toggle key so" and "twice = storage_toggle key once"
  shows "mset (storage_rows so rs) = mset rs \<and>
    sorted_wrt (\<lambda>a b. of_int (so_dir so) * storage_val (so_key so) a \<le> of_int (so_dir so) * storage_val (so_key so) b)
      (storage_rows so rs) \<and>
    (\<forall>v. filter (\<lambda>r. storage_val (so_key so) r = v) (storage_rows so rs) = filter (\<lambda>r. storage_val (so_key so) r = v) rs) \<and>
    (so_key so \<noteq> key \<longrightarrow>
       sorted_wrt (\<lambda>a b. storage_val key a \<ge> storage_val key b) (storage_rows once rs) \<and>
       sorted_wrt (\<lambda>a b. storage_val key a \<le> storage_val key b) (storage_rows twice rs)) \<and>
    storage_toggle key twice = once"
proof -
  have so: "sorted_so so" using assms(1) by (simp add: sorted_so_def)
  have turned: "storage_toggle key twice = once" using assms(1) by (auto simp: assms(2,3) storage_toggle_def)
  have "sorted_wrt (\<lambda>a b. storage_val key a \<ge> storage_val key b) (storage_rows once rs) \<and>
      sorted_wrt (\<lambda>a b. storage_val key a \<le> storage_val key b) (storage_rows twice rs)" if "so_key so \<noteq> key"
    using reports.view_down [of once rs] reports.view_up [of twice rs] that
    by (simp add: assms(2,3) storage_toggle_def sorted_so_def)
  then show ?thesis
    using turned reports.view_complete [of so rs] reports.view_ordered [of so rs] reports.view_stable [of so] so by simp
qed

theorem storage_table_witness:
  "sorted_wrt (\<lambda>a b. sr_stored_bytes a \<ge> sr_stored_bytes b)
     (storage_rows storage_init [report0, report0\<lparr>sr_stored_bytes := 300\<rparr>])"
  using storage_table [of storage_init, OF _ refl refl, of "[report0, report0\<lparr>sr_stored_bytes := 300\<rparr>]"]
  by (simp add: storage_init_def storage_val_def)

end
