(* ===== verification/NodesPage.thy ===== *)
theory NodesPage
  imports OverviewTab
begin

text \<open>
  The nodes page (\<open>web/src/pages/Nodes.tsx\<close>): a card per node with its memory and vCPU bars, and the
  drawer that lists the sandboxes of the selected node, joined by node id on the client.
\<close>

section \<open>Bars\<close>

definition NodeMemoryBar :: "NodeView \<Rightarrow> TFn \<Rightarrow> 'a vnode" where
  "NodeMemoryBar n t =
     (case (nd_ceiling_mib n, nd_base_mib n) of
        (Some ceil, Some base) \<Rightarrow>
          OversellBar (t ''memory'' (zh [0x5185, 0x5B58])) base (nd_used_mib n) ceil (nd_capacity_mib n)
            (nullish (nd_mem_budget_mib n) 0) fmtMiB
            (Some (t (''If every sandbox grew to its ceiling this node would need '' @ fmtMiB ceil @ ('' '' @ zh [0x2014] @ '' grows will defer.''))
                     ((zh [0x82E5, 0x6240, 0x6709, 0x6C99, 0x7BB1, 0x90FD, 0x6DA8, 0x5230, 0x4E0A, 0x9650, 0xFF0C, 0x6B64, 0x8282, 0x70B9, 0x9700] @ '' '') @ fmtMiB ceil @ ('' '' @ zh [0x2014, 0x2014] @ '' '' @ zh [0x5C4A, 0x65F6, 0x6269, 0x5BB9, 0x5C06, 0x88AB, 0x63A8, 0x8FDF, 0x3002]))))
      | _ \<Rightarrow> CapacityBar (t ''memory'' (zh [0x5185, 0x5B58])) (nd_used_mib n) (nd_capacity_mib n) fmtMiB)"

definition NodeCPUBar :: "NodeView \<Rightarrow> TFn \<Rightarrow> 'a vnode" where
  "NodeCPUBar n t =
     (case (nd_ceiling_vcpus n, nd_base_vcpus n) of
        (Some ceil, Some base) \<Rightarrow>
          OversellBar (t ''vcpus'' ''vCPU'') base (nd_used_vcpus n) ceil (nullish (nd_cpu_cores n) 0)
            (nullish (nd_vcpu_budget n) 0) js_num
            (Some (t (''If every sandbox grew to its vCPU ceiling this node would owe '' @ js_num ceil @ ('' vCPUs '' @ zh [0x2014] @ '' grows will defer.''))
                     ((zh [0x82E5, 0x6240, 0x6709, 0x6C99, 0x7BB1, 0x90FD, 0x6DA8, 0x5230] @ '' vCPU '' @ zh [0x4E0A, 0x9650, 0xFF0C, 0x6B64, 0x8282, 0x70B9, 0x9700] @ '' '') @ js_num ceil @ ('' vCPU '' @ zh [0x2014, 0x2014] @ '' '' @ zh [0x5C4A, 0x65F6, 0x6269, 0x5BB9, 0x5C06, 0x88AB, 0x63A8, 0x8FDF, 0x3002]))))
      | _ \<Rightarrow> CapacityBar (t ''vcpus'' ''vCPU'') (nd_used_vcpus n) (nullish (nd_cpu_cores n) 0) js_num)"

section \<open>Cards\<close>

definition node_liveness :: "NodeView \<Rightarrow> TFn \<Rightarrow> string" where
  "node_liveness n t = (if nd_state n = Up then t ''up'' (zh [0x5728, 0x7EBF]) else t ''down'' (zh [0x79BB, 0x7EBF]))"

definition node_status :: "NodeView \<Rightarrow> TFn \<Rightarrow> int \<Rightarrow> 'a vnode" where
  "node_status n t now =
     El ''span'' []
       [El ''span'' [Attr ''background'' (if nd_state n = Up then ''var(--color-ok)'' else ''var(--color-danger)'')] [],
        El ''span'' [Attr ''class'' (if nd_state n = Up then ''text-muted'' else ''text-danger'')]
          [Txt (node_liveness n t @ ('' '' @ zh [0xB7] @ '' '') @ fmtAge now (nd_last_seen n))]]"

definition NodeCard :: "NodeView \<Rightarrow> 'a \<Rightarrow> TFn \<Rightarrow> int \<Rightarrow> 'a vnode" where
  "NodeCard n onOpen t now =
     El ''button'' [On ''click'' onOpen]
       [El ''div'' [] [Mono [Txt (nd_id n)] (Some ''font-semibold text-ink''), node_status n t now],
        El ''div'' []
          [NodeMemoryBar n t, NodeCPUBar n t,
           El ''div'' [] [El ''span'' [] [Txt (js_num (nd_active_sandboxes n))], Txt ('' '' @ t ''active'' (zh [0x6D3B, 0x8DC3]))]]]"

section \<open>Detail\<close>

definition here :: "NodeView \<Rightarrow> Sandbox list \<Rightarrow> Sandbox list" where
  "here n xs = filter (\<lambda>sb. or_str (sb_node_id sb) ''local'' = nd_id n) xs"

definition node_meta :: "NodeView \<Rightarrow> TFn \<Rightarrow> int \<Rightarrow> (string \<times> string) list" where
  "node_meta n t now =
     [(t ''state'' (zh [0x72B6, 0x6001]), node_liveness n t),
      (t ''address'' (zh [0x5730, 0x5740]), or_str (nd_addr n) (zh [0x2014])),
      (t ''cpu cores'' (''CPU '' @ zh [0x6838, 0x6570]), if truthy_num (nd_cpu_cores n) then js_num (nullish (nd_cpu_cores n) 0) else (zh [0x2014])),
      (t ''capacity'' (zh [0x5BB9, 0x91CF]), if nd_capacity_mib n > 0 then fmtMiB (nd_capacity_mib n) else t ''unlimited'' (zh [0x65E0, 0x9650, 0x5236])),
      (t ''used'' (zh [0x5DF2, 0x7528]), fmtMiB (nd_used_mib n)),
      (t ''last seen'' (zh [0x6700, 0x540E, 0x5FC3, 0x8DF3]), fmtAge now (nd_last_seen n) @ '' '' @ t ''ago'' (zh [0x524D]))]"

definition node_sandbox :: "TFn \<Rightarrow> Sandbox \<Rightarrow> 'a vnode" where
  "node_sandbox t sb =
     El ''li'' []
       [El ''a'' [Attr ''href'' (''/sandboxes/'' @ sb_id sb)] [Mono [Txt (js_slice (sb_id sb) 0 8)] (Some ''text-[12px]'')],
        El ''div'' []
          (shown (truthy_bool (sb_autoscale sb)) [AutoscaleBadge t True False] @
           [MemGauge (sb_state sb) (sb_memory_mib sb) (sb_base_memory_mib sb) (sb_max_memory_mib sb) False,
            StateBadge t (sb_state sb)])]"

definition NodeDetail :: "NodeView \<Rightarrow> Sandbox list \<Rightarrow> TFn \<Rightarrow> int \<Rightarrow> 'a vnode" where
  "NodeDetail n xs t now =
     (let hs = here n xs
      in El ''div'' []
       [fact_grid (node_meta n t now),
        El ''div'' [] [NodeMemoryBar n t, NodeCPUBar n t],
        El ''div'' []
          [El ''h3'' [] [Txt (t ''Sandboxes here'' (zh [0x6B64, 0x8282, 0x70B9, 0x4E0A, 0x7684, 0x6C99, 0x7BB1]) @ '' ('' @ js_num (int (length hs)) @ '')'')],
           if hs = [] then Empty [Txt (t ''No sandboxes on this node.'' (zh [0x6B64, 0x8282, 0x70B9, 0x4E0A, 0x6682, 0x65E0, 0x6C99, 0x7BB1, 0x3002]))]
           else El ''ul'' [] (map (node_sandbox t) hs)]])"

section \<open>The page\<close>

datatype nodes_action = OpenNode string | CloseNode

definition nodes_update :: "nodes_action \<Rightarrow> string option \<Rightarrow> string option" where
  "nodes_update a selected = (case a of OpenNode i \<Rightarrow> Some i | CloseNode \<Rightarrow> None)"

definition selected_node :: "NodeView list option \<Rightarrow> string option \<Rightarrow> NodeView option" where
  "selected_node data selected = find (\<lambda>n. Some (nd_id n) = selected) (nullish data [])"

definition Nodes :: "NodeView list option \<Rightarrow> bool \<Rightarrow> Sandbox list option \<Rightarrow> string option \<Rightarrow> TFn \<Rightarrow> int \<Rightarrow> nodes_action vnode" where
  "Nodes data isLoading xs selected t now =
     (let node = selected_node data selected
      in El ''div'' []
       ([PageHeader [Txt (t ''Nodes'' (zh [0x8282, 0x70B9]))] [Txt (t ''Capacity and liveness across the cluster.'' (zh [0x96C6, 0x7FA4, 0x7684, 0x5BB9, 0x91CF, 0x4E0E, 0x5B58, 0x6D3B, 0x72B6, 0x6001, 0x3002]))] []] @
        shown isLoading [El ''div'' [] (map (\<lambda>_. Skeleton (Some ''h-36 w-full'')) [0 :: nat, 1, 2])] @
        shown_opt data (\<lambda>ns. shown (ns \<noteq> []) [El ''div'' [] (map (\<lambda>n. NodeCard n (OpenNode (nd_id n)) t now) ns)]) @
        shown_opt data (\<lambda>ns. shown (ns = []) [Empty [Txt (t ''No nodes registered.'' (zh [0x6682, 0x65E0, 0x5DF2, 0x6CE8, 0x518C, 0x8282, 0x70B9, 0x3002]))]]) @
        shown (node \<noteq> None)
          [Drawer t [Txt (t ''Node'' (zh [0x8282, 0x70B9]) @ (case node of None \<Rightarrow> '''' | Some n \<Rightarrow> '' '' @ nd_id n))] CloseNode
             (shown_opt node (\<lambda>n. [NodeDetail n (nullish xs []) t now]))]))"

section \<open>Facts\<close>

lemma offer_node_bars [simp]: "offer (NodeMemoryBar n t) = []" "offer (NodeCPUBar n t) = []"
  by (simp_all add: NodeMemoryBar_def NodeCPUBar_def split: option.splits)

lemma offer_grid [simp]: "offer (fact_grid kvs) = []"
  by (induction kvs) (auto simp: fact_grid_def attr_actions_def)

lemma offer_card [simp]: "offer (NodeCard n h t now) = [h]"
  by (simp add: NodeCard_def node_status_def attr_actions_def)

lemma offers_node_sandboxes [simp]: "offers (map (node_sandbox t) hs) = []"
  by (induction hs) (simp_all add: node_sandbox_def attr_actions_def shown_def)

lemma offer_detail [simp]: "offer (NodeDetail n xs t now) = []"
  by (simp add: NodeDetail_def Let_def)

lemma find_key: "distinct (map key ns) \<Longrightarrow> find (\<lambda>n. Some (key n) = sel) ns = Some n \<longleftrightarrow> n \<in> set ns \<and> sel = Some (key n)"
  by (induction ns) auto

lemma selected_node_iff: "distinct (map nd_id ns) \<Longrightarrow>
  selected_node (Some ns) sel = Some n \<longleftrightarrow> n \<in> set ns \<and> sel = Some (nd_id n)"
  by (simp add: selected_node_def find_key)

lemma offer_Nodes: "offer (Nodes data isLoading xs sel t now) =
  map (\<lambda>n. OpenNode (nd_id n)) (nullish data []) @ shown (selected_node data sel \<noteq> None) [CloseNode, CloseNode, CloseNode]"
proof -
  have cards: "offers (map (\<lambda>n. NodeCard n (OpenNode (nd_id n)) t now) ns) = map (\<lambda>n. OpenNode (nd_id n)) ns" for ns
    by (induction ns) simp_all
  show ?thesis
    by (cases data; cases "selected_node data sel"; cases isLoading) (auto simp: Nodes_def Let_def cards shown_def)
qed

lemma here_sum:
  assumes "distinct (map nd_id ns)"
  shows "(\<Sum>n \<leftarrow> ns. length (here n xs)) = length (filter (\<lambda>sb. or_str (sb_node_id sb) ''local'' \<in> nd_id ` set ns) xs)"
  using assms
proof (induction ns)
  case (Cons n ns)
  let ?k = "\<lambda>sb. or_str (sb_node_id sb) ''local''"
  have "length (filter (\<lambda>sb. ?k sb \<in> nd_id ` set (n # ns)) xs) =
      length (filter (\<lambda>sb. ?k sb = nd_id n) xs) + length (filter (\<lambda>sb. ?k sb \<in> nd_id ` set ns) xs)"
    using Cons.prems by (induction xs) auto
  with Cons show ?case by (simp add: here_def)
qed simp

section \<open>Properties\<close>

text \<open>C37: The join of nodes and sandboxes.  With distinct node ids a sandbox is listed on exactly the node
  that opening its node id selects, so that no sandbox is listed twice and the lists together hold every
  sandbox whose node is registered.  A sandbox without a node id counts as on the node named local, and
  where no node has that name it is listed nowhere.  The drawer follows the fetched data: each card opens
  its own node, and when the selected node leaves the list the drawer is gone.\<close>

theorem nodes_join:
  assumes "distinct (map nd_id ns)" and "place = (\<lambda>sb. or_str (sb_node_id sb) ''local'')"
  shows "(\<forall>n \<in> set ns. \<forall>sb \<in> set xs. sb \<in> set (here n xs) \<longleftrightarrow> selected_node (Some ns) (Some (place sb)) = Some n) \<and>
    (\<Sum>n \<leftarrow> ns. length (here n xs)) = length (filter (\<lambda>sb. place sb \<in> nd_id ` set ns) xs) \<and>
    (\<forall>sb. sb_node_id sb \<in> {None, Some ''''} \<longrightarrow> ''local'' \<notin> nd_id ` set ns \<longrightarrow> (\<forall>n \<in> set ns. sb \<notin> set (here n xs))) \<and>
    (\<forall>n \<in> set ns. OpenNode (nd_id n) \<in> set (offer (Nodes (Some ns) False data sel t now)) \<and>
       selected_node (Some ns) (nodes_update (OpenNode (nd_id n)) sel) = Some n) \<and>
    (CloseNode \<in> set (offer (Nodes (Some ns) False data sel t now)) \<longleftrightarrow> (\<exists>n \<in> set ns. sel = Some (nd_id n)))"
proof -
  have sel: "selected_node (Some ns) s \<noteq> None \<longleftrightarrow> (\<exists>n \<in> set ns. s = Some (nd_id n))" for s
    using selected_node_iff [OF assms(1), of s] by (metis not_Some_eq)
  have own: "sb_node_id sb \<in> {None, Some ''''} \<Longrightarrow> place sb = ''local''" for sb by (auto simp: assms(2))
  have "(\<forall>sb. sb_node_id sb \<in> {None, Some ''''} \<longrightarrow> ''local'' \<notin> nd_id ` set ns \<longrightarrow> (\<forall>n \<in> set ns. sb \<notin> set (here n xs)))"
    using own by (fastforce simp: here_def assms(2))
  then show ?thesis
    using here_sum [OF assms(1)] selected_node_iff [OF assms(1)]
    by (auto simp: here_def assms(2) offer_Nodes sel nodes_update_def shown_def)
qed

definition nodeA :: NodeView where
  "nodeA = \<lparr>nd_id = ''a'', nd_addr = None, nd_state = Up, nd_capacity_mib = 8192, nd_cpu_cores = Some 8, nd_last_seen = '''',
     nd_used_mib = 0, nd_used_vcpus = 0, nd_active_sandboxes = 0, nd_base_mib = None, nd_base_vcpus = None,
     nd_ceiling_mib = None, nd_ceiling_vcpus = None, nd_mem_budget_mib = None, nd_vcpu_budget = None\<rparr>"

theorem nodes_join_witness:
  "(\<Sum>n \<leftarrow> [nodeA]. length (here n [sandbox0, sandbox0\<lparr>sb_node_id := Some ''a''\<rparr>])) = 1"
  using nodes_join [of "[nodeA]", OF _ refl, of "[sandbox0, sandbox0\<lparr>sb_node_id := Some ''a''\<rparr>]"]
  by (simp add: nodeA_def sandbox0_def)

end
