(* ===== verification/TemplatesPage.thy ===== *)
theory TemplatesPage
  imports OverviewTab
begin

text \<open>
  The templates page (\<open>web/src/pages/Templates.tsx\<close>): the build form, the table, the detail drawer and
  the confirmed deletion, with the requests they start and what their answers change.
\<close>

definition template_state_text :: "TemplateState \<Rightarrow> string" where
  "template_state_text s = (case s of BUILDING \<Rightarrow> ''BUILDING'' | READY \<Rightarrow> ''READY'' | ERROR \<Rightarrow> ''ERROR'')"

definition TSTATE :: "TemplateState \<Rightarrow> string" where
  "TSTATE s = (case s of READY \<Rightarrow> ''var(--color-ok)'' | BUILDING \<Rightarrow> ''var(--color-transit)'' | ERROR \<Rightarrow> ''var(--color-danger)'')"

record templates_state =
  ts_name :: string
  ts_image :: string
  ts_detail :: "Template option"
  ts_confirmDel :: "Template option"

definition templates_init :: templates_state where
  "templates_init = \<lparr>ts_name = '''', ts_image = '''', ts_detail = None, ts_confirmDel = None\<rparr>"

datatype templates_action =
    TplName string | TplImage string | TplBuild | TplOpen Template | TplAsk Template
  | TplCloseDetail | TplConfirm | TplCloseConfirm

definition build_call :: "templates_state \<Rightarrow> api_call" where
  "build_call st = verb_createTemplate (js_trim (ts_name st)) (js_trim (ts_image st))"

definition build_valid :: "templates_state \<Rightarrow> bool" where
  "build_valid st \<longleftrightarrow> js_trim (ts_name st) \<noteq> [] \<and> js_trim (ts_image st) \<noteq> []"

text \<open>The requests an action starts.  Confirming closes the dialog and the drawer at once.\<close>

definition templates_handle :: "templates_action \<Rightarrow> templates_state \<Rightarrow> templates_state \<times> api_call list" where
  "templates_handle a st = (case a of
     TplName s \<Rightarrow> (st\<lparr>ts_name := s\<rparr>, [])
   | TplImage s \<Rightarrow> (st\<lparr>ts_image := s\<rparr>, [])
   | TplBuild \<Rightarrow> (st, shown (build_valid st) [build_call st])
   | TplOpen tpl \<Rightarrow> (st\<lparr>ts_detail := Some tpl\<rparr>, [])
   | TplAsk tpl \<Rightarrow> (st\<lparr>ts_confirmDel := Some tpl\<rparr>, [])
   | TplCloseDetail \<Rightarrow> (st\<lparr>ts_detail := None\<rparr>, [])
   | TplConfirm \<Rightarrow> (st\<lparr>ts_confirmDel := None, ts_detail := None\<rparr>,
                   shown_opt (ts_confirmDel st) (\<lambda>tpl. [verb_deleteTemplate (tpl_id tpl)]))
   | TplCloseConfirm \<Rightarrow> (st\<lparr>ts_confirmDel := None\<rparr>, []))"

definition build_done :: "js_error + Template \<Rightarrow> templates_state \<Rightarrow> templates_state \<times> tab_effect list" where
  "build_done out st = (case out of
     Inr _ \<Rightarrow> (st\<lparr>ts_name := '''', ts_image := ''''\<rparr>, [EInvalidate [KStr ''templates'']])
   | Inl _ \<Rightarrow> (st, []))"

definition del_done :: "TFn \<Rightarrow> js_error + unit \<Rightarrow> tab_effect list" where
  "del_done t out = (case out of
       Inr _ \<Rightarrow> [ESuccess (t ''Template deleted'' (zh [0x6A21, 0x677F, 0x5DF2, 0x5220, 0x9664])) None]
     | Inl e \<Rightarrow> [EError (t ''Delete failed'' (zh [0x5220, 0x9664, 0x5931, 0x8D25])) (message e)]) @ [EInvalidate [KStr ''templates'']]"

section \<open>The page\<close>

definition template_row :: "TFn \<Rightarrow> int \<Rightarrow> Template \<Rightarrow> templates_action vnode" where
  "template_row t now tpl =
     El ''tr'' []
       [cell [El ''button'' [On ''click'' (TplOpen tpl)] [Txt (tpl_name tpl)]],
        cell [Mono [Txt (tpl_image tpl)] (Some ''text-muted'')],
        cell ([El ''span'' [Attr ''color'' (TSTATE (tpl_state tpl))]
                 [El ''span'' [Attr ''background'' (TSTATE (tpl_state tpl))] [],
                  Txt (js_toLowerCase (template_state_text (tpl_state tpl)))]] @
              shown (truthy_str (tpl_error tpl)) [El ''span'' [] [Txt (nullish (tpl_error tpl) '''')]]),
        cell [Mono [Txt (fmtAge now (tpl_created_at tpl))] (Some ''text-muted tabular-nums'')],
        cell [Button (button0\<lparr>bp_size := Some Sm, bp_kind := Some Danger, bp_onClick := Some (TplAsk tpl)\<rparr>)
                [Txt (t ''Delete'' (zh [0x5220, 0x9664]))]]]"

definition usedBy :: "Template \<Rightarrow> Sandbox list \<Rightarrow> Sandbox list" where
  "usedBy tpl xs = filter (\<lambda>sb. sb_template_id sb = tpl_id tpl) xs"

definition template_facts :: "Template \<Rightarrow> int \<Rightarrow> (string \<times> string) list" where
  "template_facts tpl now =
     [(''id'', tpl_id tpl), (''image'', tpl_image tpl),
      (''state'', js_toLowerCase (template_state_text (tpl_state tpl))),
      (''created'', fmtAge now (tpl_created_at tpl) @ '' ago'')] @
     shown (truthy_str (tpl_ready_at tpl)) [(''ready'', fmtAge now (nullish (tpl_ready_at tpl) '''') @ '' ago'')]"

definition TemplateDetail :: "Template \<Rightarrow> 'a \<Rightarrow> Sandbox list option \<Rightarrow> TFn \<Rightarrow> int \<Rightarrow> 'a vnode" where
  "TemplateDetail tpl onDelete xs t now =
     (let us = usedBy tpl (nullish xs [])
      in El ''div'' []
       ([fact_grid (template_facts tpl now)] @
        shown (truthy_str (tpl_error tpl)) (ErrorNote (Some (PlatformError (nullish (tpl_error tpl) '''')))) @
        [El ''div'' []
           [El ''h3'' [] [Txt (t ''Sandboxes using it'' (zh [0x4F7F, 0x7528, 0x5B83, 0x7684, 0x6C99, 0x7BB1]) @ '' ('' @ js_num (int (length us)) @ '')'')],
            if us = [] then Empty [Txt (t ''None yet.'' (zh [0x6682, 0x65E0, 0x3002]))]
            else El ''ul'' [] (map (\<lambda>sb. El ''li'' []
                   [El ''a'' [Attr ''href'' (''/sandboxes/'' @ sb_id sb)] [Txt (js_slice (sb_id sb) 0 8)],
                    El ''span'' [] [Txt (js_toLowerCase (state_text (sb_state sb)))]]) us)],
         Button (button0\<lparr>bp_kind := Some Danger, bp_onClick := Some onDelete\<rparr>) [Txt (t ''Delete template'' (zh [0x5220, 0x9664, 0x6A21, 0x677F]))]]))"

record templates_pending =
  tp_build :: bool
  tp_del :: bool
  tp_buildErr :: "js_error option"
  tp_delErr :: "js_error option"

definition build_form :: "templates_state \<Rightarrow> templates_pending \<Rightarrow> TFn \<Rightarrow> templates_action vnode" where
  "build_form st p t =
     Card [Txt (t ''Build a template'' (zh [0x6784, 0x5EFA, 0x6A21, 0x677F]))] [] None
       ([El ''form'' [On ''submit'' TplBuild]
           [Field (t ''Name'' (zh [0x540D, 0x79F0])) []
              [El ''input'' [Attr ''value'' (ts_name st), On ''change'' (TplName (ts_name st)), Attr ''placeholder'' ''web''] []],
            Field (t ''Container image'' (zh [0x5BB9, 0x5668, 0x955C, 0x50CF])) []
              [El ''input'' [Attr ''value'' (ts_image st), On ''change'' (TplImage (ts_image st)), Attr ''placeholder'' ''alpine:3.20''] []],
            Button (button0\<lparr>bp_kind := Some Primary, bp_submit := True, bp_busy := tp_build p, bp_disabled := \<not> build_valid st\<rparr>)
              [Txt (t ''Build'' (zh [0x6784, 0x5EFA]))]]] @
        shown (tp_buildErr p \<noteq> None \<or> tp_delErr p \<noteq> None) [El ''div'' [] (ErrorNote (first_error (tp_buildErr p) (tp_delErr p)))])"

definition delete_dialog :: "Template \<Rightarrow> bool \<Rightarrow> TFn \<Rightarrow> templates_action vnode" where
  "delete_dialog tpl busy t =
     ConfirmDialog t (t ''Delete template'' (zh [0x5220, 0x9664, 0x6A21, 0x677F]))
       [Txt (t ''Delete'' (zh [0x5220, 0x9664]) @ '' ''), Mono [Txt (tpl_name tpl)] (Some ''text-ink''),
        Txt (t ''? Sandboxes already built from it keep running; new sandboxes can no longer use it.''
               (zh [0xFF1F, 0x5DF2, 0x7528, 0x5B83, 0x6784, 0x5EFA, 0x7684, 0x6C99, 0x7BB1, 0x4F1A, 0x7EE7, 0x7EED, 0x8FD0, 0x884C, 0xFF1B, 0x65B0, 0x6C99, 0x7BB1, 0x5C06, 0x65E0, 0x6CD5, 0x518D, 0x4F7F, 0x7528, 0x5B83, 0x3002]))]
       (t ''Delete template'' (zh [0x5220, 0x9664, 0x6A21, 0x677F])) busy TplConfirm TplCloseConfirm"

text \<open>The handler of an input is shown with the value it starts from.  The dialogs take part in the page while they are open.\<close>

definition Templates ::
  "templates_state \<Rightarrow> templates_pending \<Rightarrow> Template list option \<Rightarrow> bool \<Rightarrow> Sandbox list option \<Rightarrow> TFn \<Rightarrow> int \<Rightarrow> templates_action vnode" where
  "Templates st p data isLoading xs t now =
     El ''div'' []
       ([PageHeader [Txt (t ''Templates'' (zh [0x6A21, 0x677F]))]
           [Txt (t ''A template turns a container image into a bootable microVM root; sandboxes clone it in O(1).''
                   (zh [0x6A21, 0x677F, 0x628A, 0x5BB9, 0x5668, 0x955C, 0x50CF, 0x53D8, 0x6210, 0x53EF, 0x542F, 0x52A8, 0x7684] @ '' microVM '' @ zh [0x6839, 0x6587, 0x4EF6, 0x7CFB, 0x7EDF, 0xFF1B, 0x6C99, 0x7BB1, 0x4EE5] @ '' O(1) '' @ zh [0x514B, 0x9686, 0x5B83, 0x3002]))] [],
         build_form st p t,
         Table [[Txt (t ''Name'' (zh [0x540D, 0x79F0]))], [Txt (t ''Image'' (zh [0x955C, 0x50CF]))], [Txt (t ''State'' (zh [0x72B6, 0x6001]))], [Txt (t ''Age'' (zh [0x65F6, 0x957F]))], [Txt '''']]
           (map (template_row t now) (nullish data []))] @
        shown (\<not> isLoading \<and> nullish data [] = [])
          [Empty [Txt (t ''No templates. Build one from a container image above.'' (zh [0x6682, 0x65E0, 0x6A21, 0x677F, 0x3002, 0x7528, 0x4E0A, 0x65B9, 0x7684, 0x5BB9, 0x5668, 0x955C, 0x50CF, 0x6784, 0x5EFA, 0x4E00, 0x4E2A, 0x3002]))]] @
        shown isLoading [Empty [Txt (t (''Loading'' @ zh [0x2026]) (zh [0x52A0, 0x8F7D, 0x4E2D, 0x2026]))]] @
        shown_opt (ts_detail st) (\<lambda>d.
          [Drawer t [Txt (t ''Template'' (zh [0x6A21, 0x677F]) @ '' '' @ tpl_name d)] TplCloseDetail [TemplateDetail d (TplAsk d) xs t now]]) @
        shown_opt (ts_confirmDel st) (\<lambda>tpl. [delete_dialog tpl (tp_del p) t]))"

section \<open>Facts\<close>

lemma offers_rows: "offers (map (template_row t now) ts) = concat (map (\<lambda>tpl. [TplOpen tpl, TplAsk tpl]) ts)"
  by (induction ts) (simp_all add: template_row_def cell_def attr_actions_def button0_def)

lemma offers_used: "offers (map (\<lambda>sb. El ''li'' [] [El ''a'' [Attr ''href'' (f sb)] [Txt (g sb)], El ''span'' [] [Txt (h sb)]]) us) = []"
  by (induction us) (simp_all add: attr_actions_def)

lemma offer_facts: "offer (fact_grid kvs) = []"
  by (induction kvs) (auto simp: fact_grid_def attr_actions_def)

lemma offer_TemplateDetail: "offer (TemplateDetail tpl h xs t now) = [h]"
  by (simp add: TemplateDetail_def Let_def offer_facts offers_used button0_def)

lemma offer_delete: "offer (delete_dialog tpl busy t) = [TplCloseConfirm, TplCloseConfirm, TplCloseConfirm, TplCloseConfirm] @ shown (\<not> busy) [TplConfirm]"
  by (simp add: delete_dialog_def)

lemma offer_build: "offer (build_form st p t) = [TplBuild, TplName (ts_name st), TplImage (ts_image st)]"
  by (auto simp: build_form_def attr_actions_def button0_def shown_def)

lemma offer_Templates: "offer (Templates st p data isLoading xs t now) =
  [TplBuild, TplName (ts_name st), TplImage (ts_image st)] @ concat (map (\<lambda>tpl. [TplOpen tpl, TplAsk tpl]) (nullish data [])) @
  shown_opt (ts_detail st) (\<lambda>d. [TplCloseDetail, TplCloseDetail, TplCloseDetail, TplAsk d]) @
  shown_opt (ts_confirmDel st) (\<lambda>_. [TplCloseConfirm, TplCloseConfirm, TplCloseConfirm, TplCloseConfirm] @ shown (\<not> tp_del p) [TplConfirm])"
  by (simp add: Templates_def offer_build offers_rows offer_TemplateDetail offer_delete shown_def shown_opt_def split: option.splits)

text \<open>The page over time: actions and the answers to builds.\<close>

datatype templates_event = TAct templates_action | TBuilt "js_error + Template"

definition templates_step :: "templates_state \<Rightarrow> templates_event \<Rightarrow> templates_state" where
  "templates_step st e = (case e of TAct a \<Rightarrow> fst (templates_handle a st) | TBuilt out \<Rightarrow> fst (build_done out st))"

lemma asked_before:
  "ts_confirmDel (foldl templates_step templates_init es) = Some tpl \<Longrightarrow> TAct (TplAsk tpl) \<in> set es"
  "ts_detail (foldl templates_step templates_init es) = Some tpl \<Longrightarrow> TAct (TplOpen tpl) \<in> set es"
proof (induction es rule: rev_induct)
  case (snoc e es)
  { case 1 with snoc show ?case
      by (auto simp: templates_step_def templates_handle_def build_done_def split: templates_event.splits templates_action.splits sum.splits) }
  { case 2 with snoc show ?case
      by (auto simp: templates_step_def templates_handle_def build_done_def split: templates_event.splits templates_action.splits sum.splits) }
qed (simp_all add: templates_init_def)

lemma detail_stays:
  assumes "\<forall>e \<in> set es. \<forall>x. e \<notin> {TAct (TplOpen x), TAct TplCloseDetail, TAct TplConfirm}"
  shows "ts_detail (foldl templates_step st es) = ts_detail st"
  using assms
proof (induction es rule: rev_induct)
  case (snoc e es)
  then show ?case
    by (auto simp: templates_step_def templates_handle_def build_done_def split: templates_event.splits templates_action.splits sum.splits)
qed simp

section \<open>Properties\<close>

text \<open>C14: What the templates page sends.  In every state a user can bring it to, an action sends at most
  one request.  A build names the trimmed inputs and is sent only when both hold more than white space;
  a deletion is sent only by the confirm dialog, for the template it shows, which the user asked to
  delete before, and closes dialog and drawer.  The dialog can be confirmed exactly while it is open and
  no deletion is under way.\<close>

theorem template_requests:
  assumes "st = foldl templates_step templates_init es" and "(st', calls) = templates_handle a st"
  shows "length calls \<le> 1 \<and>
    (\<forall>c \<in> set calls.
       a = TplBuild \<and> js_trim (ts_name st) \<noteq> [] \<and> js_trim (ts_image st) \<noteq> [] \<and>
         c = verb_createTemplate (js_trim (ts_name st)) (js_trim (ts_image st)) \<or>
       a = TplConfirm \<and> (\<exists>tpl. TAct (TplAsk tpl) \<in> set es \<and> ts_confirmDel st = Some tpl \<and> c = verb_deleteTemplate (tpl_id tpl))) \<and>
    (a = TplConfirm \<longrightarrow> ts_confirmDel st' = None \<and> ts_detail st' = None) \<and>
    (TplConfirm \<in> set (offer (Templates st p data isLoading xs t now)) \<longleftrightarrow> ts_confirmDel st \<noteq> None \<and> \<not> tp_del p)"
proof -
  have "\<forall>tpl. ts_confirmDel st = Some tpl \<longrightarrow> TAct (TplAsk tpl) \<in> set es"
    using asked_before(1) by (auto simp: assms(1))
  moreover have "TplConfirm \<in> set (offer (Templates st p data isLoading xs t now)) \<longleftrightarrow> ts_confirmDel st \<noteq> None \<and> \<not> tp_del p"
    by (cases "ts_confirmDel st") (auto simp: offer_Templates shown_opt_def split: option.splits)
  ultimately show ?thesis
    using assms(2)
    by (auto simp: templates_handle_def build_valid_def build_call_def shown_def shown_opt_def
        split: templates_action.splits option.splits if_splits)
qed

definition template0 :: Template where
  "template0 = \<lparr>tpl_id = ''t1'', tpl_name = ''web'', tpl_image = ''alpine'', tpl_state = BUILDING, tpl_error = None,
     tpl_created_at = '''', tpl_ready_at = None\<rparr>"

theorem template_requests_witness:
  "ts_confirmDel (fst (templates_handle TplConfirm (foldl templates_step templates_init [TAct (TplAsk template0)]))) = None \<and>
   snd (templates_handle TplConfirm (foldl templates_step templates_init [TAct (TplAsk template0)])) = [verb_deleteTemplate ''t1'']"
  using template_requests [OF refl surjective_pairing [symmetric], of TplConfirm "[TAct (TplAsk template0)]"]
  by (simp add: templates_step_def templates_handle_def template0_def)

text \<open>What the page does not keep in step.  The detail drawer shows the template as it was when its
  row was clicked: whatever the list holds after that, a template that has become ready or has been
  deleted elsewhere included, the drawer shows the same facts and offers the deletion.  And a build that
  succeeds clears both inputs, also when the user has typed the next name meanwhile.\<close>

theorem stale_template:
  assumes "\<forall>e \<in> set es. \<forall>x. e \<notin> {TAct (TplOpen x), TAct TplCloseDetail, TAct TplConfirm}"
    and "st = foldl templates_step (fst (templates_handle (TplOpen tpl) st0)) es"
  shows "(\<exists>ns. Templates st p data isLoading xs t now = El ''div'' [] ns \<and>
       Drawer t [Txt (t ''Template'' (zh [0x6A21, 0x677F]) @ '' '' @ tpl_name tpl)] TplCloseDetail
         [TemplateDetail tpl (TplAsk tpl) xs t now] \<in> set ns) \<and>
    TplAsk tpl \<in> set (offer (Templates st p data isLoading xs t now)) \<and>
    ts_name (templates_step (templates_step st (TAct (TplName typed))) (TBuilt (Inr built))) = ''''"
proof -
  have d: "ts_detail st = Some tpl"
    unfolding assms(2) detail_stays [OF assms(1)] by (simp add: templates_handle_def)
  then show ?thesis
    by (auto simp: offer_TemplateDetail Templates_def templates_step_def templates_handle_def build_done_def)
qed

theorem stale_template_witness:
  "TplAsk template0 \<in> set (offer (Templates (fst (templates_handle (TplOpen template0) templates_init))
     \<lparr>tp_build = False, tp_del = False, tp_buildErr = None, tp_delErr = None\<rparr> (Some []) False None (tr En) 0))"
  using stale_template [of "[]" "fst (templates_handle (TplOpen template0) templates_init)" template0 templates_init]
  by simp

end
