(* ===== verification/OverviewPage.thy ===== *)
theory OverviewPage
  imports NodesPage "HOL-Library.Sublist"
begin

text \<open>
  The overview page (\<open>web/src/pages/Overview.tsx\<close>): the fleet figures, the grid of sandboxes with its
  legend, the node cards and the activity feed with its filter.
\<close>

datatype FeedFilter = FeedAll | FeedLifecycle | FeedResources

definition LEGEND :: "SandboxState list" where
  "LEGEND = [RUNNING, PAUSED_HOT, PAUSED_WARM, ARCHIVED_COLD, RECYCLED, FAILED]"

record overview_state =
  ov_creating :: bool
  ov_filter :: "SandboxState option"
  ov_feed :: FeedFilter

definition overview_init :: overview_state where
  "overview_init = \<lparr>ov_creating = False, ov_filter = None, ov_feed = FeedAll\<rparr>"

datatype fleet_action = CreateFirst | ClearFilter | PickState SandboxState | PickFeed FeedFilter | CloseCreate

definition overview_update :: "fleet_action \<Rightarrow> overview_state \<Rightarrow> overview_state" where
  "overview_update a st = (case a of
     CreateFirst \<Rightarrow> st\<lparr>ov_creating := True\<rparr>
   | CloseCreate \<Rightarrow> st\<lparr>ov_creating := False\<rparr>
   | ClearFilter \<Rightarrow> st\<lparr>ov_filter := None\<rparr>
   | PickState s \<Rightarrow> st\<lparr>ov_filter := (if ov_filter st = Some s then None else Some s)\<rparr>
   | PickFeed f \<Rightarrow> st\<lparr>ov_feed := f\<rparr>)"

section \<open>The grid\<close>

definition fleet_shown :: "SandboxState option \<Rightarrow> Sandbox list \<Rightarrow> Sandbox list" where
  "fleet_shown flt xs = (case flt of Some s \<Rightarrow> filter (\<lambda>sb. sb_state sb = s) xs | None \<Rightarrow> xs)"

definition fleet_cell :: "TFn \<Rightarrow> Sandbox \<Rightarrow> 'a vnode" where
  "fleet_cell t sb =
     El ''a'' [Attr ''href'' (''/sandboxes/'' @ sb_id sb),
               Attr ''title'' (js_slice (sb_id sb) 0 8 @ ('' '' @ zh [0xB7] @ '' '') @ stateLabel (sb_state sb) t @ ('' '' @ zh [0xB7] @ '' '') @ fmtMiB (sb_memory_mib sb))]
       [StatusDot (sb_state sb) (Some 10)]"

definition FleetGrid :: "Sandbox list \<Rightarrow> SandboxState option \<Rightarrow> TFn \<Rightarrow> fleet_action vnode" where
  "FleetGrid xs flt t =
     (if xs = [] then
        El ''div'' []
          [El ''p'' [] [Txt (t ''No sandboxes yet.'' (zh [0x6682, 0x65E0, 0x6C99, 0x7BB1]))],
           Button (button0\<lparr>bp_kind := Some Primary, bp_onClick := Some CreateFirst\<rparr>) [Txt (t ''New sandbox'' (zh [0x65B0, 0x5EFA, 0x6C99, 0x7BB1]))]]
      else if fleet_shown flt xs = [] then
        Empty [Txt (t ''No'' (zh [0x6682, 0x65E0]) @ '' '' @ (case flt of Some s \<Rightarrow> stateLabel s t | None \<Rightarrow> '''') @ '' '' @ t ''sandboxes.'' (zh [0x6C99, 0x7BB1]))]
      else El ''div'' [] (map (fleet_cell t) (fleet_shown flt xs)))"

definition legend_bar :: "Sandbox list \<Rightarrow> SandboxState option \<Rightarrow> TFn \<Rightarrow> fleet_action vnode" where
  "legend_bar xs flt t =
     El ''div'' []
       (El ''button'' [On ''click'' ClearFilter, Attr ''class'' (if flt = None then ''text-accent'' else ''text-faint hover:text-muted'')]
          [Txt (t ''all'' (zh [0x5168, 0x90E8]))] #
        map (\<lambda>s. El ''button'' [On ''click'' (PickState s), Attr ''class'' (if flt = Some s then ''text-ink'' else ''text-muted hover:text-ink'')]
               [StatusDot s (Some 6), Txt (stateLabel s t), El ''span'' [] [Txt (js_num (int (nullish (counts xs s) 0)))]]) LEGEND)"

section \<open>Figures\<close>

definition nodesUp :: "NodeView list \<Rightarrow> nat" where
  "nodesUp ns = length (filter (\<lambda>n. nd_state n = Up) ns)"

definition node_sum :: "(NodeView \<Rightarrow> int) \<Rightarrow> NodeView list \<Rightarrow> int" where
  "node_sum f ns = foldl (\<lambda>n x. n + f x) 0 ns"

definition memory_sub :: "NodeView list \<Rightarrow> TFn \<Rightarrow> string" where
  "memory_sub ns t =
     (let capTotal = node_sum nd_capacity_mib ns;
          baseSum = node_sum (\<lambda>x. nullish (nd_base_mib x) 0) ns;
          ceilSum = node_sum (\<lambda>x. nullish (nd_ceiling_mib x) 0) ns
      in if ceilSum > 0
         then t ''base'' (zh [0x57FA, 0x7840]) @ '' '' @ fmtMiB baseSum @ ('' '' @ zh [0xB7] @ '' '') @ t ''ceiling'' (zh [0x4E0A, 0x9650]) @ '' '' @ fmtMiB ceilSum
         else if capTotal > 0 then t ''of'' (zh [0x5171]) @ '' '' @ fmtMiB capTotal
         else t ''capacity unbounded'' (zh [0x5BB9, 0x91CF, 0x65E0, 0x9650, 0x5236]))"

definition fleet_stats :: "Sandbox list \<Rightarrow> NodeView list option \<Rightarrow> TFn \<Rightarrow> 'a vnode" where
  "fleet_stats xs nodes t =
     (let running = int (nullish (counts xs RUNNING) 0); ns = nullish nodes []
      in El ''div'' []
       [Stat [Txt (t ''Sandboxes'' (zh [0x6C99, 0x7BB1]))] [Txt (js_num (int (length xs)))] [Txt (js_num running @ '' '' @ t ''running'' (zh [0x8FD0, 0x884C, 0x4E2D]))] False,
        Stat [Txt (t ''Running'' (zh [0x8FD0, 0x884C, 0x4E2D]))] [Txt (js_num running)] [] True,
        Stat [Txt (t ''Nodes up'' (zh [0x5728, 0x7EBF, 0x8282, 0x70B9]))]
          [Txt (js_num (int (nodesUp ns)) @ (case nodes of Some l \<Rightarrow> ''/'' @ js_num (int (length l)) | None \<Rightarrow> ''''))] [] False,
        Stat [Txt (t ''Memory in use'' (zh [0x5185, 0x5B58, 0x4F7F, 0x7528]))] [Txt (fmtMiB (node_sum nd_used_mib ns))] [Txt (memory_sub ns t)] False])"

definition overview_node :: "TFn \<Rightarrow> int \<Rightarrow> NodeView \<Rightarrow> 'a vnode" where
  "overview_node t now n =
     El ''a'' [Attr ''href'' ''/nodes'']
       [El ''div'' [] [Mono [Txt (nd_id n)] (Some ''font-semibold text-ink''), node_status n t now],
        El ''div'' []
          [CapacityBar (t ''memory'' (zh [0x5185, 0x5B58])) (nd_used_mib n) (nd_capacity_mib n) fmtMiB,
           CapacityBar (t ''vcpus'' ''vCPU'') (nd_used_vcpus n) (nullish (nd_cpu_cores n) 0) js_num,
           El ''div'' [] [El ''span'' [] [Txt (js_num (nd_active_sandboxes n))], Txt ('' '' @ t ''active'' (zh [0x6D3B, 0x8DC3]))]]]"

definition nodes_card :: "NodeView list option \<Rightarrow> bool \<Rightarrow> TFn \<Rightarrow> int \<Rightarrow> 'a vnode" where
  "nodes_card nodes isLoading t now =
     Card [Txt (t ''Nodes'' (zh [0x8282, 0x70B9]))] [El ''a'' [Attr ''href'' ''/nodes''] [Txt (t ''manage'' (zh [0x7BA1, 0x7406]) @ ('' '' @ zh [0x2192]))]] None
       [if nullish nodes [] \<noteq> [] then El ''div'' [] (map (overview_node t now) (nullish nodes []))
        else Empty [Txt (if isLoading then t (''Loading'' @ zh [0x2026]) (zh [0x52A0, 0x8F7D, 0x4E2D, 0x2026]) else t ''No nodes registered.'' (zh [0x6682, 0x65E0, 0x5DF2, 0x6CE8, 0x518C, 0x8282, 0x70B9, 0x3002]))]]"

section \<open>The feed\<close>

definition feed :: "FeedFilter \<Rightarrow> SandboxEvents option \<Rightarrow> SandboxEvent list" where
  "feed flt data =
     (let evs = tab_events data
      in if flt = FeedAll then evs
         else filter (\<lambda>ev. if flt = FeedResources then parseResourceEvent ev \<noteq> None else parseResourceEvent ev = None) evs)"

definition feed_row :: "TFn \<Rightarrow> int \<Rightarrow> SandboxEvent \<Rightarrow> 'a vnode" where
  "feed_row t now ev =
     (let view = map_option (\<lambda>d. describeResourceEvent d t) (parseResourceEvent ev)
      in El ''li'' []
       [El ''span'' [Flag ''aria-hidden'' True,
          Attr ''background'' (case view of
             Some v \<Rightarrow> (if rv_tone v = ToneWarn then ''var(--color-warm)'' else ''var(--color-transit)'')
           | None \<Rightarrow> me_color (STATE_META (ev_to_state ev)))] [],
        El ''a'' [Attr ''href'' (''/sandboxes/'' @ ev_sandbox_id ev)] [Txt (js_slice (ev_sandbox_id ev) 0 8)],
        El ''span'' (shown_opt view (\<lambda>v. [Attr ''title'' (rv_text v)]))
          [Txt (case view of Some v \<Rightarrow> rv_text v | None \<Rightarrow> stateLabel (ev_to_state ev) t)],
        El ''span'' [] [Txt (fmtAge now (ev_at ev))]])"

definition feed_filters :: "TFn \<Rightarrow> (FeedFilter \<times> string) list" where
  "feed_filters t =
     [(FeedAll, t ''all'' (zh [0x5168, 0x90E8])), (FeedLifecycle, t ''lifecycle'' (zh [0x751F, 0x547D, 0x5468, 0x671F])), (FeedResources, t ''resources'' (zh [0x8D44, 0x6E90]))]"

definition feed_card :: "FeedFilter \<Rightarrow> SandboxEvents option \<Rightarrow> bool \<Rightarrow> TFn \<Rightarrow> int \<Rightarrow> fleet_action vnode" where
  "feed_card flt data isLoading t now =
     Card [Txt (t ''Recent activity'' (zh [0x6700, 0x8FD1, 0x6D3B, 0x52A8]))]
       [El ''div'' [] (map (\<lambda>(key, name). El ''button'' [On ''click'' (PickFeed key),
          Attr ''class'' (if flt = key then ''text-accent'' else ''text-faint hover:text-muted'')] [Txt name]) (feed_filters t))]
       (Some False)
       [if feed flt data \<noteq> [] then El ''ul'' [] (map (feed_row t now) (feed flt data))
        else Empty [Txt (if isLoading then t (''Loading'' @ zh [0x2026]) (zh [0x52A0, 0x8F7D, 0x4E2D, 0x2026]) else t ''No activity yet.'' (zh [0x6682, 0x65E0, 0x6D3B, 0x52A8, 0x3002]))]]"

section \<open>The page\<close>

record overview_data =
  od_sandboxes :: "Sandbox list option"
  od_sandboxesLoading :: bool
  od_nodes :: "NodeView list option"
  od_nodesLoading :: bool
  od_events :: "SandboxEvents option"
  od_eventsLoading :: bool

text \<open>The create dialog is a component of its own (theory CreateSandbox); the page holds whether it is
  open.\<close>

definition Overview :: "overview_state \<Rightarrow> overview_data \<Rightarrow> TFn \<Rightarrow> int \<Rightarrow> fleet_action vnode" where
  "Overview st d t now =
     (let xs = nullish (od_sandboxes d) []
      in El ''div'' []
       [PageHeader [Txt (t ''Overview'' (zh [0x603B, 0x89C8]))]
          [Txt (t ''Fleet health across every registered node.'' (zh [0x6240, 0x6709, 0x5DF2, 0x6CE8, 0x518C, 0x8282, 0x70B9, 0x7684, 0x8230, 0x961F, 0x5065, 0x5EB7, 0x72B6, 0x51B5, 0x3002]))] [],
        fleet_stats xs (od_nodes d) t,
        Card [Txt (t ''Fleet'' (zh [0x8230, 0x961F]))] [legend_bar xs (ov_filter st) t] None
          [if od_sandboxesLoading d then El ''div'' [] (map (\<lambda>_. Skeleton (Some ''size-6'')) [0 ..< 12])
           else FleetGrid xs (ov_filter st) t],
        El ''div'' []
          [El ''div'' [] [nodes_card (od_nodes d) (od_nodesLoading d) t now],
           feed_card (ov_feed st) (od_events d) (od_eventsLoading d) t now]])"

section \<open>Facts\<close>

lemma node_sum_eq: "node_sum f ns = (\<Sum>n \<leftarrow> ns. f n)"
proof -
  have "foldl (\<lambda>n x. n + f x) a ns = a + (\<Sum>n \<leftarrow> ns. f n)" for a by (induction ns arbitrary: a) auto
  then show ?thesis by (simp add: node_sum_def)
qed

lemma feed_parts:
  "feed FeedAll d = tab_events d"
  "feed FeedResources d = filter (\<lambda>ev. parseResourceEvent ev \<noteq> None) (tab_events d)"
  "feed FeedLifecycle d = filter (\<lambda>ev. parseResourceEvent ev = None) (tab_events d)"
  by (simp_all add: feed_def Let_def)

lemma legend_sum: "(\<Sum>s \<leftarrow> LEGEND. nullish (counts xs s) 0) = length (filter (\<lambda>sb. sb_state sb \<in> set LEGEND) xs)"
  unfolding counts_eq
proof (induction xs)
  case (Cons x xs)
  then show ?case by (cases "sb_state x") (simp_all add: LEGEND_def)
qed (simp add: LEGEND_def)

section \<open>Properties\<close>

text \<open>The fleet card is consistent.  The number beside a state of the legend is the number of cells
  the grid shows once that state is picked, one cell per sandbox in that state and in the order of the
  list; picking it again shows the whole fleet.  The legend leaves out the states in between: its
  numbers add up to the figure of all sandboxes exactly when none is in such a state.\<close>

theorem fleet_card:
  assumes "ov_filter st = None" and "st1 = overview_update (PickState s) st" and "st2 = overview_update (PickState s) st1"
  shows "nullish (counts xs s) 0 = length (fleet_shown (ov_filter st1) xs) \<and>
    (\<forall>sb. sb \<in> set (fleet_shown (ov_filter st1) xs) \<longleftrightarrow> sb \<in> set xs \<and> sb_state sb = s) \<and>
    (fleet_shown (ov_filter st1) xs \<noteq> [] \<longrightarrow>
       FleetGrid xs (ov_filter st1) t = El ''div'' [] (map (fleet_cell t) (filter (\<lambda>sb. sb_state sb = s) xs))) \<and>
    (xs \<noteq> [] \<longrightarrow> FleetGrid xs (ov_filter st2) t = El ''div'' [] (map (fleet_cell t) xs)) \<and>
    ((\<Sum>s' \<leftarrow> LEGEND. nullish (counts xs s') 0) = length xs \<longleftrightarrow> (\<forall>sb \<in> set xs. sb_state sb \<in> set LEGEND))"
proof -
  have f: "ov_filter st1 = Some s" "ov_filter st2 = None" by (simp_all add: assms overview_update_def)
  have "length (filter (\<lambda>sb. sb_state sb \<in> set LEGEND) xs) = length xs \<longleftrightarrow> (\<forall>sb \<in> set xs. sb_state sb \<in> set LEGEND)"
    using length_filter_less [of _ xs "\<lambda>sb. sb_state sb \<in> set LEGEND"] by (force simp: filter_id_conv)
  then show ?thesis
    unfolding f legend_sum by (auto simp: counts_eq fleet_shown_def FleetGrid_def)
qed

theorem fleet_card_witness:
  "(\<Sum>s' \<leftarrow> LEGEND. nullish (counts [sandbox0\<lparr>sb_state := PAUSING\<rparr>] s') 0) \<noteq> length [sandbox0\<lparr>sb_state := PAUSING\<rparr>]"
  using fleet_card [of overview_init, OF _ refl refl, of "[sandbox0\<lparr>sb_state := PAUSING\<rparr>]" RUNNING "tr En"]
  by (simp add: overview_init_def LEGEND_def)

text \<open>The feed's filters divide the fetched events: every event is in exactly one of lifecycle and
  resources, the two keep the order of the feed and their sizes add up to it; an event is described by
  the resource formatter exactly in the resources half, and by its state otherwise.\<close>

theorem feed_divided:
  "length (feed FeedLifecycle d) + length (feed FeedResources d) = length (feed FeedAll d) \<and>
   (\<forall>ev. ev \<in> set (feed FeedAll d) \<longleftrightarrow> ev \<in> set (feed FeedLifecycle d) \<union> set (feed FeedResources d)) \<and>
   set (feed FeedLifecycle d) \<inter> set (feed FeedResources d) = {} \<and>
   subseq (feed f d) (feed FeedAll d) \<and>
   (ev \<in> set (feed FeedLifecycle d) \<longrightarrow> text_of (feed_row t now ev) =
      js_slice (ev_sandbox_id ev) 0 8 @ stateLabel (ev_to_state ev) t @ fmtAge now (ev_at ev)) \<and>
   (ev \<in> set (feed FeedResources d) \<longrightarrow> (\<exists>x. parseResourceEvent ev = Some x \<and>
      text_of (feed_row t now ev) = js_slice (ev_sandbox_id ev) 0 8 @ rv_text (describeResourceEvent x t) @ fmtAge now (ev_at ev)))"
proof -
  have "subseq (feed f d) (feed FeedAll d)" by (cases f) (simp_all add: feed_parts subseq_filter_left)
  moreover have "length (feed FeedLifecycle d) + length (feed FeedResources d) = length (feed FeedAll d)"
    unfolding feed_parts by (rule sum_length_filter_compl)
  ultimately show ?thesis by (auto simp: feed_parts feed_row_def)
qed

definition event0 :: SandboxEvent where
  "event0 = \<lparr>ev_id = 1, ev_sandbox_id = ''aaaa'', ev_from_state = Some STARTING, ev_to_state = RUNNING, ev_at = '''', ev_detail = None\<rparr>"

theorem feed_divided_witness:
  "text_of (feed_row (tr En) 0 event0) = js_slice ''aaaa'' 0 8 @ stateLabel RUNNING (tr En) @ fmtAge 0 ''''"
proof -
  have "event0 \<in> set (feed FeedLifecycle (Some \<lparr>evs_events = Some [event0], evs_next_before = None\<rparr>))"
    by (simp add: feed_parts tab_events_def event0_def parseResourceEvent_def)
  with feed_divided [of "Some \<lparr>evs_events = Some [event0], evs_next_before = None\<rparr>" FeedAll event0 "tr En" 0]
  have "text_of (feed_row (tr En) 0 event0) =
      js_slice (ev_sandbox_id event0) 0 8 @ stateLabel (ev_to_state event0) (tr En) @ fmtAge 0 (ev_at event0)"
    by blast
  then show ?thesis by (simp add: event0_def)
qed

end
