(* ===== verification/Offline.thy ===== *)
theory Offline
  imports Prelude
begin

text \<open>
  The air-gap check of the built console (\<open>web/scripts/check-offline.mjs\<close>): the walk over the built
  files, the regular expressions and the exit code.  Text is a list of UTF-16 code units, as the
  expressions of the script (without the \<open>u\<close> flag) see it.  A built tree is given as data; its names
  are in the order of \<open>readdirSync\<close>.
\<close>

section \<open>Regular expressions\<close>

type_synonym units = "int list"

definition u :: "string \<Rightarrow> units" where
  "u s = map of_char s"

text \<open>The part of JavaScript's expressions that the script uses.  A state of the matcher is the unit
  before the position, the rest of the text and the capture of the group; \<open>ms\<close> lists the states after a
  match in the order in which backtracking finds them.\<close>

datatype rx = Eps | Cls "int \<Rightarrow> bool" | Sq rx rx | Alt rx rx | Star rx | Group rx | Boundary | LineEnd | End

type_synonym rx_state = "int option \<times> units \<times> units"

definition word_unit :: "int \<Rightarrow> bool" where
  "word_unit c \<longleftrightarrow> 48 \<le> c \<and> c \<le> 57 \<or> 65 \<le> c \<and> c \<le> 90 \<or> 97 \<le> c \<and> c \<le> 122 \<or> c = 95"

definition is_word :: "int option \<Rightarrow> bool" where
  "is_word p = (case p of None \<Rightarrow> False | Some c \<Rightarrow> word_unit c)"

definition next_unit :: "units \<Rightarrow> int option" where
  "next_unit s = (case s of [] \<Rightarrow> None | c # _ \<Rightarrow> Some c)"

definition line_term :: "int \<Rightarrow> bool" where
  "line_term c \<longleftrightarrow> c \<in> {10, 13, 0x2028, 0x2029}"

definition at_line_end :: "units \<Rightarrow> bool" where
  "at_line_end s = (case s of [] \<Rightarrow> True | c # _ \<Rightarrow> line_term c)"

function ms :: "rx \<Rightarrow> rx_state \<Rightarrow> rx_state list" where
  "ms Eps (p, s, c) = [(p, s, c)]"
| "ms (Cls P) (p, s, c) = (case s of [] \<Rightarrow> [] | x # r \<Rightarrow> if P x then [(Some x, r, c)] else [])"
| "ms (Sq a b) (p, s, c) = concat (map (\<lambda>m. ms b m) (ms a (p, s, c)))"
| "ms (Alt a b) (p, s, c) = ms a (p, s, c) @ ms b (p, s, c)"
| "ms (Star a) (p, s, c) =
     concat (map (\<lambda>m. if length (fst (snd m)) < length s then ms (Star a) m else []) (ms a (p, s, c))) @ [(p, s, c)]"
| "ms (Group a) (p, s, c) = map (\<lambda>(p', s', _). (p', s', take (length s - length s') s)) (ms a (p, s, c))"
| "ms Boundary (p, s, c) = (if is_word p \<noteq> is_word (next_unit s) then [(p, s, c)] else [])"
| "ms LineEnd (p, s, c) = (if at_line_end s then [(p, s, c)] else [])"
| "ms End (p, s, c) = (if s = [] then [(p, s, c)] else [])"
  by pat_completeness auto

termination
  by (relation "measures [\<lambda>(r, _). size r, \<lambda>(_, m). length (fst (snd m))]") auto

definition Plus :: "rx \<Rightarrow> rx" where
  "Plus a = Sq a (Star a)"

definition Opt :: "rx \<Rightarrow> rx" where
  "Opt a = Alt a Eps"

text \<open>A literal, with case folded as the \<open>i\<close> flag does (only ASCII letters fold onto the letters of the
  patterns).\<close>

definition fold_case :: "int \<Rightarrow> int" where
  "fold_case c = (if 97 \<le> c \<and> c \<le> 122 then c - 32 else c)"

definition lits :: "bool \<Rightarrow> string \<Rightarrow> rx" where
  "lits ci w = foldr (\<lambda>l r. Sq (Cls (\<lambda>c. if ci then fold_case c = fold_case l else c = l)) r) (u w) Eps"

definition space_unit :: "int \<Rightarrow> bool" where
  "space_unit c \<longleftrightarrow> 9 \<le> c \<and> c \<le> 13 \<or> 0x2000 \<le> c \<and> c \<le> 0x200A \<or>
     c \<in> {32, 160, 0x1680, 0x2028, 0x2029, 0x202F, 0x205F, 0x3000, 0xFEFF}"

definition quote :: rx where
  "quote = Cls (\<lambda>c. c = 39 \<or> c = 34)"

definition none_of :: "int list \<Rightarrow> rx" where
  "none_of cs = Cls (\<lambda>c. c \<notin> set cs)"

text \<open>\<open>text.matchAll(re)\<close> with the \<open>g\<close> flag: the captures of the matches from left to right, each search
  starting where the last match ended (one further after an empty match).\<close>

function all_matches :: "rx \<Rightarrow> int option \<Rightarrow> units \<Rightarrow> units list" where
  "all_matches re p s =
     (case ms re (p, s, []) of
        (p', s', cap) # _ \<Rightarrow>
          cap # (if length s' < length s then all_matches re p' s'
                 else case s of [] \<Rightarrow> [] | x # r \<Rightarrow> all_matches re (Some x) r)
      | [] \<Rightarrow> (case s of [] \<Rightarrow> [] | x # r \<Rightarrow> all_matches re (Some x) r))"
  by pat_completeness auto

termination
  by (relation "measure (\<lambda>(_, _, s). length s)") auto

text \<open>\<open>text.replace(re, "")\<close> with the \<open>g\<close> flag.\<close>

function remove_all :: "rx \<Rightarrow> int option \<Rightarrow> units \<Rightarrow> units" where
  "remove_all re p s =
     (case ms re (p, s, []) of
        (p', s', cap) # _ \<Rightarrow>
          (if length s' < length s then remove_all re p' s'
           else case s of [] \<Rightarrow> [] | x # r \<Rightarrow> x # remove_all re (Some x) r)
      | [] \<Rightarrow> (case s of [] \<Rightarrow> [] | x # r \<Rightarrow> x # remove_all re (Some x) r))"
  by pat_completeness auto

termination
  by (relation "measure (\<lambda>(_, _, s). length s)") auto

definition rx_test :: "rx \<Rightarrow> units \<Rightarrow> bool" where
  "rx_test re s \<longleftrightarrow> all_matches re None s \<noteq> []"

section \<open>The script\<close>

definition remote :: "int list \<Rightarrow> rx" where
  "remote stops = Group (Sq (lits True ''http'') (Sq (Opt (lits True ''s'')) (Sq (lits True ''://'') (Plus (none_of stops)))))"

definition RE_URL :: rx where
  "RE_URL = Sq (lits True ''url('') (Sq (Star (Cls space_unit)) (Sq (Opt quote) (remote [41, 39, 34])))"

definition RE_IMPORT :: rx where
  "RE_IMPORT = Sq (lits True ''@import'') (Sq (Plus (Cls space_unit)) (Sq quote (remote [39, 34])))"

definition RE_ATTR :: rx where
  "RE_ATTR = Sq Boundary (Sq (Alt (lits True ''src'') (lits True ''href'')) (Sq (Star (Cls space_unit))
     (Sq (lits True ''='') (Sq (Star (Cls space_unit)) (Sq quote (remote [39, 34]))))))"

definition PATTERNS :: "(rx \<times> string) list" where
  "PATTERNS = [(RE_URL, ''css url()''), (RE_IMPORT, ''css @import''), (RE_ATTR, ''html attribute'')]"

datatype node_fs = File units | Dir "(units \<times> node_fs) list"

fun walk :: "units \<Rightarrow> (units \<times> node_fs) list \<Rightarrow> (units \<times> units) list" where
  "walk dir [] = []"
| "walk dir ((name, File body) # es) = (dir @ u ''/'' @ name, body) # walk dir es"
| "walk dir ((name, Dir sub) # es) = walk (dir @ u ''/'' @ name) sub @ walk dir es"

definition EXT :: rx where
  "EXT = Sq (lits False ''.'') (Sq (Group (Alt (lits False ''js'') (Alt (lits False ''css'') (lits False ''html'')))) End)"

definition SOURCE_MAP :: rx where
  "SOURCE_MAP = Sq (lits False ''//# sourceMappingURL='') (Sq (Star (Cls (\<lambda>c. \<not> line_term c))) LineEnd)"

definition scanned :: "units \<Rightarrow> units" where
  "scanned body = remove_all SOURCE_MAP None body"

text \<open>\<open>file.replace(DIST, "dist")\<close>: the first occurrence.\<close>

fun replace_first :: "units \<Rightarrow> units \<Rightarrow> units \<Rightarrow> units" where
  "replace_first pat rep [] = (if pat = [] then rep else [])"
| "replace_first pat rep (c # s) =
     (if take (length pat) (c # s) = pat then rep @ drop (length pat) (c # s) else c # replace_first pat rep s)"

definition complaints :: "units \<Rightarrow> units \<times> units \<Rightarrow> units list" where
  "complaints DIST f =
     (case f of (file, body) \<Rightarrow>
        if \<not> rx_test EXT file then []
        else concat (map (\<lambda>(re, what).
          map (\<lambda>url. u ''offline check: '' @ replace_first DIST (u ''dist'') file @ u '': '' @ u what @ [32, 0x2192, 32] @ url)
            (all_matches re None (scanned body))) PATTERNS))"

record script_result =
  sc_exit :: int
  sc_stderr :: "units list"
  sc_stdout :: "units list"

text \<open>The whole script on the built tree.  Where the directory is missing \<open>readdirSync\<close> throws and the
  process exits with 1 (the trace it prints is left out).\<close>

definition dec :: "nat \<Rightarrow> units" where
  "dec n = u (js_num (int n))"

definition check_offline :: "units \<Rightarrow> node_fs option \<Rightarrow> script_result" where
  "check_offline DIST tree = (case tree of
     Some (Dir es) \<Rightarrow>
       (let out = concat (map (complaints DIST) (walk DIST es)); bad = length out
        in if bad > 0
           then \<lparr>sc_exit = 1, sc_stderr = out @
                  [[10, 0x2717, 32] @ dec bad @ u '' network-loading external URL(s) in the built console '' @ [0x2014] @
                   u '' the embed must be air-gapped.''], sc_stdout = []\<rparr>
           else \<lparr>sc_exit = 0, sc_stderr = [],
                 sc_stdout = [[0x2713, 32] @ u ''offline check: no external fetches in the built console.'']\<rparr>)
   | _ \<Rightarrow> \<lparr>sc_exit = 1, sc_stderr = [], sc_stdout = []\<rparr>)"

section \<open>What a match is\<close>

text \<open>The language of an expression, independent of the matcher: \<open>accepts r p w s\<close> says that \<open>r\<close> matches
  the text \<open>w\<close> that follows the unit \<open>p\<close> and precedes \<open>s\<close>.\<close>

definition after :: "int option \<Rightarrow> units \<Rightarrow> int option" where
  "after p w = foldl (\<lambda>_ c. Some c) p w"

inductive accepts :: "rx \<Rightarrow> int option \<Rightarrow> units \<Rightarrow> units \<Rightarrow> bool" where
  a_eps: "accepts Eps p [] s"
| a_cls: "P x \<Longrightarrow> accepts (Cls P) p [x] s"
| a_seq: "accepts a p v (w @ s) \<Longrightarrow> accepts b (after p v) w s \<Longrightarrow> accepts (Sq a b) p (v @ w) s"
| a_left: "accepts a p w s \<Longrightarrow> accepts (Alt a b) p w s"
| a_right: "accepts b p w s \<Longrightarrow> accepts (Alt a b) p w s"
| a_stop: "accepts (Star a) p [] s"
| a_more: "accepts a p v (w @ s) \<Longrightarrow> v \<noteq> [] \<Longrightarrow> accepts (Star a) (after p v) w s \<Longrightarrow> accepts (Star a) p (v @ w) s"
| a_group: "accepts a p w s \<Longrightarrow> accepts (Group a) p w s"
| a_boundary: "is_word p \<noteq> is_word (next_unit s) \<Longrightarrow> accepts Boundary p [] s"
| a_line: "at_line_end s \<Longrightarrow> accepts LineEnd p [] s"
| a_end: "accepts End p [] []"

inductive_simps accepts_simps:
  "accepts Eps p w s" "accepts (Cls P) p w s" "accepts (Sq a b) p w s" "accepts (Alt a b) p w s"
  "accepts (Group a) p w s" "accepts Boundary p w s" "accepts LineEnd p w s" "accepts End p w s"

declare ms.simps(5) [simp del]

lemma after_simps [simp]: "after p [] = p" "after p (c # w) = after (Some c) w" "after p (v @ w) = after (after p v) w"
  by (simp_all add: after_def)

lemma ms_sound: "(p', s', c') \<in> set (ms r (p, s, c)) \<Longrightarrow> \<exists>w. s = w @ s' \<and> p' = after p w \<and> accepts r p w s'"
proof (induction r "(p, s, c)" arbitrary: p s c p' s' c' rule: ms.induct)
  case (2 P p s c)
  then show ?case by (cases s) (auto simp: accepts_simps split: if_splits)
next
  case (3 a b p s c)
  from 3(3) obtain p1 s1 c1 where m: "(p1, s1, c1) \<in> set (ms a (p, s, c))" "(p', s', c') \<in> set (ms b (p1, s1, c1))" by auto
  from 3(1) [OF m(1)] obtain v where v: "s = v @ s1" "p1 = after p v" "accepts a p v s1" by auto
  from 3(2) [OF m(1) m(2)] obtain w where w: "s1 = w @ s'" "p' = after p1 w" "accepts b p1 w s'" by auto
  from v w have "accepts (Sq a b) p (v @ w) s'" by (auto intro: a_seq)
  with v w show ?case by (intro exI [of _ "v @ w"]) simp
next
  case (4 a b p s c)
  then show ?case by (fastforce simp: accepts_simps)
next
  case (5 a p s c)
  show ?case
  proof (cases "(p', s', c') = (p, s, c)")
    case False
    with 5(3) obtain p1 s1 c1 where m: "(p1, s1, c1) \<in> set (ms a (p, s, c))" "length s1 < length s"
      "(p', s', c') \<in> set (ms (Star a) (p1, s1, c1))" by (auto simp: ms.simps(5) split: if_splits)
    from 5(1) [OF m(1)] obtain v where v: "s = v @ s1" "p1 = after p v" "accepts a p v s1" by auto
    from 5(2) [OF m(1) _ m(3)] m(2) obtain w where w: "s1 = w @ s'" "p' = after p1 w" "accepts (Star a) p1 w s'" by auto
    from v w m(2) have "accepts (Star a) p (v @ w) s'" by (auto intro: a_more)
    with v w show ?thesis by (intro exI [of _ "v @ w"]) simp
  qed (auto intro: a_stop)
next
  case (6 a p s c)
  then show ?case by (fastforce simp: accepts_simps)
qed (auto simp: accepts_simps split: if_splits)

lemma ms_star_more: "m \<in> set (ms a (p, s, c)) \<Longrightarrow> length (fst (snd m)) < length s \<Longrightarrow>
  x \<in> set (ms (Star a) m) \<Longrightarrow> x \<in> set (ms (Star a) (p, s, c))"
  by (auto simp: ms.simps(5) [of a p s c])

lemma ms_complete: "accepts r p w s \<Longrightarrow> \<exists>c'. (after p w, s, c') \<in> set (ms r (p, w @ s, c))"
proof (induction arbitrary: c rule: accepts.induct)
  case (a_seq a p v w s b)
  then show ?case by (fastforce)
next
  case (a_more a p v w s)
  from a_more.IH(1) obtain c1 where "(after p v, w @ s, c1) \<in> set (ms a (p, v @ w @ s, c))" by blast
  moreover from a_more.IH(2) obtain c2 where "(after (after p v) w, s, c2) \<in> set (ms (Star a) (after p v, w @ s, c1))" by blast
  ultimately have "(after (after p v) w, s, c2) \<in> set (ms (Star a) (p, v @ w @ s, c))"
    using a_more.hyps(2) by (intro ms_star_more) auto
  then show ?case by auto
next
  case (a_group a p w s)
  from a_group.IH obtain c1 where "(after p w, s, c1) \<in> set (ms a (p, w @ s, c))" by blast
  then have "(after p w, s, take (length (w @ s) - length s) (w @ s)) \<in> set (ms (Group a) (p, w @ s, c))" by force
  then show ?case by blast
next
  case (a_stop a p s)
  then show ?case by (intro exI [of _ c]) (simp add: ms.simps(5))
qed fastforce+

lemma ms_empty_iff: "ms r (p, s, c) = [] \<longleftrightarrow> (\<forall>w b. s = w @ b \<longrightarrow> \<not> accepts r p w b)"
proof
  assume e: "ms r (p, s, c) = []"
  show "\<forall>w b. s = w @ b \<longrightarrow> \<not> accepts r p w b"
  proof (intro allI impI notI)
    fix w b assume "s = w @ b" "accepts r p w b"
    with ms_complete [of r p w b c] e show False by simp
  qed
next
  assume n: "\<forall>w b. s = w @ b \<longrightarrow> \<not> accepts r p w b"
  show "ms r (p, s, c) = []"
  proof (rule ccontr)
    assume "ms r (p, s, c) \<noteq> []"
    then obtain p' s' c' where "(p', s', c') \<in> set (ms r (p, s, c))" by (metis list.set_intros(1) neq_Nil_conv prod.exhaust)
    from ms_sound [OF this] n show False by blast
  qed
qed

declare all_matches.simps [simp del] remove_all.simps [simp del]

text \<open>The global search finds something exactly when there is something to find.\<close>

definition occurs :: "rx \<Rightarrow> int option \<Rightarrow> units \<Rightarrow> bool" where
  "occurs r p s \<longleftrightarrow> (\<exists>a w b. s = a @ w @ b \<and> accepts r (after p a) w b)"

lemma occurs_step: "occurs r p s \<longleftrightarrow> ms r (p, s, []) \<noteq> [] \<or> (\<exists>x t. s = x # t \<and> occurs r (Some x) t)"
proof
  assume "occurs r p s"
  then obtain a w b where s: "s = a @ w @ b" "accepts r (after p a) w b" by (auto simp: occurs_def)
  show "ms r (p, s, []) \<noteq> [] \<or> (\<exists>x t. s = x # t \<and> occurs r (Some x) t)"
  proof (cases a)
    case Nil
    with s show ?thesis by (auto simp: ms_empty_iff)
  next
    case (Cons x a')
    with s show ?thesis by (auto simp: occurs_def)
  qed
next
  assume "ms r (p, s, []) \<noteq> [] \<or> (\<exists>x t. s = x # t \<and> occurs r (Some x) t)"
  then show "occurs r p s"
  proof
    assume "ms r (p, s, []) \<noteq> []"
    then obtain w b where "s = w @ b" "accepts r p w b" by (auto simp: ms_empty_iff)
    then show ?thesis unfolding occurs_def by (intro exI [of _ "[]"] exI [of _ w] exI [of _ b]) simp
  next
    assume "\<exists>x t. s = x # t \<and> occurs r (Some x) t"
    then obtain x t a w b where "s = x # t" "t = a @ w @ b" "accepts r (after (Some x) a) w b" by (auto simp: occurs_def)
    then show ?thesis unfolding occurs_def by (intro exI [of _ "x # a"] exI [of _ w] exI [of _ b]) simp
  qed
qed

lemma all_matches_iff: "all_matches r p s \<noteq> [] \<longleftrightarrow> occurs r p s"
proof (induction r p s rule: all_matches.induct)
  case (1 r p s)
  show ?case
  proof (cases "ms r (p, s, [])")
    case Nil
    with 1 show ?thesis
      by (subst all_matches.simps, subst occurs_step) (auto split: list.splits)
  next
    case (Cons m l)
    then show ?thesis by (subst all_matches.simps, subst occurs_step) (auto split: prod.splits)
  qed
qed

lemma complaints_nonempty: "complaints DIST (file, body) \<noteq> [] \<longleftrightarrow>
  occurs EXT None file \<and> (\<exists>re \<in> fst ` set PATTERNS. occurs re None (scanned body))"
  by (auto simp: complaints_def rx_test_def all_matches_iff [symmetric] split_beta)

text \<open>The files of a tree, by the names on the way to them.\<close>

inductive file_at :: "(units \<times> node_fs) list \<Rightarrow> units list \<Rightarrow> units \<Rightarrow> bool" where
  here: "(name, File body) \<in> set es \<Longrightarrow> file_at es [name] body"
| below: "(name, Dir sub) \<in> set es \<Longrightarrow> file_at sub names body \<Longrightarrow> file_at es (name # names) body"

inductive_simps file_at_Nil: "file_at [] names body"
inductive_simps file_at_Cons: "file_at (e # es) names body"

definition path_of :: "units \<Rightarrow> units list \<Rightarrow> units" where
  "path_of dir names = dir @ concat (map (\<lambda>n. u ''/'' @ n) names)"

lemma file_at_nonempty: "file_at es names body \<Longrightarrow> names \<noteq> []"
  by (cases rule: file_at.cases) auto

lemma file_at_mono: "file_at es names body \<Longrightarrow> set es \<subseteq> set fs \<Longrightarrow> file_at fs names body"
  by (induction arbitrary: fs rule: file_at.induct) (auto intro: file_at.intros)

lemma walk_complete: "file_at es names body \<Longrightarrow> (path_of dir names, body) \<in> set (walk dir es)"
proof (induction arbitrary: dir rule: file_at.induct)
  case (here name body es)
  then show ?case by (induction dir es rule: walk.induct) (auto simp: path_of_def)
next
  case (below name sub es names body)
  from below.IH [of "dir @ u ''/'' @ name"]
  have "(path_of dir (name # names), body) \<in> set (walk (dir @ u ''/'' @ name) sub)"
    by (simp add: path_of_def)
  with below.hyps(1) show ?case by (induction dir es rule: walk.induct) auto
qed

lemma walk_sound: "(file, body) \<in> set (walk dir es) \<Longrightarrow> \<exists>names. file_at es names body \<and> file = path_of dir names"
proof (induction dir es rule: walk.induct)
  case (2 dir name b es)
  show ?case
  proof (cases "(file, body) \<in> set (walk dir es)")
    case True
    with 2(1) show ?thesis using file_at_mono [of es _ body "(name, File b) # es"] by (metis set_subset_Cons)
  next
    case False
    with 2(2) show ?thesis by (intro exI [of _ "[name]"]) (auto simp: path_of_def intro: file_at.here)
  qed
next
  case (3 dir name sub es)
  show ?case
  proof (cases "(file, body) \<in> set (walk dir es)")
    case True
    with 3(2) show ?thesis using file_at_mono [of es _ body "(name, Dir sub) # es"] by (metis set_subset_Cons)
  next
    case False
    with 3 obtain names where "file_at sub names body" "file = path_of (dir @ u ''/'' @ name) names" by auto
    then show ?thesis by (intro exI [of _ "name # names"]) (auto simp: path_of_def intro: file_at.below)
  qed
qed simp

text \<open>Languages of the parts.\<close>

lemma accepts_cls_seq: "accepts (Sq (Cls P) b) p w s \<longleftrightarrow> (\<exists>x v. w = x # v \<and> P x \<and> accepts b (Some x) v s)"
proof
  show "accepts (Sq (Cls P) b) p w s \<Longrightarrow> \<exists>x v. w = x # v \<and> P x \<and> accepts b (Some x) v s"
    by (auto simp: accepts_simps)
  show "\<exists>x v. w = x # v \<and> P x \<and> accepts b (Some x) v s \<Longrightarrow> accepts (Sq (Cls P) b) p w s"
    using a_seq [of "Cls P" p "[_]" _ s b] by (fastforce intro: a_cls)
qed

lemma accepts_lits: "accepts (lits ci w) p v s \<longleftrightarrow> (if ci then map fold_case v = map fold_case (u w) else v = u w)"
proof (induction w arbitrary: p v)
  case Nil
  then show ?case by (auto simp: lits_def u_def accepts_simps)
next
  case (Cons x w)
  have *: "lits ci (x # w) = Sq (Cls (\<lambda>c. if ci then fold_case c = fold_case (of_char x) else c = of_char x)) (lits ci w)"
    by (simp add: lits_def u_def)
  show ?case
    unfolding * accepts_cls_seq Cons.IH by (cases v) (auto simp: u_def)
qed

lemma accepts_star_cls: "accepts (Star (Cls P)) p w s \<longleftrightarrow> list_all P w"
proof
  have "accepts r p w s \<Longrightarrow> r = Star (Cls P) \<Longrightarrow> list_all P w" for r
    by (induction rule: accepts.induct) (auto simp: accepts_simps)
  then show "accepts (Star (Cls P)) p w s \<Longrightarrow> list_all P w" by blast
next
  show "list_all P w \<Longrightarrow> accepts (Star (Cls P)) p w s"
  proof (induction w arbitrary: p)
    case (Cons x w)
    then show ?case using a_more [of "Cls P" p "[x]" w s] by (auto intro: a_cls)
  qed (rule a_stop)
qed

lemma accepts_plus_cls: "accepts (Plus (Cls P)) p w s \<longleftrightarrow> w \<noteq> [] \<and> list_all P w"
  unfolding Plus_def accepts_cls_seq accepts_star_cls by (cases w) auto

lemma accepts_opt: "accepts (Opt a) p w s \<longleftrightarrow> accepts a p w s \<or> w = []"
  by (auto simp: Opt_def accepts_simps)

section \<open>What the check looks for\<close>

text \<open>The intent of the three patterns, without regular expressions: a remote URL, and the text of a
  position in which a browser loads it.\<close>

definition same_word :: "units \<Rightarrow> string \<Rightarrow> bool" where
  "same_word w lit \<longleftrightarrow> map fold_case w = map fold_case (u lit)"

definition remote_url :: "int list \<Rightarrow> units \<Rightarrow> bool" where
  "remote_url stops x \<longleftrightarrow> (\<exists>h y. x = h @ y \<and> (same_word h ''http://'' \<or> same_word h ''https://'') \<and>
     y \<noteq> [] \<and> list_all (\<lambda>c. c \<notin> set stops) y)"

definition quoted :: "units \<Rightarrow> bool" where
  "quoted q \<longleftrightarrow> q = [39] \<or> q = [34]"

definition css_url :: "units \<Rightarrow> bool" where
  "css_url w \<longleftrightarrow> (\<exists>f sp q x. w = f @ sp @ q @ x \<and> same_word f ''url('' \<and> list_all space_unit sp \<and>
     (quoted q \<or> q = []) \<and> remote_url [41, 39, 34] x)"

definition css_import :: "units \<Rightarrow> bool" where
  "css_import w \<longleftrightarrow> (\<exists>f sp q x. w = f @ sp @ q @ x \<and> same_word f ''@import'' \<and> sp \<noteq> [] \<and> list_all space_unit sp \<and>
     quoted q \<and> remote_url [39, 34] x)"

definition html_attr :: "units \<Rightarrow> bool" where
  "html_attr w \<longleftrightarrow> (\<exists>n sp eq sp' q x. w = n @ sp @ eq @ sp' @ q @ x \<and> (same_word n ''src'' \<or> same_word n ''href'') \<and>
     list_all space_unit sp \<and> same_word eq ''='' \<and> list_all space_unit sp' \<and> quoted q \<and> remote_url [39, 34] x)"

text \<open>A text that holds such a position; an attribute must not continue a word.\<close>

definition loads_remote :: "units \<Rightarrow> bool" where
  "loads_remote body \<longleftrightarrow> (\<exists>a w b. body = a @ w @ b \<and>
     (css_url w \<or> css_import w \<or> html_attr w \<and> \<not> is_word (after None a)))"

definition scanned_name :: "units \<Rightarrow> bool" where
  "scanned_name file \<longleftrightarrow> (\<exists>a. file = a @ u ''.js'' \<or> file = a @ u ''.css'' \<or> file = a @ u ''.html'')"

lemma same_append: "(\<exists>v w. x = v @ w \<and> same_word v s \<and> (\<exists>v' w'. w = v' @ w' \<and> same_word v' t \<and> Q w')) \<longleftrightarrow>
  (\<exists>h y. x = h @ y \<and> same_word h (s @ t) \<and> Q y)"
proof
  assume "\<exists>v w. x = v @ w \<and> same_word v s \<and> (\<exists>v' w'. w = v' @ w' \<and> same_word v' t \<and> Q w')"
  then obtain v v' w' where "x = (v @ v') @ w'" "same_word v s" "same_word v' t" "Q w'" by auto
  then show "\<exists>h y. x = h @ y \<and> same_word h (s @ t) \<and> Q y"
    by (intro exI [of _ "v @ v'"] exI [of _ w']) (simp add: same_word_def u_def)
next
  assume "\<exists>h y. x = h @ y \<and> same_word h (s @ t) \<and> Q y"
  then obtain h y where h: "x = h @ y" "same_word h (s @ t)" "Q y" by blast
  then have "map fold_case h = map fold_case (u s) @ map fold_case (u t)" by (simp add: same_word_def u_def)
  then obtain v v' where "h = v @ v'" "map fold_case v = map fold_case (u s)" "map fold_case v' = map fold_case (u t)"
    by (auto simp: map_eq_append_conv)
  with h show "\<exists>v w. x = v @ w \<and> same_word v s \<and> (\<exists>v' w'. w = v' @ w' \<and> same_word v' t \<and> Q w')"
    by (auto simp: same_word_def)
qed

lemma accepts_word: "accepts (lits True lit) p w s \<longleftrightarrow> same_word w lit"
  by (simp add: accepts_lits same_word_def)

lemma accepts_seq: "accepts (Sq a b) p w s \<longleftrightarrow> (\<exists>v v'. w = v @ v' \<and> accepts a p v (v' @ s) \<and> accepts b (after p v) v' s)"
  by (auto simp: accepts_simps)

lemma opt_part: "(\<exists>v w. x = v @ w \<and> (P v \<or> v = []) \<and> R w) \<longleftrightarrow> (\<exists>v w. x = v @ w \<and> P v \<and> R w) \<or> R x"
  by auto

lemma accepts_remote: "accepts (remote stops) p x s \<longleftrightarrow> remote_url stops x"
proof -
  let ?q = "\<lambda>w. w \<noteq> [] \<and> list_all (\<lambda>c. c \<notin> set stops) w"
  let ?r = "\<lambda>z. \<exists>v w. z = v @ w \<and> same_word v ''://'' \<and> ?q w"
  have "accepts (remote stops) p x s \<longleftrightarrow> (\<exists>v w. x = v @ w \<and> same_word v ''http'' \<and>
      (\<exists>v' w'. w = v' @ w' \<and> (same_word v' ''s'' \<or> v' = []) \<and> ?r w'))"
    unfolding remote_def accepts_simps(5) accepts_seq accepts_word accepts_opt none_of_def accepts_plus_cls ..
  also have "\<dots> \<longleftrightarrow> (\<exists>v w. x = v @ w \<and> same_word v ''http'' \<and> (\<exists>v' w'. w = v' @ w' \<and> same_word v' ''s'' \<and> ?r w')) \<or>
      (\<exists>v w. x = v @ w \<and> same_word v ''http'' \<and> ?r w)"
    unfolding opt_part by blast
  also have "\<dots> \<longleftrightarrow> remote_url stops x"
    unfolding same_append remote_url_def append.simps by blast
  finally show ?thesis .
qed

lemma accepts_quote: "accepts quote p w s \<longleftrightarrow> quoted w"
  by (auto simp: quote_def accepts_simps quoted_def)

lemma attr_starts_word: "same_word n ''src'' \<or> same_word n ''href'' \<Longrightarrow> is_word (next_unit (n @ r))"
  by (cases n) (auto simp: same_word_def u_def next_unit_def is_word_def word_unit_def fold_case_def split: if_splits)

lemma accepts_boundary: "accepts (Sq Boundary b) p w s \<longleftrightarrow> is_word p \<noteq> is_word (next_unit (w @ s)) \<and> accepts b p w s"
  by (auto simp: accepts_seq accepts_simps)

lemmas pattern_parts = accepts_seq accepts_word accepts_star_cls accepts_plus_cls accepts_opt accepts_quote accepts_remote

lemma html_attr_word: "html_attr w \<Longrightarrow> is_word (next_unit (w @ s))"
  using attr_starts_word unfolding html_attr_def by fastforce

lemma accepts_patterns:
  "accepts RE_URL p w s \<longleftrightarrow> css_url w" "accepts RE_IMPORT p w s \<longleftrightarrow> css_import w"
  "accepts RE_ATTR p w s \<longleftrightarrow> html_attr w \<and> \<not> is_word p"
proof -
  show "accepts RE_URL p w s \<longleftrightarrow> css_url w" unfolding RE_URL_def pattern_parts css_url_def by blast
  show "accepts RE_IMPORT p w s \<longleftrightarrow> css_import w" unfolding RE_IMPORT_def pattern_parts css_import_def by blast
  have "accepts (Sq (Alt (lits True ''src'') (lits True ''href'')) (Sq (Star (Cls space_unit)) (Sq (lits True ''='')
     (Sq (Star (Cls space_unit)) (Sq quote (remote [39, 34])))))) p w s \<longleftrightarrow> html_attr w"
    unfolding pattern_parts accepts_simps(4) html_attr_def
    by (intro iffI; elim exE conjE; hypsubst; intro exI conjI; (rule refl | assumption))
  then show "accepts RE_ATTR p w s \<longleftrightarrow> html_attr w \<and> \<not> is_word p"
    unfolding RE_ATTR_def accepts_boundary using html_attr_word [of w s] by blast
qed

lemma patterns_occur: "(\<exists>re \<in> fst ` set PATTERNS. occurs re None body) \<longleftrightarrow> loads_remote body"
  unfolding loads_remote_def
  by (simp add: PATTERNS_def occurs_def accepts_patterns conj_disj_distribL ex_disj_distrib)

lemma ext_occurs: "occurs EXT None file \<longleftrightarrow> scanned_name file"
proof -
  have "accepts EXT p w s \<longleftrightarrow> s = [] \<and> (w = u ''.js'' \<or> w = u ''.css'' \<or> w = u ''.html'')" for p w s
    unfolding EXT_def accepts_seq accepts_lits accepts_simps by (auto simp: u_def)
  then show ?thesis by (auto simp: occurs_def scanned_name_def)
qed

section \<open>Properties\<close>

text \<open>C8: The air-gap check is exact.  For every built tree the script exits with 0 precisely when no
  file whose name ends in .js, .css or .html, at any depth, holds (outside its source-map comments) a
  position that loads a remote http URL: a css url(), a css import, or a src or href attribute, in any
  case and spacing the patterns allow.  Otherwise it exits with 1 and prints one line per match and a
  summary; a missing build never passes.\<close>

theorem offline_exact:
  "(sc_exit (check_offline DIST tree) = 0 \<longleftrightarrow> (\<exists>es. tree = Some (Dir es) \<and>
      (\<forall>names body. file_at es names body \<longrightarrow> scanned_name (path_of DIST names) \<longrightarrow> \<not> loads_remote (scanned body)))) \<and>
   (sc_exit (check_offline DIST (Some (Dir es))) = 1 \<longrightarrow>
      length (sc_stderr (check_offline DIST (Some (Dir es)))) = Suc (\<Sum>f \<leftarrow> walk DIST es. length (complaints DIST f))) \<and>
   sc_exit (check_offline DIST tree) \<in> {0, 1}"
proof -
  have quiet: "concat (map (complaints DIST) (walk DIST fs)) = [] \<longleftrightarrow>
      (\<forall>names body. file_at fs names body \<longrightarrow> scanned_name (path_of DIST names) \<longrightarrow> \<not> loads_remote (scanned body))" for fs
  proof -
    have "concat (map (complaints DIST) (walk DIST fs)) = [] \<longleftrightarrow>
        (\<forall>(file, body) \<in> set (walk DIST fs). \<not> (scanned_name file \<and> loads_remote (scanned body)))"
      using complaints_nonempty [unfolded ext_occurs patterns_occur, of DIST] by fastforce
    also have "\<dots> \<longleftrightarrow> (\<forall>names body. file_at fs names body \<longrightarrow> scanned_name (path_of DIST names) \<longrightarrow> \<not> loads_remote (scanned body))"
      using walk_sound [of _ _ DIST fs] walk_complete [of fs _ _ DIST] by blast
    finally show ?thesis .
  qed
  have "sc_exit (check_offline DIST tree) = 0 \<longleftrightarrow> (\<exists>fs. tree = Some (Dir fs) \<and> concat (map (complaints DIST) (walk DIST fs)) = [])"
    by (auto simp: check_offline_def Let_def split: option.splits node_fs.splits)
  moreover have "sc_exit (check_offline DIST tree) \<in> {0, 1}"
    by (auto simp: check_offline_def Let_def split: option.splits node_fs.splits)
  moreover have "length (sc_stderr (check_offline DIST (Some (Dir es)))) = Suc (\<Sum>f \<leftarrow> walk DIST es. length (complaints DIST f))"
    if "sc_exit (check_offline DIST (Some (Dir es))) = 1"
    using that by (simp add: check_offline_def Let_def length_concat o_def split: if_splits)
  ultimately show ?thesis unfolding quiet by blast
qed

lemma bad_scanned: "scanned (u ''a{b:url(http://x)}'') = u ''a{b:url(http://x)}''"
  by code_simp

theorem offline_exact_witness:
  "sc_exit (check_offline (u ''/dist'') (Some (Dir [(u ''assets'', Dir [(u ''a.css'', File (u ''a{b:url(http://x)}''))])]))) = 1"
proof -
  let ?es = "[(u ''assets'', Dir [(u ''a.css'', File (u ''a{b:url(http://x)}''))])]"
  have "file_at ?es [u ''assets'', u ''a.css''] (u ''a{b:url(http://x)}'')"
    by (auto intro!: file_at.below [of _ "[(u ''a.css'', File (u ''a{b:url(http://x)}''))]"] file_at.here)
  moreover have "scanned_name (path_of (u ''/dist'') [u ''assets'', u ''a.css''])"
    unfolding scanned_name_def by (intro exI [of _ "u ''/dist/assets/a''"]) (simp add: path_of_def u_def)
  moreover have "loads_remote (scanned (u ''a{b:url(http://x)}''))"
  proof -
    have "remote_url [41, 39, 34] (u ''http://x'')"
      unfolding remote_url_def same_word_def
      by (intro exI [of _ "u ''http://''"] exI [of _ "u ''x''"]) (simp add: u_def)
    then have "css_url (u ''url(http://x'')"
      unfolding css_url_def same_word_def
      by (intro exI [of _ "u ''url(''"] exI [of _ "[]"] exI [of _ "u ''http://x''"]) (simp add: u_def)
    then show ?thesis
      unfolding bad_scanned loads_remote_def
      by (intro exI [of _ "u ''a{b:''"] exI [of _ "u ''url(http://x''"] exI [of _ "u '')}''"]) (simp add: u_def)
  qed
  ultimately show ?thesis
    using offline_exact [of "u ''/dist''" "Some (Dir ?es)" ?es] by blast
qed

lemma star_greedy: "ms (Star (Cls P)) (p, s, c) \<noteq> [] \<and>
  hd (ms (Star (Cls P)) (p, s, c)) = (after p (takeWhile P s), dropWhile P s, c)"
proof (induction s arbitrary: p)
  case (Cons x s)
  then show ?case by (cases "P x") (auto simp: ms.simps(5) [of "Cls P" p "x # s"])
qed (simp add: ms.simps(5))

lemma ms_lits: "ms (lits False w) (p, u w @ s, c) = [(after p (u w), s, c)]"
proof (induction w arbitrary: p)
  case (Cons x w)
  then show ?case by (simp add: lits_def u_def)
qed (simp add: lits_def u_def)

lemma ms_source_map:
  assumes "list_all (\<lambda>c. \<not> line_term c) x"
  shows "\<exists>p' c' l. ms SOURCE_MAP (p, u ''//# sourceMappingURL='' @ x, c) = (p', [], c') # l"
proof -
  let ?P = "\<lambda>c. \<not> line_term c" and ?q = "after p (u ''//# sourceMappingURL='')"
  have x: "takeWhile ?P x = x" "dropWhile ?P x = []" using assms by (simp_all add: list_all_iff)
  from star_greedy [of ?P ?q x c, unfolded x] obtain l where "ms (Star (Cls ?P)) (?q, x, c) = (after ?q x, [], c) # l"
    by (metis list.collapse)
  then show ?thesis by (simp add: SOURCE_MAP_def ms_lits at_line_end_def)
qed

lemma source_map_line: "list_all (\<lambda>c. \<not> line_term c) x \<Longrightarrow> scanned (u ''//# sourceMappingURL='' @ x) = []"
proof -
  assume "list_all (\<lambda>c. \<not> line_term c) x"
  from ms_source_map [OF this, of None "[]"] obtain p' c' l
    where m: "ms SOURCE_MAP (None, u ''//# sourceMappingURL='' @ x, []) = (p', [], c') # l" by blast
  have "ms SOURCE_MAP (p', [], []) = []" by (simp add: SOURCE_MAP_def lits_def u_def)
  then have "remove_all SOURCE_MAP p' [] = []" by (simp add: remove_all.simps)
  with m show ?thesis unfolding scanned_def by (subst remove_all.simps) (simp add: u_def)
qed

lemma nothing_loads: "\<not> loads_remote []"
  by (auto simp: loads_remote_def css_url_def css_import_def html_attr_def same_word_def u_def)

lemma unmatched: "all_matches RE_URL None s = [] \<Longrightarrow> all_matches RE_IMPORT None s = [] \<Longrightarrow> all_matches RE_ATTR None s = [] \<Longrightarrow>
  \<not> loads_remote s"
  unfolding patterns_occur [symmetric] all_matches_iff [symmetric] by (simp add: PATTERNS_def)

lemma quiet_file: "\<not> loads_remote (scanned body) \<Longrightarrow> sc_exit (check_offline DIST (Some (Dir [(name, File body)]))) = 0"
  using complaints_nonempty [unfolded ext_occurs patterns_occur, of DIST "DIST @ u ''/'' @ name" body]
  by (simp add: check_offline_def)

lemma minified_import: "\<not> loads_remote (scanned (u ''@import'' @ [34] @ u ''https://f/a.css'' @ [34]))"
  by (rule unmatched; code_simp)

lemma relative_host: "\<not> loads_remote (scanned (u ''<script src='' @ [34] @ u ''//cdn/x.js'' @ [34] @ u ''>''))"
  by (rule unmatched; code_simp)

text \<open>C35: What the air-gap check lets through.  An import rule without white space before its string,
  as a css minifier writes it, and an attribute with a URL that names a host without a scheme pass; and
  so does everything that follows the text of a source-map comment on the same line, whatever it loads:
  in a minified bundle that line is the rest of the file.\<close>

theorem offline_gaps:
  assumes "list_all (\<lambda>c. \<not> line_term c) x"
  shows "sc_exit (check_offline DIST (Some (Dir [(name, File (u ''@import'' @ [34] @ u ''https://f/a.css'' @ [34]))]))) = 0 \<and>
    sc_exit (check_offline DIST (Some (Dir [(name, File (u ''<script src='' @ [34] @ u ''//cdn/x.js'' @ [34] @ u ''>''))]))) = 0 \<and>
    sc_exit (check_offline DIST (Some (Dir [(name, File (u ''//# sourceMappingURL='' @ x))]))) = 0"
  using quiet_file minified_import relative_host source_map_line [OF assms] nothing_loads by simp

theorem offline_gaps_witness:
  "sc_exit (check_offline (u ''/dist'') (Some (Dir [(u ''a.js'', File (u ''//# sourceMappingURL='' @ u ''x;a{b:url(http://x)}''))]))) = 0"
  using offline_gaps [of "u ''x;a{b:url(http://x)}''" "u ''/dist''" "u ''a.js''"]
  by (simp add: u_def line_term_def)

end
