(* ===== verification/Routes.thy ===== *)
theory Routes
  imports Hooks Files Proxy Term
begin

text \<open>
  The requests of the console against the control plane's interface: the route table of
  \<open>pkg/controlplane/server.go\<close> with the matching of its router, and the bodies its handlers bind
  (\<open>server.go\<close>, \<open>defaults.go\<close>, \<open>pkg/guestapi/types.go\<close>).  A handler is named by its method of \<open>Server\<close>.
\<close>

section \<open>Routes\<close>




definition url_parts :: "string \<Rightarrow> string list" where
  "url_parts url = js_split (CHR ''/'') (takeWhile (\<lambda>c. c \<noteq> CHR 0x3F) url)"



section \<open>Bodies\<close>



















section \<open>What the console sends\<close>


definition queries :: "string \<Rightarrow> SandboxState option \<Rightarrow> int \<Rightarrow> string \<Rightarrow> bool \<Rightarrow> (string \<times> query) list" where
  "queries sid cached n path on =
     [(''listSandboxes'', useSandboxes), (''getSandbox'', useSandbox sid cached), (''listNodes'', useNodes),
      (''listTemplates'', useTemplates), (''listCheckpoints'', useCheckpoints sid), (''sandboxEvents'', useSandboxEvents sid),
      (''listEvents'', useFleetEvents n), (''sandboxStorage'', useStorage sid), (''storageReportAll'', useStorageReport),
      (''readFile'', useDirectory sid path on)]"




section \<open>Facts\<close>






















lemma url_parts_nonempty [simp]: "url_parts s \<noteq> []"
  by (simp add: url_parts_def)




section \<open>What an invalidation refreshes\<close>

text \<open>Invalidating a key refreshes the queries whose keys extend it.\<close>

definition covers :: "query_key \<Rightarrow> query_key \<Rightarrow> bool" where
  "covers k k' \<longleftrightarrow> take (length k) k' = k"

text \<open>\<open>refreshTree\<close> of the files tab.\<close>

definition refreshTree :: "string \<Rightarrow> query_key" where
  "refreshTree sid = [KStr ''sandboxes'', KStr sid, KStr ''dir'']"

lemma query_keys:
  "map (\<lambda>(h, q). (h, q_key q)) (queries sid cached n path on) =
    [(''listSandboxes'', list_key), (''getSandbox'', one_key sid), (''listNodes'', [KStr ''nodes'']),
     (''listTemplates'', [KStr ''templates'']), (''listCheckpoints'', one_key sid @ [KStr ''checkpoints'']),
     (''sandboxEvents'', one_key sid @ [KStr ''events'']), (''listEvents'', [KStr ''events'', KNum n]),
     (''sandboxStorage'', one_key sid @ [KStr ''storage'']), (''storageReportAll'', [KStr ''storage-report'']),
     (''readFile'', refreshTree sid @ [KStr path])]"
  by (simp add: queries_def refreshTree_def list_key_def one_key_def mk_query_def useSandboxes_def useSandbox_def useNodes_def
      useTemplates_def useCheckpoints_def useSandboxEvents_def useFleetEvents_def useStorage_def useStorageReport_def useDirectory_def)

text \<open>Refreshing the tree asks again for the directories of that sandbox and for nothing else; an action
  that settles, which invalidates the keys of the list and of the nodes, refreshes all that is shown of any
  sandbox and the nodes, and leaves the events and the report of the fleet to their polls.\<close>

theorem refresh_scope:
  "list_all (\<lambda>(h, k). (covers (refreshTree sid) k \<longleftrightarrow> h = ''readFile'' \<and> other = sid) \<and>
     (covers list_key k \<or> covers [KStr ''nodes''] k \<longleftrightarrow>
       h \<notin> {''listTemplates'', ''listEvents'', ''storageReportAll''}))
    (map (\<lambda>(h, q). (h, q_key q)) (queries other cached n path on))"
  unfolding query_keys by (simp add: covers_def refreshTree_def list_key_def one_key_def eq_commute)

section \<open>Properties\<close>



end
