(* ===== verification/Session.thy ===== *)
theory Session
  imports Shell Health
begin

text \<open>
  The console as a whole over time: the application with its stores, signing in and out, the answers of
  the server, and the listeners of the window event \<open>embervm:unauthorized\<close> that a 401 answer dispatches
  (\<open>App.tsx\<close>, \<open>lib/proxy.ts\<close>, \<open>lib/term.ts\<close>, \<open>lib/health.ts\<close>).
\<close>

record console_state =
  cn_app :: app_state
  cn_health :: health_state

definition console_load :: "local_storage \<Rightarrow> bool \<Rightarrow> string \<Rightarrow> console_state" where
  "console_load m https host = \<lparr>cn_app = app_load m https host, cn_health = health_init\<rparr>"

section \<open>The listeners\<close>

text \<open>The terminal manager's listener.  Before its module is loaded there are no sessions to dispose.\<close>

definition term_unauthorized :: "term_state \<Rightarrow> term_state" where
  "term_unauthorized s = disposeAll s"

definition health_unauthorized :: "health_state \<Rightarrow> health_state" where
  "health_unauthorized s = resetHealthStore s"

text \<open>Dispatching is synchronous: every listener has run when \<open>dispatchEvent\<close> returns.\<close>

definition dispatch_listeners :: "console_state \<Rightarrow> console_state" where
  "dispatch_listeners s =
     \<lparr>cn_app = (app_unauthorized (cn_app s))\<lparr>as_terms := term_unauthorized (as_terms (cn_app s))\<rparr>,
      cn_health = health_unauthorized (cn_health s)\<rparr>"

definition is_401 :: "fetch_outcome \<Rightarrow> bool" where
  "is_401 out = (case out of Responded r \<Rightarrow> rs_status r = 401 | NetworkError _ \<Rightarrow> False)"

text \<open>The answer to any request of \<open>api\<close>: what its caller does with the result is the caller's.\<close>

definition console_answer :: "fetch_outcome \<Rightarrow> console_state \<Rightarrow> console_state" where
  "console_answer out s =
     (let s1 = s\<lparr>cn_app := (cn_app s)\<lparr>as_world := fst (api (as_world (cn_app s)) out)\<rparr>\<rparr>
      in if is_401 out then dispatch_listeners s1 else s1)"

text \<open>The answer to the probe of the sign-in page.\<close>

definition console_probe :: "TFn \<Rightarrow> fetch_outcome \<Rightarrow> console_state \<Rightarrow> console_state" where
  "console_probe t out s =
     (let s1 = s\<lparr>cn_app := login_settles t out (cn_app s)\<rparr>
      in if is_401 out then dispatch_listeners s1 else s1)"

section \<open>The machine\<close>

text \<open>\<open>CData\<close> is a query's answer that the cache takes in; the token the terminals read is the one in
  storage.\<close>

datatype console_event =
    CType string | CConnect | CProbe fetch_outcome | CLogout | CTurn | CAnswer fetch_outcome
  | CData query_key query_data | CHealth health_event | CTerm term_event | CProxy proxy_event

definition sync_token :: "console_state \<Rightarrow> console_state" where
  "sync_token s = s\<lparr>cn_app := (cn_app s)\<lparr>as_terms :=
     term_handle (as_terms (cn_app s)) (TToken (getToken (w_storage (as_world (cn_app s)))))\<rparr>\<rparr>"

text \<open>The form and the sidebar exist only on their own page; the form's button is disabled while it is
  busy or the trimmed token is empty.\<close>

fun console_enabled :: "console_state \<Rightarrow> console_event \<Rightarrow> bool" where
  "console_enabled s (CType v) \<longleftrightarrow> \<not> as_authed (cn_app s)"
| "console_enabled s CConnect \<longleftrightarrow>
     \<not> as_authed (cn_app s) \<and> \<not> lg_busy (as_login (cn_app s)) \<and> js_trim (lg_token (as_login (cn_app s))) \<noteq> []"
| "console_enabled s (CProbe out) \<longleftrightarrow> \<not> as_authed (cn_app s) \<and> lg_busy (as_login (cn_app s))"
| "console_enabled s CLogout \<longleftrightarrow> as_authed (cn_app s)"
| "console_enabled s e \<longleftrightarrow> True"

fun console_step :: "TFn \<Rightarrow> console_state \<Rightarrow> console_event \<Rightarrow> console_state" where
  "console_step t s (CType v) = s\<lparr>cn_app := (cn_app s)\<lparr>as_login := (as_login (cn_app s))\<lparr>lg_token := v\<rparr>\<rparr>\<rparr>"
| "console_step t s CConnect = s\<lparr>cn_app := login_connect (cn_app s)\<rparr>"
| "console_step t s (CProbe out) = console_probe t out s"
| "console_step t s CLogout = s\<lparr>cn_app := app_logout (cn_app s)\<rparr>"
| "console_step t s CTurn = s\<lparr>cn_app := app_turn (cn_app s)\<rparr>"
| "console_step t s (CAnswer out) = console_answer out s"
| "console_step t s (CData k d) = s\<lparr>cn_app := (cn_app s)\<lparr>as_cache := (as_cache (cn_app s))(k \<mapsto> d)\<rparr>\<rparr>"
| "console_step t s (CHealth e) = s\<lparr>cn_health := health_handle (cn_health s) e\<rparr>"
| "console_step t s (CTerm e) = s\<lparr>cn_app := (cn_app s)\<lparr>as_terms := term_handle (as_terms (cn_app s)) e\<rparr>\<rparr>"
| "console_step t s (CProxy e) = s\<lparr>cn_app := (cn_app s)\<lparr>as_proxy := proxy_handle (as_proxy (cn_app s)) e\<rparr>\<rparr>"

definition console_handle :: "TFn \<Rightarrow> console_state \<Rightarrow> console_event \<Rightarrow> console_state" where
  "console_handle t s e = (if console_enabled s e then sync_token (console_step t s e) else s)"

section \<open>The stores keep their invariants together\<close>

text \<open>While the console is shown no sign-in form is mounted: the next one starts empty.\<close>

definition console_inv :: "console_state \<Rightarrow> bool" where
  "console_inv s \<longleftrightarrow> term_inv (as_terms (cn_app s)) \<and> proxy_inv (as_proxy (cn_app s)) \<and> health_inv (cn_health s) \<and>
     (as_authed (cn_app s) \<longrightarrow> as_login (cn_app s) = login_init)"

lemma fold_term_inv: "term_inv s \<Longrightarrow> term_inv (foldl term_handle s es)"
  by (induction es arbitrary: s) (simp_all add: term_inv_handle)

lemma listeners_inv: "console_inv s \<Longrightarrow> console_inv (dispatch_listeners s)"
  using term_inv_handle [of "as_terms (cn_app s)" TDisposeAll] proxy_inv_handle [of "as_proxy (cn_app s)" Unauth]
    health_inv_handle [of "cn_health s" HReset]
  by (simp add: console_inv_def dispatch_listeners_def app_unauthorized_def term_unauthorized_def health_unauthorized_def)

lemma login_stores [simp]:
  "as_terms (login_connect a) = as_terms a" "as_proxy (login_connect a) = as_proxy a"
  "as_terms (login_settles t out a) = as_terms a" "as_proxy (login_settles t out a) = as_proxy a"
  "as_cache (login_connect a) = as_cache a" "as_cache (login_settles t out a) = as_cache a"
  "as_authed (login_connect a) = as_authed a"
  by (simp_all add: login_connect_def login_settles_def Let_def split: prod.splits sum.splits)

lemma login_settles_form:
  "\<not> as_authed a \<Longrightarrow> as_authed (login_settles t out a) \<Longrightarrow> as_login (login_settles t out a) = login_init"
  by (simp add: login_settles_def split: prod.splits sum.splits)

lemma console_step_inv: "console_inv s \<Longrightarrow> console_enabled s e \<Longrightarrow> console_inv (console_step t s e)"
proof (cases e)
  case (CProbe out)
  assume "console_inv s" "console_enabled s e"
  with CProbe have "console_inv (s\<lparr>cn_app := login_settles t out (cn_app s)\<rparr>)"
    by (simp add: console_inv_def login_settles_form)
  with CProbe show ?thesis by (simp add: console_probe_def Let_def listeners_inv)
next
  case (CAnswer out)
  assume "console_inv s"
  then have "console_inv (s\<lparr>cn_app := (cn_app s)\<lparr>as_world := w\<rparr>\<rparr>)" for w by (simp add: console_inv_def)
  with CAnswer show ?thesis by (simp add: console_answer_def Let_def listeners_inv)
next
  case CLogout
  assume "console_inv s"
  with CLogout show ?thesis
    using proxy_inv_handle [of "as_proxy (cn_app s)" EndIt] by (simp add: console_inv_def app_logout_def Let_def)
qed (simp_all add: console_inv_def app_turn_def fold_term_inv term_inv_handle proxy_inv_handle health_inv_handle)

lemma console_handle_inv: "console_inv s \<Longrightarrow> console_inv (console_handle t s e)"
  using console_step_inv [of s e t] term_inv_handle [of "as_terms (cn_app (console_step t s e))"]
  by (simp add: console_handle_def sync_token_def console_inv_def del: term_handle.simps)

lemma console_load_inv: "console_inv (console_load m https host)"
  by (simp add: console_inv_def console_load_def app_load_def term_inv_init
      proxy_machine.minv_start health_machine.minv_start)

interpretation console: deterministic_machine "console_load m https host" "console_handle t" console_inv
  by unfold_locales (rule console_load_inv, rule console_handle_inv)

abbreviation console_run :: "TFn \<Rightarrow> console_event list \<Rightarrow> console_state \<Rightarrow> console_state" where
  "console_run t es s \<equiv> foldl (console_handle t) s es"


section \<open>Signing in and out, step by step\<close>

abbreviation stored :: "console_state \<Rightarrow> string option" where
  "stored s \<equiv> getToken (w_storage (as_world (cn_app s)))"

lemma token_laws [simp]:
  "getToken (setToken b m) = Some b" "getToken (clearToken m) = None"
  by (simp_all add: getToken_def setToken_def clearToken_def ls_get_def ls_set_def ls_remove_def)

lemma sync_fields [simp]:
  "as_authed (cn_app (sync_token s)) = as_authed (cn_app s)" "as_world (cn_app (sync_token s)) = as_world (cn_app s)"
  "as_login (cn_app (sync_token s)) = as_login (cn_app s)" "as_cache (cn_app (sync_token s)) = as_cache (cn_app s)"
  "as_proxy (cn_app (sync_token s)) = as_proxy (cn_app s)" "cn_health (sync_token s) = cn_health s"
  "as_term_queue (cn_app (sync_token s)) = as_term_queue (cn_app s)"
  "tm_bySandbox (as_terms (cn_app (sync_token s))) = tm_bySandbox (as_terms (cn_app s))"
  "tm_token (as_terms (cn_app (sync_token s))) = stored s"
  by (simp_all add: sync_token_def)

lemma resetHealth_empty: "hp_entries (resetHealthStore h) = []"
  by (simp add: resetHealthStore_def Let_def)

lemma unauthorized_step:
  assumes "rs_status r = 401" and "u = console_handle t s (CAnswer (Responded r))"
  shows "stored u = None" "\<not> as_authed (cn_app u)" "as_login (cn_app u) = as_login (cn_app s)"
    "tm_bySandbox (as_terms (cn_app u)) = []" "tm_token (as_terms (cn_app u)) = None" "px_session (as_proxy (cn_app u)) = None"
    "hp_entries (cn_health u) = []" "as_cache (cn_app u) = as_cache (cn_app s)"
  using assms
  by (simp_all add: console_handle_def console_answer_def Let_def is_401_def dispatch_listeners_def
      app_unauthorized_def proxy_unauthorized_def term_unauthorized_def health_unauthorized_def
      api_def dispatch_unauthorized_def disposeAll_empty resetHealth_empty)

lemma logout_step:
  assumes "as_authed (cn_app s)" and "v = console_handle t s CLogout"
  shows "stored v = None" "\<not> as_authed (cn_app v)" "as_login (cn_app v) = as_login (cn_app s)"
    "px_session (as_proxy (cn_app v)) = None" "cn_health v = cn_health s" "as_cache (cn_app v) = Map.empty"
    "as_term_queue (cn_app v) = as_term_queue (cn_app s) @ [TDisposeAll]"
  using assms
  by (simp_all add: console_handle_def app_logout_def Let_def endProxySession_def disposeAllTerms_def)

lemma turn_step:
  assumes "as_term_queue (cn_app s) = q @ [TDisposeAll]" and "v = console_handle t s CTurn"
  shows "stored v = stored s" "as_authed (cn_app v) = as_authed (cn_app s)" "as_login (cn_app v) = as_login (cn_app s)"
    "tm_bySandbox (as_terms (cn_app v)) = []" "tm_token (as_terms (cn_app v)) = stored s"
    "as_proxy (cn_app v) = as_proxy (cn_app s)" "cn_health v = cn_health s" "as_cache (cn_app v) = as_cache (cn_app s)"
  using assms by (simp_all add: console_handle_def app_turn_def disposeAll_empty)

lemma connect_steps:
  assumes "\<not> as_authed (cn_app s)" "as_login (cn_app s) = login_init" "js_trim b \<noteq> []"
    and "u = console_run t [CType b, CConnect] s"
  shows "stored u = Some (js_trim b)" "\<not> as_authed (cn_app u)" "lg_busy (as_login (cn_app u))"
    "as_cache (cn_app u) = as_cache (cn_app s)"
  using assms
  by (simp_all add: console_handle_def login_connect_def Let_def login_init_def)

lemma probe_step:
  assumes "\<not> as_authed (cn_app s)" "lg_busy (as_login (cn_app s))"
    and "rs_status r = 200" "rs_body r = JsonText j"
    and "u = console_handle t s (CProbe (Responded r))"
  shows "stored u = stored s" "as_authed (cn_app u)" "as_cache (cn_app u) = as_cache (cn_app s)"
  using assms by (simp_all add: console_handle_def console_probe_def Let_def is_401_def login_settles_def api_def rs_ok_def)

section \<open>Properties\<close>

text \<open>C5: The two ways out of the console, from any state it can reach.  A 401 answer and signing out (with
  the turn that runs the queued call) both leave no token in storage, an empty sign-in form, also after
  a reload, no terminal session, no token for a socket and no proxy session.  They differ in two places:
  the 401 answer also drops the health pollers but keeps the query cache, so that the next user who signs
  in is shown what was cached for the previous one; signing out clears the cache but leaves the pollers
  to their own clean-up.\<close>

theorem two_ways_out:
  assumes "s = console_run t es (console_load m https host)" and "as_authed (cn_app s)"
    and "rs_status r = 401" and "u = console_run t [CAnswer (Responded r)] s"
    and "v = console_run t [CLogout, CTurn] s"
    and "js_trim b \<noteq> []" "rs_status p = 200" "rs_body p = JsonText j"
    and "w = console_run t [CType b, CConnect, CProbe (Responded p)] u"
  shows "(\<forall>x \<in> {u, v}. console_inv x \<and> stored x = None \<and>
      App matches isActive tf l pathname (cn_app x) = LoginView (Login login_init tf) \<and>
      \<not> as_authed (app_load (w_storage (as_world (cn_app x))) https host) \<and>
      tm_bySandbox (as_terms (cn_app x)) = [] \<and> tm_token (as_terms (cn_app x)) = None \<and>
      px_session (as_proxy (cn_app x)) = None) \<and>
    hp_entries (cn_health u) = [] \<and> as_cache (cn_app u) = as_cache (cn_app s) \<and>
    cn_health v = cn_health s \<and> as_cache (cn_app v) = Map.empty \<and>
    as_authed (cn_app w) \<and> stored w = Some (js_trim b) \<and> as_cache (cn_app w) = as_cache (cn_app s)"
proof -
  have inv: "console_inv s" unfolding assms(1) by (rule console.run_inv)
  then have form: "as_login (cn_app s) = login_init" using assms(2) by (simp add: console_inv_def)
  have invs: "console_inv u" "console_inv v" by (simp_all add: assms(4,5) inv console_handle_inv)
  define v0 where "v0 = console_handle t s CLogout"
  note out = logout_step [OF assms(2) v0_def] and turn = turn_step [OF logout_step(7) [OF assms(2) v0_def]]
  have v: "v = console_handle t v0 CTurn" by (simp add: assms(5) v0_def)
  have u: "u = console_handle t s (CAnswer (Responded r))" by (simp add: assms(4))
  note un = unauthorized_step [OF assms(3) u]
  define c where "c = console_run t [CType b, CConnect] u"
  note con = connect_steps [OF un(2) _ assms(6) c_def, unfolded un(3), OF form]
  have w: "w = console_handle t c (CProbe (Responded p))" by (simp add: assms(9) c_def)
  note pr = probe_step [OF con(2,3) assms(7,8) w]
  show ?thesis
    using invs un out turn [OF v] con pr form by (simp add: App_def app_load_def app_authed_def)
qed

definition answer :: "int \<Rightarrow> response" where
  "answer st = \<lparr>rs_status = st, rs_body = JsonText (JArr []), rs_bytes = []\<rparr>"

abbreviation first_run :: "console_event list" where
  "first_run \<equiv> [CData [KStr ''templates''] (DOther 7)]"

abbreviation first_user :: console_state where
  "first_user \<equiv> console_run (tr En) first_run (console_load [TOKEN_KEY \<mapsto> ''a''] True ''h'')"

lemma first_user_facts:
  "as_authed (cn_app first_user)" "as_cache (cn_app first_user) [KStr ''templates''] = Some (DOther 7)" "js_trim ''b'' \<noteq> []"
  by (simp_all add: console_handle_def console_load_def app_load_def app_authed_def getToken_def ls_get_def
      js_trim_def js_space_def)

theorem two_ways_out_witness:
  "as_cache (cn_app (console_run (tr En) [CType ''b'', CConnect, CProbe (Responded (answer 200))]
      (console_run (tr En) [CAnswer (Responded (answer 401))] first_user))) [KStr ''templates''] = Some (DOther 7)"
  using two_ways_out [OF refl first_user_facts(1) _ refl refl first_user_facts(3) _ _ refl,
      of "answer 401" "answer 200"] first_user_facts(2)
  by (simp add: answer_def)

text \<open>C20: A 401 answer is taken for the session that is current when it arrives, not for the one that sent
  the request.  After signing out and in again with another token, a late 401 to a request of the earlier
  session signs the new one out; when it arrives while the new sign-in is being probed, the console opens
  although no token is stored any more, and its next request carries an empty one.\<close>

theorem late_unauthorized:
  assumes "s = console_run t es (console_load m https host)" and "as_authed (cn_app s)"
    and "js_trim b \<noteq> []" "rs_status p = 200" "rs_body p = JsonText j" and "rs_status r = 401"
    and "c = console_run t [CLogout, CType b, CConnect] s"
    and "i = console_run t [CProbe (Responded p)] c"
    and "x = console_run t [CAnswer (Responded r)] i"
    and "y = console_run t [CAnswer (Responded r), CProbe (Responded p)] c"
  shows "as_authed (cn_app i) \<and> stored i = Some (js_trim b) \<and>
    \<not> as_authed (cn_app x) \<and> stored x = None \<and>
    as_authed (cn_app y) \<and> stored y = None \<and>
    rq_headers (api_request (w_storage (as_world (cn_app y))) verb path None) = [(''Authorization'', ''Bearer '')]"
proof -
  have "console_inv s" unfolding assms(1) by (rule console.run_inv)
  then have form: "as_login (cn_app s) = login_init" using assms(2) by (simp add: console_inv_def)
  define v0 where "v0 = console_handle t s CLogout"
  note out = logout_step [OF assms(2) v0_def]
  have c: "c = console_run t [CType b, CConnect] v0" by (simp add: assms(7) v0_def)
  note con = connect_steps [OF out(2) _ assms(3) c, unfolded out(3), OF form]
  have i: "i = console_handle t c (CProbe (Responded p))" and x: "x = console_handle t i (CAnswer (Responded r))"
    by (simp_all add: assms(8,9))
  define u where "u = console_handle t c (CAnswer (Responded r))"
  note un = unauthorized_step [OF assms(6) u_def]
  have y: "y = console_handle t u (CProbe (Responded p))" by (simp add: assms(10) u_def)
  have busy: "lg_busy (as_login (cn_app u))" using un(3) con(3) by simp
  note late = probe_step [OF un(2) busy assms(4,5) y]
  show ?thesis
    using probe_step [OF con(2,3) assms(4,5) i] unauthorized_step [OF assms(6) x] con late un
    by (simp add: api_request_def auth_header_def)
qed

theorem late_unauthorized_witness:
  "stored (console_run (tr En) [CAnswer (Responded (answer 401)), CProbe (Responded (answer 200))]
      (console_run (tr En) [CLogout, CType ''b'', CConnect] first_user)) = None"
  using late_unauthorized [OF refl first_user_facts(1,3) _ _ _ refl refl refl refl, of "answer 200" _ "answer 401"]
  by (simp add: answer_def)

end
