(* ===== verification/Theme.thy ===== *)
theory Theme
  imports Term
begin

text \<open>
  The colours of the editor (\<open>web/src/lib/cmTheme.ts\<close>) beside the design tokens of the console
  (\<open>web/src/index.css\<close>) and the theme of the terminal.  CodeMirror, which reads the rules, is outside of the
  repository: a style sheet is a list of selectors with their declarations, a highlighting rule a list of
  tags with theirs.
\<close>

text \<open>The tokens \<open>--color-*\<close> of the style sheet.\<close>

definition design_tokens :: "(string \<times> string) list" where
  "design_tokens =
     [(''bg'', ''#0c0e13''), (''surface'', ''#12151c''), (''raised'', ''#191d26''),
      (''overlay'', ''#1e232e''), (''border'', ''#262c39''), (''hairline'', ''#1c212b''),
      (''ink'', ''#e7eaf0''), (''muted'', ''#9aa3b2''), (''faint'', ''#616b7c''),
      (''accent'', ''#f5a524''), (''accent-hover'', ''#ffb949''), (''accent-weak'', ''#2a2113''),
      (''ok'', ''#3fb454''), (''transit'', ''#d1a01f''), (''hot'', ''#e07b3a''), (''warm'', ''#b98150''),
      (''cold'', ''#4a94dd''), (''idle'', ''#6b7686''), (''danger'', ''#e5534b''), (''grid'', ''#1a1f29'')]"

definition colors :: "(string \<times> string) list" where
  "colors =
     [(''bg'', ''#0c0e13''), (''surface'', ''#12151c''), (''raised'', ''#191d26''),
      (''border'', ''#262c39''), (''hairline'', ''#1c212b''), (''ink'', ''#e7eaf0''),
      (''muted'', ''#9aa3b2''), (''faint'', ''#616b7c''), (''accent'', ''#f5a524''),
      (''ok'', ''#3fb454''), (''cold'', ''#4a94dd''), (''danger'', ''#e5534b''), (''warm'', ''#b98150''),
      (''magenta'', ''#b07dd6''), (''cyan'', ''#3fb0b4'')]"

abbreviation hue :: "string \<Rightarrow> string" where
  "hue k \<equiv> nullish (map_of colors k) ''undefined''"

type_synonym declarations = "(string \<times> string) list"

definition editorChrome :: "(string \<times> declarations) list" where
  "editorChrome =
     [(''&'',
       [(''backgroundColor'', hue ''bg''), (''color'', hue ''ink''), (''fontSize'', ''13px''),
        (''height'', ''100%'')]),
      (''.cm-content'',
       [(''fontFamily'', [CHR 0x22] @ ''JetBrains Mono Variable'' @ [CHR 0x22] @ '', ui-monospace, monospace''),
        (''caretColor'', hue ''accent''), (''padding'', ''8px 0'')]),
      (''.cm-cursor, .cm-dropCursor'',
       [(''borderLeftColor'', hue ''accent'')]),
      (''&.cm-focused'',
       [(''outline'', ''none'')]),
      (''&.cm-focused > .cm-scroller > .cm-selectionLayer .cm-selectionBackground, ::selection'',
       [(''backgroundColor'', hue ''accent'' @ ''30'')]),
      (''.cm-selectionBackground'',
       [(''backgroundColor'', hue ''accent'' @ ''22'')]),
      (''.cm-activeLine'',
       [(''backgroundColor'', hue ''raised'' @ ''66'')]),
      (''.cm-gutters'',
       [(''backgroundColor'', hue ''bg''), (''color'', hue ''faint''),
        (''borderRight'', ''1px solid '' @ hue ''hairline'')]),
      (''.cm-activeLineGutter'',
       [(''backgroundColor'', hue ''raised'' @ ''66''), (''color'', hue ''muted'')]),
      (''.cm-lineNumbers .cm-gutterElement'',
       [(''padding'', ''0 8px 0 12px'')]),
      (''.cm-searchMatch'',
       [(''backgroundColor'', hue ''accent'' @ ''2a''),
        (''outline'', ''1px solid '' @ hue ''accent'' @ ''55'')]),
      (''.cm-matchingBracket'',
       [(''backgroundColor'', hue ''accent'' @ ''25''),
        (''outline'', ''1px solid '' @ hue ''accent'' @ ''50'')]),
      (''.cm-tooltip'',
       [(''backgroundColor'', hue ''raised''), (''border'', ''1px solid '' @ hue ''border''),
        (''color'', hue ''ink'')]),
      (''.cm-panels'',
       [(''backgroundColor'', hue ''surface''), (''color'', hue ''ink''),
        (''borderTop'', ''1px solid '' @ hue ''hairline'')])]"

text \<open>A tag of the highlighter, possibly under a modifier such as \<open>t.function\<close>.\<close>

datatype tag = Tag string | Mod string tag

definition highlight :: "(tag list \<times> declarations) list" where
  "highlight =
     [([Tag ''keyword'', Tag ''controlKeyword'', Tag ''moduleKeyword''], [(''color'', hue ''magenta'')]),
      ([Tag ''string'', Mod ''special'' (Tag ''string'')], [(''color'', hue ''ok'')]),
      ([Tag ''number'', Tag ''bool'', Tag ''null'', Tag ''atom''], [(''color'', hue ''warm'')]),
      ([Tag ''comment'', Tag ''blockComment'', Tag ''lineComment''], [(''color'', hue ''faint''), (''fontStyle'', ''italic'')]),
      ([Mod ''function'' (Tag ''variableName''), Mod ''function'' (Tag ''propertyName'')], [(''color'', hue ''cold'')]),
      ([Tag ''typeName'', Tag ''className'', Tag ''namespace''], [(''color'', hue ''cyan'')]),
      ([Tag ''propertyName'', Tag ''attributeName''], [(''color'', hue ''ink'')]),
      ([Tag ''variableName'', Mod ''definition'' (Tag ''variableName'')], [(''color'', hue ''ink'')]),
      ([Tag ''operator'', Tag ''punctuation'', Tag ''bracket''], [(''color'', hue ''muted'')]),
      ([Tag ''meta'', Tag ''processingInstruction''], [(''color'', hue ''accent'')]),
      ([Tag ''heading''], [(''color'', hue ''accent''), (''fontWeight'', ''600'')]),
      ([Tag ''link''], [(''color'', hue ''cold''), (''textDecoration'', ''underline'')]),
      ([Tag ''emphasis''], [(''fontStyle'', ''italic'')]),
      ([Tag ''strong''], [(''fontWeight'', ''600'')]),
      ([Tag ''invalid''], [(''color'', hue ''danger'')])]"

definition emberTheme :: "(string \<times> declarations) list \<times> (tag list \<times> declarations) list" where
  "emberTheme = (editorChrome, highlight)"

section \<open>Facts\<close>

text \<open>A colour: six hexadecimal digits, or eight with the opacity.\<close>

definition is_color :: "string \<Rightarrow> bool" where
  "is_color s \<longleftrightarrow> take 1 s = ''#'' \<and> length s \<in> {7, 9} \<and> list_all (\<lambda>c. c \<in> set ''0123456789abcdef'') (drop 1 s)"

text \<open>Declarations that set a colour.\<close>

definition color_keys :: "string list" where
  "color_keys = [''backgroundColor'', ''color'', ''caretColor'', ''borderLeftColor'']"

definition declared_colors :: "declarations \<Rightarrow> string list" where
  "declared_colors ds = map snd (filter (\<lambda>(k, _). k \<in> set color_keys) ds)"

text \<open>The colours of the terminal that stand for a token, by the names they have there.\<close>

definition term_tokens :: "(string \<times> string) list" where
  "term_tokens =
     [(''background'', ''bg''), (''foreground'', ''ink''), (''cursor'', ''accent''), (''cursorAccent'', ''bg''),
      (''black'', ''surface''), (''red'', ''danger''), (''green'', ''ok''), (''yellow'', ''transit''), (''blue'', ''cold''),
      (''white'', ''muted''), (''brightBlack'', ''faint''), (''brightWhite'', ''ink'')]"

text \<open>One palette: every colour of the editor is the design token of its name, but for magenta and cyan,
  which are those of the terminal; the terminal's own colours are tokens too, under the names it has for
  them.  Every rule of the editor names colours of that palette, at full strength or with an opacity; no
  tag is styled twice, and no text is drawn in the colour of the background.\<close>

theorem one_palette:
  "list_all (\<lambda>(k, v). map_of design_tokens k = Some v \<or> k \<in> {''magenta'', ''cyan''} \<and> map_of TERM_THEME k = Some v) colors \<and>
   list_all (\<lambda>(k, d). map_of TERM_THEME k = map_of design_tokens d \<and> map_of TERM_THEME k \<noteq> None) term_tokens \<and>
   list_all (\<lambda>v. is_color v \<and> take 7 v \<in> snd ` set colors)
     (concat (map (declared_colors \<circ> snd) (fst emberTheme)) @ concat (map (declared_colors \<circ> snd) (snd emberTheme))) \<and>
   distinct (concat (map fst (snd emberTheme))) \<and>
   list_all (\<lambda>(_, ds). map_of ds ''color'' \<noteq> map_of colors ''bg'') (snd emberTheme)"
proof (intro conjI)
  show "list_all (\<lambda>(k, v). map_of design_tokens k = Some v \<or> k \<in> {''magenta'', ''cyan''} \<and> map_of TERM_THEME k = Some v) colors"
    by (simp add: colors_def design_tokens_def TERM_THEME_def)
  show "list_all (\<lambda>(k, d). map_of TERM_THEME k = map_of design_tokens d \<and> map_of TERM_THEME k \<noteq> None) term_tokens"
    by (simp add: term_tokens_def design_tokens_def TERM_THEME_def)
  show "list_all (\<lambda>v. is_color v \<and> take 7 v \<in> snd ` set colors)
     (concat (map (declared_colors \<circ> snd) (fst emberTheme)) @ concat (map (declared_colors \<circ> snd) (snd emberTheme)))"
    by (simp add: emberTheme_def editorChrome_def highlight_def declared_colors_def color_keys_def colors_def is_color_def)
  show "distinct (concat (map fst (snd emberTheme)))" by (simp add: emberTheme_def highlight_def)
  show "list_all (\<lambda>(_, ds). map_of ds ''color'' \<noteq> map_of colors ''bg'') (snd emberTheme)"
    by (simp add: emberTheme_def highlight_def colors_def)
qed

end
