(* ===== verification/Spec2Isabelle.thy ===== *)
theory Spec2Isabelle
  imports Geometry Toasts Files ResourceEvents Proxy Shortcuts Health Term Lifecycle Hooks Ui Status
    CreateSandbox SandboxesPage FileTree FilesTab Shell Palette Charts
    Workspace CheckpointsTab OverviewTab TerminalTab SettingsTab PreviewTab StoragePage NodesPage TemplatesPage OverviewPage
    Offline Routes Session Theme
begin

text \<open>
  A verification library for the EmberVM web console: the React application under \<open>src/web/src\<close>
  that drives the control plane's REST interface, and the script that checks its build
  (\<open>src/web/scripts/check-offline.mjs\<close>).

  \<^bold>\<open>The program and its parts\<close>

  A user signs in with a token (\<open>pages/Login.tsx\<close>, \<open>App.tsx\<close>).  Every page reads the server through
  query hooks (\<open>api/hooks.ts\<close>) that poll the REST client (\<open>api/client.ts\<close>); actions are mutations that
  patch the query cache at once and take the patch back when the request fails.  Stores outside React
  hold what outlives a page: the locale, the toasts, the guest health samples, the terminal sessions and
  the proxy session.  The workspace of a sandbox shows its tabs (overview, terminal, files, preview,
  checkpoints, settings); the other pages list sandboxes, nodes, templates and storage.

  \<^bold>\<open>How the code is modelled\<close>

  \<^item> A store or a component with state is a record; each function or handler that changes it is a function
    from the old state to the new one and the calls it makes.  A function with an \<open>await\<close> is split there:
    one part up to the request, one that takes the answer, so that a theorem can let other steps happen in
    between.  Timers and sockets are data of the state, and their firing is a step.
  \<^item> A tab whose claims speak of a history is a machine of its own: the files tab steps on clicks, edits,
    answers and the sandbox leaving or entering the running state, the timeline on clicks and new data, the
    terminal tab on clicks, new sandboxes and turns of the terminal manager, with React's rule that an effect
    runs after a render whose dependency list has changed.
  \<^item> A component's rendering is a function to a view tree (theory Dom): elements, the attributes that carry
    state, and the handlers as values of an action type.  Class names that only lay out the page are left
    out.  The actions a user can trigger are computed from the tree, so that claims about what a page
    offers are claims about what it renders.
  \<^item> Strings hold UTF-8 bytes; a literal that is not ASCII is written with \<open>zh\<close> and its code points.
    White space is that of ASCII.  Integers of the source are \<open>int\<close>, fractions \<open>rat\<close> (no quotient of the source depends on rounding),
    \<open>NaN\<close> is \<open>None\<close>.  A missing member is \<open>None\<close>; \<open>??\<close>, \<open>||\<close> and truthiness are \<open>nullish\<close>, \<open>or_num\<close>,
    \<open>or_str\<close>, \<open>truthy_bool\<close>.  Rejected promises are the left summand of a sum type.
  \<^item> The current time, the window's properties and \<open>toLocaleString\<close> are arguments.

  \<^bold>\<open>Theories and sources\<close>

  \<^item> Prelude: JavaScript's string, number and sort functions; reachability; the locales
    \<open>transition_system\<close> and \<open>deterministic_machine\<close> that every store interprets.  SortedView: the contract of
    a filtered and sorted table, interpreted by the sandboxes and storage pages.
  \<^item> Types (\<open>api/types.ts\<close>), Browser (local storage as \<open>kv_store\<close>, listeners as \<open>listener_store\<close>),
    Client (\<open>api/client.ts\<close>), Hooks (\<open>api/hooks.ts\<close>).
  \<^item> Stores: I18n (\<open>lib/i18n.ts\<close>), Toasts (\<open>lib/toast.ts\<close>, \<open>components/toast.tsx\<close>), Proxy (\<open>lib/proxy.ts\<close>),
    Shortcuts (\<open>lib/shortcuts.ts\<close>), Health (\<open>lib/health.ts\<close>), Term (\<open>lib/term.ts\<close>, \<open>lib/termBridge.ts\<close>).
  \<^item> Rules: Geometry (\<open>lib/geometry.ts\<close> beside the control plane's checks), Files (\<open>lib/files.ts\<close>),
    ResourceEvents (\<open>lib/resourceEvents.ts\<close>), Lifecycle (\<open>pkg/lifecycle/machine.go\<close>).
  \<^item> Session: the application with all its stores as one machine, and the listeners of the 401 event.
    Routes: the requests of Hooks, Files, Proxy, Term and Health against the route table and the bound
    bodies of the control plane (\<open>pkg/controlplane/server.go\<close>, \<open>defaults.go\<close>, \<open>pkg/guestapi/types.go\<close>).
  \<^item> Data: Icons (\<open>components/icons.tsx\<close>), Theme (\<open>lib/cmTheme.ts\<close> beside \<open>index.css\<close>).
  \<^item> Components: Dom, Ui, Status, Charts, CreateSandbox, FileTree, Palette
    (\<open>components/*.tsx\<close>), Shell (\<open>App.tsx\<close>, \<open>pages/Login.tsx\<close>), TabKit (facts the tabs share).
  \<^item> Pages: SandboxesPage, StoragePage, NodesPage, TemplatesPage, OverviewPage (\<open>pages/*.tsx\<close>).
  \<^item> Workspace (\<open>pages/workspace/Workspace.tsx\<close>) and its tabs: OverviewTab with ResourcesPanel,
    TerminalTab, FilesTab with the editor, PreviewTab, CheckpointsTab, SettingsTab.  UrlPath, which PreviewTab
    uses, is the browser's resolution of an address on the page's own host (dot segments in every spelling).
  \<^item> Offline (\<open>web/scripts/check-offline.mjs\<close>).

  \<^bold>\<open>What the theorems show\<close>

  \<^item> Lifecycle and actions: the lifecycle machine only takes legal moves, by either of its methods; the
    buttons and menus of the workspace and of the rows refine it, but for Kill, which a row offers in every
    state; an optimistic action that fails leaves the cache as it was; deletions and rollbacks are sent only
    from their confirm dialogs, a rollback for the checkpoint that was asked for.
  \<^item> Sessions and tokens: every request carries the stored token and a 401 removes it; signing out clears
    token, cache and proxy session; a preview frame never gets the console's origin and loads a page below
    the proxy path unless the typed path climbs out of it.  Over the whole
    application, in any order of events, the stores keep their invariants, and leaving by a 401 is compared
    with leaving by the button.
  \<^item> Requests: each is routed to the one handler it is meant for, and its body has that handler's type; an
    invalidation refreshes exactly the queries it is meant for.
  \<^item> Stores: invariants over all step sequences for health polling, terminal sessions, toasts and the proxy
    session; a terminal session that is kept always holds a connection or waits for a retry, and lost ones
    reconnect; a running sandbox's terminal tab never stays empty.
  \<^item> Forms: what the create dialog submits, and in the simple mode what it shows, is what the control plane
    stores (but for a disk size of 15), and the form accepts exactly the geometries the control plane accepts
    (but for the gaps stated in Geometry).
  \<^item> Files: path normalisation is canonical and leads to the same place, URLs round-trip, a save writes the
    buffer of the open file, with its two exceptions stated.
  \<^item> Displays: tables are complete, sorted and stable; timelines, feeds, tier bars and node lists account
    for everything they are given; charts stay in their frame.
  \<^item> The air-gap check passes exactly when no scanned file holds a loading position, against a reading of
    its patterns that does not mention the matcher.
  \<^item> Where the code falls short of its comments or of its evident intent, the theorem says what it does:
    the cache after two failed actions that overlapped (below), data of the previous user after a 401, a
    late 401 that ends a newer session, edits lost during a save, a stale resource panel, a capacity note
    shown for the wrong reason, collection timers that outlive a reset, gaps of the air-gap check.
  \<^item> Drawing data: every icon stays inside of its view box, the editor and the terminal share one palette.

  \<^bold>\<open>Bounds and fuel\<close>

  Loops are structural or have a termination proof.  Three definitions take fuel: the file tree renders with
  one more than the number of open directories (\<open>tree_renders\<close> shows this is enough), the JSON reader of
  PreviewTab takes twice the length of its text plus two, where every level of nesting consumes a
  character (\<open>JSON_ints\<close> shows the stored lists are read back), and the reader of path data in Icons takes
  the number of tokens, of which every step consumes one.  The matcher of Offline is total, by the size of
  the expression and the length of the rest.

  \<^bold>\<open>Parameters\<close>

  TanStack Query appears as the locale \<open>query_cache\<close> (reads after writes), interpreted on a map; the router
  as the function that matches a path; xterm and CodeMirror as the sizes and texts they report; charts
  take their time labels as arguments; the control plane's scheduler as the verdict it returns.

  \<^bold>\<open>Not modelled\<close>

  The entry point \<open>main.tsx\<close> and \<open>vite.config.ts\<close> hold no behaviour.  Of the Go code only the rules the
  console mirrors, the route table and the bodies of the requests are here.
  Layout (pixel sizes, focus order, animation) and the internals of Radix, cmdk, CodeMirror and xterm are
  outside the repository's own code.
\<close>

section \<open>Overlapping actions\<close>

text \<open>What the rollback of one action does to the cache while another is under way.\<close>

context query_cache
begin

lemma ctx_list: "ao_sandboxId opts = Some sid \<Longrightarrow> sid \<noteq> [] \<Longrightarrow> ao_optimistic opts = Some f \<Longrightarrow>
  cx_prevList (fst (action_onMutate Q opts q)) = get_list Q q"
  by (simp add: action_onMutate_def Let_def)

lemma error_list: "cx_prevList ctx = Some sbs \<Longrightarrow> get_list Q (action_onError Q opts ctx q) = Some sbs"
  by (simp add: action_onError_def get_list_def Let_def get_set)

lemma mutate_one_other: "ao_sandboxId opts = Some sid \<Longrightarrow> sid \<noteq> other \<Longrightarrow>
  get_one Q other (snd (action_onMutate Q opts q)) = get_one Q other q"
  using mutate_other [of "one_key other" opts q] keys_differ [of other] by (simp add: get_one_def) (simp add: one_key_def)

lemma error_one_other: "ao_sandboxId opts = Some sid \<Longrightarrow> sid \<noteq> other \<Longrightarrow>
  get_one Q other (action_onError Q opts ctx q) = get_one Q other q"
  using keys_differ [of other]
  by (auto simp: action_onError_def get_one_def get_set Let_def one_key_def split: option.splits)

lemma error_cong:
  assumes "\<And>k. qc_get Q k q = qc_get Q k q'"
  shows "qc_get Q k (action_onError Q opts ctx q) = qc_get Q k (action_onError Q opts ctx q')"
  using assms by (auto simp: action_onError_def Let_def get_set split: option.splits)

end

text \<open>C19: Two actions on different sandboxes that overlap.  While both are under way the list shows both
  in their transitional state.  When both fail, in the reverse order of their start, the cache is as
  before.  In the order of their start it is not: the first failure restores the list from before the
  second action, which disappears from the list while its sandbox's own page still shows it, and the second
  failure then puts the first sandbox back into the transitional state of its failed action, where it
  stays until the list is fetched again.\<close>

theorem overlapping_actions:
  assumes "query_cache Q" and "get_list Q q = Some sbs" and "sb_id sa \<noteq> sb_id sb" and "sb_id sa \<noteq> []" and "sb_id sb \<noteq> []"
    and "oa = rm_opts (row_pause sa t)" and "ob = rm_opts (row_resume sb t)"
    and "(ca, q1) = action_onMutate Q oa q" and "(cb, q2) = action_onMutate Q ob q1"
    and "moved = (\<lambda>x s y. if sb_id y = sb_id x then y\<lparr>sb_state := s\<rparr> else y)"
  shows "get_list Q q2 = Some (map (\<lambda>y. moved sb RESUMING (moved sa PAUSING y)) sbs) \<and>
    qc_get Q k (action_onError Q oa ca (action_onError Q ob cb q2)) = qc_get Q k q \<and>
    get_list Q (action_onError Q oa ca q2) = Some sbs \<and>
    (get_one Q (sb_id sb) q = Some x \<longrightarrow>
       get_one Q (sb_id sb) (action_onError Q oa ca q2) = Some (x\<lparr>sb_state := RESUMING\<rparr>)) \<and>
    get_list Q (action_onError Q ob cb (action_onError Q oa ca q2)) = Some (map (moved sa PAUSING) sbs)"
proof -
  note cache = assms(1)
  have o: "ao_sandboxId oa = Some (sb_id sa)" "ao_sandboxId ob = Some (sb_id sb)"
    "ao_optimistic oa = Some (\<lambda>_. no_patch\<lparr>pa_state := Some PAUSING\<rparr>)"
    "ao_optimistic ob = Some (\<lambda>_. no_patch\<lparr>pa_state := Some RESUMING\<rparr>)"
    by (simp_all add: assms(6,7) row_pause_def row_resume_def state_opts_def)
  have q: "ca = fst (action_onMutate Q oa q)" "q1 = snd (action_onMutate Q oa q)"
    "cb = fst (action_onMutate Q ob q1)" "q2 = snd (action_onMutate Q ob q1)"
    using assms(8,9) by (metis fst_conv snd_conv)+
  have p: "apply_patch (no_patch\<lparr>pa_state := Some s\<rparr>) y = y\<lparr>sb_state := s\<rparr>" for s y
    by (simp add: apply_patch_def no_patch_def)
  have l1: "get_list Q q1 = Some (map (moved sa PAUSING) sbs)"
    using query_cache.optimistic_list [OF cache o(1) assms(4) o(3) assms(2)] by (simp add: q(2) p assms(10))
  have l2: "get_list Q q2 = Some (map (\<lambda>y. moved sb RESUMING (moved sa PAUSING y)) sbs)"
    using query_cache.optimistic_list [OF cache o(2) assms(5) o(4) l1] by (simp add: q(4) p assms(10) o_def)
  have c: "cx_prevList ca = Some sbs" "cx_prevList cb = Some (map (moved sa PAUSING) sbs)"
    using query_cache.ctx_list [OF cache o(1) assms(4) o(3)] query_cache.ctx_list [OF cache o(2) assms(5) o(4)] assms(2) l1
    by (simp_all add: q)
  have "qc_get Q k' (action_onError Q ob cb q2) = qc_get Q k' q1" for k'
    unfolding q(3,4) by (rule query_cache.rollback [OF cache])
  then have lifo: "qc_get Q k (action_onError Q oa ca (action_onError Q ob cb q2)) = qc_get Q k q"
    using query_cache.rollback [OF cache, of k oa q] query_cache.error_cong [OF cache, of "action_onError Q ob cb q2" q1 k oa ca]
    by (simp add: q(1,2))
  have "get_one Q (sb_id sb) (action_onError Q oa ca q2) = Some (x\<lparr>sb_state := RESUMING\<rparr>)" if "get_one Q (sb_id sb) q = Some x"
  proof -
    have "get_one Q (sb_id sb) q1 = Some x"
      using query_cache.mutate_one_other [OF cache o(1) assms(3)] that by (simp add: q(2))
    from query_cache.optimistic_one [OF cache o(2) assms(5) o(4) this]
    show ?thesis using query_cache.error_one_other [OF cache o(1) assms(3)] by (simp add: q(4) p)
  qed
  then show ?thesis
    using l2 lifo query_cache.error_list [OF cache c(1)] query_cache.error_list [OF cache c(2)] by blast
qed

theorem overlapping_actions_witness:
  "let a = sandbox0\<lparr>sb_id := ''a''\<rparr>; b = sandbox0\<lparr>sb_id := ''b'', sb_state := PAUSED_HOT\<rparr>;
       oa = rm_opts (row_pause a (tr En)); ob = rm_opts (row_resume b (tr En));
       (ca, q1) = action_onMutate map_client oa ([list_key \<mapsto> DSandboxes [a, b]], []);
       (cb, q2) = action_onMutate map_client ob q1
   in get_list map_client (action_onError map_client ob cb (action_onError map_client oa ca q2)) =
        Some [a\<lparr>sb_state := PAUSING\<rparr>, b]"
proof -
  let ?a = "sandbox0\<lparr>sb_id := ''a''\<rparr>" and ?b = "sandbox0\<lparr>sb_id := ''b'', sb_state := PAUSED_HOT\<rparr>"
  let ?q = "([list_key \<mapsto> DSandboxes [?a, ?b]], [])"
  have "get_list map_client ?q = Some [?a, ?b]" by (simp add: get_list_def map_client_def)
  from overlapping_actions [OF map_cache.query_cache_axioms this, of ?a ?b, OF _ _ _ refl refl surjective_pairing [symmetric] surjective_pairing [symmetric] refl, of "tr En"]
  show ?thesis by (simp add: Let_def split_beta)
qed

end
